(* ===== verification/Sp2p_Prelude.thy ===== *)
theory Sp2p_Prelude
  imports Main "HOL-Library.Word" "HOL-Library.Char_ord" "HOL-Library.List_Lexorder"
begin

text \<open>
  Shared vocabulary of the development: the widths of the machine integers that the C++ code
  uses, the little-endian length prefix that both ends of a connection write with
  \<^verbatim>\<open>reinterpret_cast\<close>, the default values of unset protobuf fields, generic facts about keyed
  lists (tables of rows, each with a key), and the lemma collections the components fill.

  Byte order: the code writes an \<^verbatim>\<open>int32\<close> in the host's byte order; the model fixes the
  little-endian order of the platforms the build files target.
\<close>

unbundle bit_operations_syntax

named_theorems wf_intros \<open>preservation of the well-formedness of the tracker's tables\<close>
named_theorems sql_defs \<open>definitions of SQL statements, unfolded together\<close>
named_theorems frame_simps \<open>components of the state an operation leaves alone\<close>

subsection \<open>Machine integers and streams\<close>

type_synonym byte = "8 word"
type_synonym int32 = "32 word"
type_synonym int64 = "64 word"

text \<open>\<^verbatim>\<open>os.write(reinterpret_cast<const char*>(&n), sizeof(n))\<close> and the matching read.\<close>

definition le32_bytes :: "int32 \<Rightarrow> byte list" where
  "le32_bytes w = [ucast w, ucast (drop_bit 8 w), ucast (drop_bit 16 w), ucast (drop_bit 24 w)]"

definition le32_value :: "byte list \<Rightarrow> int32" where
  "le32_value bs =
     ucast (bs ! 0) OR push_bit 8 (ucast (bs ! 1)) OR push_bit 16 (ucast (bs ! 2))
       OR push_bit 24 (ucast (bs ! 3))"

lemma length_le32_bytes [simp]: "length (le32_bytes w) = 4"
  by (simp add: le32_bytes_def)

lemma le32_value_bytes [simp]: "le32_value (le32_bytes w) = w"
proof (rule bit_word_eqI)
  fix n :: nat
  assume n: "n < LENGTH(32)"
  consider "n < 8" | "8 \<le> n \<and> n < 16" | "16 \<le> n \<and> n < 24" | "24 \<le> n"
    by linarith
  then show "bit (le32_value (le32_bytes w)) n \<longleftrightarrow> bit w n"
    using n by cases (auto simp: le32_value_def le32_bytes_def bit_simps)
qed

lemma take_le32 [simp]: "take 4 (le32_bytes w @ bs) = le32_bytes w"
  by (simp add: le32_bytes_def)

lemma drop_le32 [simp]: "drop 4 (le32_bytes w @ bs) = bs"
  by (simp add: le32_bytes_def)

lemma unat_of_nat32: "n < 2 ^ 32 \<Longrightarrow> unat (word_of_nat n :: int32) = n"
  by (simp add: unat_of_nat take_bit_nat_eq_self)

lemma of_nat32_neq_minus1: "n < 2 ^ 32 - 1 \<Longrightarrow> (word_of_nat n :: int32) \<noteq> - 1"
proof
  assume n: "n < 2 ^ 32 - 1" and eq: "(word_of_nat n :: int32) = - 1"
  have "unat (word_of_nat n :: int32) = unat (- 1 :: int32)" by (simp add: eq)
  with n show False by (simp add: unat_of_nat take_bit_nat_eq_self unsigned_minus_1_eq_mask mask_eq_exp_minus_1)
qed

text \<open>A framed message, as both ends write it.\<close>

definition framed :: "byte list \<Rightarrow> byte list" where
  "framed body = le32_bytes (word_of_nat (length body)) @ body"

lemma length_framed [simp]: "length (framed body) = length body + 4"
  by (simp add: framed_def)

subsection \<open>Unset fields\<close>

text \<open>A protobuf accessor of an unset string field returns the empty string, of an unset
  number zero.\<close>

definition str_of :: "string option \<Rightarrow> string" where
  "str_of v = (case v of None \<Rightarrow> '''' | Some s \<Rightarrow> s)"

definition has :: "'a option \<Rightarrow> bool" where
  "has v \<longleftrightarrow> v \<noteq> None"

lemma str_of_simps [simp]: "str_of None = ''''" "str_of (Some s) = s"
  by (simp_all add: str_of_def)

lemma has_simps [simp]: "\<not> has None" "has (Some v)"
  by (simp_all add: has_def)

subsection \<open>Failures of a C++ call\<close>

text \<open>What a call may do instead of returning: throw out of \<^verbatim>\<open>std::map::at\<close> or \<^verbatim>\<open>boost::array::at\<close>,
  throw out of \<^verbatim>\<open>remote_endpoint()\<close> of a socket whose peer has gone, or execute something the language
  leaves undefined (using an invalidated iterator).\<close>

datatype cpp_error = Out_Of_Range | No_Peer | Undefined_Behaviour

subsection \<open>White space\<close>

text \<open>\<^verbatim>\<open>std::isspace\<close> in the C locale.\<close>

definition is_space :: "char \<Rightarrow> bool" where
  "is_space c \<longleftrightarrow> of_char c = (32::nat) \<or> (9 \<le> (of_char c :: nat) \<and> (of_char c :: nat) \<le> 13)"

lemma is_space_blank [simp]: "is_space CHR '' ''"
  by (simp add: is_space_def)

subsection \<open>Lists of keyed rows\<close>

lemma find_key_unique:
  "distinct (map f xs) \<Longrightarrow> x \<in> set xs \<Longrightarrow> find (\<lambda>r. f r = f x) xs = Some x"
  by (induction xs) (auto simp: rev_image_eqI)

lemma find_key_SomeD: "find P xs = Some x \<Longrightarrow> x \<in> set xs \<and> P x"
  by (auto simp: find_Some_iff)

lemma find_key_NoneD: "find P xs = None \<Longrightarrow> x \<in> set xs \<Longrightarrow> \<not> P x"
  by (auto simp: find_None_iff)

lemma find_append_None: "find P xs = None \<Longrightarrow> find P (xs @ ys) = find P ys"
  by (induction xs) (auto split: if_splits)

lemma find_append_Some: "find P xs = Some x \<Longrightarrow> find P (xs @ ys) = Some x"
  by (induction xs) (auto split: if_splits)

lemma distinct_map_inj: "distinct (map f xs) \<Longrightarrow> x \<in> set xs \<Longrightarrow> y \<in> set xs \<Longrightarrow> f x = f y \<Longrightarrow> x = y"
  by (induction xs) (auto simp: rev_image_eqI)

lemma distinct_map_snoc:
  "distinct (map f (xs @ [x])) \<longleftrightarrow> distinct (map f xs) \<and> (\<forall>y \<in> set xs. f y \<noteq> f x)"
  by (auto simp: image_iff)

end
