(* ===== verification/Protocol.thy ===== *)
theory Protocol
  imports Sp2p_Prelude
begin

text \<open>
  The messages that a client and a node exchange (\<^verbatim>\<open>proto_files/sp2p_protocol.proto\<close>). Every
  field of a protobuf message carries its presence (\<^verbatim>\<open>has_x\<close>), so every field is an option here;
  the accessors return the protobuf default of an unset field: the empty string, zero, the first
  value of an enum, the default instance of a message. The four requests whose only field is a
  cookie share one record.
\<close>

subsection \<open>Client to node\<close>

datatype RequestType =
    REGISTER | UNREGISTER | LOGIN | LOGOUT | LIST_NETWORKS | LIST_MY_NETWORKS | LIST_SERVERS
  | CREATE_NETWORK | DELETE_NETWORK | INVITE_USER | REMOVE_USER | USER_INFO | UPDATE_SERVER
  | STOP_SERVER | SIGN_KEY | CHANGE_PASSWORD

datatype pb_access = PB_PUBLIC | PB_PRIVATE
datatype pb_visibility = PB_LISTED | PB_UNLISTED
datatype pb_participation = PB_CLIENT_ONLY | PB_CLIENT_SERVER

record Register_msg =
  reg_username :: "string option"
  reg_password :: "string option"
  reg_public_key :: "string option"

record Cookie_msg =
  ck_cookie :: "string option"

record Login_msg =
  lg_username :: "string option"
  lg_password :: "string option"

record ListServers_msg =
  ls_cookie :: "string option"
  ls_network_name :: "string option"

record CreateNetwork_msg =
  cn_cookie :: "string option"
  cn_network_name :: "string option"
  cn_access_rights :: "pb_access option"
  cn_visibility :: "pb_visibility option"
  cn_participation_rights :: "pb_participation option"
  cn_creator_email :: "string option"
  cn_protocol_name :: "string option"

record DeleteNetwork_msg =
  dn_cookie :: "string option"
  dn_name :: "string option"

record UserNetwork_msg =
  un_cookie :: "string option"
  un_username :: "string option"
  un_network_name :: "string option"

record UpdateServer_msg =
  us_cookie :: "string option"
  us_network_name :: "string option"
  us_port_number :: "int32 option"

record StopServer_msg =
  ss_cookie :: "string option"
  ss_network_name :: "string option"

record SignKey_msg =
  sk_cookie :: "string option"
  sk_public_key :: "string option"
  sk_network_name :: "string option"

record ChangePassword_msg =
  cp_cookie :: "string option"
  cp_old_password :: "string option"
  cp_new_password :: "string option"

text \<open>\<open>UserNetwork_msg\<close> is the common shape of \<^verbatim>\<open>InviteUser\<close>, \<^verbatim>\<open>RemoveUser\<close> and \<^verbatim>\<open>UserInfo\<close>:
  a cookie, a user name and a network name.\<close>

record ClientMessage =
  cm_request :: "RequestType option"
  register_message :: "Register_msg option"
  unregister_message :: "Cookie_msg option"
  login_message :: "Login_msg option"
  logout_message :: "Cookie_msg option"
  list_networks_message :: "Cookie_msg option"
  list_my_networks_message :: "Cookie_msg option"
  list_servers_message :: "ListServers_msg option"
  create_network_message :: "CreateNetwork_msg option"
  delete_network_message :: "DeleteNetwork_msg option"
  invite_user_message :: "UserNetwork_msg option"
  remove_user_message :: "UserNetwork_msg option"
  user_info_message :: "UserNetwork_msg option"
  update_server_message :: "UpdateServer_msg option"
  stop_server_message :: "StopServer_msg option"
  sign_key_message :: "SignKey_msg option"
  change_password_message :: "ChangePassword_msg option"

definition new_ClientMessage :: ClientMessage where
  "new_ClientMessage =
     \<lparr>cm_request = None, register_message = None, unregister_message = None,
      login_message = None, logout_message = None, list_networks_message = None,
      list_my_networks_message = None, list_servers_message = None,
      create_network_message = None, delete_network_message = None,
      invite_user_message = None, remove_user_message = None, user_info_message = None,
      update_server_message = None, stop_server_message = None, sign_key_message = None,
      change_password_message = None\<rparr>"

definition request :: "ClientMessage \<Rightarrow> RequestType" where
  "request m = (case cm_request m of None \<Rightarrow> REGISTER | Some r \<Rightarrow> r)"

subsection \<open>Node to client\<close>

datatype ResponseType =
    RT_OK | RT_INTERNAL_SERVER_ERROR | RT_BAD_REQUEST | RT_NO_PRIVILAGES | RT_NOT_LOGGED
  | RT_BAD_CREDENTIALS | RT_NO_SUCH_USER | RT_NO_SUCH_NETWORK | RT_BAD_DATA | RT_ALREADY_EXISTS

record RegisterResp =
  rr_user_certificate :: "string option"
  rr_node_certificate :: "string option"

record LoginResp =
  lr_cookie :: "string option"
  lr_node_certificate :: "string option"

record NetworkEntry =
  ne_name :: "string option"
  ne_creator_name :: "string option"
  ne_creator_email :: "string option"
  ne_access_rights :: "pb_access option"
  ne_participation_rights :: "pb_participation option"
  ne_protocol_name :: "string option"

record ServerEntry =
  se_username :: "string option"
  se_ip_address :: "string option"
  se_port_number :: "int32 option"

record NodeMessage =
  nm_response_type :: "ResponseType option"
  register_response :: "RegisterResp option"
  login_response :: "LoginResp option"
  list_networks_response :: "NetworkEntry list option"
  list_my_networks_response :: "NetworkEntry list option"
  list_servers_response :: "ServerEntry list option"
  user_info_response :: "string option"
  update_server_response :: "int32 option"
  sign_key_response :: "string option"

definition new_NodeMessage :: NodeMessage where
  "new_NodeMessage =
     \<lparr>nm_response_type = None, register_response = None, login_response = None,
      list_networks_response = None, list_my_networks_response = None,
      list_servers_response = None, user_info_response = None,
      update_server_response = None, sign_key_response = None\<rparr>"

definition response_type :: "NodeMessage \<Rightarrow> ResponseType" where
  "response_type m = (case nm_response_type m of None \<Rightarrow> RT_OK | Some r \<Rightarrow> r)"

text \<open>Accessors of a repeated field in a message that may be unset: the default instance has
  no element.\<close>

definition entries_of :: "'a list option \<Rightarrow> 'a list" where
  "entries_of v = (case v of None \<Rightarrow> [] | Some xs \<Rightarrow> xs)"

definition int_of :: "int32 option \<Rightarrow> int32" where
  "int_of v = (case v of None \<Rightarrow> 0 | Some n \<Rightarrow> n)"

lemma new_ClientMessage_simps [simp]:
  "cm_request new_ClientMessage = None" "register_message new_ClientMessage = None"
  "unregister_message new_ClientMessage = None" "login_message new_ClientMessage = None"
  "logout_message new_ClientMessage = None" "list_networks_message new_ClientMessage = None"
  "list_my_networks_message new_ClientMessage = None" "list_servers_message new_ClientMessage = None"
  "create_network_message new_ClientMessage = None" "delete_network_message new_ClientMessage = None"
  "invite_user_message new_ClientMessage = None" "remove_user_message new_ClientMessage = None"
  "user_info_message new_ClientMessage = None" "update_server_message new_ClientMessage = None"
  "stop_server_message new_ClientMessage = None" "sign_key_message new_ClientMessage = None"
  "change_password_message new_ClientMessage = None"
  by (simp_all add: new_ClientMessage_def)

lemma new_NodeMessage_simps [simp]:
  "nm_response_type new_NodeMessage = None" "register_response new_NodeMessage = None"
  "login_response new_NodeMessage = None" "list_networks_response new_NodeMessage = None"
  "list_my_networks_response new_NodeMessage = None"
  "list_servers_response new_NodeMessage = None" "user_info_response new_NodeMessage = None"
  "update_server_response new_NodeMessage = None" "sign_key_response new_NodeMessage = None"
  by (simp_all add: new_NodeMessage_def)

lemma accessor_simps [simp]:
  "entries_of None = []" "entries_of (Some xs) = xs" "int_of None = 0" "int_of (Some n) = n"
  by (simp_all add: entries_of_def int_of_def)

lemma request_simps [simp]: "cm_request m = Some r \<Longrightarrow> request m = r"
  by (simp add: request_def)

lemma response_type_simps [simp]: "nm_response_type m = Some r \<Longrightarrow> response_type m = r"
  by (simp add: response_type_def)

end
