(* ===== verification/Std_Map.thy ===== *)
theory Std_Map
  imports Sp2p_Prelude
begin

text \<open>
  \<^verbatim>\<open>std::map\<close> as the program uses it: a sequence of pairs in the order of the key comparison
  \<open>lt\<close>, in which two keys are the same when neither is less than the other. The operations are the
  ones the code calls: \<^verbatim>\<open>find\<close> (the stored pair), \<^verbatim>\<open>m[k] = v\<close> (which keeps the key already stored),
  \<^verbatim>\<open>insert\<close> (which keeps the pair already stored) and \<^verbatim>\<open>erase\<close>. The locale \<open>key_order\<close> is the
  requirement of the standard on \<open>lt\<close>, a strict weak order; the laws of the operations follow from it
  and every map of the program interprets the locale with its own comparison.
\<close>

definition key_equiv :: "('k \<Rightarrow> 'k \<Rightarrow> bool) \<Rightarrow> 'k \<Rightarrow> 'k \<Rightarrow> bool" where
  "key_equiv lt a b \<longleftrightarrow> \<not> lt a b \<and> \<not> lt b a"

definition smap_ok :: "('k \<Rightarrow> 'k \<Rightarrow> bool) \<Rightarrow> ('k \<times> 'v) list \<Rightarrow> bool" where
  "smap_ok lt m \<longleftrightarrow> sorted_wrt lt (map fst m)"

fun smap_find :: "('k \<Rightarrow> 'k \<Rightarrow> bool) \<Rightarrow> 'k \<Rightarrow> ('k \<times> 'v) list \<Rightarrow> ('k \<times> 'v) option" where
  "smap_find lt k [] = None"
| "smap_find lt k ((k', v) # m) =
     (if lt k' k then smap_find lt k m else if lt k k' then None else Some (k', v))"

definition smap_get :: "('k \<Rightarrow> 'k \<Rightarrow> bool) \<Rightarrow> 'k \<Rightarrow> ('k \<times> 'v) list \<Rightarrow> 'v option" where
  "smap_get lt k m = map_option snd (smap_find lt k m)"

fun smap_set :: "('k \<Rightarrow> 'k \<Rightarrow> bool) \<Rightarrow> 'k \<Rightarrow> 'v \<Rightarrow> ('k \<times> 'v) list \<Rightarrow> ('k \<times> 'v) list" where
  "smap_set lt k v [] = [(k, v)]"
| "smap_set lt k v ((k', v') # m) =
     (if lt k' k then (k', v') # smap_set lt k v m
      else if lt k k' then (k, v) # (k', v') # m else (k', v) # m)"

definition smap_insert :: "('k \<Rightarrow> 'k \<Rightarrow> bool) \<Rightarrow> 'k \<Rightarrow> 'v \<Rightarrow> ('k \<times> 'v) list \<Rightarrow> ('k \<times> 'v) list" where
  "smap_insert lt k v m = (case smap_find lt k m of None \<Rightarrow> smap_set lt k v m | Some _ \<Rightarrow> m)"

fun smap_erase :: "('k \<Rightarrow> 'k \<Rightarrow> bool) \<Rightarrow> 'k \<Rightarrow> ('k \<times> 'v) list \<Rightarrow> ('k \<times> 'v) list" where
  "smap_erase lt k [] = []"
| "smap_erase lt k ((k', v') # m) =
     (if lt k' k then (k', v') # smap_erase lt k m
      else if lt k k' then (k', v') # m else m)"

lemma smap_ok_simps [simp]:
  "smap_ok lt []"
  "smap_ok lt ((k, v) # m) \<longleftrightarrow> (\<forall>x \<in> set m. lt k (fst x)) \<and> smap_ok lt m"
  by (auto simp: smap_ok_def)

lemma smap_get_simps [simp]:
  "smap_get lt k [] = None"
  "smap_get lt k ((k', v) # m) =
     (if lt k' k then smap_get lt k m else if lt k k' then None else Some v)"
  by (simp_all add: smap_get_def)

lemma smap_find_None_iff: "smap_find lt k m = None \<longleftrightarrow> smap_get lt k m = None"
  by (simp add: smap_get_def)

lemma smap_find_in_set: "smap_find lt k m = Some (k', v) \<Longrightarrow> (k', v) \<in> set m \<and> key_equiv lt k k'"
  by (induction lt k m rule: smap_find.induct) (auto simp: key_equiv_def split: if_splits)

lemma fst_set_smap_set: "fst ` set (smap_set lt k v m) \<subseteq> insert k (fst ` set m)"
  by (induction lt k v m rule: smap_set.induct) auto

lemma set_smap_erase: "set (smap_erase lt k m) \<subseteq> set m"
  by (induction lt k m rule: smap_erase.induct) auto

locale key_order =
  fixes lt :: "'k \<Rightarrow> 'k \<Rightarrow> bool"
  assumes lt_irrefl: "\<not> lt a a"
    and lt_trans: "lt a b \<Longrightarrow> lt b c \<Longrightarrow> lt a c"
    and equiv_trans: "key_equiv lt a b \<Longrightarrow> key_equiv lt b c \<Longrightarrow> key_equiv lt a c"
begin

lemma lt_asym: "lt a b \<Longrightarrow> \<not> lt b a"
  using lt_irrefl lt_trans by blast

lemma equiv_refl [simp]: "key_equiv lt a a"
  by (simp add: key_equiv_def lt_irrefl)

lemma equiv_sym: "key_equiv lt a b \<Longrightarrow> key_equiv lt b a"
  by (simp add: key_equiv_def)

lemma lt_equiv: "lt a b \<Longrightarrow> key_equiv lt b c \<Longrightarrow> lt a c"
  using equiv_trans [of a c b] lt_trans [of c a b] unfolding key_equiv_def by blast

lemma equiv_lt: "key_equiv lt a b \<Longrightarrow> lt b c \<Longrightarrow> lt a c"
  using equiv_trans [of b a c] lt_trans [of b c a] unfolding key_equiv_def by blast

lemma get_lt_None: "smap_ok lt m \<Longrightarrow> (\<And>x. x \<in> set m \<Longrightarrow> lt k (fst x)) \<Longrightarrow> smap_get lt k m = None"
proof (cases m)
  case (Cons x xs)
  assume "\<And>x. x \<in> set m \<Longrightarrow> lt k (fst x)"
  with Cons have "lt k (fst x)" by simp
  with Cons show ?thesis using lt_asym by (cases x) simp
qed simp

lemma ok_set: "smap_ok lt m \<Longrightarrow> smap_ok lt (smap_set lt k v m)"
proof (induction m)
  case (Cons x m)
  obtain k' v' where x: "x = (k', v')" by (cases x)
  have "\<forall>y \<in> set (smap_set lt k v m). lt k' (fst y)" if "lt k' k"
    using that Cons.prems fst_set_smap_set [of lt k v m] by (force simp: x)
  moreover have "\<forall>y \<in> set m. lt k (fst y)" if "lt k k'"
    using that Cons.prems lt_trans by (fastforce simp: x)
  ultimately show ?case using Cons by (auto simp: x)
qed simp

lemma ok_erase: "smap_ok lt m \<Longrightarrow> smap_ok lt (smap_erase lt k m)"
proof (induction m)
  case (Cons x m)
  then show ?case using set_smap_erase [of lt k m] by (cases x) auto
qed simp

lemma ok_insert: "smap_ok lt m \<Longrightarrow> smap_ok lt (smap_insert lt k v m)"
  by (simp add: smap_insert_def ok_set split: option.split)

lemma get_set:
  "smap_ok lt m \<Longrightarrow> smap_get lt k (smap_set lt k' v m) = (if key_equiv lt k k' then Some v else smap_get lt k m)"
proof (induction m)
  case Nil
  then show ?case by (auto simp: key_equiv_def)
next
  case (Cons x m)
  obtain a b where x: "x = (a, b)" by (cases x)
  consider (less) "lt a k'" | (greater) "lt k' a" "\<not> lt a k'" | (same) "key_equiv lt a k'"
    by (auto simp: key_equiv_def)
  then show ?case
  proof cases
    case less
    moreover have "lt a k" if "key_equiv lt k k'"
      using less that lt_equiv equiv_sym by blast
    ultimately show ?thesis using Cons by (auto simp: x)
  next
    case greater
    moreover have "lt k a" if "key_equiv lt k k'"
      using greater that equiv_lt by blast
    moreover have "lt k a" if "lt k k'"
      using greater that lt_trans by blast
    ultimately show ?thesis using Cons.prems lt_asym by (auto simp: x key_equiv_def)
  next
    case same
    then have "key_equiv lt k a \<longleftrightarrow> key_equiv lt k k'"
      using equiv_trans equiv_sym by blast
    with same Cons show ?thesis by (auto simp: x key_equiv_def)
  qed
qed

lemma get_insert:
  assumes "smap_ok lt m"
  shows "smap_get lt k (smap_insert lt k' v m) =
    (if key_equiv lt k k' \<and> smap_get lt k' m = None then Some v else smap_get lt k m)"
  using get_set [OF assms] by (auto simp: smap_insert_def smap_find_None_iff split: option.split)
    (auto simp: smap_get_def)

lemma get_erase:
  "smap_ok lt m \<Longrightarrow> smap_get lt k (smap_erase lt k' m) = (if key_equiv lt k k' then None else smap_get lt k m)"
proof (induction m)
  case (Cons x m)
  obtain a b where x: "x = (a, b)" by (cases x)
  consider (less) "lt a k'" | (greater) "lt k' a" "\<not> lt a k'" | (same) "key_equiv lt a k'"
    by (auto simp: key_equiv_def)
  then show ?case
  proof cases
    case less
    moreover have "lt a k" if "key_equiv lt k k'"
      using less that lt_equiv equiv_sym by blast
    ultimately show ?thesis using Cons by (auto simp: x)
  next
    case greater
    moreover have "lt k a" if "key_equiv lt k k'"
      using greater that equiv_lt by blast
    ultimately show ?thesis using Cons.prems lt_asym by (auto simp: x)
  next
    case same
    have eq: "key_equiv lt k a \<longleftrightarrow> key_equiv lt k k'"
      using same equiv_trans equiv_sym by blast
    have "smap_get lt k m = None" if "lt k a"
      using that Cons.prems lt_trans by (intro get_lt_None) (auto simp: x)
    moreover have "smap_get lt k m = None" if "key_equiv lt k a"
      using that Cons.prems equiv_lt by (intro get_lt_None) (auto simp: x)
    ultimately show ?thesis using same eq Cons.prems lt_asym by (auto simp: x key_equiv_def)
  qed
qed simp

lemma get_in_set: "smap_ok lt m \<Longrightarrow> (k, v) \<in> set m \<Longrightarrow> smap_get lt k m = Some v"
proof (induction m)
  case (Cons x m)
  then show ?case by (cases x) (auto simp: lt_irrefl)
qed simp

lemma find_in_set: "smap_ok lt m \<Longrightarrow> (k, v) \<in> set m \<Longrightarrow> smap_find lt k m = Some (k, v)"
proof (induction m)
  case (Cons x m)
  then show ?case by (cases x) (auto simp: lt_irrefl)
qed simp

lemma set_append_last:
  "(\<And>x. x \<in> set m \<Longrightarrow> lt (fst x) k) \<Longrightarrow> smap_set lt k v m = m @ [(k, v)]"
proof (induction m)
  case (Cons x m)
  then show ?case by (cases x) force
qed simp

lemma erase_equiv: "key_equiv lt k k' \<Longrightarrow> smap_erase lt k m = smap_erase lt k' m"
proof (induction m)
  case (Cons x m)
  have "lt a k \<longleftrightarrow> lt a k'" "lt k a \<longleftrightarrow> lt k' a" for a
    using Cons.prems lt_equiv equiv_lt equiv_sym by blast+
  then show ?case using Cons by (cases x) simp
qed simp

text \<open>A loop over the pairs that compares what the order compares finds what \<^verbatim>\<open>find\<close> finds.\<close>

lemma find_named:
  assumes "smap_ok lt m" "\<And>a b. key_equiv lt a b \<longleftrightarrow> f a = f b"
  shows "find (\<lambda>p. f (fst p) = f k) m = smap_find lt k m"
  using assms(1)
proof (induction m)
  case (Cons x m)
  obtain a b where x: "x = (a, b)" by (cases x)
  have less: "lt a c" if "c \<in> fst ` set m" for c
    using Cons.prems that by (auto simp: x smap_ok_def)
  show ?case
  proof (cases "f a = f k")
    case True
    then have "key_equiv lt a k" using assms(2) by simp
    with True show ?thesis by (simp add: x key_equiv_def)
  next
    case False
    then have ne: "\<not> key_equiv lt a k" using assms(2) by simp
    have "find (\<lambda>p. f (fst p) = f k) m = None" if "lt k a"
    proof -
      have "f c \<noteq> f k" if "c \<in> fst ` set m" for c
        using less [OF that] \<open>lt k a\<close> lt_trans lt_irrefl assms(2) [of c k] by (auto simp: key_equiv_def)
      then have "\<not> (\<exists>p. p \<in> set m \<and> f (fst p) = f k)" by blast
      then show ?thesis by (simp only: find_None_iff not_False_eq_True)
    qed
    then show ?thesis
      using False ne Cons by (auto simp: x key_equiv_def smap_ok_def)
  qed
qed simp

end

text \<open>The comparison of \<^verbatim>\<open>std::string\<close> keys: lexicographic on unsigned characters.\<close>

abbreviation string_lt :: "string \<Rightarrow> string \<Rightarrow> bool" where
  "string_lt \<equiv> (<)"

lemma key_equiv_string [simp]: "key_equiv string_lt a b \<longleftrightarrow> a = b"
  by (auto simp: key_equiv_def)

interpretation strings: key_order string_lt
  by unfold_locales auto

end
