(* ===== verification/Std_Text.thy ===== *)
theory Std_Text
  imports Sp2p_Prelude
begin

text \<open>
  Numbers as text, as the standard library of C++ prints and reads them: \<^verbatim>\<open>std::to_string\<close> and \<^verbatim>\<open>std::stoi\<close>.
  Both programs use them: the tracker for its command line and the columns of its database, the client
  for what it saves.
\<close>

subsection \<open>Printing and reading numbers\<close>

text \<open>Decimal digits, as \<^verbatim>\<open>std::to_string\<close> and the streams print a number.\<close>

fun digits :: "nat \<Rightarrow> string" where
  "digits n = (if n < 10 then [char_of (48 + n)] else digits (n div 10) @ [char_of (48 + n mod 10)])"

declare digits.simps [simp del]

definition is_digit :: "char \<Rightarrow> bool" where
  "is_digit c \<longleftrightarrow> 48 \<le> (of_char c :: nat) \<and> (of_char c :: nat) \<le> 57"

definition digit_value :: "char \<Rightarrow> nat" where
  "digit_value c = of_char c - 48"

definition read_digits :: "string \<Rightarrow> nat" where
  "read_digits ds = foldl (\<lambda>v c. 10 * v + digit_value c) 0 ds"

text \<open>\<^verbatim>\<open>std::stoi\<close>; \<open>None\<close> where it throws.\<close>

definition read_sign :: "string \<Rightarrow> bool \<times> string" where
  "read_sign s =
     (case s of
        [] \<Rightarrow> (False, s)
      | c # r \<Rightarrow> if c = CHR ''-'' then (True, r) else if c = CHR ''+'' then (False, r) else (False, s))"

definition stoi :: "string \<Rightarrow> int option" where
  "stoi s =
     (case read_sign (dropWhile is_space s) of
        (neg, u) \<Rightarrow>
          (let ds = takeWhile is_digit u; v = (if neg then - int (read_digits ds) else int (read_digits ds))
           in if ds = [] \<or> v < - (2 ^ 31) \<or> 2 ^ 31 \<le> v then None else Some v))"

lemma of_char_digit: "k < 10 \<Longrightarrow> (of_char (char_of (48 + k :: nat)) :: nat) = 48 + k"
  by simp

lemma is_digit_char_of [simp]: "k < 10 \<Longrightarrow> is_digit (char_of (48 + k :: nat))"
  by (simp add: is_digit_def)

lemma digit_value_char_of [simp]: "k < 10 \<Longrightarrow> digit_value (char_of (48 + k :: nat)) = k"
  by (simp add: digit_value_def)

lemma set_digits: "c \<in> set (digits n) \<Longrightarrow> is_digit c"
proof (induction n rule: digits.induct)
  case (1 n)
  then show ?case by (subst (asm) (2) digits.simps) (auto split: if_splits)
qed

lemma digits_not_Nil [simp]: "digits n \<noteq> []"
  by (subst digits.simps) simp

lemma read_digits_digits: "read_digits (digits n) = n"
proof (induction n rule: digits.induct)
  case (1 n)
  then show ?case by (subst digits.simps) (simp add: read_digits_def)
qed

lemma stoi_digits:
  assumes "n < 2 ^ 31"
  shows "stoi (digits n) = Some (int n)"
proof -
  obtain c cs where d: "digits n = c # cs" by (cases "digits n") auto
  then have c: "is_digit c" using set_digits [of c n] by simp
  have "\<not> is_space c" using c by (auto simp: is_digit_def is_space_def)
  moreover have "c \<noteq> CHR ''-''" "c \<noteq> CHR ''+''" using c by (auto simp: is_digit_def)
  ultimately have "read_sign (dropWhile is_space (digits n)) = (False, digits n)"
    by (simp add: d read_sign_def)
  moreover have tw: "takeWhile is_digit (digits n) = digits n"
    using set_digits by (simp add: takeWhile_eq_all_conv)
  ultimately show ?thesis using assms by (simp add: stoi_def Let_def tw read_digits_digits del: takeWhile_eq_all_conv)
qed

text \<open>A number with its sign comes back.\<close>

definition int_text :: "int \<Rightarrow> string" where
  "int_text n = (if n < 0 then CHR ''-'' # digits (nat (- n)) else digits (nat n))"

lemma takeWhile_digits: "takeWhile is_digit (digits n) = digits n"
  using set_digits by (simp add: takeWhile_eq_all_conv)

lemma stoi_int_text:
  assumes "- (2 ^ 31) \<le> n" "n < 2 ^ 31"
  shows "stoi (int_text n) = Some n"
proof (cases "n < 0")
  case True
  have "\<not> is_space CHR ''-''" by (simp add: is_space_def)
  then have "read_sign (dropWhile is_space (int_text n)) = (True, digits (nat (- n)))"
    using True by (simp add: int_text_def read_sign_def)
  then show ?thesis using True assms by (simp add: stoi_def Let_def takeWhile_digits read_digits_digits)
next
  case False
  then have "nat n < 2 ^ 31" "int (nat n) = n" using assms(2) by simp_all
  then show ?thesis using False stoi_digits [of "nat n"] by (simp add: int_text_def)
qed

lemma stoi_bounds: "stoi s = Some n \<Longrightarrow> - (2 ^ 31) \<le> n \<and> n < 2 ^ 31"
  by (auto simp: stoi_def Let_def split: prod.splits if_splits)

end
