(* ===== verification/Client_Types.thy ===== *)
theory Client_Types
  imports Protocol Std_Map Std_Text
begin

text \<open>
  The client library's values (\<^verbatim>\<open>sercli/src/sp2p_types.hpp\<close>, \<^verbatim>\<open>user.hpp\<close>): error codes, users and the
  descriptions of networks, nodes and servers, with the comparisons that the library's maps use and
  the text that the stream operators print. An IP address is its canonical text.
\<close>

subsection \<open>Error codes\<close>

datatype NodeError =
    NE_OK | NE_IS_ACTIVE | NE_NO_CONNECTION
  | NE_INTERNAL_SERVER_ERROR | NE_BAD_REQUEST | NE_NO_PRIVILAGES | NE_BAD_CREDENTIALS | NE_NOT_LOGGED
  | NE_NO_SUCH_USER | NE_NO_SUCH_NETWORK | NE_BAD_DATA | NE_ALREADY_EXISTS
  | NE_BAD_SERVER_RESPONSE | NE_SEND_ERROR | NE_OTHER

definition any :: "NodeError \<Rightarrow> bool" where
  "any error \<longleftrightarrow> error \<noteq> NE_OK"

definition NodeError_text :: "NodeError \<Rightarrow> string" where
  "NodeError_text error =
     (case error of
        NE_OK \<Rightarrow> ''OK''
      | NE_IS_ACTIVE \<Rightarrow> ''IS_ACTIVE''
      | NE_NO_CONNECTION \<Rightarrow> ''NO_CONNECTION''
      | NE_INTERNAL_SERVER_ERROR \<Rightarrow> ''INTERNAL_SERVER_ERROR''
      | NE_BAD_REQUEST \<Rightarrow> ''BAD_REQUEST''
      | NE_NO_PRIVILAGES \<Rightarrow> ''NO_PRIVILAGES''
      | NE_BAD_CREDENTIALS \<Rightarrow> ''BAD_CREDENTIALS''
      | NE_NOT_LOGGED \<Rightarrow> ''NOT_LOGGED''
      | NE_NO_SUCH_USER \<Rightarrow> ''NO_SUCH_USER''
      | NE_NO_SUCH_NETWORK \<Rightarrow> ''NO_SUCH_NETWORK''
      | NE_BAD_DATA \<Rightarrow> ''BAD_DATA''
      | NE_ALREADY_EXISTS \<Rightarrow> ''ALREADY_EXISTS''
      | NE_BAD_SERVER_RESPONSE \<Rightarrow> ''BAD_SERVER_RESPONSE''
      | NE_SEND_ERROR \<Rightarrow> ''SEND_ERROR''
      | NE_OTHER \<Rightarrow> ''OTHER'')"

text \<open>The answer codes can be enumerated, so that a statement about all of them computes.\<close>

instantiation ResponseType :: enum
begin

definition enum_ResponseType :: "ResponseType list" where
  "enum_ResponseType =
     [RT_OK, RT_INTERNAL_SERVER_ERROR, RT_BAD_REQUEST, RT_NO_PRIVILAGES, RT_NOT_LOGGED,
      RT_BAD_CREDENTIALS, RT_NO_SUCH_USER, RT_NO_SUCH_NETWORK, RT_BAD_DATA, RT_ALREADY_EXISTS]"

definition enum_all_ResponseType :: "(ResponseType \<Rightarrow> bool) \<Rightarrow> bool" where
  "enum_all_ResponseType P \<longleftrightarrow> list_all P enum_class.enum"

definition enum_ex_ResponseType :: "(ResponseType \<Rightarrow> bool) \<Rightarrow> bool" where
  "enum_ex_ResponseType P \<longleftrightarrow> list_ex P enum_class.enum"

instance
proof
  have all: "x \<in> set enum_class.enum" for x :: ResponseType
    by (cases x) (simp_all add: enum_ResponseType_def)
  then show univ: "(UNIV :: ResponseType set) = set enum_class.enum" by auto
  show "distinct (enum_class.enum :: ResponseType list)" by (simp add: enum_ResponseType_def)
  show "enum_class.enum_all P \<longleftrightarrow> Ball UNIV P" for P :: "ResponseType \<Rightarrow> bool"
    using all by (auto simp: enum_all_ResponseType_def list_all_iff)
  show "enum_class.enum_ex P \<longleftrightarrow> Bex UNIV P" for P :: "ResponseType \<Rightarrow> bool"
    using all by (auto simp: enum_ex_ResponseType_def list_ex_iff)
qed

end

subsection \<open>Users\<close>

record User =
  us_username :: string
  us_email :: string

record MyUser = User +
  mu_password :: string
  mu_is_registered :: bool

definition new_MyUser :: "string \<Rightarrow> string \<Rightarrow> string \<Rightarrow> bool \<Rightarrow> MyUser" where
  "new_MyUser username password email registered =
     \<lparr>us_username = username, us_email = email, mu_password = password, mu_is_registered = registered\<rparr>"

definition User_text :: "'a User_scheme \<Rightarrow> string" where
  "User_text u = ''User -> username: '' @ us_username u @ '', email: '' @ us_email u"

text \<open>Streams print a boolean as a digit.\<close>

definition MyUser_text :: "MyUser \<Rightarrow> string" where
  "MyUser_text u =
     ''MyUser -> username: '' @ us_username u @ '', email: '' @ us_email u @
     '', password: '' @ mu_password u @
     '', registered: '' @ (if mu_is_registered u then ''1'' else ''0'')"

subsection \<open>Descriptions\<close>

record ServerDescription =
  sd_related_user :: string
  sd_related_network :: string
  sd_ip_addres :: string

datatype AccessRights = PUBLIC | PRIVATE
datatype Visibility = LISTED | UNLISTED
datatype ParticipationRights = CLIENT_ONLY | CLIENT_SERVER

record NetworkDescription =
  nw_access_rights :: AccessRights
  nw_visability :: Visibility
  nw_participation_rights :: ParticipationRights
  nw_protocol_name :: string
  nw_network_name :: string
  nw_creator :: User

record NodeDescription =
  no_ip_address :: string
  no_node_name :: string
  no_port :: "16 word"

definition network_lt :: "NetworkDescription \<Rightarrow> NetworkDescription \<Rightarrow> bool" where
  "network_lt a b \<longleftrightarrow> nw_network_name a < nw_network_name b"

definition network_eq :: "NetworkDescription \<Rightarrow> NetworkDescription \<Rightarrow> bool" where
  "network_eq a b \<longleftrightarrow> nw_network_name a = nw_network_name b"

definition node_lt :: "NodeDescription \<Rightarrow> NodeDescription \<Rightarrow> bool" where
  "node_lt a b \<longleftrightarrow> no_node_name a < no_node_name b"

text \<open>The hash of a network is the hash of its name; \<open>hash_fn\<close> is \<^verbatim>\<open>std::hash<std::string>\<close>.\<close>

definition NetworkHash :: "(string \<Rightarrow> nat) \<Rightarrow> NetworkDescription \<Rightarrow> nat" where
  "NetworkHash hash_fn net_desc = hash_fn (nw_network_name net_desc)"

lemma key_equiv_node [simp]: "key_equiv node_lt a b \<longleftrightarrow> no_node_name a = no_node_name b"
  by (auto simp: key_equiv_def node_lt_def)

lemma key_equiv_network [simp]: "key_equiv network_lt a b \<longleftrightarrow> network_eq a b"
  by (auto simp: key_equiv_def network_lt_def network_eq_def)

interpretation nodes: key_order node_lt
  by unfold_locales (auto simp: node_lt_def)

interpretation nets: key_order network_lt
  by unfold_locales (auto simp: network_lt_def network_eq_def)

text \<open>\<^verbatim>\<open>unordered_map\<close> needs a hash that agrees with the equality of the keys.\<close>

lemma NetworkHash_cong: "network_eq a b \<Longrightarrow> NetworkHash h a = NetworkHash h b"
  by (simp add: network_eq_def NetworkHash_def)

subsection \<open>Texts\<close>

definition ServerDescription_text :: "ServerDescription \<Rightarrow> string" where
  "ServerDescription_text s =
     ''Server -> ip: '' @ sd_ip_addres s @ '', user: '' @ sd_related_user s @
     '', network: '' @ sd_related_network s"

definition NetworkDescription_text :: "NetworkDescription \<Rightarrow> string" where
  "NetworkDescription_text n =
     ''Network - > name: '' @ nw_network_name n @ '', protocol: '' @ nw_protocol_name n @
     '', creator: '' @ User_text (nw_creator n) @
     '' ,access rights: '' @
     (case nw_access_rights n of PRIVATE \<Rightarrow> ''private'' | PUBLIC \<Rightarrow> ''public'') @
     '', participation rights: '' @
     (case nw_participation_rights n of CLIENT_ONLY \<Rightarrow> ''client only'' | CLIENT_SERVER \<Rightarrow> ''client/server'') @
     '', visibility: '' @
     (case nw_visability n of LISTED \<Rightarrow> ''listed'' | UNLISTED \<Rightarrow> ''unlisted'')"

definition NodeDescription_text :: "NodeDescription \<Rightarrow> string" where
  "NodeDescription_text n =
     ''Node - > name: '' @ no_node_name n @ '', ip: '' @ no_ip_address n @
     '', port: '' @ digits (unat (no_port n))"

lemma NodeError_text_inject: "NodeError_text a = NodeError_text b \<longleftrightarrow> a = b"
  by (cases a; cases b) (simp_all add: NodeError_text_def)

end
