(* ===== verification/Client_Messages.thy ===== *)
theory Client_Messages
  imports Client_Types
begin

text \<open>
  \<^verbatim>\<open>sercli/src/message_factory.cpp\<close>: the requests a client sends, and reading the answers' values.
  \<^verbatim>\<open>boost::asio::ip::address::from_string\<close> is the parameter \<open>from_string\<close>, \<^verbatim>\<open>None\<close> where it throws.
\<close>

subsection \<open>Requests\<close>

definition new_request :: "RequestType \<Rightarrow> ClientMessage" where
  "new_request r = new_ClientMessage\<lparr>cm_request := Some r\<rparr>"

lemma new_request_simps [simp]:
  "request (new_request r) = r"
  "register_message (new_request r) = None" "unregister_message (new_request r) = None"
  "login_message (new_request r) = None" "logout_message (new_request r) = None"
  by (simp_all add: new_request_def request_def)

definition getLoginMessage :: "string \<Rightarrow> string \<Rightarrow> ClientMessage" where
  "getLoginMessage username password =
     (new_request LOGIN)\<lparr>login_message := Some
       \<lparr>lg_username = Some username, lg_password = Some password\<rparr>\<rparr>"

definition getLogoutMessage :: "string \<Rightarrow> ClientMessage" where
  "getLogoutMessage cookie =
     (new_request LOGOUT)\<lparr>logout_message := Some
       \<lparr>ck_cookie = Some cookie\<rparr>\<rparr>"

definition getRegisterUserMessage :: "MyUser \<Rightarrow> string \<Rightarrow> ClientMessage" where
  "getRegisterUserMessage my_user pkcs10_request =
     (new_request REGISTER)\<lparr>register_message := Some
       \<lparr>reg_username = Some (us_username my_user), reg_password = Some (mu_password my_user),
         reg_public_key = Some pkcs10_request\<rparr>\<rparr>"

definition getUnregisterUserMessage :: "string \<Rightarrow> ClientMessage" where
  "getUnregisterUserMessage cookie =
     (new_request UNREGISTER)\<lparr>unregister_message := Some
       \<lparr>ck_cookie = Some cookie\<rparr>\<rparr>"

definition getChangePasswordMessage :: "MyUser \<Rightarrow> string \<Rightarrow> string \<Rightarrow> ClientMessage" where
  "getChangePasswordMessage my_user new_password cookie =
     (new_request CHANGE_PASSWORD)\<lparr>change_password_message := Some
       \<lparr>cp_cookie = Some cookie, cp_old_password = Some (mu_password my_user),
         cp_new_password = Some new_password\<rparr>\<rparr>"

definition getUserInfoMessage :: "NetworkDescription \<Rightarrow> string \<Rightarrow> string \<Rightarrow> ClientMessage" where
  "getUserInfoMessage network_desc username cookie =
     (new_request USER_INFO)\<lparr>user_info_message := Some
       \<lparr>un_cookie = Some cookie, un_username = Some username,
         un_network_name = Some (nw_network_name network_desc)\<rparr>\<rparr>"

definition getListNetworksMessage :: "string \<Rightarrow> ClientMessage" where
  "getListNetworksMessage cookie =
     (new_request LIST_NETWORKS)\<lparr>list_networks_message := Some
       \<lparr>ck_cookie = Some cookie\<rparr>\<rparr>"

definition getListMyNetworksMessage :: "string \<Rightarrow> ClientMessage" where
  "getListMyNetworksMessage cookie =
     (new_request LIST_MY_NETWORKS)\<lparr>list_my_networks_message := Some
       \<lparr>ck_cookie = Some cookie\<rparr>\<rparr>"

definition getListServersMessage :: "NetworkDescription \<Rightarrow> string \<Rightarrow> ClientMessage" where
  "getListServersMessage network_desc cookie =
     (new_request LIST_SERVERS)\<lparr>list_servers_message := Some
       \<lparr>ls_cookie = Some cookie, ls_network_name = Some (nw_network_name network_desc)\<rparr>\<rparr>"

definition pb_access_of :: "AccessRights \<Rightarrow> pb_access" where
  "pb_access_of a = (case a of PRIVATE \<Rightarrow> PB_PRIVATE | PUBLIC \<Rightarrow> PB_PUBLIC)"

definition pb_participation_of :: "ParticipationRights \<Rightarrow> pb_participation" where
  "pb_participation_of p = (case p of CLIENT_ONLY \<Rightarrow> PB_CLIENT_ONLY | CLIENT_SERVER \<Rightarrow> PB_CLIENT_SERVER)"

definition pb_visibility_of :: "Visibility \<Rightarrow> pb_visibility" where
  "pb_visibility_of v = (case v of LISTED \<Rightarrow> PB_LISTED | UNLISTED \<Rightarrow> PB_UNLISTED)"

definition getCreateNetworkMessage :: "NetworkDescription \<Rightarrow> string \<Rightarrow> ClientMessage" where
  "getCreateNetworkMessage network_desc cookie =
     (new_request CREATE_NETWORK)\<lparr>create_network_message := Some
       \<lparr>cn_cookie = Some cookie,
         cn_network_name = Some (nw_network_name network_desc),
         cn_access_rights = Some (pb_access_of (nw_access_rights network_desc)),
         cn_visibility = Some (pb_visibility_of (nw_visability network_desc)),
         cn_participation_rights = Some (pb_participation_of (nw_participation_rights network_desc)),
         cn_creator_email = Some (us_email (nw_creator network_desc)),
         cn_protocol_name = Some (nw_protocol_name network_desc)\<rparr>\<rparr>"

definition getDeleteNetworkMessage :: "NetworkDescription \<Rightarrow> string \<Rightarrow> ClientMessage" where
  "getDeleteNetworkMessage network_desc cookie =
     (new_request DELETE_NETWORK)\<lparr>delete_network_message := Some
       \<lparr>dn_cookie = Some cookie, dn_name = Some (nw_network_name network_desc)\<rparr>\<rparr>"

definition getInviteUserMessage :: "NetworkDescription \<Rightarrow> User \<Rightarrow> string \<Rightarrow> ClientMessage" where
  "getInviteUserMessage network_desc user cookie =
     (new_request INVITE_USER)\<lparr>invite_user_message := Some
       \<lparr>un_cookie = Some cookie, un_username = Some (us_username user),
         un_network_name = Some (nw_network_name network_desc)\<rparr>\<rparr>"

definition getRemoveUserMessage :: "NetworkDescription \<Rightarrow> User \<Rightarrow> string \<Rightarrow> ClientMessage" where
  "getRemoveUserMessage network_desc user cookie =
     (new_request REMOVE_USER)\<lparr>remove_user_message := Some
       \<lparr>un_cookie = Some cookie, un_username = Some (us_username user),
         un_network_name = Some (nw_network_name network_desc)\<rparr>\<rparr>"

definition getUpdateServerMessage :: "NetworkDescription \<Rightarrow> int32 \<Rightarrow> string \<Rightarrow> ClientMessage" where
  "getUpdateServerMessage network_desc port cookie =
     (new_request UPDATE_SERVER)\<lparr>update_server_message := Some
       \<lparr>us_cookie = Some cookie, us_network_name = Some (nw_network_name network_desc),
         us_port_number = Some port\<rparr>\<rparr>"

definition getStopServerMessage :: "NetworkDescription \<Rightarrow> string \<Rightarrow> ClientMessage" where
  "getStopServerMessage network_desc cookie =
     (new_request STOP_SERVER)\<lparr>stop_server_message := Some
       \<lparr>ss_cookie = Some cookie, ss_network_name = Some (nw_network_name network_desc)\<rparr>\<rparr>"

text \<open>The network is a pointer that may be null.\<close>

definition getSignKeyMessage :: "string \<Rightarrow> NetworkDescription option \<Rightarrow> string \<Rightarrow> ClientMessage" where
  "getSignKeyMessage pkcs10_request network_desc cookie =
     (new_request SIGN_KEY)\<lparr>sign_key_message := Some
       \<lparr>sk_cookie = Some cookie, sk_public_key = Some pkcs10_request,
         sk_network_name = map_option nw_network_name network_desc\<rparr>\<rparr>"

subsection \<open>Answers\<close>

text \<open>\<open>visability\<close> is never set: \<open>indet\<close> is what the storage of the value holds.\<close>

definition getNetworkDescriptionFromProto :: "Visibility \<Rightarrow> NetworkEntry \<Rightarrow> NetworkDescription" where
  "getNetworkDescriptionFromProto indet network =
     \<lparr>nw_access_rights = (case ne_access_rights network of Some PB_PRIVATE \<Rightarrow> PRIVATE | _ \<Rightarrow> PUBLIC),
      nw_visability = indet,
      nw_participation_rights =
        (case ne_participation_rights network of Some PB_CLIENT_SERVER \<Rightarrow> CLIENT_SERVER | _ \<Rightarrow> CLIENT_ONLY),
      nw_protocol_name = str_of (ne_protocol_name network),
      nw_network_name = str_of (ne_name network),
      nw_creator = \<lparr>us_username = str_of (ne_creator_name network),
                    us_email = str_of (ne_creator_name network)\<rparr>\<rparr>"

definition getServerDescriptionFromProto ::
  "(string \<Rightarrow> string option) \<Rightarrow> ServerEntry \<Rightarrow> NetworkDescription \<Rightarrow> ServerDescription option" where
  "getServerDescriptionFromProto from_string server network_desc =
     (case from_string (str_of (se_ip_address server)) of
        None \<Rightarrow> None
      | Some ip \<Rightarrow> Some \<lparr>sd_related_user = str_of (se_username server),
                        sd_related_network = nw_network_name network_desc, sd_ip_addres = ip\<rparr>)"

definition getDefaultError :: "ResponseType \<Rightarrow> NodeError" where
  "getDefaultError responseCode =
     (case responseCode of
        RT_OK \<Rightarrow> NE_OK
      | RT_BAD_CREDENTIALS \<Rightarrow> NE_BAD_CREDENTIALS
      | RT_BAD_REQUEST \<Rightarrow> NE_BAD_REQUEST
      | RT_NO_PRIVILAGES \<Rightarrow> NE_NO_PRIVILAGES
      | RT_NO_SUCH_USER \<Rightarrow> NE_NO_SUCH_USER
      | RT_NO_SUCH_NETWORK \<Rightarrow> NE_NO_SUCH_NETWORK
      | RT_BAD_DATA \<Rightarrow> NE_BAD_DATA
      | RT_INTERNAL_SERVER_ERROR \<Rightarrow> NE_INTERNAL_SERVER_ERROR
      | RT_ALREADY_EXISTS \<Rightarrow> NE_ALREADY_EXISTS
      | _ \<Rightarrow> NE_OTHER)"

lemma getDefaultError_OK_iff [simp]: "getDefaultError r = NE_OK \<longleftrightarrow> r = RT_OK"
  by (cases r) (simp_all add: getDefaultError_def)

text \<open>The client's own codes are never the translation of an answer.\<close>

lemma getDefaultError_local:
  "\<forall>r. getDefaultError r \<notin> {NE_IS_ACTIVE, NE_NO_CONNECTION, NE_NOT_LOGGED, NE_BAD_SERVER_RESPONSE, NE_SEND_ERROR}"
  by code_simp

lemma getDefaultError_inj: "getDefaultError r = getDefaultError r' \<longleftrightarrow> r = r'"
  by (cases r; cases r') (simp_all add: getDefaultError_def)

text \<open>The text of an answer in the log (\<^verbatim>\<open>node.cpp\<close>).\<close>

definition ResponseType_text :: "ResponseType \<Rightarrow> string" where
  "ResponseType_text resp_type =
     (case resp_type of
        RT_OK \<Rightarrow> ''OK''
      | RT_INTERNAL_SERVER_ERROR \<Rightarrow> ''INTERNAL SERVER ERROR''
      | RT_BAD_REQUEST \<Rightarrow> ''BAD REQUEST''
      | RT_NO_PRIVILAGES \<Rightarrow> ''NO PRIVILAGES''
      | RT_NOT_LOGGED \<Rightarrow> ''NOT LOGGED''
      | RT_BAD_CREDENTIALS \<Rightarrow> ''BAD CREDENTIALS''
      | RT_NO_SUCH_NETWORK \<Rightarrow> ''NO SUCH NETWORK''
      | RT_NO_SUCH_USER \<Rightarrow> ''NO SUCH USER''
      | RT_BAD_DATA \<Rightarrow> ''BAD DATA''
      | RT_ALREADY_EXISTS \<Rightarrow> ''ALREADY EXISTS'')"

lemmas message_defs = getLoginMessage_def getLogoutMessage_def getRegisterUserMessage_def
  getUnregisterUserMessage_def getChangePasswordMessage_def getUserInfoMessage_def getListNetworksMessage_def
  getListMyNetworksMessage_def getListServersMessage_def getCreateNetworkMessage_def getDeleteNetworkMessage_def
  getInviteUserMessage_def getRemoveUserMessage_def getUpdateServerMessage_def getStopServerMessage_def
  getSignKeyMessage_def

end
