(* ===== verification/Client_Connection.thy ===== *)
theory Client_Connection
  imports Client_Messages
begin

text \<open>
  The client's end of a connection: \<^verbatim>\<open>sercli/src/parser.cpp\<close>, \<^verbatim>\<open>connection.cpp\<close>, the error handlers of
  \<^verbatim>\<open>handler.cpp\<close> and \<^verbatim>\<open>nodeconnection.cpp\<close>. The bytes travel over a \<open>link\<close>, whose two operations on a
  world \<^verbatim>\<open>'w\<close> say what the operating system does: connect (resolving, TCP and TLS), and send bytes and
  deliver what comes back. A request that is never answered blocks: \<^verbatim>\<open>future::get()\<close> does not return.
  The work that is posted to the connection's strand is done at once.
\<close>

subsection \<open>The parser of answers\<close>

datatype parse_result = GOOD | BAD | INDETERMINATE

record response_parser =
  message_size :: int32
  sb :: "byte list"

definition new_parser :: response_parser where
  "new_parser = \<lparr>message_size = - 1, sb = []\<rparr>"

definition parser_reset :: "response_parser \<Rightarrow> response_parser" where
  "parser_reset p = p\<lparr>sb := [], message_size := - 1\<rparr>"

definition max_buffer_size :: nat where
  "max_buffer_size = 2 ^ 32 - 1"

text \<open>\<^verbatim>\<open>ParseFromIstream\<close> reads the whole buffer, however long the announced message is. Sizes are
  compared as \<^verbatim>\<open>int\<close>s.\<close>

definition read_size :: "response_parser \<Rightarrow> response_parser" where
  "read_size p =
     (if message_size p = - 1 \<and> length (sb p) \<ge> 4
      then p\<lparr>message_size := le32_value (take 4 (sb p)), sb := drop 4 (sb p)\<rparr> else p)"

definition response_parse ::
  "(byte list \<Rightarrow> NodeMessage option) \<Rightarrow> byte list \<Rightarrow> response_parser \<Rightarrow>
   parse_result \<times> NodeMessage option \<times> response_parser" where
  "response_parse parse_pb data p =
     (let p = p\<lparr>sb := sb p @ data\<rparr>
      in if length (sb p) > max_buffer_size then (BAD, None, parser_reset p)
         else let p = read_size p
              in if sint (message_size p) \<le> sint (word_of_nat (length (sb p)) :: int32) \<and> message_size p \<noteq> - 1
                 then (case parse_pb (sb p) of
                         Some m \<Rightarrow> (GOOD, Some m, p\<lparr>sb := [], message_size := - 1\<rparr>)
                       | None \<Rightarrow> (BAD, None, parser_reset p))
                 else (INDETERMINATE, None, p))"

subsection \<open>A connection\<close>

text \<open>What \<^verbatim>\<open>SendException\<close> and the absence of an answer make of a request.\<close>

datatype 'a answer = Answer 'a | SendException | No_Answer

record client_connection =
  is_active :: bool
  cc_parser :: response_parser

text \<open>What the network does with the bytes of a request: it refuses them, or delivers a sequence of
  reads, after which reading fails or nothing ever comes.\<close>

datatype read_end = Read_Fails | Silence
datatype transmission = Not_Sent | Received "byte list list" read_end

record 'w link =
  lk_connect :: "NodeDescription \<Rightarrow> 'w \<Rightarrow> bool \<times> 'w"
  lk_send :: "byte list \<Rightarrow> 'w \<Rightarrow> transmission \<times> 'w"

text \<open>\<^verbatim>\<open>Connection::readMessage\<close> and the calls of \<^verbatim>\<open>Sp2pHandler\<close>: every failure stops the connection.\<close>

definition stop_connection :: "client_connection \<Rightarrow> client_connection" where
  "stop_connection c = c\<lparr>is_active := False\<rparr>"

fun readMessage ::
  "(byte list \<Rightarrow> NodeMessage option) \<Rightarrow> byte list list \<Rightarrow> read_end \<Rightarrow> client_connection \<Rightarrow>
   NodeMessage answer \<times> client_connection" where
  "readMessage parse_pb [] Read_Fails c = (SendException, stop_connection c)"
| "readMessage parse_pb [] Silence c = (No_Answer, c)"
| "readMessage parse_pb (data # rest) e c =
     (case response_parse parse_pb data (cc_parser c) of
        (GOOD, m, p) \<Rightarrow> (Answer (the m), c\<lparr>cc_parser := p\<rparr>)
      | (BAD, _, p) \<Rightarrow> (SendException, stop_connection (c\<lparr>cc_parser := p\<rparr>))
      | (INDETERMINATE, _, p) \<Rightarrow> readMessage parse_pb rest e (c\<lparr>cc_parser := p\<rparr>))"

definition send_bytes :: "(ClientMessage \<Rightarrow> byte list) \<Rightarrow> ClientMessage \<Rightarrow> byte list" where
  "send_bytes ser_pb req =
     (let message_size = (word_of_nat (length (ser_pb req)) :: int32)
      in le32_bytes message_size @ ser_pb req)"

definition sendRequest ::
  "'w link \<Rightarrow> (ClientMessage \<Rightarrow> byte list) \<Rightarrow> (byte list \<Rightarrow> NodeMessage option) \<Rightarrow> ClientMessage \<Rightarrow>
   client_connection \<Rightarrow> 'w \<Rightarrow> NodeMessage answer \<times> client_connection \<times> 'w" where
  "sendRequest lk ser_pb parse_pb req c w =
     (case lk_send lk (send_bytes ser_pb req) w of
        (Not_Sent, w') \<Rightarrow> (SendException, stop_connection c, w')
      | (Received chunks e, w') \<Rightarrow>
          (case readMessage parse_pb chunks e c of (r, c') \<Rightarrow> (r, c', w')))"

subsection \<open>The connection of a node\<close>

text \<open>The member \<open>socket\<close> is never opened: the bytes go through the connection's own socket.\<close>

record node_connection =
  is_logged :: bool
  nc_cookie :: string
  nc_socket_open :: bool
  nc_connection :: "client_connection option"

definition new_node_connection :: node_connection where
  "new_node_connection = \<lparr>is_logged = False, nc_cookie = '''', nc_socket_open = False, nc_connection = None\<rparr>"

definition nc_isActive :: "node_connection \<Rightarrow> bool" where
  "nc_isActive nc = (case nc_connection nc of None \<Rightarrow> False | Some c \<Rightarrow> is_active c)"

text \<open>\<^verbatim>\<open>NodeConnection::connect\<close>; \<^verbatim>\<open>False\<close> stands for \<^verbatim>\<open>throw NodeError::NO_CONNECTION\<close>. When the address
  cannot be resolved the old connection object stays; it is dropped when connecting fails
  (\<open>resolves\<close> tells the two apart).\<close>

definition nc_connect ::
  "'w link \<Rightarrow> (NodeDescription \<Rightarrow> bool) \<Rightarrow> NodeDescription \<Rightarrow> node_connection \<Rightarrow> 'w \<Rightarrow>
   bool \<times> node_connection \<times> 'w" where
  "nc_connect lk resolves node_desc nc w =
     (if nc_isActive nc then (True, nc, w)
      else if \<not> resolves node_desc then (False, nc, w)
      else case lk_connect lk node_desc w of
             (True, w') \<Rightarrow>
               (True, nc\<lparr>nc_connection := Some \<lparr>is_active = True, cc_parser = new_parser\<rparr>\<rparr>, w')
           | (False, w') \<Rightarrow> (False, nc\<lparr>nc_connection := None\<rparr>, w'))"

text \<open>\<^verbatim>\<open>closeConnection\<close>, the handler of the idle timer: \<^verbatim>\<open>boost::asio\<close> calls it when the time is over
  and, because it does not look at the error code, also when \<^verbatim>\<open>resetDeadlineTimer\<close> or
  \<^verbatim>\<open>stopDeadlineTimer\<close> cancels the wait. It runs on a thread of the pool, between the operations.\<close>

definition closeConnection :: "node_connection \<Rightarrow> node_connection" where
  "closeConnection nc = (if nc_isActive nc then nc\<lparr>nc_connection := None\<rparr> else nc)"

text \<open>\<^verbatim>\<open>disconnect\<close> first logs \<^verbatim>\<open>socket.remote_endpoint()\<close>, which throws (\<^verbatim>\<open>None\<close>) for a socket that is not
  connected; the log's filter lets every severity through.\<close>

definition nc_disconnect :: "node_connection \<Rightarrow> node_connection option" where
  "nc_disconnect nc =
     (if nc_socket_open nc then Some (nc\<lparr>nc_connection := None\<rparr>) else None)"

definition setCookie :: "string \<Rightarrow> node_connection \<Rightarrow> node_connection" where
  "setCookie new_cookie nc = nc\<lparr>nc_cookie := new_cookie\<rparr>"

lemma nc_isActive_new [simp]: "\<not> nc_isActive new_node_connection"
  by (simp add: nc_isActive_def new_node_connection_def)

lemma nc_isActive_simps [simp]:
  "nc_isActive (nc\<lparr>is_logged := b\<rparr>) = nc_isActive nc"
  "nc_isActive (nc\<lparr>nc_cookie := k\<rparr>) = nc_isActive nc"
  "nc_isActive (nc\<lparr>nc_connection := None\<rparr>) = False"
  "nc_isActive (nc\<lparr>nc_connection := Some c\<rparr>) = is_active c"
  by (simp_all add: nc_isActive_def)

lemma nc_isActive_close [simp]: "\<not> nc_isActive (closeConnection nc)"
  by (simp add: closeConnection_def)

lemma nc_connect_active: "nc_connect lk r d nc w = (True, nc', w') \<Longrightarrow> nc_isActive nc'"
  by (auto simp: nc_connect_def split: if_splits prod.splits bool.splits)

lemma nc_connect_logged [simp]:
  "is_logged (fst (snd (nc_connect lk r d nc w))) = is_logged nc"
  "nc_cookie (fst (snd (nc_connect lk r d nc w))) = nc_cookie nc"
  by (simp_all add: nc_connect_def split: prod.split bool.split)

subsection \<open>Reading an answer\<close>

lemma send_bytes_framed: "send_bytes ser_pb m = framed (ser_pb m)"
  by (simp add: send_bytes_def framed_def Let_def)

text \<open>The parser after the bytes \<open>pre\<close> of a framed message.\<close>

definition parser_at :: "byte list \<Rightarrow> byte list \<Rightarrow> response_parser" where
  "parser_at body pre =
     (if length pre < 4 then \<lparr>message_size = - 1, sb = pre\<rparr>
      else \<lparr>message_size = word_of_nat (length body), sb = drop 4 pre\<rparr>)"

lemma parser_at_Nil [simp]: "parser_at body [] = new_parser"
  by (simp add: parser_at_def new_parser_def)

lemma sint_of_nat32: "n < 2 ^ 31 \<Longrightarrow> sint (word_of_nat n :: int32) = int n"
  by (simp add: signed_of_nat signed_take_bit_int_eq_self)

lemma of_nat32_neq: "n < 2 ^ 31 \<Longrightarrow> (word_of_nat n :: int32) \<noteq> - 1"
  by (rule of_nat32_neq_minus1) simp

lemma response_parse_at:
  assumes body: "length body < 2 ^ 31" and pre: "pre @ data @ rest = framed body"
  shows "response_parse p data (parser_at body pre) =
    (if rest \<noteq> [] then (INDETERMINATE, None, parser_at body (pre @ data))
     else case p body of Some m \<Rightarrow> (GOOD, Some m, new_parser) | None \<Rightarrow> (BAD, None, new_parser))"
proof -
  let ?pd = "pre @ data"
  have len: "length ?pd + length rest = length body + 4"
    using pre by (metis append_assoc length_append length_framed)
  have take: "take 4 ?pd = le32_bytes (word_of_nat (length body))" if "4 \<le> length ?pd"
  proof -
    have "take 4 ?pd = take 4 (framed body)"
      using that by (simp flip: pre append_assoc)
    then show ?thesis by (simp add: framed_def)
  qed
  have drop: "drop 4 ?pd @ rest = body" if "4 \<le> length ?pd"
  proof -
    have "drop 4 ?pd @ rest = drop 4 (framed body)"
      using that by (simp flip: pre append_assoc)
    then show ?thesis by (simp add: framed_def)
  qed
  define q where "q = (parser_at body pre)\<lparr>sb := sb (parser_at body pre) @ data\<rparr>"
  have small: "\<not> length (sb q) > max_buffer_size"
    using len body by (cases "length pre < 4") (simp_all add: q_def parser_at_def max_buffer_size_def)
  have q: "read_size q = parser_at body ?pd"
  proof (cases "length pre < 4")
    case True
    then show ?thesis
      using take by (simp add: q_def read_size_def parser_at_def)
  next
    case False
    then show ?thesis
      using of_nat32_neq [OF body] by (simp add: q_def read_size_def parser_at_def)
  qed
  show ?thesis
  proof (cases "length ?pd < 4")
    case True
    then have "rest \<noteq> []" using len by auto
    with True q small show ?thesis
      by (simp add: response_parse_def Let_def flip: q_def) (simp add: parser_at_def)
  next
    case False
    have sb: "length (sb (parser_at body ?pd)) + length rest = length body"
      using False len by (simp add: parser_at_def)
    have "sint (word_of_nat (length (sb (parser_at body ?pd))) :: int32) = int (length (sb (parser_at body ?pd)))"
      using sb body by (intro sint_of_nat32) linarith
    moreover have "rest = [] \<Longrightarrow> sb (parser_at body ?pd) = body"
      using False drop by (simp add: parser_at_def)
    moreover have "message_size (parser_at body ?pd) = word_of_nat (length body)"
      using False by (simp add: parser_at_def)
    moreover have "int (length body) \<le> int (length (sb (parser_at body ?pd))) \<longleftrightarrow> rest = []"
      using sb by (cases rest) auto
    ultimately show ?thesis
      using q small of_nat32_neq [OF body] sint_of_nat32 [OF body]
      by (cases "rest = []")
        (simp_all add: response_parse_def Let_def parser_reset_def new_parser_def flip: q_def split: option.split)
  qed
qed

lemma readMessage_at:
  assumes "length body < 2 ^ 31" "pre @ concat chunks = framed body" "pre \<noteq> framed body"
  shows "readMessage p chunks e (c\<lparr>cc_parser := parser_at body pre\<rparr>) =
    (case p body of
       Some m \<Rightarrow> (Answer m, c\<lparr>cc_parser := new_parser\<rparr>)
     | None \<Rightarrow> (SendException, stop_connection (c\<lparr>cc_parser := new_parser\<rparr>)))"
  using assms(2,3)
proof (induction chunks arbitrary: pre)
  case (Cons data chunks)
  have parse: "pre @ data @ concat chunks = framed body" using Cons.prems by simp
  show ?case
  proof (cases "concat chunks = []")
    case True
    then show ?thesis
      using response_parse_at [OF assms(1) parse, of p] by (simp split: option.split)
  next
    case False
    then have "pre @ data \<noteq> framed body" using parse by (metis append.assoc append_self_conv)
    with Cons.IH [of "pre @ data"] parse False response_parse_at [OF assms(1) parse, of p]
    show ?thesis by simp
  qed
qed simp

text \<open>An answer that breaks off.\<close>

lemma readMessage_cut_at:
  assumes "length body < 2 ^ 31" "pre @ concat chunks @ rest = framed body" "rest \<noteq> []"
  shows "fst (readMessage p chunks e (c\<lparr>cc_parser := parser_at body pre\<rparr>)) =
    (case e of Read_Fails \<Rightarrow> SendException | Silence \<Rightarrow> No_Answer)"
  using assms(2)
proof (induction chunks arbitrary: pre)
  case Nil
  then show ?case by (cases e) simp_all
next
  case (Cons data chunks)
  have parse: "pre @ data @ (concat chunks @ rest) = framed body" using Cons.prems by simp
  show ?case
    using Cons.IH [of "pre @ data"] parse assms(3) response_parse_at [OF assms(1) parse, of p] by simp
qed

end
