(* ===== verification/Client_Stores.thy ===== *)
theory Client_Stores
  imports Client_Types
begin

text \<open>
  \<^verbatim>\<open>sercli/src/encryption.cpp\<close>: keys and certificates in files, and the stores that keep them in memory.
  A key or certificate is its unencrypted text; Botan's reading and writing of files is the parameter
  \<open>botan\<close>. The file system maps names to contents; \<open>writable\<close> says which names can be opened for
  writing, since the code does not look whether an \<^verbatim>\<open>ofstream\<close> is open.
\<close>

datatype 'a call =
    Returned 'a
  | Thrown          \<comment> \<open>an exception leaves the call\<close>
  | Blocked         \<comment> \<open>the call never returns\<close>
  | Undefined       \<comment> \<open>a null pointer is dereferenced\<close>

type_synonym files = "string \<Rightarrow> string option"

record botan =
  bt_generate :: "32 word \<Rightarrow> string"
  bt_private_pem :: "string \<Rightarrow> string"
  bt_encrypted_pem :: "string \<Rightarrow> string \<Rightarrow> string"
  bt_private_key :: "string \<Rightarrow> string \<Rightarrow> string option"
  bt_public_pem :: "string \<Rightarrow> string"
  bt_public_key :: "string \<Rightarrow> string option"
  bt_certificate_pem :: "string \<Rightarrow> string"
  bt_certificate :: "string \<Rightarrow> string option"

definition write_file :: "(string \<Rightarrow> bool) \<Rightarrow> string \<Rightarrow> string \<Rightarrow> files \<Rightarrow> files" where
  "write_file writable filename text fs = (if writable filename then fs(filename \<mapsto> text) else fs)"

text \<open>A function that may throw \<^verbatim>\<open>EncryptionException\<close>: the file is missing, or Botan throws.\<close>

definition read_file :: "(string \<Rightarrow> string option) \<Rightarrow> string \<Rightarrow> files \<Rightarrow> string call" where
  "read_file decode filename fs =
     (case Option.bind (fs filename) decode of None \<Rightarrow> Thrown | Some x \<Rightarrow> Returned x)"

subsection \<open>Keys and certificates in files\<close>

definition generatePrivateKey :: "botan \<Rightarrow> 32 word \<Rightarrow> string call" where
  "generatePrivateKey bt bits = (if bits < 1024 \<or> bits > 16384 then Thrown else Returned (bt_generate bt bits))"

definition savePrivateKeyToFile ::
  "botan \<Rightarrow> (string \<Rightarrow> bool) \<Rightarrow> string \<Rightarrow> string \<Rightarrow> string \<Rightarrow> files \<Rightarrow> files" where
  "savePrivateKeyToFile bt writable key filename password =
     write_file writable filename
       (if length password > 0 then bt_encrypted_pem bt key password else bt_private_pem bt key)"

definition getPrivateKeyFromFile :: "botan \<Rightarrow> string \<Rightarrow> string \<Rightarrow> files \<Rightarrow> string call" where
  "getPrivateKeyFromFile bt filename password = read_file (\<lambda>text. bt_private_key bt text password) filename"

definition savePublicKeyToFile :: "botan \<Rightarrow> (string \<Rightarrow> bool) \<Rightarrow> string \<Rightarrow> string \<Rightarrow> files \<Rightarrow> files" where
  "savePublicKeyToFile bt writable key filename = write_file writable filename (bt_public_pem bt key)"

definition getPublicKeyFromFile :: "botan \<Rightarrow> string \<Rightarrow> files \<Rightarrow> string call" where
  "getPublicKeyFromFile bt = read_file (bt_public_key bt)"

definition saveCertificateToFile :: "botan \<Rightarrow> (string \<Rightarrow> bool) \<Rightarrow> string \<Rightarrow> string \<Rightarrow> files \<Rightarrow> files" where
  "saveCertificateToFile bt writable cert filename = write_file writable filename (bt_certificate_pem bt cert)"

definition getCertificateFromFile :: "botan \<Rightarrow> string \<Rightarrow> files \<Rightarrow> string call" where
  "getCertificateFromFile bt = read_file (bt_certificate bt)"

subsection \<open>Stores\<close>

record ElementStore =
  es_name :: string
  es_filename :: string
  es_path :: string

record PrivateKeyStore = ElementStore +
  pk_key :: "string option"
  pk_password :: string

record PublicKeyStore = ElementStore +
  pub_key :: "string option"

record CertificateStore = ElementStore +
  cs_certificate :: "string option"

definition setName :: "string \<Rightarrow> 'a ElementStore_scheme \<Rightarrow> 'a ElementStore_scheme" where
  "setName name st = st\<lparr>es_name := name\<rparr>"

definition setFilename :: "string \<Rightarrow> 'a ElementStore_scheme \<Rightarrow> 'a ElementStore_scheme" where
  "setFilename filename st = st\<lparr>es_filename := filename\<rparr>"

definition setPath :: "string \<Rightarrow> 'a ElementStore_scheme \<Rightarrow> 'a ElementStore_scheme" where
  "setPath path st = st\<lparr>es_path := path\<rparr>"

definition file_in :: "string \<Rightarrow> 'a ElementStore_scheme \<Rightarrow> string" where
  "file_in dir st = dir @ ''/'' @ es_filename st"

definition inFile :: "string \<Rightarrow> files \<Rightarrow> 'a ElementStore_scheme \<Rightarrow> bool" where
  "inFile dir fs st \<longleftrightarrow> fs (file_in dir st) \<noteq> None"

text \<open>Saving a store without an element dereferences a null pointer.\<close>

definition new_PrivateKeyStore :: "string option \<Rightarrow> PrivateKeyStore" where
  "new_PrivateKeyStore key =
     \<lparr>es_name = '''', es_filename = '''', es_path = ''.'', pk_key = key, pk_password = ''''\<rparr>"

definition private_save_to ::
  "botan \<Rightarrow> (string \<Rightarrow> bool) \<Rightarrow> string \<Rightarrow> PrivateKeyStore \<Rightarrow> files \<Rightarrow> files call" where
  "private_save_to bt writable dir st fs =
     (case pk_key st of
        None \<Rightarrow> Undefined
      | Some k \<Rightarrow> Returned (savePrivateKeyToFile bt writable k (file_in dir st) (pk_password st) fs))"

definition private_save :: "botan \<Rightarrow> (string \<Rightarrow> bool) \<Rightarrow> PrivateKeyStore \<Rightarrow> files \<Rightarrow> files call" where
  "private_save bt writable st = private_save_to bt writable (es_path st) st"

definition private_load_from :: "botan \<Rightarrow> string \<Rightarrow> files \<Rightarrow> PrivateKeyStore \<Rightarrow> PrivateKeyStore call" where
  "private_load_from bt dir fs st =
     map_call (\<lambda>k. st\<lparr>pk_key := Some k\<rparr>) (getPrivateKeyFromFile bt (file_in dir st) (pk_password st) fs)"

definition private_load :: "botan \<Rightarrow> files \<Rightarrow> PrivateKeyStore \<Rightarrow> PrivateKeyStore call" where
  "private_load bt fs st = private_load_from bt (es_path st) fs st"

definition private_inMemory :: "PrivateKeyStore \<Rightarrow> bool" where
  "private_inMemory st \<longleftrightarrow> pk_key st \<noteq> None"

definition private_setKey :: "string option \<Rightarrow> PrivateKeyStore \<Rightarrow> PrivateKeyStore" where
  "private_setKey key st = st\<lparr>pk_key := key\<rparr>"

definition key_setPassword :: "string \<Rightarrow> PrivateKeyStore \<Rightarrow> PrivateKeyStore" where
  "key_setPassword password st = st\<lparr>pk_password := password\<rparr>"

text \<open>\<^verbatim>\<open>getKey\<close> loads a key that is not in memory from the store's own path; the second value is the
  store afterwards.\<close>

definition private_getKey :: "botan \<Rightarrow> files \<Rightarrow> PrivateKeyStore \<Rightarrow> string option call \<times> PrivateKeyStore" where
  "private_getKey bt fs st =
     (if pk_key st = None \<and> inFile (es_path st) fs st
      then case private_load bt fs st of
             Returned st' \<Rightarrow> (Returned (pk_key st'), st')
           | c \<Rightarrow> (Thrown, st)
      else (Returned (pk_key st), st))"

definition new_PublicKeyStore :: "string option \<Rightarrow> PublicKeyStore" where
  "new_PublicKeyStore key = \<lparr>es_name = '''', es_filename = '''', es_path = ''.'', pub_key = key\<rparr>"

definition public_save_to ::
  "botan \<Rightarrow> (string \<Rightarrow> bool) \<Rightarrow> string \<Rightarrow> PublicKeyStore \<Rightarrow> files \<Rightarrow> files call" where
  "public_save_to bt writable dir st fs =
     (case pub_key st of
        None \<Rightarrow> Undefined
      | Some k \<Rightarrow> Returned (savePublicKeyToFile bt writable k (file_in dir st) fs))"

definition public_save :: "botan \<Rightarrow> (string \<Rightarrow> bool) \<Rightarrow> PublicKeyStore \<Rightarrow> files \<Rightarrow> files call" where
  "public_save bt writable st = public_save_to bt writable (es_path st) st"

definition public_load_from :: "botan \<Rightarrow> string \<Rightarrow> files \<Rightarrow> PublicKeyStore \<Rightarrow> PublicKeyStore call" where
  "public_load_from bt dir fs st =
     map_call (\<lambda>k. st\<lparr>pub_key := Some k\<rparr>) (getPublicKeyFromFile bt (file_in dir st) fs)"

definition public_load :: "botan \<Rightarrow> files \<Rightarrow> PublicKeyStore \<Rightarrow> PublicKeyStore call" where
  "public_load bt fs st = public_load_from bt (es_path st) fs st"

definition public_inMemory :: "PublicKeyStore \<Rightarrow> bool" where
  "public_inMemory st \<longleftrightarrow> pub_key st \<noteq> None"

definition public_setKey :: "string option \<Rightarrow> PublicKeyStore \<Rightarrow> PublicKeyStore" where
  "public_setKey key st = st\<lparr>pub_key := key\<rparr>"

definition public_getKey :: "botan \<Rightarrow> files \<Rightarrow> PublicKeyStore \<Rightarrow> string option call \<times> PublicKeyStore" where
  "public_getKey bt fs st =
     (if pub_key st = None \<and> inFile (es_path st) fs st
      then case public_load bt fs st of
             Returned st' \<Rightarrow> (Returned (pub_key st'), st')
           | c \<Rightarrow> (Thrown, st)
      else (Returned (pub_key st), st))"

definition new_CertificateStore :: "string option \<Rightarrow> CertificateStore" where
  "new_CertificateStore cert = \<lparr>es_name = '''', es_filename = '''', es_path = ''.'', cs_certificate = cert\<rparr>"

definition cert_save_to ::
  "botan \<Rightarrow> (string \<Rightarrow> bool) \<Rightarrow> string \<Rightarrow> CertificateStore \<Rightarrow> files \<Rightarrow> files call" where
  "cert_save_to bt writable dir st fs =
     (case cs_certificate st of
        None \<Rightarrow> Undefined
      | Some c \<Rightarrow> Returned (saveCertificateToFile bt writable c (file_in dir st) fs))"

definition cert_save :: "botan \<Rightarrow> (string \<Rightarrow> bool) \<Rightarrow> CertificateStore \<Rightarrow> files \<Rightarrow> files call" where
  "cert_save bt writable st = cert_save_to bt writable (es_path st) st"

definition cert_load_from :: "botan \<Rightarrow> string \<Rightarrow> files \<Rightarrow> CertificateStore \<Rightarrow> CertificateStore call" where
  "cert_load_from bt dir fs st =
     map_call (\<lambda>c. st\<lparr>cs_certificate := Some c\<rparr>) (getCertificateFromFile bt (file_in dir st) fs)"

definition cert_load :: "botan \<Rightarrow> files \<Rightarrow> CertificateStore \<Rightarrow> CertificateStore call" where
  "cert_load bt fs st = cert_load_from bt (es_path st) fs st"

definition cert_inMemory :: "CertificateStore \<Rightarrow> bool" where
  "cert_inMemory st \<longleftrightarrow> cs_certificate st \<noteq> None"

definition setCertificate :: "string option \<Rightarrow> CertificateStore \<Rightarrow> CertificateStore" where
  "setCertificate cert st = st\<lparr>cs_certificate := cert\<rparr>"

definition getCertificate :: "botan \<Rightarrow> files \<Rightarrow> CertificateStore \<Rightarrow> string option call \<times> CertificateStore" where
  "getCertificate bt fs st =
     (if cs_certificate st = None \<and> inFile (es_path st) fs st
      then case cert_load bt fs st of
             Returned st' \<Rightarrow> (Returned (cs_certificate st'), st')
           | c \<Rightarrow> (Thrown, st)
      else (Returned (cs_certificate st), st))"

subsection \<open>What is saved can be loaded\<close>

text \<open>Botan reads what it has written; a private key with the password it was written with.\<close>

definition botan_ok :: "botan \<Rightarrow> bool" where
  "botan_ok bt \<longleftrightarrow>
     (\<forall>k p. bt_private_key bt (bt_encrypted_pem bt k p) p = Some k) \<and>
     (\<forall>k. bt_private_key bt (bt_private_pem bt k) '''' = Some k) \<and>
     (\<forall>k. bt_public_key bt (bt_public_pem bt k) = Some k) \<and>
     (\<forall>c. bt_certificate bt (bt_certificate_pem bt c) = Some c)"

text \<open>The contract of a store with its directory: after saving, a store of the same name finds its
  element there.\<close>

locale disk_store =
  fixes lawful :: bool and element :: "'s \<Rightarrow> string option" and put :: "string option \<Rightarrow> 's \<Rightarrow> 's" and target :: "string \<Rightarrow> 's \<Rightarrow> string"
    and own :: "'s \<Rightarrow> string" and save :: "(string \<Rightarrow> bool) \<Rightarrow> string \<Rightarrow> 's \<Rightarrow> files \<Rightarrow> files call"
    and load :: "string \<Rightarrow> files \<Rightarrow> 's \<Rightarrow> 's call" and get :: "files \<Rightarrow> 's \<Rightarrow> string option call \<times> 's"
  assumes element_put: "element (put x st) = x" and put_put: "put x (put y st) = put x st"
    and put_element: "put (element st) st = st" and own_put: "own (put x st) = own st"
    and target_put: "target dir (put x st) = target dir st"
    and save_some: "lawful \<Longrightarrow> element st = Some k \<Longrightarrow> writable (target dir st) \<Longrightarrow>
      \<exists>text. save writable dir st fs = Returned (fs(target dir st \<mapsto> text)) \<and>
        (\<forall>fs'. fs' (target dir st) = Some text \<longrightarrow> load dir fs' (put None st) = Returned st)"
    and save_frame: "save writable dir st fs = Returned fs' \<Longrightarrow> f \<noteq> target dir st \<Longrightarrow> fs' f = fs f"
    and save_lost: "element st = Some k \<Longrightarrow> \<not> writable (target dir st) \<Longrightarrow> save writable dir st fs = Returned fs"
    and get_memory: "element st \<noteq> None \<Longrightarrow> get fs st = (Returned (element st), st)"
    and get_disk: "element st = None \<Longrightarrow> get fs st =
      (if fs (target (own st) st) = None then (Returned None, st)
       else case load (own st) fs st of Returned st' \<Rightarrow> (Returned (element st'), st') | c \<Rightarrow> (Thrown, st))"
begin

lemma saved_is_loaded:
  assumes "lawful" "element st = Some k" "writable (target dir st)"
  shows "\<exists>fs'. save writable dir st fs = Returned fs' \<and> load dir fs' (put None st) = Returned st"
  using save_some [of st k writable dir fs] assms by auto

lemma saved_is_found:
  assumes "lawful" "element st = Some k" "writable (target (own st) st)"
  shows "\<exists>fs'. save writable (own st) st fs = Returned fs' \<and> get fs' (put None st) = (Returned (Some k), st)"
proof -
  obtain pem where save: "save writable (own st) st fs = Returned (fs(target (own st) st \<mapsto> pem))"
    and load: "load (own st) (fs(target (own st) st \<mapsto> pem)) (put None st) = Returned st"
    using save_some [of st k writable "own st" fs] assms by auto
  have "get (fs(target (own st) st \<mapsto> pem)) (put None st) = (Returned (Some k), st)"
    using load assms(2) by (simp add: get_disk element_put own_put target_put)
  with save show ?thesis by blast
qed

lemma get_memory_put: "get fs (put (Some k) st) = (Returned (Some k), put (Some k) st)"
  by (simp add: get_memory element_put)

text \<open>A store whose file cannot be written keeps its element in memory only.\<close>

lemma lost_is_not_found:
  assumes "element st = Some k" "\<not> writable (target (own st) st)" "fs (target (own st) st) = None"
  shows "\<exists>fs'. save writable (own st) st fs = Returned fs' \<and> get fs' (put None st) = (Returned None, put None st)"
  using save_lost [of st k writable "own st" fs] assms by (simp add: get_disk element_put own_put target_put)

end

lemmas store_defs = write_file_def read_file_def file_in_def inFile_def
  savePrivateKeyToFile_def getPrivateKeyFromFile_def savePublicKeyToFile_def getPublicKeyFromFile_def
  saveCertificateToFile_def getCertificateFromFile_def
  private_save_to_def private_load_from_def private_load_def private_getKey_def private_setKey_def
  public_save_to_def public_load_from_def public_load_def public_getKey_def public_setKey_def
  cert_save_to_def cert_load_from_def cert_load_def getCertificate_def setCertificate_def

interpretation private_keys: disk_store "botan_ok bt" pk_key private_setKey file_in es_path
  "private_save_to bt" "private_load_from bt" "private_getKey bt" for bt
  by unfold_locales (auto simp: store_defs botan_ok_def split: option.splits call.split if_splits)

interpretation public_keys: disk_store "botan_ok bt" pub_key public_setKey file_in es_path
  "public_save_to bt" "public_load_from bt" "public_getKey bt" for bt
  by unfold_locales (auto simp: store_defs botan_ok_def split: option.splits call.split if_splits)

interpretation certificates: disk_store "botan_ok bt" cs_certificate setCertificate file_in es_path
  "cert_save_to bt" "cert_load_from bt" "getCertificate bt" for bt
  by unfold_locales (auto simp: store_defs botan_ok_def split: option.splits call.split if_splits)

end
