(* ===== verification/Client_Node.thy ===== *)
theory Client_Node
  imports Client_Connection Client_Stores "HOL-Library.AList"
begin

text \<open>
  \<^verbatim>\<open>Node\<close> (\<^verbatim>\<open>sercli/src/node.cpp\<close>): an account at a tracker as the client keeps it, and the requests a
  client sends for it. An operation takes the node and the world of the link and returns what the
  call does, the node afterwards and the world. \<open>ce_pkcs10\<close> stands for Botan's certificate requests,
  \<open>ce_files\<close> are the files as the call finds them.
\<close>

subsection \<open>State\<close>

record node =
  nd_desc :: NodeDescription
  nd_user :: MyUser
  nd_private_keys :: "PrivateKeyStore list"
  nd_free_certs :: "CertificateStore list"
  nd_net_certs :: "(string \<times> CertificateStore) list"
  nd_net_keys :: "(string \<times> PrivateKeyStore) list"
  nd_node_certs :: "CertificateStore list"
  nd_connection :: node_connection

record 'w client_env =
  ce_link :: "'w link"
  ce_resolves :: "NodeDescription \<Rightarrow> bool"
  ce_ser :: "ClientMessage \<Rightarrow> byte list"
  ce_parse :: "byte list \<Rightarrow> NodeMessage option"
  ce_pkcs10 :: "string \<Rightarrow> string \<Rightarrow> string \<Rightarrow> string \<Rightarrow> string \<Rightarrow> string"
  ce_botan :: botan
  ce_files :: files
  ce_from_string :: "string \<Rightarrow> string option"
  ce_indet :: "nat \<Rightarrow> Visibility"

text \<open>The hash maps of network certificates and keys compare networks by name, so they are association
  lists from names. Their order is that of insertion, where the code's is unspecified.\<close>

definition new_node_with :: "NodeDescription \<Rightarrow> MyUser \<Rightarrow> node" where
  "new_node_with node_desc user =
     \<lparr>nd_desc = node_desc, nd_user = user, nd_private_keys = [], nd_free_certs = [],
      nd_net_certs = [], nd_net_keys = [], nd_node_certs = [],
      nd_connection = new_node_connection\<rparr>"

definition new_node :: "NodeDescription \<Rightarrow> node" where
  "new_node node_desc = new_node_with node_desc (new_MyUser ''user'' ''password'' ''email'' False)"

definition isActive :: "node \<Rightarrow> bool" where
  "isActive n = nc_isActive (nd_connection n)"

definition isRegistered :: "node \<Rightarrow> bool" where
  "isRegistered n = mu_is_registered (nd_user n)"

definition node_isLogged :: "node \<Rightarrow> bool" where
  "node_isLogged n = is_logged (nd_connection n)"

definition set_logged :: "bool \<Rightarrow> node \<Rightarrow> node" where
  "set_logged b n = n\<lparr>nd_connection := (nd_connection n)\<lparr>is_logged := b\<rparr>\<rparr>"

definition set_cookie :: "string \<Rightarrow> node \<Rightarrow> node" where
  "set_cookie k n = n\<lparr>nd_connection := setCookie k (nd_connection n)\<rparr>"

definition cookie :: "node \<Rightarrow> string" where
  "cookie n = nc_cookie (nd_connection n)"

text \<open>\<^verbatim>\<open>None\<close>: \<^verbatim>\<open>NodeException\<close>.\<close>

definition setUser :: "MyUser \<Rightarrow> node \<Rightarrow> node option" where
  "setUser user n =
     (if isActive n then None
      else Some ((set_logged False (set_cookie '''' (n\<lparr>nd_user := user\<rparr>)))
             \<lparr>nd_free_certs := [], nd_net_certs := [], nd_private_keys := []\<rparr>))"

definition setNewDescription :: "NodeDescription \<Rightarrow> node \<Rightarrow> node option" where
  "setNewDescription node_desc n = (if isActive n then None else Some (n\<lparr>nd_desc := node_desc\<rparr>))"

text \<open>\<^verbatim>\<open>None\<close>: the exception of \<^verbatim>\<open>disconnect\<close>.\<close>

definition stopConnections :: "node \<Rightarrow> node option" where
  "stopConnections n =
     (if isActive n
      then map_option (\<lambda>nc. n\<lparr>nd_connection := nc\<rparr>) (nc_disconnect (nd_connection n)) else Some n)"

text \<open>The idle timer's handler for this node.\<close>

definition timer_handler :: "node \<Rightarrow> node" where
  "timer_handler n = n\<lparr>nd_connection := closeConnection (nd_connection n)\<rparr>"

subsection \<open>Sending a request\<close>

definition connect_node :: "'w client_env \<Rightarrow> node \<Rightarrow> 'w \<Rightarrow> bool \<times> node \<times> 'w" where
  "connect_node e n w =
     (case nc_connect (ce_link e) (ce_resolves e) (nd_desc n) (nd_connection n) w of
        (ok, nc, w') \<Rightarrow> (ok, n\<lparr>nd_connection := nc\<rparr>, w'))"

definition beforeMessage :: "'w client_env \<Rightarrow> node \<Rightarrow> 'w \<Rightarrow> NodeError \<times> node \<times> 'w" where
  "beforeMessage e n w =
     (if \<not> node_isLogged n then (NE_NOT_LOGGED, n, w)
      else case connect_node e n w of
             (True, n', w') \<Rightarrow> (NE_OK, n', w')
           | (False, n', w') \<Rightarrow> (NE_NO_CONNECTION, n', w'))"

text \<open>\<^verbatim>\<open>con->sendRequest(message).get()\<close> and what follows it: \<open>handle\<close> is the \<^verbatim>\<open>switch\<close> over the answer, \<open>r\<close>
  what the operation returns for \<^verbatim>\<open>SendException\<close>.\<close>

definition exchange ::
  "'w client_env \<Rightarrow> ClientMessage \<Rightarrow> 'r \<Rightarrow> (NodeMessage \<Rightarrow> node \<Rightarrow> 'r call \<times> node) \<Rightarrow> node \<Rightarrow> 'w \<Rightarrow>
   'r call \<times> node \<times> 'w" where
  "exchange e message r handle n w =
     (case nc_connection (nd_connection n) of
        None \<Rightarrow> (Undefined, n, w)
      | Some con \<Rightarrow>
          (case sendRequest (ce_link e) (ce_ser e) (ce_parse e) message con w of
             (answer, con', w') \<Rightarrow>
               (let n' = n\<lparr>nd_connection := (nd_connection n)\<lparr>nc_connection := Some con'\<rparr>\<rparr>
                in case answer of
                     SendException \<Rightarrow> (Returned r, n', w')
                   | No_Answer \<Rightarrow> (Blocked, n', w')
                   | Answer response \<Rightarrow> (case handle response n' of (c, n'') \<Rightarrow> (c, n'', w')))))"

text \<open>The opening of the operations that need a session: \<open>out\<close> makes the result from an error.\<close>

definition with_session ::
  "'w client_env \<Rightarrow> (NodeError \<Rightarrow> 'r) \<Rightarrow> (node \<Rightarrow> 'w \<Rightarrow> 'r call \<times> node \<times> 'w) \<Rightarrow> node \<Rightarrow> 'w \<Rightarrow>
   'r call \<times> node \<times> 'w" where
  "with_session e out body n w =
     (case beforeMessage e n w of
        (error, n', w') \<Rightarrow> if any error then (Returned (out error), n', w') else body n' w')"

text \<open>The last two cases of every \<^verbatim>\<open>switch\<close>: \<^verbatim>\<open>NOT_LOGGED\<close> drops the session and falls through.\<close>

definition refused :: "(NodeError \<Rightarrow> 'r) \<Rightarrow> NodeMessage \<Rightarrow> node \<Rightarrow> 'r call \<times> node" where
  "refused out response n =
     (Returned (out (getDefaultError (response_type response))),
      if response_type response = RT_NOT_LOGGED then set_logged False n else n)"

definition on_ok ::
  "(NodeError \<Rightarrow> 'r) \<Rightarrow> (NodeMessage \<Rightarrow> node \<Rightarrow> 'r call \<times> node) \<Rightarrow> NodeMessage \<Rightarrow> node \<Rightarrow> 'r call \<times> node" where
  "on_ok out ok response n =
     (if response_type response = RT_OK then ok response n else refused out response n)"

subsection \<open>Session and account\<close>

definition logIn :: "'w client_env \<Rightarrow> node \<Rightarrow> 'w \<Rightarrow> NodeError call \<times> node \<times> 'w" where
  "logIn e n w =
     (if node_isLogged n then (Returned NE_OK, n, w)
      else case connect_node e n w of
             (False, n', w') \<Rightarrow> (Returned NE_NO_CONNECTION, n', w')
           | (True, n', w') \<Rightarrow>
               exchange e (getLoginMessage (us_username (nd_user n')) (mu_password (nd_user n'))) NE_SEND_ERROR
                 (\<lambda>response n.
                    if response_type response = RT_OK
                    then (case login_response response of
                            Some loginResponse \<Rightarrow>
                              (case lr_cookie loginResponse of
                                 Some k \<Rightarrow>
                                   (Returned NE_OK,
                                    (set_logged True (set_cookie k n))
                                      \<lparr>nd_user := (nd_user n)\<lparr>mu_is_registered := True\<rparr>\<rparr>)
                               | None \<Rightarrow> (Returned NE_BAD_SERVER_RESPONSE, n))
                          | None \<Rightarrow> (Returned NE_BAD_SERVER_RESPONSE, n))
                    else (Returned (getDefaultError (response_type response)), n)) n' w')"

definition logOut :: "'w client_env \<Rightarrow> node \<Rightarrow> 'w \<Rightarrow> NodeError call \<times> node \<times> 'w" where
  "logOut e =
     with_session e (\<lambda>x. x) (\<lambda>n. exchange e (getLogoutMessage (cookie n)) NE_SEND_ERROR
       (\<lambda>response n.
          case response_type response of
            RT_OK \<Rightarrow> (Returned NE_OK, set_cookie '''' (set_logged False n))
          | RT_NOT_LOGGED \<Rightarrow> (Returned NE_OK, set_logged False n)
          | r \<Rightarrow> (Returned (getDefaultError r), n)) n)"

definition pem_name :: "node \<Rightarrow> nat \<Rightarrow> string" where
  "pem_name n i = no_node_name (nd_desc n) @ ''.'' @ digits i @ ''.pem''"

text \<open>The user counts as registered before the certificates are read.\<close>

definition store_registration :: "'w client_env \<Rightarrow> NodeMessage \<Rightarrow> node \<Rightarrow> NodeError call \<times> node" where
  "store_registration e response n =
     (let n = n\<lparr>nd_user := (nd_user n)\<lparr>mu_is_registered := True\<rparr>\<rparr>;
          (my_cert, node_cert) =
            (case register_response response of
               None \<Rightarrow> ('''', '''')
             | Some r \<Rightarrow> (str_of (rr_user_certificate r), str_of (rr_node_certificate r)))
      in case (bt_certificate (ce_botan e) my_cert, bt_certificate (ce_botan e) node_cert) of
           (Some my_x509, Some node_x509) \<Rightarrow>
             (let my_name = pem_name n (length (nd_free_certs n));
                  node_name = pem_name n (length (nd_node_certs n))
              in (Returned NE_OK,
                  n\<lparr>nd_node_certs := nd_node_certs n @
                      [setFilename node_name (setName node_name (new_CertificateStore (Some node_x509)))],
                    nd_free_certs := nd_free_certs n @
                      [setFilename my_name (setName my_name (new_CertificateStore (Some my_x509)))]\<rparr>))
         | _ \<Rightarrow> (Returned NE_BAD_SERVER_RESPONSE, n))"

text \<open>The first private key, or none; it is loaded when it is not in memory.\<close>

definition first_key :: "'w client_env \<Rightarrow> node \<Rightarrow> string option call \<times> node" where
  "first_key e n =
     (case nd_private_keys n of
        [] \<Rightarrow> (Returned None, n)
      | st # sts \<Rightarrow>
          (case private_getKey (ce_botan e) (ce_files e) st of
             (c, st') \<Rightarrow> (c, n\<lparr>nd_private_keys := st' # sts\<rparr>)))"

definition registerUser :: "'w client_env \<Rightarrow> node \<Rightarrow> 'w \<Rightarrow> NodeError call \<times> node \<times> 'w" where
  "registerUser e n w =
     (if isRegistered n then (Returned NE_OK, n, w)
      else case connect_node e n w of
             (False, n', w') \<Rightarrow> (Returned NE_NO_CONNECTION, n', w')
           | (True, n', w') \<Rightarrow>
               (case first_key e n' of
                  (Returned (Some priv_key), n'') \<Rightarrow>
                    (let pkcs10 = ce_pkcs10 e (us_username (nd_user n'')) (us_email (nd_user n''))
                                    (no_node_name (nd_desc n'')) '''' priv_key
                     in exchange e (getRegisterUserMessage (nd_user n'') pkcs10) NE_SEND_ERROR
                          (on_ok (\<lambda>x. x) (store_registration e)) n'' w')
                | (Returned None, n'') \<Rightarrow> (Returned NE_OTHER, n'', w')
                | (c, n'') \<Rightarrow> (Thrown, n'', w')))"

definition changePassword ::
  "'w client_env \<Rightarrow> string \<Rightarrow> node \<Rightarrow> 'w \<Rightarrow> NodeError call \<times> node \<times> 'w" where
  "changePassword e new_password =
     with_session e (\<lambda>x. x)
       (\<lambda>n. exchange e (getChangePasswordMessage (nd_user n) new_password (cookie n)) NE_SEND_ERROR
          (on_ok (\<lambda>x. x) (\<lambda>response n.
             (Returned NE_OK, n\<lparr>nd_user := (nd_user n)\<lparr>mu_password := new_password\<rparr>\<rparr>))) n)"

subsection \<open>Users\<close>

definition getUserInfo_node ::
  "'w client_env \<Rightarrow> NetworkDescription \<Rightarrow> string \<Rightarrow> node \<Rightarrow> 'w \<Rightarrow> (NodeError \<times> User) call \<times> node \<times> 'w" where
  "getUserInfo_node e network_desc username =
     (let out = (\<lambda>x. (x, \<lparr>us_username = '''', us_email = ''''\<rparr>))
      in with_session e out
           (\<lambda>n. exchange e (getUserInfoMessage network_desc username (cookie n)) (out NE_SEND_ERROR)
              (on_ok out (\<lambda>response n.
                 (Returned (NE_OK, \<lparr>us_username = username, us_email = ''''\<rparr>), n))) n))"

text \<open>The operations that only report success.\<close>

definition command ::
  "'w client_env \<Rightarrow> (string \<Rightarrow> ClientMessage) \<Rightarrow> node \<Rightarrow> 'w \<Rightarrow> NodeError call \<times> node \<times> 'w" where
  "command e message =
     with_session e (\<lambda>x. x)
       (\<lambda>n. exchange e (message (cookie n)) NE_SEND_ERROR
          (on_ok (\<lambda>x. x) (\<lambda>response n. (Returned NE_OK, n))) n)"

definition inviteUser ::
  "'w client_env \<Rightarrow> NetworkDescription \<Rightarrow> User \<Rightarrow> node \<Rightarrow> 'w \<Rightarrow> NodeError call \<times> node \<times> 'w" where
  "inviteUser e network_desc user = command e (getInviteUserMessage network_desc user)"

subsection \<open>Networks\<close>

definition read_descriptions :: "(nat \<Rightarrow> Visibility) \<Rightarrow> NetworkEntry list \<Rightarrow> NetworkDescription list" where
  "read_descriptions indet netList =
     map (\<lambda>i. getNetworkDescriptionFromProto (indet i) (netList ! i)) [0..<length netList]"

definition networks_query ::
  "'w client_env \<Rightarrow> (string \<Rightarrow> ClientMessage) \<Rightarrow> (NodeMessage \<Rightarrow> NetworkEntry list option) \<Rightarrow> node \<Rightarrow> 'w \<Rightarrow>
   (NodeError \<times> NetworkDescription list) call \<times> node \<times> 'w" where
  "networks_query e message field =
     (let out = (\<lambda>x. (x, []))
      in with_session e out
           (\<lambda>n. exchange e (message (cookie n)) (out NE_SEND_ERROR)
              (on_ok out (\<lambda>response n.
                 (Returned (NE_OK, read_descriptions (ce_indet e) (entries_of (field response))), n))) n))"

definition getNetworksList ::
  "'w client_env \<Rightarrow> node \<Rightarrow> 'w \<Rightarrow> (NodeError \<times> NetworkDescription list) call \<times> node \<times> 'w" where
  "getNetworksList e = networks_query e getListNetworksMessage list_networks_response"

definition getMyNetworks ::
  "'w client_env \<Rightarrow> node \<Rightarrow> 'w \<Rightarrow> (NodeError \<times> NetworkDescription list) call \<times> node \<times> 'w" where
  "getMyNetworks e = networks_query e getListMyNetworksMessage list_my_networks_response"

definition registerNetwork ::
  "'w client_env \<Rightarrow> NetworkDescription \<Rightarrow> node \<Rightarrow> 'w \<Rightarrow> NodeError call \<times> node \<times> 'w" where
  "registerNetwork e network_desc = command e (getCreateNetworkMessage network_desc)"

definition deleteNetwork_node ::
  "'w client_env \<Rightarrow> NetworkDescription \<Rightarrow> node \<Rightarrow> 'w \<Rightarrow> NodeError call \<times> node \<times> 'w" where
  "deleteNetwork_node e network_desc = command e (getDeleteNetworkMessage network_desc)"

subsection \<open>Servers\<close>

fun read_servers ::
  "(string \<Rightarrow> string option) \<Rightarrow> NetworkDescription \<Rightarrow> ServerEntry list \<Rightarrow> ServerDescription list option" where
  "read_servers from_string network_desc [] = Some []"
| "read_servers from_string network_desc (s # serverList) =
     (case getServerDescriptionFromProto from_string s network_desc of
        None \<Rightarrow> None
      | Some d \<Rightarrow> map_option (\<lambda>ds. d # ds) (read_servers from_string network_desc serverList))"

definition getServersList ::
  "'w client_env \<Rightarrow> NetworkDescription \<Rightarrow> node \<Rightarrow> 'w \<Rightarrow> (NodeError \<times> ServerDescription list) call \<times> node \<times> 'w" where
  "getServersList e network_desc =
     (let out = (\<lambda>x. (x, []))
      in with_session e out
           (\<lambda>n. exchange e (getListServersMessage network_desc (cookie n)) (out NE_SEND_ERROR)
              (on_ok out (\<lambda>response n.
                 (case read_servers (ce_from_string e) network_desc (entries_of (list_servers_response response)) of
                    None \<Rightarrow> (Thrown, n)
                  | Some servers \<Rightarrow> (Returned (NE_OK, servers), n)))) n))"

definition updateServer_node ::
  "'w client_env \<Rightarrow> NetworkDescription \<Rightarrow> int32 \<Rightarrow> node \<Rightarrow> 'w \<Rightarrow> (NodeError \<times> int32) call \<times> node \<times> 'w" where
  "updateServer_node e network_desc port =
     (let out = (\<lambda>x. (x, 0))
      in with_session e out
           (\<lambda>n. exchange e (getUpdateServerMessage network_desc port (cookie n)) (out NE_SEND_ERROR)
              (on_ok out (\<lambda>response n.
                 (Returned (NE_OK, int_of (update_server_response response)), n))) n))"

definition stopServer ::
  "'w client_env \<Rightarrow> NetworkDescription \<Rightarrow> node \<Rightarrow> 'w \<Rightarrow> NodeError call \<times> node \<times> 'w" where
  "stopServer e network_desc = command e (getStopServerMessage network_desc)"

subsection \<open>Certificates of networks\<close>

text \<open>The organisational unit of the request is read through the pointer without a check; the
  certificate of the answer is kept under the network's name.\<close>

definition store_certificate :: "'w client_env \<Rightarrow> NetworkDescription option \<Rightarrow> NodeMessage \<Rightarrow> node \<Rightarrow>
   (NodeError \<times> string option) call \<times> node" where
  "store_certificate e network_desc response n =
     (let certificate = str_of (sign_key_response response)
      in case bt_certificate (ce_botan e) certificate of
           Some x509 \<Rightarrow>
              (Returned (NE_OK, Some x509),
               case network_desc of
                 None \<Rightarrow> n
               | Some d \<Rightarrow>
                   let full_name = no_node_name (nd_desc n) @ ''.'' @ nw_network_name d
                   in n\<lparr>nd_net_certs := AList.update (nw_network_name d)
                        (setFilename (full_name @ ''.pem'') (setName full_name (new_CertificateStore (Some x509))))
                        (nd_net_certs n)\<rparr>)
         | None \<Rightarrow> (Returned (NE_BAD_SERVER_RESPONSE, None), n))"

definition signKey ::
  "'w client_env \<Rightarrow> string \<Rightarrow> NetworkDescription option \<Rightarrow> node \<Rightarrow> 'w \<Rightarrow>
   (NodeError \<times> string option) call \<times> node \<times> 'w" where
  "signKey e priv_key network_desc =
     (let out = (\<lambda>x. (x, None))
      in with_session e out
           (\<lambda>n w.
              if nd_private_keys n = [] then (Returned (out NE_OTHER), n, w)
              else case network_desc of
                     None \<Rightarrow> (Undefined, n, w)
                   | Some d \<Rightarrow>
                       (let pkcs10 = ce_pkcs10 e (us_username (nd_user n)) (us_email (nd_user n))
                                       (no_node_name (nd_desc n)) (nw_network_name d) priv_key
                        in exchange e (getSignKeyMessage pkcs10 network_desc (cookie n)) (out NE_SEND_ERROR)
                             (on_ok out (store_certificate e network_desc)) n w)))"

end
