(* ===== verification/Client_Account.thy ===== *)
theory Client_Account
  imports Client_Node
begin

text \<open>
  The node's operations over an arbitrary link: nothing is sent without a session, what every
  operation leaves of the node as it was, and a transition relation of all operations with its
  invariants.
\<close>

subsection \<open>Updates of a node\<close>

lemma node_updates [simp]:
  "nd_desc (set_logged b n) = nd_desc n" "nd_user (set_logged b n) = nd_user n"
  "nd_desc (set_cookie k n) = nd_desc n" "nd_user (set_cookie k n) = nd_user n"
  "nd_private_keys (set_logged b n) = nd_private_keys n" "nd_private_keys (set_cookie k n) = nd_private_keys n"
  "nd_free_certs (set_logged b n) = nd_free_certs n" "nd_free_certs (set_cookie k n) = nd_free_certs n"
  "nd_node_certs (set_logged b n) = nd_node_certs n" "nd_node_certs (set_cookie k n) = nd_node_certs n"
  "nd_net_certs (set_logged b n) = nd_net_certs n" "nd_net_certs (set_cookie k n) = nd_net_certs n"
  "node_isLogged (set_logged b n) = b" "node_isLogged (set_cookie k n) = node_isLogged n"
  "cookie (set_logged b n) = cookie n" "cookie (set_cookie k n) = k"
  "isActive (set_logged b n) = isActive n" "isActive (set_cookie k n) = isActive n"
  "isRegistered (set_logged b n) = isRegistered n" "isRegistered (set_cookie k n) = isRegistered n"
  "nc_socket_open (nd_connection (set_logged b n)) = nc_socket_open (nd_connection n)"
  "nc_socket_open (nd_connection (set_cookie k n)) = nc_socket_open (nd_connection n)"
  by (simp_all add: set_logged_def set_cookie_def setCookie_def node_isLogged_def cookie_def isActive_def
      isRegistered_def)

lemma node_field_updates [simp]:
  "node_isLogged (n\<lparr>nd_user := u\<rparr>) = node_isLogged n" "cookie (n\<lparr>nd_user := u\<rparr>) = cookie n"
  "isActive (n\<lparr>nd_user := u\<rparr>) = isActive n"
  "node_isLogged (n\<lparr>nd_node_certs := c, nd_free_certs := c'\<rparr>) = node_isLogged n"
  "node_isLogged (n\<lparr>nd_net_certs := m\<rparr>) = node_isLogged n"
  by (simp_all add: node_isLogged_def cookie_def isActive_def)

text \<open>What the connecting and the traffic of a request leave alone.\<close>

definition same_account :: "node \<Rightarrow> node \<Rightarrow> bool" where
  "same_account n n' \<longleftrightarrow>
     (\<exists>con. n' = n\<lparr>nd_connection := (nd_connection n)\<lparr>nc_connection := con\<rparr>\<rparr>)"

lemma same_account_refl [simp]: "same_account n n"
  unfolding same_account_def by (rule exI [of _ "nc_connection (nd_connection n)"]) simp

lemma same_account_trans: "same_account a b \<Longrightarrow> same_account b c \<Longrightarrow> same_account a c"
  by (auto simp: same_account_def)

lemma same_accountD:
  "same_account n n' \<Longrightarrow> nd_user n' = nd_user n \<and> nd_desc n' = nd_desc n \<and>
     nd_private_keys n' = nd_private_keys n \<and> nd_free_certs n' = nd_free_certs n \<and>
     nd_node_certs n' = nd_node_certs n \<and> nd_net_certs n' = nd_net_certs n \<and>
     node_isLogged n' = node_isLogged n \<and> cookie n' = cookie n \<and> isRegistered n' = isRegistered n \<and>
     nc_socket_open (nd_connection n') = nc_socket_open (nd_connection n)"
  by (auto simp: same_account_def node_isLogged_def cookie_def isRegistered_def)

lemma same_account_connect: "connect_node e n w = (ok, n', w') \<Longrightarrow> same_account n n'"
proof -
  have id: "same_account n (n\<lparr>nd_connection := nd_connection n\<rparr>)"
    by simp
  have new: "same_account n (n\<lparr>nd_connection := (nd_connection n)\<lparr>nc_connection := con\<rparr>\<rparr>)" for con
    by (auto simp: same_account_def)
  assume "connect_node e n w = (ok, n', w')"
  then show ?thesis
    using id new by (auto simp: connect_node_def nc_connect_def split: prod.splits if_splits bool.splits)
qed

lemma same_account_before: "beforeMessage e n w = (r, n', w') \<Longrightarrow> same_account n n'"
  by (auto simp: beforeMessage_def split: if_splits prod.splits bool.splits dest: same_account_connect)

lemma before_not_logged [simp]: "\<not> node_isLogged n \<Longrightarrow> beforeMessage e n w = (NE_NOT_LOGGED, n, w)"
  by (simp add: beforeMessage_def)

lemma with_session_not_logged:
  "\<not> node_isLogged n \<Longrightarrow> with_session e out body n w = (Returned (out NE_NOT_LOGGED), n, w)"
  by (simp add: with_session_def any_def)

text \<open>Every way an exchange can end.\<close>

lemma exchange_cases:
  assumes "exchange e m r handle n w = (c, n', w')"
  obtains (null) "c = Undefined" "n' = n"
    | (unsent) "c = Returned r" "same_account n n'"
    | (silent) "c = Blocked" "same_account n n'"
    | (answered) response n0 where "same_account n n0" "handle response n0 = (c, n')"
proof -
  have con: "same_account n (n\<lparr>nd_connection := (nd_connection n)\<lparr>nc_connection := con\<rparr>\<rparr>)" for con
    by (auto simp: same_account_def)
  show thesis
    using assms that con
    by (auto simp: exchange_def Let_def split: option.splits prod.splits answer.splits)
qed

lemma with_session_cases:
  assumes "with_session e out body n w = (c, n', w')"
  obtains (refused) err where "c = Returned (out err)" "err \<noteq> NE_OK" "same_account n n'"
    | (allowed) n0 w0 where "node_isLogged n" "same_account n n0" "body n0 w0 = (c, n', w')"
proof -
  obtain err n0 w0 where b: "beforeMessage e n w = (err, n0, w0)" by (metis prod_cases3)
  show thesis
  proof (cases "err = NE_OK")
    case True
    then have "node_isLogged n" using b by (auto simp: beforeMessage_def split: if_splits)
    with True assms b same_account_before [OF b] that(2) show thesis
      by (simp add: with_session_def any_def)
  next
    case False
    then have "(Returned (out err), n0, w0) = (c, n', w')"
      using assms b by (simp add: with_session_def any_def)
    with False same_account_before [OF b] show thesis
      by (intro that(1) [of err]) simp_all
  qed
qed

subsection \<open>What an operation keeps\<close>

lemma on_ok_keeps:
  assumes "on_ok out ok response n = (c, n')" "P n" "\<And>a. P a \<Longrightarrow> P (set_logged False a)"
    and "\<And>c b. ok response n = (c, b) \<Longrightarrow> P b"
  shows "P n'"
  using assms by (auto simp: on_ok_def refused_def split: if_splits)

lemma exchange_keeps:
  assumes "exchange e m r handle n w = (c, n', w')" "P n" "\<And>a b. same_account a b \<Longrightarrow> P a \<Longrightarrow> P b"
    and "\<And>response a c b. P a \<Longrightarrow> same_account n a \<Longrightarrow> handle response a = (c, b) \<Longrightarrow> P b"
  shows "P n'"
  using assms(1)
proof (cases rule: exchange_cases)
  case null
  then show ?thesis using assms(2) by simp
next
  case unsent
  then show ?thesis using assms(2,3) by blast
next
  case silent
  then show ?thesis using assms(2,3) by blast
next
  case (answered response n0)
  then show ?thesis using assms(4) [OF assms(3) [OF answered(1) assms(2)]] by blast
qed

lemma session_keeps:
  assumes "with_session e out body n w = (c, n', w')" "P n" "\<And>a b. same_account a b \<Longrightarrow> P a \<Longrightarrow> P b"
    and "\<And>a v. P a \<Longrightarrow> same_account n a \<Longrightarrow> node_isLogged a \<Longrightarrow> body a v = (c, n', w') \<Longrightarrow> P n'"
  shows "P n'"
  using assms(1)
proof (cases rule: with_session_cases)
  case refused
  then show ?thesis using assms(2,3) by blast
next
  case (allowed n0 w0)
  with assms(4) [OF assms(3) [OF allowed(2) assms(2)]] same_accountD [OF allowed(2)]
  show ?thesis by simp
qed

subsection \<open>All operations as one relation\<close>

datatype client_op =
    Op_logIn | Op_logOut | Op_registerUser | Op_changePassword string
  | Op_getUserInfo NetworkDescription string | Op_inviteUser NetworkDescription User
  | Op_getNetworksList | Op_getMyNetworks | Op_getServersList NetworkDescription
  | Op_registerNetwork NetworkDescription | Op_deleteNetwork NetworkDescription
  | Op_updateServer NetworkDescription int32 | Op_stopServer NetworkDescription
  | Op_signKey string "NetworkDescription option"

definition forget :: "'r call \<times> node \<times> 'w \<Rightarrow> unit call \<times> node \<times> 'w" where
  "forget x = (map_call (\<lambda>_. ()) (fst x), snd x)"

fun run_op :: "'w client_env \<Rightarrow> client_op \<Rightarrow> node \<Rightarrow> 'w \<Rightarrow> unit call \<times> node \<times> 'w" where
  "run_op e Op_logIn n w = forget (logIn e n w)"
| "run_op e Op_logOut n w = forget (logOut e n w)"
| "run_op e Op_registerUser n w = forget (registerUser e n w)"
| "run_op e (Op_changePassword p) n w = forget (changePassword e p n w)"
| "run_op e (Op_getUserInfo d u) n w = forget (getUserInfo_node e d u n w)"
| "run_op e (Op_inviteUser d u) n w = forget (inviteUser e d u n w)"
| "run_op e Op_getNetworksList n w = forget (getNetworksList e n w)"
| "run_op e Op_getMyNetworks n w = forget (getMyNetworks e n w)"
| "run_op e (Op_getServersList d) n w = forget (getServersList e d n w)"
| "run_op e (Op_registerNetwork d) n w = forget (registerNetwork e d n w)"
| "run_op e (Op_deleteNetwork d) n w = forget (deleteNetwork_node e d n w)"
| "run_op e (Op_updateServer d p) n w = forget (updateServer_node e d p n w)"
| "run_op e (Op_stopServer d) n w = forget (stopServer e d n w)"
| "run_op e (Op_signKey k d) n w = forget (signKey e k d n w)"

text \<open>Besides calling operations, the application changes the account or the description, and writes what it
  likes into the stores of keys and certificates, to which \<^verbatim>\<open>getMyKeys\<close>, \<^verbatim>\<open>getNodeCerts\<close>, \<^verbatim>\<open>getFreeCerts\<close>,
  \<^verbatim>\<open>getNetworkCerts\<close> and \<^verbatim>\<open>getNetworkKeys\<close> give it references; the timer's handler and the rest of the
  world run.\<close>

inductive client_step :: "'w client_env \<Rightarrow> node \<times> 'w \<Rightarrow> node \<times> 'w \<Rightarrow> bool" for e where
  cl_op: "run_op e op n w = (c, n', w') \<Longrightarrow> client_step e (n, w) (n', w')"
| cl_user: "setUser u n = Some n' \<Longrightarrow> client_step e (n, w) (n', w)"
| cl_description: "setNewDescription d n = Some n' \<Longrightarrow> client_step e (n, w) (n', w)"
| cl_stores: "client_step e (n, w) (n\<lparr>nd_private_keys := keys, nd_node_certs := certs, nd_free_certs := free,
    nd_net_certs := net_certs, nd_net_keys := net_keys\<rparr>, w)"
| cl_timer: "client_step e (n, w) (timer_handler n, w)"
| cl_world: "client_step e (n, w) (n, w')"

inductive client_reach :: "'w client_env \<Rightarrow> node \<times> 'w \<Rightarrow> bool" for e where
  cr_new: "client_reach e (new_node d, w)"
| cr_new_user: "client_reach e (new_node_with d u, w)"
| cr_step: "client_reach e x \<Longrightarrow> client_step e x y \<Longrightarrow> client_reach e y"

text \<open>Only a registered account has a session, and an account that is not registered has the certificates
  \<open>K\<close>: no operation gives it others. The socket of the connection stays closed.\<close>

definition node_ok :: "CertificateStore list \<times> (string \<times> CertificateStore) list \<Rightarrow> node \<Rightarrow> bool" where
  "node_ok K n \<longleftrightarrow>
     (node_isLogged n \<longrightarrow> isRegistered n) \<and>
     (\<not> isRegistered n \<longrightarrow> (nd_free_certs n, nd_net_certs n) = K) \<and>
     \<not> nc_socket_open (nd_connection n)"

lemma node_ok_same: "same_account a b \<Longrightarrow> node_ok K a \<Longrightarrow> node_ok K b"
  using same_accountD [of a b] by (simp add: node_ok_def)

lemma node_ok_logged_out: "node_ok K a \<Longrightarrow> node_ok K (set_logged False a)"
  by (simp add: node_ok_def)

lemma node_ok_new: "node_ok ([], []) (new_node_with d u)" "node_ok ([], []) (new_node d)"
  by (simp_all add: node_ok_def new_node_def new_node_with_def node_isLogged_def new_node_connection_def)

lemmas node_ok_keeps = node_ok_same node_ok_logged_out

text \<open>An operation in a session whose success leaves the account alone.\<close>

lemma query_keeps_ok:
  assumes "with_session e out (\<lambda>n. exchange e (m n) r (on_ok out ok) n) n w = (c, n', w')" "node_ok K n"
    and "\<And>response a c b. node_isLogged a \<Longrightarrow> node_ok K a \<Longrightarrow> ok response a = (c, b) \<Longrightarrow> node_ok K b"
  shows "node_ok K n'"
proof (rule session_keeps [where P = "node_ok K", OF assms(1,2) node_ok_same])
  fix a v
  assume a: "node_ok K a" "node_isLogged a" and ex: "exchange e (m a) r (on_ok out ok) a v = (c, n', w')"
  show "node_ok K n'"
  proof (rule exchange_keeps [where P = "node_ok K", OF ex a(1) node_ok_same])
    fix response b c b'
    assume b: "node_ok K b" "same_account a b" "on_ok out ok response b = (c, b')"
    from b(3) b(1) node_ok_logged_out show "node_ok K b'"
    proof (rule on_ok_keeps)
      show "node_ok K d" if "ok response b = (c', d)" for c' d
        using that assms(3) b(1,2) a(2) same_accountD by metis
    qed
  qed
qed

subsection \<open>The invariant\<close>

lemma forget_iff: "forget x = (c, n', w') \<longleftrightarrow> (\<exists>c0. x = (c0, n', w') \<and> c = map_call (\<lambda>_. ()) c0)"
  by (cases x) (auto simp: forget_def)

lemma logIn_ok: "logIn e n w = (c, n', w') \<Longrightarrow> node_ok K n \<Longrightarrow> node_ok K n'"
proof (cases "node_isLogged n")
  case False
  assume op: "logIn e n w = (c, n', w')" and ok: "node_ok K n"
  obtain b n1 w1 where con: "connect_node e n w = (b, n1, w1)" by (metis prod_cases3)
  have ok1: "node_ok K n1" using node_ok_same [OF same_account_connect [OF con] ok] .
  show ?thesis
  proof (cases b)
    case True
    note op = op [unfolded logIn_def, simplified False con True, simplified]
    show ?thesis
      by (rule exchange_keeps [where P = "node_ok K", OF op ok1 node_ok_same])
        (auto simp: node_ok_def isRegistered_def split: if_splits option.splits)
  next
    case no: False
    then show ?thesis using op ok1 False con by (simp add: logIn_def)
  qed
qed (simp add: logIn_def)

lemma logOut_ok: "logOut e n w = (c, n', w') \<Longrightarrow> node_ok K n \<Longrightarrow> node_ok K n'"
  unfolding logOut_def
proof (erule session_keeps [where P = "node_ok K", OF _ _ node_ok_same], assumption+)
  fix a v
  assume a: "node_ok K a" and op: "exchange e (getLogoutMessage (cookie a)) NE_SEND_ERROR
       (\<lambda>response n.
          case response_type response of
            RT_OK \<Rightarrow> (Returned NE_OK, set_cookie '''' (set_logged False n))
          | RT_NOT_LOGGED \<Rightarrow> (Returned NE_OK, set_logged False n)
          | r \<Rightarrow> (Returned (getDefaultError r), n)) a v = (c, n', w')"
  show "node_ok K n'"
    by (rule exchange_keeps [where P = "node_ok K", OF op a node_ok_same])
      (auto simp: node_ok_def split: ResponseType.splits)
qed

lemma node_ok_stored: "node_ok K n \<Longrightarrow> node_ok K (snd (store_registration e response n))"
  by (simp add: store_registration_def Let_def isRegistered_def node_ok_def split: prod.split option.split)

lemma registerUser_ok: "registerUser e n w = (c, n', w') \<Longrightarrow> node_ok K n \<Longrightarrow> node_ok K n'"
proof (cases "isRegistered n")
  case False
  assume op: "registerUser e n w = (c, n', w')" and ok: "node_ok K n"
  obtain b n1 w1 where con: "connect_node e n w = (b, n1, w1)" by (metis prod_cases3)
  have ok1: "node_ok K n1" using node_ok_same [OF same_account_connect [OF con] ok] .
  have stored: "node_ok K b" if "store_registration e response a = (c', b)" "node_ok K a" for response a c' b
    using that node_ok_stored [of K a e response] by simp
  obtain c1 n2 where key: "first_key e n1 = (c1, n2)" by fastforce
  have ok2: "node_ok K n2"
    using key ok1 by (auto simp: first_key_def node_ok_def node_isLogged_def isRegistered_def split: list.splits prod.splits)
  show ?thesis
  proof (cases "b \<and> (\<exists>k. c1 = Returned (Some k))")
    case True
    then obtain k where c1: "c1 = Returned (Some k)" and b: "b" by auto
    from op obtain m where op: "exchange e m NE_SEND_ERROR (on_ok (\<lambda>x. x) (store_registration e)) n2 w1 = (c, n', w')"
      by (simp add: registerUser_def Let_def False con b key c1)
    show ?thesis
    proof (rule exchange_keeps [where P = "node_ok K", OF op ok2])
      show "node_ok K a'" if "node_ok K a" "on_ok (\<lambda>x. x) (store_registration e) response a = (c', a')"
        for response a c' a'
        using on_ok_keeps [where P = "node_ok K", OF that(2,1) node_ok_logged_out] stored that(1) by blast
    qed (rule node_ok_same)
  next
    case no: False
    then show ?thesis
      using op ok1 ok2 False con key
      by (cases b; cases c1) (auto simp: registerUser_def split: option.splits)
  qed
qed (simp add: registerUser_def)

lemma changePassword_ok: "changePassword e p n w = (c, n', w') \<Longrightarrow> node_ok K n \<Longrightarrow> node_ok K n'"
  unfolding changePassword_def
  by (rule query_keeps_ok) (auto simp: node_ok_def isRegistered_def)

lemma command_ok: "command e m n w = (c, n', w') \<Longrightarrow> node_ok K n \<Longrightarrow> node_ok K n'"
  unfolding command_def by (rule query_keeps_ok) auto

lemma networks_query_ok: "networks_query e m f n w = (c, n', w') \<Longrightarrow> node_ok K n \<Longrightarrow> node_ok K n'"
  unfolding networks_query_def Let_def by (rule query_keeps_ok) auto

lemma getUserInfo_node_ok: "getUserInfo_node e d u n w = (c, n', w') \<Longrightarrow> node_ok K n \<Longrightarrow> node_ok K n'"
  unfolding getUserInfo_node_def Let_def by (rule query_keeps_ok) auto

lemma getServersList_ok: "getServersList e d n w = (c, n', w') \<Longrightarrow> node_ok K n \<Longrightarrow> node_ok K n'"
  unfolding getServersList_def Let_def by (rule query_keeps_ok) (auto split: option.splits)

lemma updateServer_node_ok: "updateServer_node e d p n w = (c, n', w') \<Longrightarrow> node_ok K n \<Longrightarrow> node_ok K n'"
  unfolding updateServer_node_def Let_def by (rule query_keeps_ok) auto

lemma signKey_ok: "signKey e k d n w = (c, n', w') \<Longrightarrow> node_ok K n \<Longrightarrow> node_ok K n'"
  unfolding signKey_def Let_def
proof (erule session_keeps [where P = "node_ok K", OF _ _ node_ok_same], assumption+)
  fix a v
  assume a: "node_ok K a" "node_isLogged a"
    and op: "(if nd_private_keys a = [] then (Returned (NE_OTHER, None), a, v)
      else case d of None \<Rightarrow> (Undefined, a, v)
           | Some d' \<Rightarrow>
               exchange e
                (getSignKeyMessage (ce_pkcs10 e (us_username (nd_user a)) (us_email (nd_user a))
                   (no_node_name (nd_desc a)) (nw_network_name d') k) d (cookie a))
                (NE_SEND_ERROR, None) (on_ok (\<lambda>x. (x, None)) (store_certificate e d)) a v) = (c, n', w')"
  have stored: "node_ok K b'" if "store_certificate e d response b = (c', b')" "node_ok K b" "isRegistered b"
    for response b c' b'
    using that by (auto simp: store_certificate_def Let_def node_ok_def isRegistered_def split: if_splits option.splits)
  have reg: "isRegistered a" using a by (simp add: node_ok_def)
  show "node_ok K n'"
  proof (cases "nd_private_keys a = [] \<or> d = None")
    case True
    then show ?thesis using op a by (auto split: if_splits)
  next
    case False
    then obtain m where ex: "exchange e m (NE_SEND_ERROR, None)
        (on_ok (\<lambda>x. (x, None)) (store_certificate e d)) a v = (c, n', w')"
      using op by (auto split: option.splits)
    show ?thesis
    proof (rule exchange_keeps [where P = "node_ok K", OF ex a(1) node_ok_same])
      fix response b c' b'
      assume b: "node_ok K b" "same_account a b" "on_ok (\<lambda>x. (x, None)) (store_certificate e d) response b = (c', b')"
      have "isRegistered b" using same_accountD [OF b(2)] reg by simp
      then show "node_ok K b'"
        using on_ok_keeps [where P = "node_ok K", OF b(3,1) node_ok_logged_out] stored b(1) by blast
    qed
  qed
qed

lemmas op_defs = inviteUser_def getNetworksList_def getMyNetworks_def registerNetwork_def
  deleteNetwork_node_def stopServer_def

lemmas op_oks = logIn_ok logOut_ok registerUser_ok changePassword_ok getUserInfo_node_ok command_ok
  networks_query_ok getServersList_ok updateServer_node_ok signKey_ok

lemma run_op_ok: "run_op e op n w = (c, n', w') \<Longrightarrow> node_ok K n \<Longrightarrow> node_ok K n'"
  by (cases op) (auto simp: forget_iff op_defs intro: op_oks)

lemma setUser_empties: "setUser u n = Some n' \<Longrightarrow> nd_free_certs n' = [] \<and> nd_net_certs n' = [] \<and> \<not> node_isLogged n'"
  by (auto simp: setUser_def node_isLogged_def set_logged_def split: if_splits)

definition account_ok :: "node \<Rightarrow> bool" where
  "account_ok n \<longleftrightarrow> (node_isLogged n \<longrightarrow> isRegistered n) \<and> \<not> nc_socket_open (nd_connection n)"

lemma account_ok_iff: "account_ok n \<longleftrightarrow> node_ok (nd_free_certs n, nd_net_certs n) n"
  by (simp add: account_ok_def node_ok_def)

lemma run_op_session: "run_op e op n w = (c, n', w') \<Longrightarrow> account_ok n \<Longrightarrow> account_ok n'"
  unfolding account_ok_iff using run_op_ok [of e op n w c n' w'] by (auto simp: node_ok_def)

lemma client_step_ok: "client_step e x y \<Longrightarrow> account_ok (fst x) \<Longrightarrow> account_ok (fst y)"
proof (induction rule: client_step.induct)
  case (cl_user u n n' w)
  then show ?case
    by (auto simp: setUser_def account_ok_def node_isLogged_def set_logged_def split: if_splits)
next
  case (cl_description d n n' w)
  then show ?case
    by (auto simp: setNewDescription_def account_ok_def node_isLogged_def isRegistered_def split: if_splits)
next
  case (cl_timer n w)
  then show ?case
    by (simp add: timer_handler_def closeConnection_def account_ok_def node_isLogged_def isRegistered_def)
next
  case (cl_op op n w c n' w')
  then show ?case using run_op_session by simp
qed (auto simp: account_ok_def node_isLogged_def isRegistered_def)

lemma client_reach_ok: "client_reach e x \<Longrightarrow> account_ok (fst x)"
proof (induction rule: client_reach.induct)
  case (cr_step x y)
  then show ?case using client_step_ok by blast
qed (use node_ok_new in \<open>auto simp: account_ok_def node_ok_def\<close>)

end
