(* ===== verification/Client_Service.thy ===== *)
theory Client_Service
  imports Client_Account
begin

text \<open>
  What the node's operations rely on: a server that accepts connections and answers every request
  that fits with one framed message, cut into chunks in any way, and then closes. Under this
  contract an operation is the server's answer followed by the client's \<^verbatim>\<open>switch\<close>, and no call blocks.
\<close>

definition connected :: "node \<Rightarrow> node" where
  "connected n =
     n\<lparr>nd_connection := (nd_connection n)\<lparr>nc_connection := Some \<lparr>is_active = True, cc_parser = new_parser\<rparr>\<rparr>\<rparr>"

lemma same_account_connected: "same_account n (connected n)"
  by (auto simp: same_account_def connected_def)

lemma connected_simps [simp]:
  "nd_user (connected n) = nd_user n" "nd_desc (connected n) = nd_desc n"
  "nd_private_keys (connected n) = nd_private_keys n" "node_isLogged (connected n) = node_isLogged n"
  "cookie (connected n) = cookie n" "isRegistered (connected n) = isRegistered n"
  "nd_free_certs (connected n) = nd_free_certs n" "nd_node_certs (connected n) = nd_node_certs n"
  "nd_net_certs (connected n) = nd_net_certs n" "isActive (connected n)"
  using same_accountD [OF same_account_connected [of n]] by (simp_all add: isActive_def connected_def)

lemma connected_connection [simp]:
  "nc_connection (nd_connection (connected n)) = Some \<lparr>is_active = True, cc_parser = new_parser\<rparr>"
  by (simp add: connected_def)

lemma first_key_connected: "first_key e (connected n) = (fst (first_key e n), connected (snd (first_key e n)))"
  by (simp add: first_key_def connected_def split: list.split prod.split)

lemma first_key_same:
  "first_key e n = (c, n') \<Longrightarrow> nd_user n' = nd_user n \<and> nd_desc n' = nd_desc n \<and> isActive n' = isActive n \<and>
     node_isLogged n' = node_isLogged n \<and> isRegistered n' = isRegistered n \<and> nd_connection n' = nd_connection n"
  by (auto simp: first_key_def isActive_def node_isLogged_def isRegistered_def split: list.splits prod.splits)

text \<open>The request an operation sends, if it gets that far.\<close>

fun op_message :: "'w client_env \<Rightarrow> client_op \<Rightarrow> node \<Rightarrow> ClientMessage option" where
  "op_message e Op_logIn n =
     (if node_isLogged n then None
      else Some (getLoginMessage (us_username (nd_user n)) (mu_password (nd_user n))))"
| "op_message e Op_registerUser n =
     (if isRegistered n then None
      else case fst (first_key e n) of
             Returned (Some k) \<Rightarrow> Some (getRegisterUserMessage (nd_user n)
               (ce_pkcs10 e (us_username (nd_user n)) (us_email (nd_user n)) (no_node_name (nd_desc n)) [] k))
           | _ \<Rightarrow> None)"
| "op_message e (Op_signKey k d) n =
     (if \<not> node_isLogged n \<or> nd_private_keys n = [] then None
      else case d of
             None \<Rightarrow> None
           | Some d' \<Rightarrow> Some (getSignKeyMessage
               (ce_pkcs10 e (us_username (nd_user n)) (us_email (nd_user n)) (no_node_name (nd_desc n))
                  (nw_network_name d') k) d (cookie n)))"
| "op_message e op n =
     (if \<not> node_isLogged n then None
      else Some (case op of
        Op_changePassword p \<Rightarrow> getChangePasswordMessage (nd_user n) p (cookie n)
      | Op_getUserInfo d u \<Rightarrow> getUserInfoMessage d u (cookie n)
      | Op_inviteUser d u \<Rightarrow> getInviteUserMessage d u (cookie n)
      | Op_getNetworksList \<Rightarrow> getListNetworksMessage (cookie n)
      | Op_getMyNetworks \<Rightarrow> getListMyNetworksMessage (cookie n)
      | Op_getServersList d \<Rightarrow> getListServersMessage d (cookie n)
      | Op_registerNetwork d \<Rightarrow> getCreateNetworkMessage d (cookie n)
      | Op_deleteNetwork d \<Rightarrow> getDeleteNetworkMessage d (cookie n)
      | Op_updateServer d port \<Rightarrow> getUpdateServerMessage d port (cookie n)
      | Op_stopServer d \<Rightarrow> getStopServerMessage d (cookie n)
      | _ \<Rightarrow> getLogoutMessage (cookie n)))"

text \<open>A \<^verbatim>\<open>switch\<close> that returns on every answer.\<close>

definition returns :: "(NodeMessage \<Rightarrow> node \<Rightarrow> 'r call \<times> node) \<Rightarrow> bool" where
  "returns handle \<longleftrightarrow> (\<forall>response n. \<exists>r. fst (handle response n) = Returned r)"

lemma returns_on_ok: "returns ok \<Longrightarrow> returns (on_ok out ok)"
  by (simp add: returns_def on_ok_def refused_def)

lemma returns_const: "returns (\<lambda>response n. (Returned (f response n), g response n))"
  by (simp add: returns_def)

lemma returns_store_registration: "returns (store_registration e)"
  by (auto simp: returns_def store_registration_def Let_def split: prod.split option.split)

lemma returns_store_certificate: "returns (store_certificate e d)"
  by (auto simp: returns_def store_certificate_def Let_def split: option.split)

lemmas returns_intros = returns_on_ok returns_const returns_store_registration returns_store_certificate

text \<open>What an operation comes to that sends its request: it returns with the world \<open>w'\<close>.\<close>

definition runs :: "'w client_env \<Rightarrow> client_op \<Rightarrow> node \<Rightarrow> 'w \<Rightarrow> 'w \<Rightarrow> bool" where
  "runs e op n w w' \<longleftrightarrow>
     (\<exists>c n'. run_op e op n w = (c, n', w') \<and>
        (c = Returned () \<or> c = Thrown \<and> (\<exists>d. op = Op_getServersList d)))"

lemma runs_returned: "\<exists>n'. run_op e op n w = (Returned (), n', w') \<Longrightarrow> runs e op n w w'"
  by (auto simp: runs_def)

locale node_service =
  fixes e :: "'w client_env"
    and dial :: "'w \<Rightarrow> 'w"
    and serve :: "ClientMessage \<Rightarrow> 'w \<Rightarrow> NodeMessage \<times> 'w"
    and up :: "'w \<Rightarrow> bool"
    and ok :: "'w \<Rightarrow> bool"
    and fits :: "ClientMessage \<Rightarrow> 'w \<Rightarrow> bool"
  assumes connects: "ok w \<Longrightarrow> lk_connect (ce_link e) d w = (True, dial w) \<and> ok (dial w) \<and> up (dial w)"
    and answers: "ok w \<Longrightarrow> up w \<Longrightarrow> fits m w \<Longrightarrow> \<exists>chunks body.
      lk_send (ce_link e) (framed (ce_ser e m)) w = (Received chunks Read_Fails, snd (serve m w)) \<and>
      concat chunks = framed body \<and> length body < 2 ^ 31 \<and> ce_parse e body = Some (fst (serve m w)) \<and>
      ok (snd (serve m w))"
begin

lemma connect_served:
  "\<not> isActive n \<Longrightarrow> ce_resolves e (nd_desc n) \<Longrightarrow> ok w \<Longrightarrow> connect_node e n w = (True, connected n, dial w)"
  using connects by (simp add: connect_node_def nc_connect_def isActive_def connected_def)

lemma sendRequest_served:
  assumes "ok w" "up w" "fits m w"
  shows "sendRequest (ce_link e) (ce_ser e) (ce_parse e) m \<lparr>is_active = True, cc_parser = new_parser\<rparr> w =
    (Answer (fst (serve m w)), \<lparr>is_active = True, cc_parser = new_parser\<rparr>, snd (serve m w))"
proof -
  obtain chunks body where sent:
      "lk_send (ce_link e) (framed (ce_ser e m)) w = (Received chunks Read_Fails, snd (serve m w))"
    and body: "concat chunks = framed body" "length body < 2 ^ 31" "ce_parse e body = Some (fst (serve m w))"
    using answers [OF assms] by blast
  have "framed body \<noteq> []" by (simp flip: length_0_conv)
  then have "readMessage (ce_parse e) chunks Read_Fails \<lparr>is_active = True, cc_parser = new_parser\<rparr> =
      (Answer (fst (serve m w)), \<lparr>is_active = True, cc_parser = new_parser\<rparr>)"
    using readMessage_at [OF body(2), of "[]" chunks "ce_parse e" Read_Fails
        "\<lparr>is_active = True, cc_parser = new_parser\<rparr>"] body by simp
  then show ?thesis by (simp add: sendRequest_def send_bytes_framed sent)
qed

lemma exchange_served:
  assumes "ok w" "up w" "fits m w"
  shows "exchange e m r handle (connected n) w =
    (case handle (fst (serve m w)) (connected n) of (c, n') \<Rightarrow> (c, n', snd (serve m w)))"
  using sendRequest_served [OF assms] by (simp add: exchange_def connected_def)

lemma serve_ok: "ok w \<Longrightarrow> up w \<Longrightarrow> fits m w \<Longrightarrow> ok (snd (serve m w))"
  using answers by blast

lemma with_session_served:
  "node_isLogged n \<Longrightarrow> \<not> isActive n \<Longrightarrow> ce_resolves e (nd_desc n) \<Longrightarrow> ok w \<Longrightarrow>
   with_session e out body n w = body (connected n) (dial w)"
  by (simp add: with_session_def beforeMessage_def connect_served any_def)

text \<open>A request in a session.\<close>

lemma request_served:
  assumes "node_isLogged n" "\<not> isActive n" "ce_resolves e (nd_desc n)" "ok w" "fits (m (connected n)) (dial w)"
  shows "with_session e out (\<lambda>n. exchange e (m n) r (on_ok out okay) n) n w =
    (case on_ok out okay (fst (serve (m (connected n)) (dial w))) (connected n) of
       (c, n') \<Rightarrow> (c, n', snd (serve (m (connected n)) (dial w))))"
  using assms connects [of w] by (simp add: with_session_served exchange_served)

lemma command_served:
  assumes "node_isLogged n" "\<not> isActive n" "ce_resolves e (nd_desc n)" "ok w" "fits (m (cookie n)) (dial w)"
  shows "command e m n w =
    (let reply = fst (serve (m (cookie n)) (dial w))
     in (Returned (getDefaultError (response_type reply)),
         if response_type reply = RT_NOT_LOGGED then set_logged False (connected n) else connected n,
         snd (serve (m (cookie n)) (dial w))))"
  using request_served [of n w "\<lambda>n. m (cookie n)" "\<lambda>x. x" NE_SEND_ERROR "\<lambda>response n. (Returned NE_OK, n)"] assms
  by (simp add: command_def on_ok_def refused_def getDefaultError_def Let_def split: prod.split)

lemma logIn_served:
  assumes "\<not> node_isLogged n" "\<not> isActive n" "ce_resolves e (nd_desc n)" "ok w"
    and "fits (getLoginMessage (us_username (nd_user n)) (mu_password (nd_user n))) (dial w)"
    and "serve (getLoginMessage (us_username (nd_user n)) (mu_password (nd_user n))) (dial w) = (reply, w')"
    and "response_type reply = RT_OK" "login_response reply = Some lr" "lr_cookie lr = Some k"
  shows "logIn e n w =
    (Returned NE_OK,
     (set_logged True (set_cookie k (connected n)))\<lparr>nd_user := (nd_user n)\<lparr>mu_is_registered := True\<rparr>\<rparr>, w')"
  using assms connects [of w] by (simp add: logIn_def connect_served exchange_served)

lemma registerUser_served:
  assumes "\<not> isRegistered n" "\<not> isActive n" "ce_resolves e (nd_desc n)" "ok w"
    and "first_key e n = (Returned (Some k), n2)"
    and m: "m = getRegisterUserMessage (nd_user n)
              (ce_pkcs10 e (us_username (nd_user n)) (us_email (nd_user n)) (no_node_name (nd_desc n)) '''' k)"
    and "fits m (dial w)" "serve m (dial w) = (reply, w')" "response_type reply = RT_OK"
  shows "registerUser e n w =
    (case store_registration e reply (connected n2) of (c, n') \<Rightarrow> (c, n', w'))"
  using assms connects [of w] first_key_same [OF assms(5)]
  by (simp add: registerUser_def connect_served first_key_connected exchange_served on_ok_def)

subsection \<open>Every operation\<close>

lemma session_runs:
  assumes "node_isLogged n" "\<not> isActive n" "ce_resolves e (nd_desc n)" "ok w" "fits (m (connected n)) (dial w)"
  shows "with_session e out (\<lambda>n. exchange e (m n) r handle n) n w =
    (fst (handle (fst (serve (m (connected n)) (dial w))) (connected n)),
     snd (handle (fst (serve (m (connected n)) (dial w))) (connected n)), snd (serve (m (connected n)) (dial w)))"
  using assms connects [of w] by (simp add: with_session_served exchange_served split: prod.split)

text \<open>A request whose \<^verbatim>\<open>switch\<close> returns on every answer, in a session and on a fresh connection.\<close>

lemma session_returns:
  assumes "node_isLogged n" "\<not> isActive n" "ce_resolves e (nd_desc n)" "ok w" "fits (m (connected n)) (dial w)"
    and "returns handle"
  shows "\<exists>n'. forget (with_session e out (\<lambda>n. exchange e (m n) r handle n) n w) =
    (Returned (), n', snd (serve (m (connected n)) (dial w)))"
proof -
  obtain v where "fst (handle (fst (serve (m (connected n)) (dial w))) (connected n)) = Returned v"
    using assms(6) by (auto simp: returns_def)
  then show ?thesis using session_runs [of n w m out r handle] assms by (simp add: forget_def)
qed

lemma exchange_returns:
  assumes "ok w" "fits m (dial w)" "returns handle"
  shows "\<exists>n'. forget (exchange e m r handle (connected n) (dial w)) =
    (Returned (), n', snd (serve m (dial w)))"
proof -
  let ?h = "handle (fst (serve m (dial w))) (connected n)"
  obtain v where "fst ?h = Returned v" using assms(3) by (auto simp: returns_def)
  then show ?thesis
    using exchange_served [of "dial w" m r handle n] connects [OF assms(1)] assms(2)
    by (cases ?h) (simp add: forget_def)
qed

lemma logIn_runs:
  assumes "\<not> isActive n" "ce_resolves e (nd_desc n)" "ok w" "op_message e Op_logIn n = Some m" "fits m (dial w)"
  shows "runs e Op_logIn n w (snd (serve m (dial w)))"
proof -
  have "\<not> node_isLogged n" and m: "m = getLoginMessage (us_username (nd_user n)) (mu_password (nd_user n))"
    using assms(4) by (auto split: if_splits)
  moreover have "returns (\<lambda>response n.
      if response_type response = RT_OK
      then (case login_response response of
              Some loginResponse \<Rightarrow>
                (case lr_cookie loginResponse of
                   Some k \<Rightarrow>
                     (Returned NE_OK,
                      (set_logged True (set_cookie k n))
                        \<lparr>nd_user := (nd_user n)\<lparr>mu_is_registered := True\<rparr>\<rparr>)
                 | None \<Rightarrow> (Returned NE_BAD_SERVER_RESPONSE, n))
            | None \<Rightarrow> (Returned NE_BAD_SERVER_RESPONSE, n))
      else (Returned (getDefaultError (response_type response)), n))"
    by (auto simp: returns_def split: option.split)
  from exchange_returns [OF assms(3,5) this, of NE_SEND_ERROR n] have
    "\<exists>n'. forget (exchange e m NE_SEND_ERROR (\<lambda>response n.
      if response_type response = RT_OK
      then (case login_response response of
              Some loginResponse \<Rightarrow>
                (case lr_cookie loginResponse of
                   Some k \<Rightarrow>
                     (Returned NE_OK,
                      (set_logged True (set_cookie k n))
                        \<lparr>nd_user := (nd_user n)\<lparr>mu_is_registered := True\<rparr>\<rparr>)
                 | None \<Rightarrow> (Returned NE_BAD_SERVER_RESPONSE, n))
            | None \<Rightarrow> (Returned NE_BAD_SERVER_RESPONSE, n))
      else (Returned (getDefaultError (response_type response)), n)) (connected n) (dial w)) =
      (Returned (), n', snd (serve m (dial w)))" .
  ultimately show ?thesis
    using assms(1-3) by (intro runs_returned) (simp add: logIn_def connect_served)
qed

lemma logOut_runs:
  assumes "\<not> isActive n" "ce_resolves e (nd_desc n)" "ok w" "op_message e Op_logOut n = Some m" "fits m (dial w)"
  shows "runs e Op_logOut n w (snd (serve m (dial w)))"
proof -
  have "returns (\<lambda>response n.
      case response_type response of
        RT_OK \<Rightarrow> (Returned NE_OK, set_cookie [] (set_logged False n))
      | RT_NOT_LOGGED \<Rightarrow> (Returned NE_OK, set_logged False n)
      | r \<Rightarrow> (Returned (getDefaultError r), n))"
    by (auto simp: returns_def split: ResponseType.split)
  from session_returns [where m = "\<lambda>n. getLogoutMessage (cookie n)", OF _ assms(1-3) _ this] assms show ?thesis
    by (intro runs_returned) (auto simp: logOut_def split: if_splits)
qed

lemma registerUser_runs:
  assumes "\<not> isActive n" "ce_resolves e (nd_desc n)" "ok w" "op_message e Op_registerUser n = Some m"
    "fits m (dial w)"
  shows "runs e Op_registerUser n w (snd (serve m (dial w)))"
proof -
  obtain c n2 where key: "first_key e n = (c, n2)" by fastforce
  have "\<exists>n'. forget (exchange e m NE_SEND_ERROR (on_ok (\<lambda>x. x) (store_registration e)) (connected n2) (dial w)) =
      (Returned (), n', snd (serve m (dial w)))"
    using assms by (intro exchange_returns returns_intros)
  then show ?thesis
    using assms key first_key_same [OF key]
    by (intro runs_returned)
      (auto simp: registerUser_def connect_served first_key_connected Let_def split: if_splits call.splits option.splits)
qed

lemma command_runs:
  assumes "node_isLogged n" "\<not> isActive n" "ce_resolves e (nd_desc n)" "ok w" "fits (m (cookie n)) (dial w)"
  shows "\<exists>n'. forget (command e m n w) = (Returned (), n', snd (serve (m (cookie n)) (dial w)))"
  using session_returns [where m = "\<lambda>n. m (cookie n)" and out = "\<lambda>x. x" and r = NE_SEND_ERROR,
      OF assms(1-4) _ returns_on_ok [OF returns_const]] assms(5)
  by (simp add: command_def)

lemma networks_query_runs:
  assumes "node_isLogged n" "\<not> isActive n" "ce_resolves e (nd_desc n)" "ok w" "fits (m (cookie n)) (dial w)"
  shows "\<exists>n'. forget (networks_query e m f n w) = (Returned (), n', snd (serve (m (cookie n)) (dial w)))"
  unfolding networks_query_def Let_def
  using session_returns [where m = "\<lambda>n. m (cookie n)", OF assms(1-4) _ returns_on_ok [OF returns_const]] assms(5)
  by simp

lemma getServersList_runs:
  assumes "\<not> isActive n" "ce_resolves e (nd_desc n)" "ok w" "op_message e (Op_getServersList d) n = Some m"
    "fits m (dial w)"
  shows "runs e (Op_getServersList d) n w (snd (serve m (dial w)))"
proof -
  have n: "node_isLogged n" "m = getListServersMessage d (cookie n)"
    using assms(4) by (auto split: if_splits)
  show ?thesis
    using assms n
    by (auto simp: runs_def getServersList_def Let_def session_runs forget_def on_ok_def refused_def
        split: option.splits)
qed

lemma signKey_runs:
  assumes "\<not> isActive n" "ce_resolves e (nd_desc n)" "ok w" "op_message e (Op_signKey k d) n = Some m"
    "fits m (dial w)"
  shows "runs e (Op_signKey k d) n w (snd (serve m (dial w)))"
proof -
  have "\<exists>n'. forget (exchange e m (NE_SEND_ERROR, None) (on_ok (\<lambda>x. (x, None)) (store_certificate e d))
      (connected n) (dial w)) = (Returned (), n', snd (serve m (dial w)))"
    using assms by (intro exchange_returns returns_intros)
  then show ?thesis
    using assms
    by (intro runs_returned) (auto simp: signKey_def with_session_served Let_def split: if_splits option.splits)
qed

text \<open>An operation that has something to send returns, and the world is what the server made of its request;
  reading the list of servers may end with the exception of a bad address.\<close>

lemma op_runs:
  assumes "\<not> isActive n" "ce_resolves e (nd_desc n)" "ok w" "op_message e op n = Some m" "fits m (dial w)"
  shows "runs e op n w (snd (serve m (dial w)))"
proof (cases op)
  case (Op_changePassword p)
  then show ?thesis
    using assms session_returns [where m = "\<lambda>n. getChangePasswordMessage (nd_user n) p (cookie n)",
        OF _ assms(1-3) _ returns_on_ok [OF returns_const]]
    by (intro runs_returned) (auto simp: changePassword_def split: if_splits)
next
  case (Op_getUserInfo d u)
  then show ?thesis
    using assms session_returns [where m = "\<lambda>n. getUserInfoMessage d u (cookie n)",
        OF _ assms(1-3) _ returns_on_ok [OF returns_const]]
    by (intro runs_returned) (auto simp: getUserInfo_node_def Let_def split: if_splits)
next
  case (Op_updateServer d p)
  then show ?thesis
    using assms session_returns [where m = "\<lambda>n. getUpdateServerMessage d p (cookie n)",
        OF _ assms(1-3) _ returns_on_ok [OF returns_const]]
    by (intro runs_returned) (auto simp: updateServer_node_def Let_def split: if_splits)
qed (use assms logIn_runs logOut_runs registerUser_runs getServersList_runs signKey_runs in
    \<open>auto intro!: runs_returned command_runs networks_query_runs simp: op_defs split: if_splits\<close>)

end

end
