(* ===== verification/Tracker_Utils.thy ===== *)
theory Tracker_Utils
  imports Sp2p_Prelude "HOL-Library.Signed_Division"
begin

text \<open>
  \<^verbatim>\<open>tracker/qmake_project/utils/util_functions.cpp\<close>, \<^verbatim>\<open>util_functions.h\<close> and \<^verbatim>\<open>constants.h\<close>:
  random strings, reading a database column as text, number or boolean, certificate signing and
  the little-endian number reader. \<^verbatim>\<open>rand()\<close> is the sequence \<open>r\<close> of values its calls return;
  the certificate authority (Botan) is a function from a request and a validity interval to
  \<^verbatim>\<open>Some\<close> PEM text, or \<^verbatim>\<open>None\<close> when it throws.
\<close>

subsection \<open>Constants\<close>

definition SERVER_TTL :: int32 where "SERVER_TTL = 1800000"
definition CERT_TTL :: int64 where "CERT_TTL = 31536000000"

subsection \<open>Random strings\<close>

definition charset :: string where
  "charset = ''0123456789'' @ ''ABCDEFGHIJKLMNOPQRSTUVWXYZ'' @ ''abcdefghijklmnopqrstuvwxyz''"

definition getRandomString :: "(nat \<Rightarrow> nat) \<Rightarrow> nat \<Rightarrow> string" where
  "getRandomString r len = map (\<lambda>i. charset ! (r i mod length charset)) [0..<len]"

lemma length_getRandomString [simp]: "length (getRandomString r n) = n"
  by (simp add: getRandomString_def)

lemma length_charset [simp]: "length charset = 62"
  by (simp add: charset_def)

lemma nth_charset_mod [simp]: "charset ! (n mod 62) \<in> set charset"
  by (rule nth_mem) simp

lemma set_getRandomString: "set (getRandomString r n) \<subseteq> set charset"
  by (auto simp: getRandomString_def)

lemma getRandomString_cong:
  "(\<And>i. i < n \<Longrightarrow> r i mod 62 = r' i mod 62) \<Longrightarrow> getRandomString r n = getRandomString r' n"
  by (auto simp: getRandomString_def)

subsection \<open>Reading a column\<close>

text \<open>A column read through a \<^verbatim>\<open>stringstream\<close> with \<^verbatim>\<open>>>\<close>: the first word of the text, where
  words are separated by the white space of the C locale.\<close>

definition toString :: "string \<Rightarrow> string" where
  "toString ref = takeWhile (\<lambda>c. \<not> is_space c) (dropWhile is_space ref)"

definition toBool :: "string \<Rightarrow> bool" where
  "toBool ref \<longleftrightarrow> toString ref = ''t''"

definition word_like :: "string \<Rightarrow> bool" where
  "word_like s \<longleftrightarrow> (\<forall>c \<in> set s. \<not> is_space c)"

lemma toString_word_like [simp]: "word_like s \<Longrightarrow> toString s = s"
proof (cases s)
  case (Cons c cs)
  assume "word_like s"
  with Cons show ?thesis by (auto simp: word_like_def toString_def takeWhile_eq_all_conv)
qed (simp add: toString_def)

lemma takeWhile_append_spaces:
  "takeWhile (\<lambda>c. \<not> is_space c) (s @ replicate n CHR '' '') = takeWhile (\<lambda>c. \<not> is_space c) s"
  by (induction s) (simp_all add: takeWhile_replicate)

lemma dropWhile_append_spaces:
  "\<exists>m. dropWhile is_space (s @ replicate n CHR '' '') = dropWhile is_space s @ replicate m CHR '' ''"
  by (induction s) (auto simp: dropWhile_replicate intro: exI [of _ "0"])

text \<open>The blanks that PostgreSQL pads a \<^verbatim>\<open>char(n)\<close> column with do not reach the program.\<close>

lemma toString_padded [simp]: "toString (s @ replicate n CHR '' '') = toString s"
proof -
  obtain m where "dropWhile is_space (s @ replicate n CHR '' '') = dropWhile is_space s @ replicate m CHR '' ''"
    using dropWhile_append_spaces by blast
  then show ?thesis by (simp add: toString_def takeWhile_append_spaces)
qed

lemma word_like_toString: "word_like (toString s)"
  by (auto simp: word_like_def toString_def dest: set_takeWhileD)

subsection \<open>Certificates\<close>

text \<open>The current time is a \<^verbatim>\<open>long long\<close>, so the first division is signed; \<^verbatim>\<open>CERT_TTL\<close> is a
  \<^verbatim>\<open>std::uint64_t\<close>, so the second one is not.\<close>

type_synonym authority = "string \<Rightarrow> int64 \<Rightarrow> int64 \<Rightarrow> string option"

definition signCertyficate :: "authority \<Rightarrow> int64 \<Rightarrow> string \<Rightarrow> string" where
  "signCertyficate ca now req =
     (let notBefore = word_of_int (sint now sdiv 1000); notAfter = (now + CERT_TTL) div 1000
      in case ca req notBefore notAfter of Some pem \<Rightarrow> pem | None \<Rightarrow> '''')"

subsection \<open>Little-endian numbers in a buffer\<close>

text \<open>\<^verbatim>\<open>getNumFromBuff\<close>: \<open>i\<close> is the loop's index, \<open>k\<close> the iterations left; \<^verbatim>\<open>buff.at(i)\<close> throws out
  of range (\<open>None\<close>). \<^verbatim>\<open>tmp\<close> is an \<^verbatim>\<open>int\<close> multiplied with an \<^verbatim>\<open>unsigned int\<close>, so each product is
  taken modulo $2^{32}$ before it is added to the 64-bit sum.\<close>

primrec getNumFromBuff_loop :: "byte list \<Rightarrow> nat \<Rightarrow> nat \<Rightarrow> int64 \<Rightarrow> int32 \<Rightarrow> int64 option" where
  "getNumFromBuff_loop buff 0 i ret tmp = Some ret"
| "getNumFromBuff_loop buff (Suc k) i ret tmp =
     (if i < length buff
      then getNumFromBuff_loop buff k (Suc i) (ret + ucast (tmp * ucast (buff ! i))) (push_bit 8 tmp)
      else None)"

definition getNumFromBuff :: "byte list \<Rightarrow> nat \<Rightarrow> int64 option" where
  "getNumFromBuff buff numSize = getNumFromBuff_loop buff numSize 0 0 1"

lemma getNumFromBuff_loop_zero:
  "i + k \<le> length buff \<Longrightarrow> getNumFromBuff_loop buff k i ret 0 = Some ret"
  by (induction k arbitrary: i) simp_all

lemma getNumFromBuff_loop_None:
  "length buff < i + k \<Longrightarrow> i \<le> length buff \<Longrightarrow> getNumFromBuff_loop buff k i ret tmp = None"
  by (induction k arbitrary: i ret tmp) auto

lemma add_disjoint:
  fixes x y :: "'a::len word"
  assumes "\<And>n. bit x n \<Longrightarrow> \<not> bit y n"
  shows "x + y = x OR y"
proof -
  have "x AND y = 0" using assms by (intro bit_word_eqI) (auto simp: bit_simps)
  then show ?thesis by (rule disjunctive_add_eq_or)
qed
lemma sum_of_bytes:
  fixes a b c d :: "8 word"
  shows "(0 :: 64 word) + ucast ((1::32 word) * ucast a) + ucast (push_bit 8 (1::32 word) * ucast b)
   + ucast (push_bit 8 (push_bit 8 (1 :: 32 word)) * ucast c) + ucast (push_bit 8 (push_bit 8 (push_bit 8 (1::32 word))) * ucast d)
   = ucast ((ucast a OR push_bit 8 (ucast b) OR push_bit 16 (ucast c) OR push_bit 24 (ucast d)) :: 32 word)"
proof -
  have m: "push_bit n (1::32 word) * x = push_bit n x" for n x by (simp add: push_bit_eq_mult)
  let ?A = "ucast (ucast a :: 32 word) :: 64 word"
  let ?B = "ucast (push_bit 8 (ucast b :: 32 word)) :: 64 word"
  let ?C = "ucast (push_bit 16 (ucast c :: 32 word)) :: 64 word"
  let ?D = "ucast (push_bit 24 (ucast d :: 32 word)) :: 64 word"
  have 1: "?A + ?B = ?A OR ?B"
    by (rule add_disjoint) (auto simp: bit_simps dest: bit_imp_le_length)
  have 2: "(?A OR ?B) + ?C = ?A OR ?B OR ?C"
    by (subst add_disjoint) (auto simp: bit_simps or.assoc dest: bit_imp_le_length)
  have 3: "(?A OR ?B OR ?C) + ?D = ?A OR ?B OR ?C OR ?D"
    by (subst add_disjoint) (auto simp: bit_simps or.assoc dest: bit_imp_le_length)
  have 4: "?A OR ?B OR ?C OR ?D =
      ucast ((ucast a OR push_bit 8 (ucast b) OR push_bit 16 (ucast c) OR push_bit 24 (ucast d)) :: 32 word)"
    by (rule bit_word_eqI) (auto simp: bit_simps)
  show ?thesis
    by (simp add: m push_bit_push_bit 1 2 3 4 del: push_bit_of_1)
qed
lemma getNumFromBuff_loop_add:
  "getNumFromBuff_loop buff (j + k) i ret tmp =
   (case getNumFromBuff_loop buff j i ret tmp of
      None \<Rightarrow> None
    | Some r \<Rightarrow> getNumFromBuff_loop buff k (i + j) r ((push_bit 8 ^^ j) tmp))"
  by (induction j arbitrary: i ret tmp) (simp_all add: funpow_Suc_right del: funpow.simps(2) split: option.split)

lemma getNumFromBuff_loop_Some:
  "i + k \<le> length buff \<Longrightarrow> \<exists>r. getNumFromBuff_loop buff k i ret tmp = Some r"
  by (induction k arbitrary: i ret tmp) simp_all

text \<open>The bytes after the fourth have weight zero, since the weight is an \<^verbatim>\<open>int\<close>.\<close>

lemma getNumFromBuff_more:
  assumes "4 \<le> n" "n \<le> length buff"
  shows "getNumFromBuff buff n = getNumFromBuff buff 4"
proof -
  obtain k where k: "n = 4 + k" using assms(1) le_Suc_ex by blast
  have "(push_bit 8 ^^ 4) (1 :: int32) = push_bit 32 1"
    by (simp add: numeral_eq_Suc push_bit_push_bit del: push_bit_of_1)
  also have "\<dots> = 0"
    by (rule bit_word_eqI) (simp add: bit_simps del: push_bit_of_1)
  finally have "(push_bit 8 ^^ 4) (1 :: int32) = 0" .
  moreover obtain r where "getNumFromBuff_loop buff 4 0 0 1 = Some r"
    using getNumFromBuff_loop_Some [of 0 4 buff 0 1] assms by auto
  ultimately show ?thesis
    using assms(2) by (simp add: getNumFromBuff_def k getNumFromBuff_loop_add getNumFromBuff_loop_zero)
qed

lemma getNumFromBuff_short:
  assumes "n \<le> 4" "n \<le> length buff"
  shows "getNumFromBuff buff n = Some (ucast (le32_value (take n buff @ replicate (4 - n) 0)))"
proof -
  consider "n = 0" | "n = 1" | "n = 2" | "n = 3" | "n = 4" using assms(1) by linarith
  then show ?thesis
  proof cases
    case 1
    then show ?thesis by (simp add: getNumFromBuff_def le32_value_def eval_nat_numeral)
  next
    case 2
    with assms(2) obtain a xs where "buff = a # xs" by (cases buff) auto
    with 2 show ?thesis using sum_of_bytes [of a 0 0 0]
      by (simp add: getNumFromBuff_def le32_value_def eval_nat_numeral)
  next
    case 3
    with assms(2) obtain a b xs where "buff = a # b # xs" by (cases buff; cases "tl buff") auto
    with 3 show ?thesis using sum_of_bytes [of a b 0 0]
      by (simp add: getNumFromBuff_def le32_value_def eval_nat_numeral)
  next
    case 4
    with assms(2) obtain a b c xs where "buff = a # b # c # xs"
      by (auto simp: eval_nat_numeral Suc_le_length_iff)
    with 4 show ?thesis using sum_of_bytes [of a b c 0]
      by (simp add: getNumFromBuff_def le32_value_def eval_nat_numeral)
  next
    case 5
    with assms(2) obtain a b c d xs where "buff = a # b # c # d # xs"
      by (auto simp: eval_nat_numeral Suc_le_length_iff)
    with 5 show ?thesis using sum_of_bytes [of a b c d]
      by (simp add: getNumFromBuff_def le32_value_def eval_nat_numeral)
  qed
qed

end
