(* ===== verification/Tracker_Db.thy ===== *)
theory Tracker_Db
  imports Tracker_Utils
begin

text \<open>
  The tracker's database: the tables of \<^verbatim>\<open>database/db_init.sql\<close> and the operations of
  \<^verbatim>\<open>tracker/qmake_project/db/psqlconnector.cpp\<close> on them. A SQL statement is a function from the
  tables to an error or a result with the new tables; \<open>work\<close> runs one inside a \<^verbatim>\<open>pqxx::work\<close>
  transaction, which an error or a missing \<^verbatim>\<open>commit()\<close> rolls back and which may fail for reasons of
  the server (\<open>faults\<close>, one entry per transaction). Column types are part of the statements:
  \<^verbatim>\<open>char(n)\<close> ignores trailing blanks and rejects longer text, \<^verbatim>\<open>varchar(n)\<close> rejects longer text,
  \<^verbatim>\<open>serial\<close> numbers the rows, \<^verbatim>\<open>unique\<close>, \<^verbatim>\<open>references\<close> and \<^verbatim>\<open>on delete cascade\<close> are checked and
  executed. The order of the rows of a \<^verbatim>\<open>SELECT\<close> is the order of insertion. A failed insertion does
  not use up an id here; ids never leave the database.
\<close>

subsection \<open>Tables\<close>

record user_row =
  u_id :: nat
  u_login :: string
  u_password :: string

record network_row =
  n_id :: nat
  n_owner :: nat
  n_name :: string
  n_public :: bool
  n_visible :: bool
  n_participable :: bool
  n_email :: string
  n_protocol :: string

text \<open>Rows that belong to a user and a network; an invitation has nothing else.\<close>

record link_row =
  l_id :: nat
  l_user :: nat
  l_network :: nat

record server_row = link_row +
  s_ip :: string
  s_port :: int32
  s_ttl :: int32

record key_row = link_row +
  k_key :: string

record tables =
  users :: "user_row list"
  networks :: "network_row list"
  servers :: "server_row list"
  invitations :: "link_row list"
  publicKeys :: "key_row list"
  user_seq :: nat
  network_seq :: nat
  server_seq :: nat
  invitation_seq :: nat
  key_seq :: nat

definition empty_tables :: tables where
  "empty_tables =
     \<lparr>users = [], networks = [], servers = [], invitations = [], publicKeys = [],
      user_seq = 1, network_seq = 1, server_seq = 1, invitation_seq = 1, key_seq = 1\<rparr>"

subsection \<open>Character columns\<close>

definition rtrim :: "string \<Rightarrow> string" where
  "rtrim s = rev (dropWhile (\<lambda>c. c = CHR '' '') (rev s))"

definition char_in :: "nat \<Rightarrow> string \<Rightarrow> string option" where
  "char_in n s = (if length (rtrim s) \<le> n then Some (rtrim s) else None)"

definition char_out :: "nat \<Rightarrow> string \<Rightarrow> string" where
  "char_out n s = s @ replicate (n - length s) CHR '' ''"

definition varchar_in :: "nat \<Rightarrow> string \<Rightarrow> string option" where
  "varchar_in n s =
     (if length s \<le> n then Some s
      else if (\<forall>c \<in> set (drop n s). c = CHR '' '') then Some (take n s) else None)"

definition char_ok :: "nat \<Rightarrow> string \<Rightarrow> bool" where
  "char_ok n s \<longleftrightarrow> rtrim s = s \<and> length s \<le> n"

lemma rtrim_idem [simp]: "rtrim (rtrim s) = rtrim s"
  by (simp add: rtrim_def)

lemma dropWhile_none: "(\<And>c. c \<in> set s \<Longrightarrow> \<not> P c) \<Longrightarrow> dropWhile P s = s"
  by (cases s) auto

lemma rtrim_word_like [simp]: "word_like s \<Longrightarrow> rtrim s = s"
proof -
  assume "word_like s"
  then have "dropWhile (\<lambda>c. c = CHR '' '') (rev s) = rev s"
    by (intro dropWhile_none) (auto simp: word_like_def)
  then show ?thesis by (simp add: rtrim_def)
qed

lemma char_in_ok: "char_in n s = Some t \<Longrightarrow> char_ok n t"
  by (auto simp: char_in_def char_ok_def split: if_splits)

lemma char_in_Some: "char_in n s = Some t \<longleftrightarrow> t = rtrim s \<and> length (rtrim s) \<le> n"
  by (auto simp: char_in_def)

lemma toString_char_out [simp]: "toString (char_out n s) = toString s"
  by (simp add: char_out_def)

subsection \<open>Transactions\<close>

datatype sql_error = Unique_Violation | Foreign_Key_Violation | Sql_Failure

type_synonym 'a stmt = "tables \<Rightarrow> sql_error + 'a \<times> tables"

record db =
  store :: tables
  faults :: "bool list"

text \<open>One \<^verbatim>\<open>pqxx::work\<close>: the statement runs on the committed tables, and its effect stays when the
  function reaches \<^verbatim>\<open>commit()\<close>, which \<open>commits\<close> decides from the result.\<close>

definition work_if :: "('a \<Rightarrow> bool) \<Rightarrow> 'a stmt \<Rightarrow> db \<Rightarrow> (sql_error + 'a) \<times> db" where
  "work_if commits st d =
     (let d' = d\<lparr>faults := tl (faults d)\<rparr>
      in if faults d \<noteq> [] \<and> hd (faults d) then (Inl Sql_Failure, d')
         else case st (store d) of
                Inl e \<Rightarrow> (Inl e, d')
              | Inr (r, t) \<Rightarrow> (Inr r, if commits r then d'\<lparr>store := t\<rparr> else d'))"

abbreviation work :: "'a stmt \<Rightarrow> db \<Rightarrow> (sql_error + 'a) \<times> db" where
  "work \<equiv> work_if (\<lambda>_. True)"

abbreviation query :: "(tables \<Rightarrow> 'a) \<Rightarrow> 'a stmt" where
  "query f \<equiv> (\<lambda>t. Inr (f t, t))"

lemma store_work_if:
  assumes "P (store d)" and "\<And>r t. st (store d) = Inr (r, t) \<Longrightarrow> P t"
  shows "P (store (snd (work_if commits st d)))"
  using assms by (auto simp: work_if_def Let_def split: sum.split)

lemma store_work_query [simp]: "store (snd (work_if commits (query f) d)) = store d"
  by (simp add: work_if_def Let_def)

lemma work_faultless:
  "faults d = [] \<Longrightarrow> work_if commits st d =
     (case st (store d) of Inl e \<Rightarrow> (Inl e, d)
      | Inr (r, t) \<Rightarrow> (Inr r, if commits r then d\<lparr>store := t\<rparr> else d))"
  by (simp add: work_if_def Let_def split: sum.split)

lemma faults_work_if [simp]: "faults (snd (work_if commits st d)) = tl (faults d)"
  by (auto simp: work_if_def Let_def split: sum.split)

lemma work_if_Inr_query: "fst (work_if commits (query f) d) = Inr r \<Longrightarrow> r = f (store d)"
  by (auto simp: work_if_def Let_def split: if_splits)

subsection \<open>Statements\<close>

text \<open>A value is coerced to its column's type when the statement is planned, so a value that does
  not fit is an error whether or not a row is hit.\<close>

text \<open>\<^verbatim>\<open>(SELECT id FROM users WHERE login=$1)\<close> and the same of a network's name.\<close>

definition user_by_login :: "string \<Rightarrow> tables \<Rightarrow> user_row option" where
  "user_by_login login t = find (\<lambda>u. u_login u = rtrim login) (users t)"

definition user_id_of :: "string \<Rightarrow> tables \<Rightarrow> nat option" where
  "user_id_of login t = map_option u_id (user_by_login login t)"

definition network_by_name :: "string \<Rightarrow> tables \<Rightarrow> network_row option" where
  "network_by_name name t = find (\<lambda>n. n_name n = rtrim name) (networks t)"

definition network_id_of :: "string \<Rightarrow> tables \<Rightarrow> nat option" where
  "network_id_of name t = map_option n_id (network_by_name name t)"

definition insert_user :: "string \<Rightarrow> string \<Rightarrow> unit stmt" where
  "insert_user login password t =
     (case (char_in 30 login, char_in 70 password) of
        (Some l, Some p) \<Rightarrow>
          if l \<in> u_login ` set (users t) then Inl Unique_Violation
          else Inr ((), t\<lparr>users := users t @ [\<lparr>u_id = user_seq t, u_login = l, u_password = p\<rparr>],
                          user_seq := Suc (user_seq t)\<rparr>)
      | _ \<Rightarrow> Inl Sql_Failure)"

definition drop_links :: "nat set \<Rightarrow> nat set \<Rightarrow> 'a link_row_scheme list \<Rightarrow> 'a link_row_scheme list" where
  "drop_links us ns ls = filter (\<lambda>l. l_user l \<notin> us \<and> l_network l \<notin> ns) ls"

text \<open>\<^verbatim>\<open>DELETE FROM networks\<close> with the rows that reference them.\<close>

definition delete_networks :: "(network_row \<Rightarrow> bool) \<Rightarrow> nat stmt" where
  "delete_networks P t =
     (let ns = n_id ` set (filter P (networks t))
      in Inr (length (filter P (networks t)),
              t\<lparr>networks := filter (\<lambda>n. \<not> P n) (networks t),
                servers := drop_links {} ns (servers t),
                invitations := drop_links {} ns (invitations t),
                publicKeys := drop_links {} ns (publicKeys t)\<rparr>))"

text \<open>\<^verbatim>\<open>DELETE FROM users\<close>: the networks they own go too, with the rows that reference those.\<close>

definition delete_users :: "(user_row \<Rightarrow> bool) \<Rightarrow> nat stmt" where
  "delete_users P t =
     (let us = u_id ` set (filter P (users t));
          owned = (\<lambda>n. n_owner n \<in> us);
          ns = n_id ` set (filter owned (networks t))
      in Inr (length (filter P (users t)),
              t\<lparr>users := filter (\<lambda>u. \<not> P u) (users t),
                networks := filter (\<lambda>n. \<not> owned n) (networks t),
                servers := drop_links us ns (servers t),
                invitations := drop_links us ns (invitations t),
                publicKeys := drop_links us ns (publicKeys t)\<rparr>))"

definition update_password :: "string \<Rightarrow> string \<Rightarrow> nat stmt" where
  "update_password login password t =
     (let hit = (\<lambda>u. u_login u = rtrim login)
      in case char_in 70 password of
           None \<Rightarrow> Inl Sql_Failure
         | Some p \<Rightarrow>
             Inr (length (filter hit (users t)),
                  t\<lparr>users := map (\<lambda>u. if hit u then u\<lparr>u_password := p\<rparr> else u) (users t)\<rparr>))"

definition insert_network ::
  "string \<Rightarrow> string \<Rightarrow> bool \<Rightarrow> bool \<Rightarrow> bool \<Rightarrow> string \<Rightarrow> string \<Rightarrow> unit stmt" where
  "insert_network name ownerLogin publicity visible participable creatorMail protocolName t =
     (case (char_in 30 name, varchar_in 40 creatorMail, varchar_in 40 protocolName,
            user_id_of ownerLogin t) of
        (Some n, Some m, Some p, Some uid) \<Rightarrow>
          if n \<in> n_name ` set (networks t) then Inl Unique_Violation
          else Inr ((), t\<lparr>networks := networks t @
                 [\<lparr>n_id = network_seq t, n_owner = uid, n_name = n, n_public = publicity,
                   n_visible = visible, n_participable = participable, n_email = m,
                   n_protocol = p\<rparr>],
                 network_seq := Suc (network_seq t)\<rparr>)
      | _ \<Rightarrow> Inl Sql_Failure)"

definition linked :: "nat \<Rightarrow> nat \<Rightarrow> 'a link_row_scheme list \<Rightarrow> bool" where
  "linked uid nid ls \<longleftrightarrow> (\<exists>l \<in> set ls. l_user l = uid \<and> l_network l = nid)"

definition insert_invitation :: "string \<Rightarrow> string \<Rightarrow> unit stmt" where
  "insert_invitation login name t =
     (case (user_id_of login t, network_id_of name t) of
        (Some uid, Some nid) \<Rightarrow>
          if linked uid nid (invitations t) then Inl Unique_Violation
          else Inr ((), t\<lparr>invitations := invitations t @
                 [\<lparr>l_id = invitation_seq t, l_user = uid, l_network = nid\<rparr>],
                 invitation_seq := Suc (invitation_seq t)\<rparr>)
      | _ \<Rightarrow> Inl Sql_Failure)"

definition insert_key :: "string \<Rightarrow> string \<Rightarrow> string \<Rightarrow> unit stmt" where
  "insert_key login name key t =
     (case (user_id_of login t, network_id_of name t) of
        (Some uid, Some nid) \<Rightarrow>
          if linked uid nid (publicKeys t) then Inl Unique_Violation
          else Inr ((), t\<lparr>publicKeys := publicKeys t @
                 [\<lparr>l_id = key_seq t, l_user = uid, l_network = nid, k_key = key\<rparr>],
                 key_seq := Suc (key_seq t)\<rparr>)
      | _ \<Rightarrow> Inl Sql_Failure)"

definition insert_server :: "string \<Rightarrow> string \<Rightarrow> string \<Rightarrow> int32 \<Rightarrow> int32 \<Rightarrow> unit stmt" where
  "insert_server name login ip port ttl t =
     (case (user_id_of login t, network_id_of name t, char_in 20 ip) of
        (Some uid, Some nid, Some a) \<Rightarrow>
          if linked uid nid (servers t) then Inl Unique_Violation
          else Inr ((), t\<lparr>servers := servers t @
                 [\<lparr>l_id = server_seq t, l_user = uid, l_network = nid, s_ip = a, s_port = port,
                   s_ttl = ttl\<rparr>],
                 server_seq := Suc (server_seq t)\<rparr>)
      | _ \<Rightarrow> Inl Sql_Failure)"

text \<open>A comparison with the \<^verbatim>\<open>NULL\<close> of an empty subquery selects no row.\<close>

definition link_matches :: "string \<Rightarrow> string \<Rightarrow> tables \<Rightarrow> 'a link_row_scheme \<Rightarrow> bool" where
  "link_matches login name t l \<longleftrightarrow>
     user_id_of login t = Some (l_user l) \<and> network_id_of name t = Some (l_network l)"

definition update_server :: "string \<Rightarrow> string \<Rightarrow> string \<Rightarrow> int32 \<Rightarrow> int32 \<Rightarrow> nat stmt" where
  "update_server name login ip port ttl t =
     (let hit = link_matches login name t
      in case char_in 20 ip of
           None \<Rightarrow> Inl Sql_Failure
         | Some a \<Rightarrow>
             Inr (length (filter hit (servers t)),
                  t\<lparr>servers := map (\<lambda>s. if hit s then s\<lparr>s_ip := a, s_port := port, s_ttl := ttl\<rparr>
                                         else s) (servers t)\<rparr>))"

definition delete_servers :: "(server_row \<Rightarrow> bool) \<Rightarrow> nat stmt" where
  "delete_servers P t =
     Inr (length (filter P (servers t)), t\<lparr>servers := filter (\<lambda>s. \<not> P s) (servers t)\<rparr>)"

definition delete_invitations :: "(link_row \<Rightarrow> bool) \<Rightarrow> nat stmt" where
  "delete_invitations P t =
     Inr (length (filter P (invitations t)), t\<lparr>invitations := filter (\<lambda>i. \<not> P i) (invitations t)\<rparr>)"

text \<open>The SQL function \<^verbatim>\<open>clean(T)\<close>; \<open>epoch\<close> is \<^verbatim>\<open>extract(epoch FROM now())::int\<close>, and the
  subtraction is PostgreSQL's, which raises an error on overflow.\<close>

definition clean_stmt :: "int32 \<Rightarrow> int32 \<Rightarrow> nat stmt" where
  "clean_stmt epoch T t =
     (let limit = sint epoch - sint T
      in if limit < - (2 ^ 31) \<or> 2 ^ 31 \<le> limit then Inl Sql_Failure
         else delete_servers (\<lambda>s. sint (s_ttl s) < limit) t)"

end
