(* ===== verification/Tracker_Connector.thy ===== *)
theory Tracker_Connector
  imports Tracker_Db
begin

text \<open>
  \<^verbatim>\<open>PsqlConnector\<close> (\<^verbatim>\<open>tracker/qmake_project/db/psqlconnector.cpp\<close>): one function per method, each
  the statement of the method in its transaction and the \<^verbatim>\<open>catch\<close> clauses that follow it. Every
  method prepares its statement under a fresh random name, which the model leaves out. The second
  part is the invariant of the tables and its preservation.
\<close>

datatype DB_Response = DB_OK | DB_INTERNAL_ERROR | DB_NOT_UNIQUE | DB_NOT_FOUND | DB_NOT_PERMITED

subsection \<open>What the program reads back\<close>

record ProtoNetwork =
  pn_name :: string
  pn_publicity :: bool
  pn_visible :: bool
  pn_participable :: bool
  pn_creatorEmail :: string
  pn_protocolName :: string
  pn_ownerName :: string

text \<open>\<^verbatim>\<open>ttl\<close> has no initialiser and no listing sets it: it is left out of the value.\<close>

record ProtoServer =
  ps_userLogin :: string
  ps_networkName :: string
  ps_ip :: string
  ps_port :: int32

text \<open>\<^verbatim>\<open>ProtoNetwork::operator std::string\<close>.\<close>

definition bool_text :: "bool \<Rightarrow> string" where
  "bool_text b = (if b then ''true'' else ''false'')"

definition newline :: string where "newline = [CHR 0x0A]"

definition ProtoNetwork_text :: "ProtoNetwork \<Rightarrow> string" where
  "ProtoNetwork_text n =
     ''Name: '' @ pn_name n @ newline @
     ''creatorEmail: '' @ pn_creatorEmail n @ newline @
     ''ownerName: '' @ pn_ownerName n @ newline @
     ''protocolName: '' @ pn_protocolName n @ newline @
     ''publicity: '' @ bool_text (pn_publicity n) @ newline @
     ''visible: '' @ bool_text (pn_visible n) @ newline @
     ''participable: '' @ bool_text (pn_participable n) @ newline"

text \<open>The text of a boolean column, which \<open>toBool\<close> reads back.\<close>

definition bool_out :: "bool \<Rightarrow> string" where
  "bool_out b = (if b then ''t'' else ''f'')"

lemma toBool_bool_out [simp]: "toBool (bool_out b) = b"
  by (simp add: toBool_def toString_def bool_out_def is_space_def)

subsection \<open>Users\<close>

text \<open>The \<^verbatim>\<open>catch\<close> clauses: what a unique violation means differs from method to method, any other
  \<^verbatim>\<open>pqxx::failure\<close> is an internal error.\<close>

definition caught :: "DB_Response \<Rightarrow> sql_error \<Rightarrow> DB_Response" where
  "caught on_unique e = (if e = Unique_Violation then on_unique else DB_INTERNAL_ERROR)"

definition createUser :: "string \<Rightarrow> string \<Rightarrow> db \<Rightarrow> DB_Response \<times> db" where
  "createUser login password d =
     (case work (insert_user login password) d of
        (Inl e, d') \<Rightarrow> (caught DB_NOT_UNIQUE e, d')
      | (Inr _, d') \<Rightarrow> (DB_OK, d'))"

definition removeUser :: "string \<Rightarrow> db \<Rightarrow> DB_Response \<times> db" where
  "removeUser login d =
     (case work (delete_users (\<lambda>u. u_login u = rtrim login)) d of
        (Inl e, d') \<Rightarrow> (caught DB_NOT_FOUND e, d')
      | (Inr _, d') \<Rightarrow> (DB_OK, d'))"

definition removeUser_by_id :: "nat \<Rightarrow> db \<Rightarrow> DB_Response \<times> db" where
  "removeUser_by_id uid d =
     (case work (delete_users (\<lambda>u. u_id u = uid)) d of
        (Inl e, d') \<Rightarrow> (caught DB_NOT_FOUND e, d')
      | (Inr _, d') \<Rightarrow> (DB_OK, d'))"

definition isUser :: "string \<Rightarrow> string \<Rightarrow> db \<Rightarrow> bool \<times> db" where
  "isUser login password d =
     (case work (query (\<lambda>t. filter (\<lambda>u. u_login u = rtrim login \<and> u_password u = rtrim password)
                              (users t))) d of
        (Inl e, d') \<Rightarrow> (False, d')
      | (Inr res, d') \<Rightarrow> (length res = 1, d'))"

definition changeUserPassword :: "string \<Rightarrow> string \<Rightarrow> db \<Rightarrow> DB_Response \<times> db" where
  "changeUserPassword login newPassword d =
     (case work (update_password login newPassword) d of
        (Inl e, d') \<Rightarrow> (caught DB_NOT_FOUND e, d')
      | (Inr _, d') \<Rightarrow> (DB_OK, d'))"

definition userExists :: "string \<Rightarrow> db \<Rightarrow> bool \<times> db" where
  "userExists login d =
     (case work (query (\<lambda>t. filter (\<lambda>u. u_login u = rtrim login) (users t))) d of
        (Inl e, d') \<Rightarrow> (False, d')
      | (Inr res, d') \<Rightarrow> (length res = 1, d'))"

definition getPassHash :: "string \<Rightarrow> db \<Rightarrow> string \<times> db" where
  "getPassHash login d =
     (case work (query (\<lambda>t. filter (\<lambda>u. u_login u = rtrim login) (users t))) d of
        (Inl e, d') \<Rightarrow> ('''', d')
      | (Inr [], d') \<Rightarrow> ('''', d')
      | (Inr (u # _), d') \<Rightarrow> (toString (char_out 70 (u_password u)), d'))"

subsection \<open>Keys and invitations\<close>

definition getUserInfo :: "string \<Rightarrow> string \<Rightarrow> db \<Rightarrow> string \<times> db" where
  "getUserInfo login network d =
     (case work (query (\<lambda>t. filter (link_matches login network t) (publicKeys t))) d of
        (Inl e, d') \<Rightarrow> ('''', d')
      | (Inr [], d') \<Rightarrow> ('''', d')
      | (Inr (k # _), d') \<Rightarrow> (toString (k_key k), d'))"

definition addKey :: "string \<Rightarrow> string \<Rightarrow> string \<Rightarrow> db \<Rightarrow> DB_Response \<times> db" where
  "addKey login network key d =
     (case work (insert_key login network key) d of
        (Inl e, d') \<Rightarrow> (caught DB_NOT_FOUND e, d')
      | (Inr _, d') \<Rightarrow> (DB_OK, d'))"

definition createInvitation :: "string \<Rightarrow> string \<Rightarrow> db \<Rightarrow> DB_Response \<times> db" where
  "createInvitation login networkName d =
     (case work (insert_invitation login networkName) d of
        (Inl e, d') \<Rightarrow> (caught DB_NOT_UNIQUE e, d')
      | (Inr _, d') \<Rightarrow> (DB_OK, d'))"

definition deleteInvitation :: "string \<Rightarrow> string \<Rightarrow> db \<Rightarrow> DB_Response \<times> db" where
  "deleteInvitation login networkName d =
     (case work (\<lambda>t. delete_invitations (link_matches login networkName t) t) d of
        (Inl e, d') \<Rightarrow> (caught DB_NOT_FOUND e, d')
      | (Inr _, d') \<Rightarrow> (DB_OK, d'))"

subsection \<open>Networks\<close>

definition createNetwork ::
  "string \<Rightarrow> string \<Rightarrow> bool \<Rightarrow> bool \<Rightarrow> bool \<Rightarrow> string \<Rightarrow> string \<Rightarrow> db \<Rightarrow> DB_Response \<times> db" where
  "createNetwork networkName ownerLogin publicity visible participable creatorMail protocolName d =
     (case work (insert_network networkName ownerLogin publicity visible participable
                   creatorMail protocolName) d of
        (Inl e, d') \<Rightarrow> (if e = Foreign_Key_Violation then DB_NOT_UNIQUE
                         else caught DB_NOT_UNIQUE e, d')
      | (Inr _, d') \<Rightarrow> (DB_OK, d'))"

definition deleteNetwork :: "string \<Rightarrow> string \<Rightarrow> db \<Rightarrow> DB_Response \<times> db" where
  "deleteNetwork login name d =
     (case work (\<lambda>t. delete_networks
                   (\<lambda>n. n_name n = rtrim name \<and> user_id_of login t = Some (n_owner n)) t) d of
        (Inl e, d') \<Rightarrow> (caught DB_INTERNAL_ERROR e, d')
      | (Inr affected, d') \<Rightarrow> (if affected = 0 then DB_NOT_PERMITED else DB_OK, d'))"

text \<open>The rows of a \<^verbatim>\<open>JOIN\<close> of networks with their owners, and the object built from each. The
  member \<^verbatim>\<open>publicity\<close> is never set: \<open>indet i\<close> is what the storage of the $i$-th object holds. To copy the object
  and to branch on the member, as the listings do, is undefined behaviour; the model goes on with the
  arbitrary value, and C1 says where that happens.\<close>

definition join_owner :: "tables \<Rightarrow> (network_row \<times> user_row) list" where
  "join_owner t = [(n, u). n \<leftarrow> networks t, u \<leftarrow> users t, n_owner n = u_id u]"

definition read_network :: "bool \<Rightarrow> network_row \<times> user_row \<Rightarrow> ProtoNetwork" where
  "read_network b = (\<lambda>(n, u).
     \<lparr>pn_name = toString (char_out 30 (n_name n)), pn_publicity = b,
      pn_visible = toBool (bool_out (n_visible n)),
      pn_participable = toBool (bool_out (n_participable n)),
      pn_creatorEmail = toString (n_email n), pn_protocolName = toString (n_protocol n),
      pn_ownerName = toString (char_out 30 (u_login u))\<rparr>)"

definition read_networks :: "(nat \<Rightarrow> bool) \<Rightarrow> (network_row \<times> user_row) list \<Rightarrow> ProtoNetwork list" where
  "read_networks indet res = map (\<lambda>i. read_network (indet i) (res ! i)) [0..<length res]"

definition visible_to :: "string \<Rightarrow> tables \<Rightarrow> network_row \<times> user_row \<Rightarrow> bool" where
  "visible_to login t = (\<lambda>(n, u).
     n_visible n \<or> u_login u = rtrim login \<or>
     (\<exists>i \<in> set (invitations t). user_id_of login t = Some (l_user i) \<and> l_network i = n_id n))"

text \<open>The two listings never commit; nothing was changed.\<close>

definition getAllNetworks :: "(nat \<Rightarrow> bool) \<Rightarrow> string \<Rightarrow> db \<Rightarrow> ProtoNetwork list \<times> db" where
  "getAllNetworks indet login d =
     (case work_if (\<lambda>_. False) (query (\<lambda>t. filter (visible_to login t) (join_owner t))) d of
        (Inl e, d') \<Rightarrow> ([], d')
      | (Inr res, d') \<Rightarrow> (read_networks indet res, d'))"

definition getUserNetworks :: "(nat \<Rightarrow> bool) \<Rightarrow> string \<Rightarrow> db \<Rightarrow> ProtoNetwork list \<times> db" where
  "getUserNetworks indet login d =
     (case work_if (\<lambda>_. False)
             (query (\<lambda>t. filter (\<lambda>(n, u). u_login u = rtrim login) (join_owner t))) d of
        (Inl e, d') \<Rightarrow> ([], d')
      | (Inr res, d') \<Rightarrow> (read_networks indet res, d'))"

definition networkExists :: "string \<Rightarrow> db \<Rightarrow> bool \<times> db" where
  "networkExists name d =
     (case work (query (\<lambda>t. filter (\<lambda>n. n_name n = rtrim name) (networks t))) d of
        (Inl e, d') \<Rightarrow> (False, d')
      | (Inr res, d') \<Rightarrow> (length res > 0, d'))"

definition canSeeNetwork :: "string \<Rightarrow> string \<Rightarrow> db \<Rightarrow> bool \<times> db" where
  "canSeeNetwork networkName login d =
     (case work (query (\<lambda>t. filter (\<lambda>n. n_name n = rtrim networkName \<and>
                   (n_public n \<or> user_id_of login t = Some (n_owner n))) (networks t))) d of
        (Inl e, d') \<Rightarrow> (False, d')
      | (Inr res, d') \<Rightarrow> (length res > 0, d'))"

definition canAddServer :: "string \<Rightarrow> string \<Rightarrow> db \<Rightarrow> bool \<times> db" where
  "canAddServer login networkName d =
     (case work (query (\<lambda>t. filter (\<lambda>n. n_name n = rtrim networkName \<and>
                   (n_participable n \<or> user_id_of login t = Some (n_owner n))) (networks t))) d of
        (Inl e, d') \<Rightarrow> (False, d')
      | (Inr res, d') \<Rightarrow> (length res > 0, d'))"

subsection \<open>Servers\<close>

text \<open>The first transaction commits only when its \<^verbatim>\<open>UPDATE\<close> touched no row: the \<^verbatim>\<open>return\<close> before
  \<^verbatim>\<open>commit()\<close> rolls a real update back.\<close>

definition updateServer ::
  "string \<Rightarrow> string \<Rightarrow> string \<Rightarrow> int32 \<Rightarrow> int32 \<Rightarrow> db \<Rightarrow> DB_Response \<times> db" where
  "updateServer network user ip port ttl d =
     (case work_if (\<lambda>affected. \<not> affected > 0) (update_server network user ip port ttl) d of
        (Inl e, d') \<Rightarrow> (caught DB_NOT_FOUND e, d')
      | (Inr affected, d') \<Rightarrow>
          if affected > 0 then (DB_OK, d')
          else case work (insert_server network user ip port ttl) d' of
                 (Inl e, d'') \<Rightarrow> (caught DB_NOT_FOUND e, d'')
               | (Inr _, d'') \<Rightarrow> (DB_OK, d''))"

text \<open>\<^verbatim>\<open>res.size()\<close> is the number of rows the statement returns, and a \<^verbatim>\<open>DELETE\<close> returns none.\<close>

definition deleteServer :: "string \<Rightarrow> string \<Rightarrow> db \<Rightarrow> DB_Response \<times> db" where
  "deleteServer network user d =
     (case work (\<lambda>t. delete_servers (link_matches user network t) t) d of
        (Inl e, d') \<Rightarrow> (caught DB_NOT_FOUND e, d')
      | (Inr affected, d') \<Rightarrow>
          (let res_size = (0::nat) in if res_size = 0 then DB_NOT_FOUND else DB_OK, d'))"

definition join_servers :: "string \<Rightarrow> tables \<Rightarrow> (server_row \<times> user_row) list" where
  "join_servers networkName t =
     [(s, u). s \<leftarrow> servers t, u \<leftarrow> users t,
        l_user s = u_id u \<and> network_id_of networkName t = Some (l_network s)]"

definition getServers :: "string \<Rightarrow> db \<Rightarrow> ProtoServer list \<times> db" where
  "getServers networkName d =
     (case work_if (\<lambda>_. False) (query (join_servers networkName)) d of
        (Inl e, d') \<Rightarrow> ([], d')
      | (Inr res, d') \<Rightarrow>
          (map (\<lambda>(s, u). \<lparr>ps_userLogin = '''', ps_networkName = networkName,
                           ps_ip = toString (char_out 20 (s_ip s)), ps_port = s_port s\<rparr>) res, d'))"

definition cleanServers :: "int32 \<Rightarrow> int32 \<Rightarrow> db \<Rightarrow> db" where
  "cleanServers epoch ttl d = snd (work (clean_stmt epoch ttl) d)"

end
