(* ===== verification/Tracker_Messages.thy ===== *)
theory Tracker_Messages
  imports Protocol Tracker_Connector
begin

text \<open>
  \<^verbatim>\<open>tracker/qmake_project/proto/nodemessagefactory.cpp\<close>: the answers of the tracker. Each function
  sets the response type and at most one of the response messages.
\<close>

definition errorMesage :: "ResponseType \<Rightarrow> NodeMessage" where
  "errorMesage resp = new_NodeMessage\<lparr>nm_response_type := Some resp\<rparr>"

definition badRequestMessage :: NodeMessage where
  "badRequestMessage = errorMesage RT_BAD_REQUEST"

definition registerResponse :: "string \<Rightarrow> string \<Rightarrow> NodeMessage" where
  "registerResponse userCertificate nodeCertificate =
     new_NodeMessage\<lparr>nm_response_type := Some RT_OK,
       register_response := Some \<lparr>rr_user_certificate = Some userCertificate,
                                   rr_node_certificate = Some nodeCertificate\<rparr>\<rparr>"

definition loginResponse1 :: "string \<Rightarrow> NodeMessage" where
  "loginResponse1 cookie =
     new_NodeMessage\<lparr>nm_response_type := Some RT_OK,
       login_response := Some \<lparr>lr_cookie = Some cookie, lr_node_certificate = None\<rparr>\<rparr>"

definition loginResponse :: "string \<Rightarrow> string \<Rightarrow> NodeMessage" where
  "loginResponse cookie certificate =
     new_NodeMessage\<lparr>nm_response_type := Some RT_OK,
       login_response := Some \<lparr>lr_cookie = Some cookie, lr_node_certificate = Some certificate\<rparr>\<rparr>"

definition userInfoResponse :: "string \<Rightarrow> NodeMessage" where
  "userInfoResponse userCertificate =
     new_NodeMessage\<lparr>nm_response_type := Some RT_OK, user_info_response := Some userCertificate\<rparr>"

definition updateServerResponse :: "int32 \<Rightarrow> NodeMessage" where
  "updateServerResponse secondsToUpdate =
     new_NodeMessage\<lparr>nm_response_type := Some RT_OK, update_server_response := Some secondsToUpdate\<rparr>"

definition signKeyResponse :: "string \<Rightarrow> NodeMessage" where
  "signKeyResponse userCertificate =
     new_NodeMessage\<lparr>nm_response_type := Some RT_OK, sign_key_response := Some userCertificate\<rparr>"

text \<open>The entry both listings write for a network.\<close>

definition network_entry :: "ProtoNetwork \<Rightarrow> NetworkEntry" where
  "network_entry i =
     \<lparr>ne_name = Some (pn_name i),
      ne_creator_name = Some (pn_ownerName i),
      ne_creator_email = Some (pn_creatorEmail i),
      ne_access_rights = Some (if pn_publicity i then PB_PUBLIC else PB_PRIVATE),
      ne_participation_rights = Some (if pn_participable i then PB_CLIENT_SERVER else PB_CLIENT_ONLY),
      ne_protocol_name = Some (pn_protocolName i)\<rparr>"

definition listNetworksResponse :: "ProtoNetwork list \<Rightarrow> NodeMessage" where
  "listNetworksResponse L =
     new_NodeMessage\<lparr>nm_response_type := Some RT_OK,
       list_networks_response := Some (map network_entry L)\<rparr>"

definition listMyNetworksResponse :: "ProtoNetwork list \<Rightarrow> NodeMessage" where
  "listMyNetworksResponse L =
     new_NodeMessage\<lparr>nm_response_type := Some RT_OK,
       list_my_networks_response := Some (map network_entry L)\<rparr>"

definition listServersResponse :: "ProtoServer list \<Rightarrow> NodeMessage" where
  "listServersResponse L =
     new_NodeMessage\<lparr>nm_response_type := Some RT_OK,
       list_servers_response := Some (map (\<lambda>i. \<lparr>se_username = Some (ps_networkName i),
         se_ip_address = Some (ps_ip i), se_port_number = Some (ps_port i)\<rparr>) L)\<rparr>"

lemma response_types [simp]:
  "response_type (errorMesage r) = r"
  "response_type badRequestMessage = RT_BAD_REQUEST"
  "response_type (registerResponse a b) = RT_OK"
  "response_type (loginResponse1 a) = RT_OK"
  "response_type (loginResponse a b) = RT_OK"
  "response_type (userInfoResponse a) = RT_OK"
  "response_type (updateServerResponse n) = RT_OK"
  "response_type (signKeyResponse a) = RT_OK"
  "response_type (listNetworksResponse L) = RT_OK"
  "response_type (listMyNetworksResponse L) = RT_OK"
  "response_type (listServersResponse S) = RT_OK"
  by (simp_all add: errorMesage_def badRequestMessage_def registerResponse_def loginResponse1_def
      loginResponse_def userInfoResponse_def updateServerResponse_def signKeyResponse_def
      listNetworksResponse_def listMyNetworksResponse_def listServersResponse_def)

text \<open>A response message is set only in an answer of type \<^verbatim>\<open>OK\<close>.\<close>

definition carries_nothing :: "NodeMessage \<Rightarrow> bool" where
  "carries_nothing m \<longleftrightarrow>
     register_response m = None \<and> login_response m = None \<and> list_networks_response m = None \<and>
     list_my_networks_response m = None \<and> list_servers_response m = None \<and>
     user_info_response m = None \<and> update_server_response m = None \<and> sign_key_response m = None"

lemma carries_nothing_error [simp]: "carries_nothing (errorMesage r)" "carries_nothing badRequestMessage"
  by (simp_all add: carries_nothing_def errorMesage_def badRequestMessage_def)

end
