(* ===== verification/Tracker_Session.thy ===== *)
theory Tracker_Session
  imports Std_Map Tracker_Utils
begin

text \<open>
  \<^verbatim>\<open>tracker/qmake_project/sessioncontroler.cpp\<close>: the logged-in users, as two \<^verbatim>\<open>std::map\<close>s from the
  session cookie, one to the login and one to the time of the login. The mutex that guards every
  operation makes them atomic; the clean-up daemon, which no part of the program starts, is one call
  of \<open>cleanSome\<close> per wake-up.
\<close>

record session =
  cookieToLogin :: "(string \<times> string) list"
  cookieToTime :: "(string \<times> int64) list"

definition new_session :: session where
  "new_session = \<lparr>cookieToLogin = [], cookieToTime = []\<rparr>"

definition COOKIE_LEN :: nat where "COOKIE_LEN = 15"

definition isLogged :: "string \<Rightarrow> session \<Rightarrow> bool" where
  "isLogged cookie s \<longleftrightarrow> smap_find string_lt cookie (cookieToTime s) \<noteq> None"

text \<open>\<open>r\<close> are the values \<^verbatim>\<open>rand()\<close> returns while the cookie is drawn, \<open>now\<close> the current time.\<close>

definition open_session :: "string \<Rightarrow> string \<Rightarrow> int64 \<Rightarrow> session \<Rightarrow> session" where
  "open_session currCookie login now s =
     s\<lparr>cookieToLogin := smap_set string_lt currCookie login (cookieToLogin s),
       cookieToTime := smap_set string_lt currCookie now (cookieToTime s)\<rparr>"

definition session_login :: "(nat \<Rightarrow> nat) \<Rightarrow> int64 \<Rightarrow> string \<Rightarrow> session \<Rightarrow> string \<times> session" where
  "session_login r now login s =
     (let currCookie = getRandomString r COOKIE_LEN
      in (currCookie, open_session currCookie login now s))"

text \<open>\<^verbatim>\<open>erase(find(cookie))\<close> on \<open>cookieToLogin\<close> is undefined when \<^verbatim>\<open>find\<close> returns \<^verbatim>\<open>end()\<close>.\<close>

definition logout :: "string \<Rightarrow> session \<Rightarrow> cpp_error + bool \<times> session" where
  "logout cookie s =
     (case smap_find string_lt cookie (cookieToTime s) of
        None \<Rightarrow> Inr (False, s)
      | Some _ \<Rightarrow>
          (case smap_find string_lt cookie (cookieToLogin s) of
             None \<Rightarrow> Inl Undefined_Behaviour
           | Some _ \<Rightarrow>
               Inr (True, s\<lparr>cookieToLogin := smap_erase string_lt cookie (cookieToLogin s),
                            cookieToTime := smap_erase string_lt cookie (cookieToTime s)\<rparr>)))"

text \<open>\<^verbatim>\<open>cookieToLogin.at(cookie)\<close> throws when the cookie has a time but no login.\<close>

definition getLogin :: "string \<Rightarrow> session \<Rightarrow> cpp_error + string" where
  "getLogin cookie s =
     (case smap_find string_lt cookie (cookieToTime s) of
        None \<Rightarrow> Inr ''''
      | Some _ \<Rightarrow>
          (case smap_find string_lt cookie (cookieToLogin s) of
             None \<Rightarrow> Inl Out_Of_Range
           | Some (_, l) \<Rightarrow> Inr l))"

definition refresh :: "string \<Rightarrow> int64 \<Rightarrow> session \<Rightarrow> session" where
  "refresh cookie now s =
     (case smap_find string_lt cookie (cookieToTime s) of
        None \<Rightarrow> s
      | Some _ \<Rightarrow> s\<lparr>cookieToTime := smap_set string_lt cookie now (cookieToTime s)\<rparr>)"

definition cleanAll :: "session \<Rightarrow> session" where
  "cleanAll s = s\<lparr>cookieToLogin := [], cookieToTime := []\<rparr>"

text \<open>The loop of \<^verbatim>\<open>cleanSome\<close>: after \<^verbatim>\<open>cookieToTime.erase(it)\<close> it reads \<^verbatim>\<open>it->first\<close>, so the first
  entry that passes the test is undefined behaviour.\<close>

fun cleanSome_loop :: "int64 \<Rightarrow> (string \<times> int64) list \<Rightarrow> session \<Rightarrow> cpp_error + session" where
  "cleanSome_loop ttl [] s = Inr s"
| "cleanSome_loop ttl ((c, t) # rest) s =
     (if sint ttl < sint t then Inl Undefined_Behaviour else cleanSome_loop ttl rest s)"

definition cleanSome :: "int64 \<Rightarrow> session \<Rightarrow> cpp_error + session" where
  "cleanSome ttl s = cleanSome_loop ttl (cookieToTime s) s"

text \<open>One wake-up of the daemon.\<close>

definition daemon_tick :: "int64 \<Rightarrow> int64 \<Rightarrow> session \<Rightarrow> cpp_error + session" where
  "daemon_tick now ttl s = cleanSome (now - ttl) s"

subsection \<open>Invariant\<close>

definition session_ok :: "session \<Rightarrow> bool" where
  "session_ok s \<longleftrightarrow> smap_ok string_lt (cookieToLogin s) \<and> smap_ok string_lt (cookieToTime s) \<and>
     (\<forall>c. (smap_get string_lt c (cookieToLogin s) = None) = (smap_get string_lt c (cookieToTime s) = None))"

definition who :: "session \<Rightarrow> string \<Rightarrow> string option" where
  "who s c = smap_get string_lt c (cookieToLogin s)"

definition logged_out :: "string \<Rightarrow> session \<Rightarrow> session" where
  "logged_out c s = (case logout c s of Inl _ \<Rightarrow> s | Inr (_, s') \<Rightarrow> s')"

lemma session_ok_new: "session_ok new_session"
  by (simp add: session_ok_def new_session_def)

lemma session_ok_open: "session_ok s \<Longrightarrow> session_ok (open_session c l now s)"
  by (simp add: session_ok_def open_session_def strings.ok_set strings.get_set)

lemma session_ok_login: "session_ok s \<Longrightarrow> session_login r now l s = (c, s') \<Longrightarrow> session_ok s'"
  by (auto simp: session_login_def Let_def session_ok_open)

lemma logout_cases:
  assumes "session_ok s"
  shows "logout c s = Inr (who s c \<noteq> None,
     if who s c = None then s
     else s\<lparr>cookieToLogin := smap_erase string_lt c (cookieToLogin s),
            cookieToTime := smap_erase string_lt c (cookieToTime s)\<rparr>)"
  using assms by (auto simp: logout_def who_def session_ok_def smap_get_def split: option.split)

lemma session_ok_logout: "session_ok s \<Longrightarrow> logout c s = Inr (b, s') \<Longrightarrow> session_ok s'"
  by (auto simp: logout_cases session_ok_def strings.ok_erase strings.get_erase split: if_splits)

lemma session_ok_logged_out: "session_ok s \<Longrightarrow> session_ok (logged_out c s)"
  using session_ok_logout by (auto simp: logged_out_def split: sum.split prod.split)

lemma session_ok_refresh: "session_ok s \<Longrightarrow> session_ok (refresh c now s)"
  by (auto simp: session_ok_def refresh_def strings.ok_set strings.get_set smap_find_None_iff
      split: option.split) (auto simp: smap_get_def)

lemma getLogin_who:
  assumes "session_ok s"
  shows "getLogin c s = Inr (case who s c of None \<Rightarrow> '''' | Some l \<Rightarrow> l)"
proof -
  from assms have "(smap_find string_lt c (cookieToLogin s) = None) = (smap_find string_lt c (cookieToTime s) = None)"
    by (simp add: session_ok_def smap_find_None_iff)
  then show ?thesis by (auto simp: getLogin_def who_def smap_get_def split: option.split)
qed

lemma who_new [simp]: "who new_session c = None"
  by (simp add: who_def new_session_def)

lemma who_open: "session_ok s \<Longrightarrow> who (open_session c l now s) c' = (if c' = c then Some l else who s c')"
  by (simp add: who_def open_session_def session_ok_def strings.get_set)

lemma who_logged_out: "session_ok s \<Longrightarrow> who (logged_out c s) c' = (if c' = c then None else who s c')"
  by (auto simp: logged_out_def logout_cases who_def session_ok_def strings.get_erase)

lemma isLogged_who: "session_ok s \<Longrightarrow> isLogged c s \<longleftrightarrow> who s c \<noteq> None"
  by (auto simp: isLogged_def who_def session_ok_def smap_get_def)

lemma cleanSome_loop_cases:
  "cleanSome_loop ttl xs s =
     (if \<exists>x \<in> set xs. sint ttl < sint (snd x) then Inl Undefined_Behaviour else Inr s)"
  by (induction ttl xs s rule: cleanSome_loop.induct) simp_all

subsection \<open>The session interface\<close>

text \<open>What the request handlers rely on (\<^verbatim>\<open>AbstractSessionControler\<close>): a login binds its cookie, a
  logout unbinds it, and neither touches another cookie.\<close>

datatype session_event = Log_In string string int64 | Log_Out string

locale session_store =
  fixes inv :: "'s \<Rightarrow> bool"
    and bind :: "string \<Rightarrow> string \<Rightarrow> int64 \<Rightarrow> 's \<Rightarrow> 's"
    and unbind :: "string \<Rightarrow> 's \<Rightarrow> 's"
    and owner :: "'s \<Rightarrow> string \<Rightarrow> string option"
  assumes inv_bind: "inv s \<Longrightarrow> inv (bind c l t s)"
    and inv_unbind: "inv s \<Longrightarrow> inv (unbind c s)"
    and owner_bind: "inv s \<Longrightarrow> owner (bind c l t s) c' = (if c' = c then Some l else owner s c')"
    and owner_unbind: "inv s \<Longrightarrow> owner (unbind c s) c' = (if c' = c then None else owner s c')"
begin

fun apply_event :: "session_event \<Rightarrow> 's \<Rightarrow> 's" where
  "apply_event (Log_In c l t) s = bind c l t s"
| "apply_event (Log_Out c) s = unbind c s"

lemma inv_event: "inv s \<Longrightarrow> inv (apply_event e s)"
  by (cases e) (simp_all add: inv_bind inv_unbind)

lemma inv_run: "inv s \<Longrightarrow> inv (fold apply_event es s)"
  by (induction es arbitrary: s) (simp_all add: inv_event)

lemma owner_run_other:
  "inv s \<Longrightarrow> \<forall>e \<in> set es. (case e of Log_In c' _ _ \<Rightarrow> c' \<noteq> c | Log_Out c' \<Rightarrow> c' \<noteq> c) \<Longrightarrow>
   owner (fold apply_event es s) c = owner s c"
proof (induction es arbitrary: s)
  case (Cons e es)
  from Cons.prems have "owner (apply_event e s) c = owner s c"
    by (cases e) (auto simp: owner_bind owner_unbind)
  with Cons show ?case by (simp add: inv_event)
qed simp

lemma owner_while_open:
  "inv s \<Longrightarrow> \<forall>e \<in> set es. (case e of Log_In c' _ _ \<Rightarrow> c' \<noteq> c | Log_Out c' \<Rightarrow> c' \<noteq> c) \<Longrightarrow>
   owner (fold apply_event es (bind c l t s)) c = Some l"
  by (simp add: owner_run_other inv_bind owner_bind)

lemma owner_after_close:
  "inv s \<Longrightarrow> \<forall>e \<in> set es. (case e of Log_In c' _ _ \<Rightarrow> c' \<noteq> c | Log_Out c' \<Rightarrow> c' \<noteq> c) \<Longrightarrow>
   owner (fold apply_event es (unbind c s)) c = None"
  by (simp add: owner_run_other inv_unbind owner_unbind)

end

interpretation sessions: session_store session_ok open_session logged_out who
  by unfold_locales (simp_all add: session_ok_open session_ok_logged_out who_open who_logged_out)

end
