(* ===== verification/Tracker_Integrity.thy ===== *)
theory Tracker_Integrity
  imports Tracker_Connector
begin

text \<open>
  The integrity of the tracker's tables: \<open>tables_ok\<close> is what \<^verbatim>\<open>database/db_init.sql\<close> declares with
  its primary keys, unique columns, references and column types, and every method of
  \<^verbatim>\<open>PsqlConnector\<close> keeps it. The lemmas about rows of the three linking tables are stated once,
  for any extension of \<open>link_row\<close>.
\<close>

subsection \<open>Linking tables\<close>

definition links_ok :: "nat set \<Rightarrow> nat set \<Rightarrow> nat \<Rightarrow> 'a link_row_scheme list \<Rightarrow> bool" where
  "links_ok us ns sq ls \<longleftrightarrow>
     distinct (map l_id ls) \<and> distinct (map (\<lambda>l. (l_user l, l_network l)) ls) \<and>
     (\<forall>l \<in> set ls. l_id l < sq \<and> l_user l \<in> us \<and> l_network l \<in> ns)"

lemma links_ok_Nil [simp]: "links_ok us ns sq []"
  by (simp add: links_ok_def)

lemma links_ok_filter: "links_ok us ns sq ls \<Longrightarrow> links_ok us ns sq (filter P ls)"
  by (auto simp: links_ok_def distinct_map_filter)

lemma links_ok_mono: "links_ok us ns sq ls \<Longrightarrow> us \<subseteq> us' \<Longrightarrow> ns \<subseteq> ns' \<Longrightarrow> links_ok us' ns' sq ls"
  by (auto simp: links_ok_def)

lemma links_ok_drop:
  assumes "links_ok us ns sq ls" "us - du \<subseteq> us'" "ns - dn \<subseteq> ns'"
  shows "links_ok us' ns' sq (drop_links du dn ls)"
  using assms by (auto simp: links_ok_def drop_links_def distinct_map_filter subset_iff)

lemma ids_diff_filter: "f ` set xs - f ` set (filter P xs) \<subseteq> f ` set (filter (\<lambda>x. \<not> P x) xs)"
  by auto

lemma links_ok_drop_networks:
  "links_ok us (f ` set xs) sq ls \<Longrightarrow>
   links_ok us (f ` set (filter (\<lambda>x. \<not> P x) xs)) sq (drop_links {} (f ` set (filter P xs)) ls)"
  by (erule links_ok_drop [OF _ _ ids_diff_filter]) simp

lemma links_ok_drop_both:
  "links_ok (g ` set ys) (f ` set xs) sq ls \<Longrightarrow>
   links_ok (g ` set (filter (\<lambda>y. \<not> Q y) ys)) (f ` set (filter (\<lambda>x. \<not> P x) xs)) sq
     (drop_links (g ` set (filter Q ys)) (f ` set (filter P xs)) ls)"
  by (erule links_ok_drop [OF _ ids_diff_filter ids_diff_filter])

lemma links_ok_snoc:
  assumes "links_ok us ns sq ls" "l_id l = sq" "l_user l \<in> us" "l_network l \<in> ns"
    "\<not> linked (l_user l) (l_network l) ls"
  shows "links_ok us ns (Suc sq) (ls @ [l])"
  using assms by (auto simp: links_ok_def linked_def less_Suc_eq)

lemma links_ok_map:
  assumes "links_ok us ns sq ls"
    and "\<And>l. l_id (f l) = l_id l \<and> l_user (f l) = l_user l \<and> l_network (f l) = l_network l"
  shows "links_ok us ns sq (map f ls)"
  using assms by (simp add: links_ok_def comp_def)

subsection \<open>All tables\<close>

definition users_ok :: "tables \<Rightarrow> bool" where
  "users_ok t \<longleftrightarrow>
     distinct (map u_id (users t)) \<and> distinct (map u_login (users t)) \<and>
     (\<forall>u \<in> set (users t). u_id u < user_seq t \<and> char_ok 30 (u_login u) \<and> char_ok 70 (u_password u))"

definition networks_ok :: "tables \<Rightarrow> bool" where
  "networks_ok t \<longleftrightarrow>
     distinct (map n_id (networks t)) \<and> distinct (map n_name (networks t)) \<and>
     (\<forall>n \<in> set (networks t). n_id n < network_seq t \<and> n_owner n \<in> u_id ` set (users t) \<and>
        char_ok 30 (n_name n))"

definition tables_ok :: "tables \<Rightarrow> bool" where
  "tables_ok t \<longleftrightarrow> users_ok t \<and> networks_ok t \<and>
     links_ok (u_id ` set (users t)) (n_id ` set (networks t)) (server_seq t) (servers t) \<and>
     links_ok (u_id ` set (users t)) (n_id ` set (networks t)) (invitation_seq t) (invitations t) \<and>
     links_ok (u_id ` set (users t)) (n_id ` set (networks t)) (key_seq t) (publicKeys t)"

definition db_ok :: "db \<Rightarrow> bool" where
  "db_ok d \<longleftrightarrow> tables_ok (store d)"

lemma tables_ok_empty: "tables_ok empty_tables"
  by (simp add: tables_ok_def users_ok_def networks_ok_def empty_tables_def)

lemma user_by_login_SomeD: "user_by_login login t = Some u \<Longrightarrow> u \<in> set (users t) \<and> u_login u = rtrim login"
  unfolding user_by_login_def by (rule find_key_SomeD)

lemma network_by_name_SomeD: "network_by_name name t = Some n \<Longrightarrow> n \<in> set (networks t) \<and> n_name n = rtrim name"
  unfolding network_by_name_def by (rule find_key_SomeD)

lemma user_id_of_SomeD: "user_id_of login t = Some i \<Longrightarrow> i \<in> u_id ` set (users t)"
  by (auto simp: user_id_of_def dest: user_by_login_SomeD)

lemma network_id_of_SomeD: "network_id_of name t = Some i \<Longrightarrow> i \<in> n_id ` set (networks t)"
  by (auto simp: network_id_of_def dest: network_by_name_SomeD)

lemma user_by_login_unique:
  "users_ok t \<Longrightarrow> u \<in> set (users t) \<Longrightarrow> u_login u = rtrim login \<Longrightarrow> user_by_login login t = Some u"
  using find_key_unique [of u_login "users t" u] by (simp add: users_ok_def user_by_login_def)

lemma network_by_name_unique:
  "networks_ok t \<Longrightarrow> n \<in> set (networks t) \<Longrightarrow> n_name n = rtrim name \<Longrightarrow> network_by_name name t = Some n"
  using find_key_unique [of n_name "networks t" n] by (simp add: networks_ok_def network_by_name_def)

subsection \<open>Statements preserve it\<close>

lemma tables_ok_insert_user:
  assumes ok: "tables_ok t" and st: "insert_user l p t = Inr (r, t')"
  shows "tables_ok t'"
proof -
  from st obtain a b where a: "char_in 30 l = Some a" and b: "char_in 70 p = Some b"
    and fresh: "a \<notin> u_login ` set (users t)"
    and t': "t' = t\<lparr>users := users t @ [\<lparr>u_id = user_seq t, u_login = a, u_password = b\<rparr>],
                    user_seq := Suc (user_seq t)\<rparr>"
    by (auto simp: insert_user_def split: option.splits if_splits)
  have "users_ok t'"
    using ok fresh char_in_ok [OF a] char_in_ok [OF b]
    by (auto simp: t' tables_ok_def users_ok_def)
  moreover have "networks_ok t'"
    using ok by (auto simp: t' tables_ok_def networks_ok_def)
  ultimately show ?thesis
    using ok by (auto simp: t' tables_ok_def elim!: links_ok_mono)
qed

lemma tables_ok_insert_network:
  assumes ok: "tables_ok t" and st: "insert_network nm ow a b c m p t = Inr (r, t')"
  shows "tables_ok t'"
proof -
  from st obtain n m' p' uid where n: "char_in 30 nm = Some n" and uid: "user_id_of ow t = Some uid"
    and fresh: "n \<notin> n_name ` set (networks t)"
    and t': "t' = t\<lparr>networks := networks t @
        [\<lparr>n_id = network_seq t, n_owner = uid, n_name = n, n_public = a, n_visible = b,
          n_participable = c, n_email = m', n_protocol = p'\<rparr>], network_seq := Suc (network_seq t)\<rparr>"
    by (auto simp: insert_network_def split: option.splits if_splits)
  have "networks_ok t'"
    using ok fresh char_in_ok [OF n] user_id_of_SomeD [OF uid]
    by (auto simp: t' tables_ok_def networks_ok_def)
  moreover have "users_ok t'"
    using ok by (auto simp: t' tables_ok_def users_ok_def)
  ultimately show ?thesis
    using ok by (auto simp: t' tables_ok_def elim!: links_ok_mono)
qed

lemma tables_ok_insert_invitation:
  "tables_ok t \<Longrightarrow> insert_invitation l n t = Inr (r, t') \<Longrightarrow> tables_ok t'"
  by (auto simp: insert_invitation_def tables_ok_def users_ok_def networks_ok_def
      split: option.splits if_splits dest!: user_id_of_SomeD network_id_of_SomeD intro!: links_ok_snoc)

lemma tables_ok_insert_key: "tables_ok t \<Longrightarrow> insert_key l n k t = Inr (r, t') \<Longrightarrow> tables_ok t'"
  by (auto simp: insert_key_def tables_ok_def users_ok_def networks_ok_def
      split: option.splits if_splits dest!: user_id_of_SomeD network_id_of_SomeD intro!: links_ok_snoc)

lemma tables_ok_insert_server:
  "tables_ok t \<Longrightarrow> insert_server n l ip port ttl t = Inr (r, t') \<Longrightarrow> tables_ok t'"
  by (auto simp: insert_server_def tables_ok_def users_ok_def networks_ok_def
      split: option.splits if_splits dest!: user_id_of_SomeD network_id_of_SomeD intro!: links_ok_snoc)

lemma tables_ok_delete_networks:
  assumes ok: "tables_ok t" and st: "delete_networks P t = Inr (r, t')"
  shows "tables_ok t'"
proof -
  from st have t': "t' = t\<lparr>networks := filter (\<lambda>n. \<not> P n) (networks t),
      servers := drop_links {} (n_id ` set (filter P (networks t))) (servers t),
      invitations := drop_links {} (n_id ` set (filter P (networks t))) (invitations t),
      publicKeys := drop_links {} (n_id ` set (filter P (networks t))) (publicKeys t)\<rparr>"
    by (simp add: delete_networks_def Let_def)
  have "users_ok t'" "networks_ok t'"
    using ok by (auto simp: t' tables_ok_def users_ok_def networks_ok_def distinct_map_filter)
  then show ?thesis
    using ok by (simp add: t' tables_ok_def links_ok_drop_networks del: set_filter)
qed

lemma tables_ok_delete_users:
  assumes ok: "tables_ok t" and st: "delete_users P t = Inr (r, t')"
  shows "tables_ok t'"
proof -
  define us where "us = u_id ` set (filter P (users t))"
  define Q where "Q = (\<lambda>n :: network_row. n_owner n \<in> us)"
  from st have t': "t' = t\<lparr>users := filter (\<lambda>u. \<not> P u) (users t),
      networks := filter (\<lambda>n. \<not> Q n) (networks t),
      servers := drop_links us (n_id ` set (filter Q (networks t))) (servers t),
      invitations := drop_links us (n_id ` set (filter Q (networks t))) (invitations t),
      publicKeys := drop_links us (n_id ` set (filter Q (networks t))) (publicKeys t)\<rparr>"
    by (simp add: delete_users_def Let_def us_def Q_def)
  have users: "users_ok t'"
    using ok by (auto simp: t' tables_ok_def users_ok_def distinct_map_filter)
  have "n_owner n \<in> u_id ` set (users t')" if "n \<in> set (networks t')" for n
    using that ok ids_diff_filter [of u_id "users t" P]
    by (auto simp: t' Q_def us_def tables_ok_def networks_ok_def)
  with ok have "networks_ok t'"
    by (auto simp: t' tables_ok_def networks_ok_def distinct_map_filter)
  with users show ?thesis
    using ok by (simp add: t' us_def tables_ok_def links_ok_drop_both del: set_filter)
qed

lemma tables_ok_update_password:
  assumes ok: "tables_ok t" and st: "update_password l p t = Inr (r, t')"
  shows "tables_ok t'"
proof -
  from st obtain q f where q: "char_in 70 p = Some q"
    and t': "t' = t\<lparr>users := map f (users t)\<rparr>"
    and f: "\<And>u. u_id (f u) = u_id u \<and> u_login (f u) = u_login u \<and>
      (u_password (f u) = q \<or> u_password (f u) = u_password u)"
    by (fastforce simp: update_password_def Let_def split: option.splits)
  have ids: "u_id \<circ> f = u_id" "u_login \<circ> f = u_login" "u_id ` set (users t') = u_id ` set (users t)"
    using f by (auto simp: t' image_image)
  have "users_ok t'"
    using ok f char_in_ok [OF q] by (auto simp: t' tables_ok_def users_ok_def ids; metis)
  moreover have "networks_ok t'"
    using ok ids(3) by (simp add: tables_ok_def networks_ok_def) (simp add: t')
  ultimately show ?thesis
    using ok ids(3) by (simp add: tables_ok_def) (simp add: t')
qed

lemma tables_ok_update_server:
  assumes ok: "tables_ok t" and st: "update_server n l ip port ttl t = Inr (r, t')"
  shows "tables_ok t'"
proof -
  from st obtain f where t': "t' = t\<lparr>servers := map f (servers t)\<rparr>"
    and f: "\<And>s. l_id (f s) = l_id s \<and> l_user (f s) = l_user s \<and> l_network (f s) = l_network s"
    by (fastforce simp: update_server_def Let_def split: option.splits)
  from f ok have "links_ok (u_id ` set (users t)) (n_id ` set (networks t)) (server_seq t) (map f (servers t))"
    by (intro links_ok_map) (auto simp: tables_ok_def)
  with ok show ?thesis
    by (simp add: t' tables_ok_def users_ok_def networks_ok_def)
qed

lemma tables_ok_delete_servers: "tables_ok t \<Longrightarrow> delete_servers P t = Inr (r, t') \<Longrightarrow> tables_ok t'"
  by (auto simp: delete_servers_def tables_ok_def users_ok_def networks_ok_def intro: links_ok_filter)

lemma tables_ok_delete_invitations: "tables_ok t \<Longrightarrow> delete_invitations P t = Inr (r, t') \<Longrightarrow> tables_ok t'"
  by (auto simp: delete_invitations_def tables_ok_def users_ok_def networks_ok_def intro: links_ok_filter)

lemma tables_ok_clean: "tables_ok t \<Longrightarrow> clean_stmt e ttl t = Inr (r, t') \<Longrightarrow> tables_ok t'"
  by (auto simp: clean_stmt_def Let_def intro: tables_ok_delete_servers split: if_splits)

lemmas tables_ok_stmts =
  tables_ok_insert_user tables_ok_insert_network tables_ok_insert_invitation tables_ok_insert_key
  tables_ok_insert_server tables_ok_delete_networks tables_ok_delete_users tables_ok_update_password
  tables_ok_update_server tables_ok_delete_servers tables_ok_delete_invitations tables_ok_clean

subsection \<open>Methods preserve it\<close>

lemma snd_case_work [simp]:
  "snd (case w of (Inl e, d') \<Rightarrow> (f e, d') | (Inr r, d') \<Rightarrow> (g r, d')) = snd w"
  by (simp split: prod.split sum.split)

lemma db_ok_work:
  assumes "db_ok d" and "\<And>r t. tables_ok (store d) \<Longrightarrow> st (store d) = Inr (r, t) \<Longrightarrow> tables_ok t"
  shows "db_ok (snd (work_if c st d))"
  using assms(1) assms(2) [OF assms(1) [unfolded db_ok_def]] unfolding db_ok_def
  by (rule store_work_if)

lemma store_queries [frame_simps]:
  "store (snd (isUser l p d)) = store d"
  "store (snd (userExists l d)) = store d"
  "store (snd (networkExists n d)) = store d"
  "store (snd (canSeeNetwork n l d)) = store d"
  "store (snd (canAddServer l n d)) = store d"
  "store (snd (getAllNetworks b l d)) = store d"
  "store (snd (getUserNetworks b l d)) = store d"
  "store (snd (getServers n d)) = store d"
  by (simp_all add: isUser_def userExists_def networkExists_def canSeeNetwork_def canAddServer_def
      getAllNetworks_def getUserNetworks_def getServers_def)

lemma store_work_case:
  "work_if c (query f) d = (r, d') \<Longrightarrow> store d' = store d"
  using store_work_query [of c f d] by simp

lemma store_readers [frame_simps]:
  "store (snd (getPassHash l d)) = store d"
  "store (snd (getUserInfo l n d)) = store d"
  by (auto simp: getPassHash_def getUserInfo_def split: prod.split sum.split list.split
      dest: store_work_case)

lemma db_ok_store: "store d' = store d \<Longrightarrow> db_ok d' = db_ok d"
  by (simp add: db_ok_def)

lemma db_ok_readers [wf_intros]:
  "db_ok d \<Longrightarrow> db_ok (snd (isUser l p d))"
  "db_ok d \<Longrightarrow> db_ok (snd (userExists l d))"
  "db_ok d \<Longrightarrow> db_ok (snd (networkExists n d))"
  "db_ok d \<Longrightarrow> db_ok (snd (canSeeNetwork n l d))"
  "db_ok d \<Longrightarrow> db_ok (snd (canAddServer l n d))"
  "db_ok d \<Longrightarrow> db_ok (snd (getAllNetworks b l d))"
  "db_ok d \<Longrightarrow> db_ok (snd (getUserNetworks b l d))"
  "db_ok d \<Longrightarrow> db_ok (snd (getServers n d))"
  "db_ok d \<Longrightarrow> db_ok (snd (getPassHash l d))"
  "db_ok d \<Longrightarrow> db_ok (snd (getUserInfo l n d))"
  by (simp_all add: db_ok_def frame_simps)

lemma db_ok_writers [wf_intros]:
  "db_ok d \<Longrightarrow> db_ok (snd (createUser l p d))"
  "db_ok d \<Longrightarrow> db_ok (snd (removeUser l d))"
  "db_ok d \<Longrightarrow> db_ok (snd (removeUser_by_id i d))"
  "db_ok d \<Longrightarrow> db_ok (snd (changeUserPassword l p d))"
  "db_ok d \<Longrightarrow> db_ok (snd (addKey l n k d))"
  "db_ok d \<Longrightarrow> db_ok (snd (createInvitation l n d))"
  "db_ok d \<Longrightarrow> db_ok (snd (deleteInvitation l n d))"
  "db_ok d \<Longrightarrow> db_ok (snd (createNetwork n l x y z m p d))"
  "db_ok d \<Longrightarrow> db_ok (snd (deleteNetwork l n d))"
  "db_ok d \<Longrightarrow> db_ok (snd (deleteServer n l d))"
  "db_ok d \<Longrightarrow> db_ok (cleanServers ep ttl d)"
  by (simp_all only: createUser_def removeUser_def removeUser_by_id_def changeUserPassword_def
      addKey_def createInvitation_def deleteInvitation_def createNetwork_def deleteNetwork_def
      deleteServer_def cleanServers_def snd_case_work)
    (erule db_ok_work, erule tables_ok_stmts, assumption)+

lemma db_ok_updateServer [wf_intros]:
  assumes "db_ok d"
  shows "db_ok (snd (updateServer n l ip port ttl d))"
proof -
  let ?w = "work_if (\<lambda>affected. \<not> affected > 0) (update_server n l ip port ttl) d"
  have "db_ok (snd ?w)"
    using assms by (rule db_ok_work) (rule tables_ok_update_server)
  then have "db_ok (snd (work (insert_server n l ip port ttl) (snd ?w)))"
    by (rule db_ok_work) (rule tables_ok_insert_server)
  with \<open>db_ok (snd ?w)\<close> show ?thesis
    by (auto simp: updateServer_def split: prod.split sum.split)
qed

end
