(* ===== verification/Tracker_Registry.thy ===== *)
theory Tracker_Registry
  imports Tracker_Integrity
begin

text \<open>
  What the tracker's database promises, without rows, ids and foreign keys: a \<open>registry\<close> maps logins
  to password hashes, network names to their description with the owner's login, and a login with a
  network name to a server, an invitation and a key (all names up to trailing blanks). \<open>registry_of\<close>
  reads it off the tables; each statement that the methods of \<^verbatim>\<open>PsqlConnector\<close> run is shown to
  implement one update of the registry.
\<close>

record network_info =
  ni_owner :: string
  ni_public :: bool
  ni_visible :: bool
  ni_participable :: bool
  ni_email :: string
  ni_protocol :: string

record registry =
  r_password :: "string \<Rightarrow> string option"
  r_network :: "string \<Rightarrow> network_info option"
  r_server :: "string \<Rightarrow> string \<Rightarrow> (string \<times> int32 \<times> int32) option"
  r_invited :: "string \<Rightarrow> string \<Rightarrow> bool"
  r_key :: "string \<Rightarrow> string \<Rightarrow> string option"

definition owner_login :: "tables \<Rightarrow> network_row \<Rightarrow> string" where
  "owner_login t n = (case find (\<lambda>u. u_id u = n_owner n) (users t) of Some u \<Rightarrow> u_login u | None \<Rightarrow> '''')"

definition network_info_of :: "tables \<Rightarrow> network_row \<Rightarrow> network_info" where
  "network_info_of t n =
     \<lparr>ni_owner = owner_login t n, ni_public = n_public n, ni_visible = n_visible n,
      ni_participable = n_participable n, ni_email = n_email n, ni_protocol = n_protocol n\<rparr>"

definition link_of :: "string \<Rightarrow> string \<Rightarrow> tables \<Rightarrow> 'a link_row_scheme list \<Rightarrow> 'a link_row_scheme option" where
  "link_of login name t ls = find (link_matches login name t) ls"

definition registry_of :: "tables \<Rightarrow> registry" where
  "registry_of t =
     \<lparr>r_password = (\<lambda>l. map_option u_password (user_by_login l t)),
      r_network = (\<lambda>n. map_option (network_info_of t) (network_by_name n t)),
      r_server = (\<lambda>l n. map_option (\<lambda>s. (s_ip s, s_port s, s_ttl s)) (link_of l n t (servers t))),
      r_invited = (\<lambda>l n. link_of l n t (invitations t) \<noteq> None),
      r_key = (\<lambda>l n. map_option k_key (link_of l n t (publicKeys t)))\<rparr>"

lemma registry_of_simps [simp]:
  "r_password (registry_of t) l = map_option u_password (user_by_login l t)"
  "r_network (registry_of t) n = map_option (network_info_of t) (network_by_name n t)"
  "r_server (registry_of t) l n = map_option (\<lambda>s. (s_ip s, s_port s, s_ttl s)) (link_of l n t (servers t))"
  "r_invited (registry_of t) l n \<longleftrightarrow> link_of l n t (invitations t) \<noteq> None"
  "r_key (registry_of t) l n = map_option k_key (link_of l n t (publicKeys t))"
  by (simp_all add: registry_of_def)

subsection \<open>Updates of the registry\<close>

definition same_name :: "string \<Rightarrow> string \<Rightarrow> bool" where
  "same_name a b \<longleftrightarrow> rtrim a = rtrim b"

definition owned_by :: "registry \<Rightarrow> string \<Rightarrow> string \<Rightarrow> bool" where
  "owned_by r n login \<longleftrightarrow> (\<exists>i. r_network r n = Some i \<and> ni_owner i = rtrim login)"

definition reg_set_password :: "string \<Rightarrow> string \<Rightarrow> registry \<Rightarrow> registry" where
  "reg_set_password login p r = r\<lparr>r_password := (\<lambda>l. if same_name l login then Some p else r_password r l)\<rparr>"

definition reg_remove :: "(string \<Rightarrow> bool) \<Rightarrow> (string \<Rightarrow> bool) \<Rightarrow> registry \<Rightarrow> registry" where
  "reg_remove U N r =
     \<lparr>r_password = (\<lambda>l. if U l then None else r_password r l),
      r_network = (\<lambda>n. if N n then None else r_network r n),
      r_server = (\<lambda>l n. if U l \<or> N n then None else r_server r l n),
      r_invited = (\<lambda>l n. \<not> U l \<and> \<not> N n \<and> r_invited r l n),
      r_key = (\<lambda>l n. if U l \<or> N n then None else r_key r l n)\<rparr>"

definition reg_remove_user :: "string \<Rightarrow> registry \<Rightarrow> registry" where
  "reg_remove_user login r = reg_remove (\<lambda>l. same_name l login) (\<lambda>n. owned_by r n login) r"

definition reg_delete_network :: "string \<Rightarrow> registry \<Rightarrow> registry" where
  "reg_delete_network name r = reg_remove (\<lambda>_. False) (\<lambda>n. same_name n name) r"

definition reg_add_network :: "string \<Rightarrow> network_info \<Rightarrow> registry \<Rightarrow> registry" where
  "reg_add_network name i r = r\<lparr>r_network := (\<lambda>n. if same_name n name then Some i else r_network r n)\<rparr>"

definition reg_invite :: "string \<Rightarrow> string \<Rightarrow> registry \<Rightarrow> registry" where
  "reg_invite login name r =
     r\<lparr>r_invited := (\<lambda>l n. same_name l login \<and> same_name n name \<or> r_invited r l n)\<rparr>"

definition reg_set_key :: "string \<Rightarrow> string \<Rightarrow> string \<Rightarrow> registry \<Rightarrow> registry" where
  "reg_set_key login name k r =
     r\<lparr>r_key := (\<lambda>l n. if same_name l login \<and> same_name n name then Some k else r_key r l n)\<rparr>"

definition reg_set_server ::
  "string \<Rightarrow> string \<Rightarrow> (string \<times> int32 \<times> int32) option \<Rightarrow> registry \<Rightarrow> registry" where
  "reg_set_server login name v r =
     r\<lparr>r_server := (\<lambda>l n. if same_name l login \<and> same_name n name then v else r_server r l n)\<rparr>"

lemma registry_updates [simp]:
  "r_password (reg_set_password a p r) l = (if same_name l a then Some p else r_password r l)"
  "r_network (reg_set_password a p r) n = r_network r n"
  "r_server (reg_set_password a p r) l n = r_server r l n"
  "r_password (reg_remove U N r) l = (if U l then None else r_password r l)"
  "r_network (reg_remove U N r) n = (if N n then None else r_network r n)"
  "r_server (reg_remove U N r) l n = (if U l \<or> N n then None else r_server r l n)"
  "r_password (reg_add_network m i r) l = r_password r l"
  "r_network (reg_add_network m i r) n = (if same_name n m then Some i else r_network r n)"
  "r_server (reg_add_network m i r) l n = r_server r l n"
  "r_password (reg_invite a m r) l = r_password r l"
  "r_network (reg_invite a m r) n = r_network r n"
  "r_server (reg_invite a m r) l n = r_server r l n"
  "r_password (reg_set_key a m k r) l = r_password r l"
  "r_network (reg_set_key a m k r) n = r_network r n"
  "r_server (reg_set_key a m k r) l n = r_server r l n"
  "r_password (reg_set_server a m v r) l = r_password r l"
  "r_network (reg_set_server a m v r) n = r_network r n"
  "r_server (reg_set_server a m v r) l n = (if same_name l a \<and> same_name n m then v else r_server r l n)"
  by (simp_all add: reg_set_password_def reg_remove_def reg_add_network_def reg_invite_def
      reg_set_key_def reg_set_server_def)

subsection \<open>Looking up keyed rows after an update\<close>

lemma find_filter_conj: "find P (filter Q xs) = find (\<lambda>x. Q x \<and> P x) xs"
  by (induction xs) auto

lemma find_key_filter:
  "distinct (map f xs) \<Longrightarrow>
   find (\<lambda>x. f x = k) (filter Q xs) =
     (case find (\<lambda>x. f x = k) xs of Some x \<Rightarrow> if Q x then Some x else None | None \<Rightarrow> None)"
proof (induction xs)
  case (Cons a xs)
  have "find (\<lambda>x. f x = f a) xs = None"
    using Cons.prems by (auto simp: find_None_iff image_iff)
  with Cons show ?case by (auto split: option.split)
qed simp

lemma key_in_filtered:
  assumes "distinct (map f xs)" "x \<in> set xs"
  shows "f x \<in> f ` set (filter P xs) \<longleftrightarrow> P x"
proof
  assume "f x \<in> f ` set (filter P xs)"
  then obtain y where "y \<in> set xs" "P y" "f y = f x" by auto
  with distinct_map_inj [OF assms(1), of y x] assms(2) show "P x" by simp
qed (use assms in auto)

lemma filter_key_single:
  "distinct (map f xs) \<Longrightarrow> x \<in> set xs \<Longrightarrow> filter (\<lambda>y. f y = f x) xs = [x]"
proof (induction xs)
  case (Cons a xs)
  show ?case
  proof (cases "x = a")
    case True
    with Cons.prems have "\<And>y. y \<in> set xs \<Longrightarrow> f y \<noteq> f x" by (auto simp: image_iff)
    with True show ?thesis by (simp add: filter_empty_conv)
  next
    case False
    with Cons show ?thesis by auto
  qed
qed simp

lemma find_filter_implied: "(\<And>x. x \<in> set xs \<Longrightarrow> P x \<Longrightarrow> Q x) \<Longrightarrow> find P (filter Q xs) = find P xs"
  by (induction xs) auto

lemma find_map_keep: "(\<And>x. P (g x) = P x) \<Longrightarrow> find P (map g xs) = map_option g (find P xs)"
  by (induction xs) auto

lemma find_snoc:
  "find P (xs @ [x]) = (case find P xs of Some y \<Rightarrow> Some y | None \<Rightarrow> if P x then Some x else None)"
  by (induction xs) auto

lemma find_all_false: "(\<And>x. x \<in> set xs \<Longrightarrow> \<not> P x) \<Longrightarrow> find P xs = None"
  by (simp add: find_None_iff)

lemma find_cong_pred: "(\<And>x. x \<in> set xs \<Longrightarrow> P x = Q x) \<Longrightarrow> find P xs = find Q xs"
  by (induction xs) auto

lemma same_name_refl [simp]: "same_name a a" and same_name_rtrim [simp]: "same_name (rtrim a) b = same_name a b"
  by (simp_all add: same_name_def)

lemma user_id_of_eq_iff:
  assumes ok: "tables_ok t" and a: "user_id_of a t = Some i"
  shows "user_id_of b t = Some i \<longleftrightarrow> same_name b a"
proof
  assume "user_id_of b t = Some i"
  with a obtain x y where "user_by_login a t = Some x" "user_by_login b t = Some y" "u_id x = u_id y"
    by (auto simp: user_id_of_def)
  moreover from this ok have "x = y"
    by (auto simp: tables_ok_def users_ok_def dest: user_by_login_SomeD intro: distinct_map_inj [of u_id "users t"])
  ultimately show "same_name b a" by (auto simp: same_name_def dest!: user_by_login_SomeD)
next
  assume "same_name b a"
  with a show "user_id_of b t = Some i" by (simp add: user_id_of_def user_by_login_def same_name_def)
qed

lemma network_id_of_eq_iff:
  assumes ok: "tables_ok t" and a: "network_id_of a t = Some i"
  shows "network_id_of b t = Some i \<longleftrightarrow> same_name b a"
proof
  assume "network_id_of b t = Some i"
  with a obtain x y where "network_by_name a t = Some x" "network_by_name b t = Some y" "n_id x = n_id y"
    by (auto simp: network_id_of_def)
  moreover from this ok have "x = y"
    by (auto simp: tables_ok_def networks_ok_def dest: network_by_name_SomeD
        intro: distinct_map_inj [of n_id "networks t"])
  ultimately show "same_name b a" by (auto simp: same_name_def dest!: network_by_name_SomeD)
next
  assume "same_name b a"
  with a show "network_id_of b t = Some i"
    by (simp add: network_id_of_def network_by_name_def same_name_def)
qed

lemma link_of_cong:
  assumes "user_id_of l t' = user_id_of l t" "network_id_of n t' = network_id_of n t"
  shows "link_of l n t' ls = link_of l n t ls"
  unfolding link_of_def by (rule find_cong_pred) (simp add: link_matches_def assms)

lemma link_of_snoc:
  "link_of l n t (ls @ [x]) =
     (case link_of l n t ls of Some y \<Rightarrow> Some y | None \<Rightarrow> if link_matches l n t x then Some x else None)"
  by (simp add: link_of_def find_snoc)

lemma link_of_None [simp]:
  "user_id_of l t = None \<Longrightarrow> link_of l n t ls = None"
  "network_id_of n t = None \<Longrightarrow> link_of l n t ls = None"
  by (auto simp: link_of_def link_matches_def intro: find_all_false)

text \<open>A row that matches two pairs of names matches them up to trailing blanks.\<close>

lemma link_matches_pair:
  assumes "tables_ok t" "user_id_of login t = Some (l_user x)" "network_id_of name t = Some (l_network x)"
  shows "link_matches l n t x \<longleftrightarrow> same_name l login \<and> same_name n name"
  using user_id_of_eq_iff [OF assms(1,2)] network_id_of_eq_iff [OF assms(1,3)]
  by (simp add: link_matches_def)

lemma not_linked_link_of:
  assumes "tables_ok t" "user_id_of login t = Some u" "network_id_of name t = Some i"
    and "\<not> linked u i ls" "same_name l login" "same_name n name"
  shows "link_of l n t ls = None"
proof -
  have "user_id_of l t = Some u" "network_id_of n t = Some i"
    using assms user_id_of_eq_iff network_id_of_eq_iff by blast+
  with assms(4) show ?thesis
    unfolding link_of_def by (intro find_all_false) (auto simp: link_matches_def linked_def)
qed

lemma link_of_same:
  "(\<And>x. x \<in> set ls \<Longrightarrow> link_matches l n t' x = link_matches l n t x) \<Longrightarrow> link_of l n t' ls = link_of l n t ls"
  unfolding link_of_def by (rule find_cong_pred)

lemma registry_eqI:
  assumes "\<And>l. r_password r l = r_password s l" "\<And>n. r_network r n = r_network s n"
    "\<And>l n. r_server r l n = r_server s l n" "\<And>l n. r_invited r l n = r_invited s l n"
    "\<And>l n. r_key r l n = r_key s l n"
  shows "r = (s :: registry)"
  by (intro registry.equality ext) (simp_all add: assms)

lemma network_info_of_cong:
  "owner_login t' n = owner_login t n \<Longrightarrow> network_info_of t' n = network_info_of t n"
  by (simp add: network_info_of_def)

lemma r_network_cong:
  assumes "\<And>m. network_by_name m t' = network_by_name m t"
    and "\<And>x. x \<in> set (networks t) \<Longrightarrow> owner_login t' x = owner_login t x"
  shows "map_option (network_info_of t') (network_by_name n t') = map_option (network_info_of t) (network_by_name n t)"
  using assms by (auto simp: network_info_of_def map_option_case split: option.split
      dest!: network_by_name_SomeD)

subsection \<open>The statements implement the updates\<close>

text \<open>The owner of a network, found by id, is the user its row references.\<close>

lemma owner_login_eq:
  assumes "tables_ok t" "u \<in> set (users t)" "n_owner n = u_id u"
  shows "owner_login t n = u_login u"
  using find_key_unique [of u_id "users t" u] assms by (simp add: owner_login_def tables_ok_def users_ok_def)

lemma owner_exists:
  assumes "tables_ok t" "n \<in> set (networks t)"
  obtains u where "u \<in> set (users t)" "n_owner n = u_id u" "owner_login t n = u_login u"
  using assms owner_login_eq by (auto simp: tables_ok_def networks_ok_def)

lemma owner_login_iff:
  assumes ok: "tables_ok t" and n: "n \<in> set (networks t)"
  shows "user_id_of l t = Some (n_owner n) \<longleftrightarrow> owner_login t n = rtrim l"
proof -
  obtain u where u: "u \<in> set (users t)" "n_owner n = u_id u" "owner_login t n = u_login u"
    using ok n by (rule owner_exists)
  have "user_by_login (u_login u) t = Some u"
    using ok u(1) by (intro user_by_login_unique) (auto simp: tables_ok_def users_ok_def char_ok_def)
  then have "user_id_of (u_login u) t = Some (n_owner n)"
    by (simp add: user_id_of_def u)
  then show ?thesis
    using user_id_of_eq_iff [OF ok, of "u_login u" "n_owner n" l] u ok
    by (auto simp: same_name_def tables_ok_def users_ok_def char_ok_def)
qed

lemma refine_insert_user:
  assumes ok: "tables_ok t" and st: "insert_user login p t = Inr (r, t')"
  shows "registry_of t' = reg_set_password login (rtrim p) (registry_of t)"
proof -
  from st obtain row where fresh: "rtrim login \<notin> u_login ` set (users t)"
    and row: "row = \<lparr>u_id = user_seq t, u_login = rtrim login, u_password = rtrim p\<rparr>"
    and t': "t' = t\<lparr>users := users t @ [row], user_seq := Suc (user_seq t)\<rparr>"
    by (auto simp: insert_user_def char_in_def split: option.splits if_splits)
  have sel: "servers t' = servers t" "invitations t' = invitations t" "publicKeys t' = publicKeys t"
    by (simp_all add: t')
  have old: "user_by_login l t = None" if "same_name l login" for l
    using that fresh unfolding user_by_login_def same_name_def by (intro find_all_false) (metis image_eqI)
  have by_login: "user_by_login l t' = (if same_name l login then Some row else user_by_login l t)" for l
    using old [of l] by (auto simp: user_by_login_def t' row find_snoc same_name_def split: option.split)
  have net: "network_by_name n t' = network_by_name n t" for n
    by (simp add: network_by_name_def t')
  have owner: "owner_login t' x = owner_login t x" if "x \<in> set (networks t)" for x
  proof -
    obtain u where "u \<in> set (users t)" "n_owner x = u_id u"
      using ok \<open>x \<in> set (networks t)\<close> by (rule owner_exists)
    then have "find (\<lambda>u. u_id u = n_owner x) (users t) = Some u"
      using find_key_unique [of u_id "users t" u] ok by (simp add: tables_ok_def users_ok_def)
    then show ?thesis by (simp add: owner_login_def t' find_snoc)
  qed
  have lnk: "link_of l n t' ls = link_of l n t ls"
    if "\<forall>x \<in> set ls. l_user x \<in> u_id ` set (users t)" for l n and ls :: "'z link_row_scheme list"
  proof (rule link_of_same)
    fix x assume "x \<in> set ls"
    with that have "l_user x \<in> u_id ` set (users t)" by blast
    with ok have "l_user x < user_seq t" by (auto simp: tables_ok_def users_ok_def)
    with old [of l] show "link_matches l n t' x = link_matches l n t x"
      by (auto simp: link_matches_def user_id_of_def by_login row network_id_of_def net)
  qed
  show ?thesis
    using ok by (intro registry_eqI)
      (auto simp: registry_of_def reg_set_password_def by_login row r_network_cong [OF net owner]
        lnk sel tables_ok_def links_ok_def)
qed

lemma refine_update_password:
  assumes st: "update_password login p t = Inr (r, t')" and known: "user_by_login login t \<noteq> None"
  shows "registry_of t' = reg_set_password login (rtrim p) (registry_of t)"
proof -
  let ?f = "\<lambda>u. if u_login u = rtrim login then u\<lparr>u_password := rtrim p\<rparr> else u"
  from st have t': "t' = t\<lparr>users := map ?f (users t)\<rparr>"
    by (auto simp: update_password_def Let_def char_in_def split: if_splits)
  have sel: "servers t' = servers t" "invitations t' = invitations t" "publicKeys t' = publicKeys t"
    by (simp_all add: t')
  have by_login: "user_by_login l t' = map_option ?f (user_by_login l t)" for l
    unfolding user_by_login_def t' by (simp add: find_map_keep)
  have net: "network_by_name n t' = network_by_name n t" for n
    by (simp add: network_by_name_def t')
  have owner: "owner_login t' x = owner_login t x" for x
    by (simp add: owner_login_def t' find_map_keep map_option_case split: option.split)
  have lnk: "link_of l n t' ls = link_of l n t ls" for l n and ls :: "'z link_row_scheme list"
    by (rule link_of_cong)
      (simp_all add: user_id_of_def by_login network_id_of_def net option.map_comp comp_def if_distrib
        cong: if_cong map_option_cong)
  have pw: "map_option u_password (map_option ?f (user_by_login l t)) =
      (if same_name l login then Some (rtrim p) else map_option u_password (user_by_login l t))" for l
    using known user_by_login_SomeD [of l t]
    by (cases "user_by_login l t") (auto simp: same_name_def user_by_login_def)
  show ?thesis
    by (intro registry_eqI)
      (simp_all add: registry_of_def reg_set_password_def by_login pw r_network_cong [OF net owner] lnk sel
        del: option.map_comp)
qed

lemma refine_insert_network:
  assumes ok: "tables_ok t" and st: "insert_network nm login a b c m p t = Inr (r, t')"
  shows "\<exists>m' p'. varchar_in 40 m = Some m' \<and> varchar_in 40 p = Some p' \<and>
    registry_of t' = reg_add_network nm
      \<lparr>ni_owner = rtrim login, ni_public = a, ni_visible = b, ni_participable = c,
       ni_email = m', ni_protocol = p'\<rparr> (registry_of t)"
proof -
  from st obtain m' p' uid row where m': "varchar_in 40 m = Some m'" "varchar_in 40 p = Some p'"
    and uid: "user_id_of login t = Some uid" and fresh: "rtrim nm \<notin> n_name ` set (networks t)"
    and row: "row = \<lparr>n_id = network_seq t, n_owner = uid, n_name = rtrim nm, n_public = a,
        n_visible = b, n_participable = c, n_email = m', n_protocol = p'\<rparr>"
    and t': "t' = t\<lparr>networks := networks t @ [row], network_seq := Suc (network_seq t)\<rparr>"
    by (auto simp: insert_network_def char_in_def split: option.splits if_splits)
  have sel: "servers t' = servers t" "invitations t' = invitations t" "publicKeys t' = publicKeys t"
    by (simp_all add: t')
  have old: "network_by_name n t = None" if "same_name n nm" for n
    using that fresh unfolding network_by_name_def same_name_def by (intro find_all_false) (metis image_eqI)
  have net: "network_by_name n t' = (if same_name n nm then Some row else network_by_name n t)" for n
    using old [of n] by (auto simp: network_by_name_def t' row find_snoc same_name_def split: option.split)
  have by_login: "user_by_login l t' = user_by_login l t" for l
    by (simp add: user_by_login_def t')
  have own: "owner_login t' x = owner_login t x" for x
    by (simp add: owner_login_def t')
  obtain u where u: "user_by_login login t = Some u" "u_id u = uid"
    using uid by (auto simp: user_id_of_def)
  then have owner: "owner_login t' row = rtrim login"
    using owner_login_eq [OF ok, of u row] user_by_login_SomeD [OF u(1)] by (simp add: own row)
  have lnk: "link_of l n t' ls = link_of l n t ls"
    if "\<forall>x \<in> set ls. l_network x \<in> n_id ` set (networks t)" for l n and ls :: "'z link_row_scheme list"
  proof (rule link_of_same)
    fix x assume "x \<in> set ls"
    with that have "l_network x \<in> n_id ` set (networks t)" by blast
    with ok have "l_network x < network_seq t" by (auto simp: tables_ok_def networks_ok_def)
    with old [of n] show "link_matches l n t' x = link_matches l n t x"
      by (auto simp: link_matches_def user_id_of_def by_login row network_id_of_def net)
  qed
  have "network_info_of t' = (\<lambda>x. network_info_of t x)"
    by (simp add: network_info_of_def own fun_eq_iff)
  with owner have info: "network_info_of t' row =
      \<lparr>ni_owner = rtrim login, ni_public = a, ni_visible = b, ni_participable = c,
       ni_email = m', ni_protocol = p'\<rparr>" and infos: "network_info_of t' = network_info_of t"
    by (auto simp: own network_info_of_def row)
  have "registry_of t' = reg_add_network nm
      \<lparr>ni_owner = rtrim login, ni_public = a, ni_visible = b, ni_participable = c,
       ni_email = m', ni_protocol = p'\<rparr> (registry_of t)"
    using ok by (intro registry_eqI)
      (auto simp: registry_of_def reg_add_network_def by_login net lnk sel tables_ok_def links_ok_def
        info [unfolded infos] infos)
  with m' show ?thesis by blast
qed

text \<open>A new row of a linking table changes the lookup of its own pair of names only.\<close>

lemma link_of_inserted:
  assumes ok: "tables_ok t" and u: "user_id_of login t = Some (l_user x)"
    and n: "network_id_of name t = Some (l_network x)" and new: "\<not> linked (l_user x) (l_network x) ls"
    and same: "\<And>l. user_id_of l t' = user_id_of l t" "\<And>n. network_id_of n t' = network_id_of n t"
  shows "link_of l nm t' (ls @ [x]) =
    (if same_name l login \<and> same_name nm name then Some x else link_of l nm t ls)"
proof -
  have "link_of l nm t ls = None" if "same_name l login" "same_name nm name"
    using not_linked_link_of [OF ok u n new] that by blast
  then show ?thesis
    using link_of_cong [OF same, of l nm "ls @ [x]"] link_matches_pair [OF ok u n]
    by (auto simp: link_of_snoc split: option.split)
qed

lemma refine_insert_invitation:
  assumes ok: "tables_ok t" and st: "insert_invitation login name t = Inr (r, t')"
  shows "registry_of t' = reg_invite login name (registry_of t)"
proof -
  from st obtain u n where un: "user_id_of login t = Some u" "network_id_of name t = Some n"
      "\<not> linked u n (invitations t)"
    and t': "t' = t\<lparr>invitations := invitations t @ [\<lparr>l_id = invitation_seq t, l_user = u, l_network = n\<rparr>],
                    invitation_seq := Suc (invitation_seq t)\<rparr>"
    by (auto simp: insert_invitation_def split: option.splits if_splits)
  define x where "x = \<lparr>l_id = invitation_seq t, l_user = u, l_network = n\<rparr>"
  have x: "user_id_of login t = Some (l_user x)" "network_id_of name t = Some (l_network x)"
      "\<not> linked (l_user x) (l_network x) (invitations t)"
    using un by (simp_all add: x_def)
  have sel: "invitations t' = invitations t @ [x]" "servers t' = servers t" "publicKeys t' = publicKeys t"
    by (simp_all add: t' x_def)
  have ids: "user_id_of l t' = user_id_of l t" "network_id_of n t' = network_id_of n t"
      "user_by_login l t' = user_by_login l t" "network_by_name n t' = network_by_name n t"
      "network_info_of t' = network_info_of t" for l n
    by (auto simp: user_id_of_def network_id_of_def user_by_login_def network_by_name_def
        network_info_of_def owner_login_def t' fun_eq_iff)
  show ?thesis
    by (intro registry_eqI)
      (auto simp: registry_of_def reg_invite_def ids sel link_of_inserted [OF ok x ids(1,2)]
        link_of_cong [OF ids(1,2), where ls = "servers t"]
        link_of_cong [OF ids(1,2), where ls = "publicKeys t"])
qed

lemma refine_insert_key:
  assumes ok: "tables_ok t" and st: "insert_key login name k t = Inr (r, t')"
  shows "registry_of t' = reg_set_key login name k (registry_of t)"
proof -
  from st obtain u n where un: "user_id_of login t = Some u" "network_id_of name t = Some n"
      "\<not> linked u n (publicKeys t)"
    and t': "t' = t\<lparr>publicKeys := publicKeys t @ [\<lparr>l_id = key_seq t, l_user = u, l_network = n, k_key = k\<rparr>],
                    key_seq := Suc (key_seq t)\<rparr>"
    by (auto simp: insert_key_def split: option.splits if_splits)
  define x where "x = \<lparr>l_id = key_seq t, l_user = u, l_network = n, k_key = k\<rparr>"
  have x: "user_id_of login t = Some (l_user x)" "network_id_of name t = Some (l_network x)"
      "\<not> linked (l_user x) (l_network x) (publicKeys t)"
    using un by (simp_all add: x_def)
  have sel: "publicKeys t' = publicKeys t @ [x]" "servers t' = servers t" "invitations t' = invitations t"
    by (simp_all add: t' x_def)
  have ids: "user_id_of l t' = user_id_of l t" "network_id_of n t' = network_id_of n t"
      "user_by_login l t' = user_by_login l t" "network_by_name n t' = network_by_name n t"
      "network_info_of t' = network_info_of t" for l n
    by (auto simp: user_id_of_def network_id_of_def user_by_login_def network_by_name_def
        network_info_of_def owner_login_def t' fun_eq_iff)
  have row: "k_key x = k"
    by (simp_all add: x_def)
  show ?thesis
    by (intro registry_eqI)
      (auto simp: registry_of_def reg_set_key_def ids sel row link_of_inserted [OF ok x ids(1,2)]
        link_of_cong [OF ids(1,2), where ls = "servers t"]
        link_of_cong [OF ids(1,2), where ls = "invitations t"])
qed

lemma refine_insert_server:
  assumes ok: "tables_ok t" and st: "insert_server name login ip port ttl t = Inr (r, t')"
  shows "registry_of t' = reg_set_server login name (Some (rtrim ip, port, ttl)) (registry_of t)"
proof -
  from st obtain u n where un: "user_id_of login t = Some u" "network_id_of name t = Some n"
      "\<not> linked u n (servers t)"
    and t': "t' = t\<lparr>servers := servers t @ [\<lparr>l_id = server_seq t, l_user = u, l_network = n, s_ip = rtrim ip, s_port = port, s_ttl = ttl\<rparr>],
                    server_seq := Suc (server_seq t)\<rparr>"
    by (auto simp: insert_server_def char_in_def split: option.splits if_splits)
  define x where "x = \<lparr>l_id = server_seq t, l_user = u, l_network = n, s_ip = rtrim ip, s_port = port, s_ttl = ttl\<rparr>"
  have x: "user_id_of login t = Some (l_user x)" "network_id_of name t = Some (l_network x)"
      "\<not> linked (l_user x) (l_network x) (servers t)"
    using un by (simp_all add: x_def)
  have sel: "servers t' = servers t @ [x]" "invitations t' = invitations t" "publicKeys t' = publicKeys t"
    by (simp_all add: t' x_def)
  have ids: "user_id_of l t' = user_id_of l t" "network_id_of n t' = network_id_of n t"
      "user_by_login l t' = user_by_login l t" "network_by_name n t' = network_by_name n t"
      "network_info_of t' = network_info_of t" for l n
    by (auto simp: user_id_of_def network_id_of_def user_by_login_def network_by_name_def
        network_info_of_def owner_login_def t' fun_eq_iff)
  have row: "s_ip x = rtrim ip" "s_port x = port" "s_ttl x = ttl"
    by (simp_all add: x_def)
  show ?thesis
    by (intro registry_eqI)
      (auto simp: registry_of_def reg_set_server_def ids sel row link_of_inserted [OF ok x ids(1,2)]
        link_of_cong [OF ids(1,2), where ls = "invitations t"]
        link_of_cong [OF ids(1,2), where ls = "publicKeys t"])
qed

text \<open>Removing rows: a link survives when its user and its network do.\<close>

lemma link_of_dropped:
  assumes users: "\<And>l i. user_id_of l t' = Some i \<longleftrightarrow> user_id_of l t = Some i \<and> i \<notin> us"
    and nets: "\<And>n i. network_id_of n t' = Some i \<longleftrightarrow> network_id_of n t = Some i \<and> i \<notin> ns"
  shows "link_of l n t' (drop_links us ns ls) =
    (if (\<exists>i \<in> us. user_id_of l t = Some i) \<or> (\<exists>i \<in> ns. network_id_of n t = Some i) then None
     else link_of l n t ls)"
proof (cases "(\<exists>i \<in> us. user_id_of l t = Some i) \<or> (\<exists>i \<in> ns. network_id_of n t = Some i)")
  case True
  then have "user_id_of l t' = None \<or> network_id_of n t' = None"
    using users [of l] nets [of n] by (metis not_None_eq option.inject)
  with True show ?thesis by auto
next
  case False
  then have "link_matches l n t' x = link_matches l n t x" for x :: "'a link_row_scheme"
    by (auto simp: link_matches_def users nets)
  moreover have "link_of l n t (drop_links us ns ls) = link_of l n t ls"
    unfolding link_of_def drop_links_def using False
    by (intro find_filter_implied) (auto simp: link_matches_def)
  ultimately show ?thesis using False link_of_same [of "drop_links us ns ls" l n t' t] by simp
qed

lemma owned_by_registry:
  "owned_by (registry_of t) n login \<longleftrightarrow>
     (\<exists>x. network_by_name n t = Some x \<and> owner_login t x = rtrim login)"
  by (auto simp: owned_by_def registry_of_def network_info_of_def)

lemma refine_delete_users:
  assumes ok: "tables_ok t" and st: "delete_users (\<lambda>u. u_login u = rtrim login) t = Inr (r, t')"
  shows "registry_of t' = reg_remove_user login (registry_of t)"
proof -
  define us where "us = u_id ` set (filter (\<lambda>u. u_login u = rtrim login) (users t))"
  define ns where "ns = n_id ` set (filter (\<lambda>n. n_owner n \<in> us) (networks t))"
  from st have sel: "users t' = filter (\<lambda>u. u_login u \<noteq> rtrim login) (users t)"
      "networks t' = filter (\<lambda>n. n_owner n \<notin> us) (networks t)"
      "servers t' = drop_links us ns (servers t)" "invitations t' = drop_links us ns (invitations t)"
      "publicKeys t' = drop_links us ns (publicKeys t)"
    by (auto simp: delete_users_def Let_def us_def ns_def)
  have by_login: "user_by_login l t' = (if same_name l login then None else user_by_login l t)" for l
    unfolding user_by_login_def sel same_name_def find_filter_conj
    by (auto intro: find_all_false find_cong_pred)
  have us: "i \<in> us \<longleftrightarrow> same_name l login" if i: "user_id_of l t = Some i" for l i
  proof -
    obtain u where u: "user_by_login l t = Some u" "u_id u = i" using i by (auto simp: user_id_of_def)
    then have u': "u \<in> set (users t)" "u_login u = rtrim l" by (auto dest: user_by_login_SomeD)
    then have "i \<in> us \<longleftrightarrow> u_login u = rtrim login"
      using key_in_filtered [of u_id "users t" u] u(2) ok
      by (simp add: us_def tables_ok_def users_ok_def del: set_filter)
    then show ?thesis by (simp add: u' same_name_def)
  qed
  have user_id: "user_id_of l t' = Some i \<longleftrightarrow> user_id_of l t = Some i \<and> i \<notin> us" for l i
    using us [of l] by (auto simp: user_id_of_def by_login split: if_splits)
  have owned: "n_owner x \<in> us \<longleftrightarrow> owner_login t x = rtrim login" if x: "x \<in> set (networks t)" for x
  proof -
    obtain u where u: "u \<in> set (users t)" "n_owner x = u_id u" "owner_login t x = u_login u"
      using ok x by (rule owner_exists)
    then have "u_login u = rtrim (u_login u)" using ok by (auto simp: tables_ok_def users_ok_def char_ok_def)
    then show ?thesis using us [of "u_login u" "u_id u"] user_by_login_unique [of t u "u_login u"] u ok
      by (auto simp: user_id_of_def same_name_def tables_ok_def)
  qed
  have by_name: "network_by_name n t' = (case network_by_name n t of None \<Rightarrow> None
      | Some x \<Rightarrow> if n_owner x \<in> us then None else Some x)" for n
    using ok unfolding network_by_name_def sel tables_ok_def networks_ok_def
    by (simp add: find_key_filter split: option.split)
  have ids_ns: "n_id x \<in> ns \<longleftrightarrow> n_owner x \<in> us" if "x \<in> set (networks t)" for x
    using key_in_filtered [of n_id "networks t" x] that ok
    by (simp add: ns_def tables_ok_def networks_ok_def del: set_filter)
  have net_id: "network_id_of n t' = Some i \<longleftrightarrow> network_id_of n t = Some i \<and> i \<notin> ns" for n i
    using ids_ns
    by (auto simp: network_id_of_def by_name dest: network_by_name_SomeD split: option.splits if_splits)
  have ns: "(\<exists>i \<in> ns. network_id_of n t = Some i) \<longleftrightarrow> owned_by (registry_of t) n login" for n
  proof (cases "network_by_name n t")
    case (Some x)
    then have "x \<in> set (networks t)" by (auto dest: network_by_name_SomeD)
    with Some ids_ns owned show ?thesis by (simp add: owned_by_registry network_id_of_def)
  qed (simp add: owned_by_registry network_id_of_def)
  have owner: "owner_login t' x = owner_login t x" if x: "x \<in> set (networks t)" and kept: "n_owner x \<notin> us" for x
  proof -
    obtain u where u: "u \<in> set (users t)" "n_owner x = u_id u" "owner_login t x = u_login u"
      using ok x by (rule owner_exists)
    with kept have "u \<in> set (users t')" by (auto simp: sel us_def)
    with tables_ok_delete_users [OF ok st] u show ?thesis by (simp add: owner_login_eq)
  qed
  have info: "map_option (network_info_of t') (network_by_name n t') =
      (if owned_by (registry_of t) n login then None else map_option (network_info_of t) (network_by_name n t))" for n
    using owned by (auto simp: by_name owned_by_registry network_info_of_def owner
        dest!: network_by_name_SomeD split: option.split)
  have lnk: "link_of l n t' (drop_links us ns ls) =
      (if same_name l login \<or> owned_by (registry_of t) n login then None else link_of l n t ls)"
    for l n and ls :: "'z link_row_scheme list"
    using link_of_dropped [of t' t us ns, OF user_id net_id, of l n ls] us [of l]
    by (cases "user_id_of l t") (simp_all add: ns)
  show ?thesis
    by (intro registry_eqI)
      (auto simp: reg_remove_user_def reg_remove_def by_login info lnk sel(3-5))
qed

lemma filter_none: "(\<And>x. x \<in> set xs \<Longrightarrow> \<not> P x) \<Longrightarrow> filter P xs = []"
  by (simp add: filter_empty_conv)

lemma drop_links_none [simp]: "drop_links {} {} ls = ls"
  by (simp add: drop_links_def)

lemma refine_delete_networks:
  assumes ok: "tables_ok t"
    and st: "delete_networks (\<lambda>n. n_name n = rtrim name \<and> user_id_of login t = Some (n_owner n)) t = Inr (r, t')"
  shows "r = (if owned_by (registry_of t) name login then 1 else 0) \<and>
    registry_of t' = (if owned_by (registry_of t) name login then reg_delete_network name (registry_of t)
                      else registry_of t)"
proof -
  define P where "P = (\<lambda>n :: network_row. n_name n = rtrim name \<and> user_id_of login t = Some (n_owner n))"
  define ns where "ns = n_id ` set (filter P (networks t))"
  from st have sel: "networks t' = filter (\<lambda>n. \<not> P n) (networks t)" "users t' = users t"
      "servers t' = drop_links {} ns (servers t)" "invitations t' = drop_links {} ns (invitations t)"
      "publicKeys t' = drop_links {} ns (publicKeys t)" "r = length (filter P (networks t))"
    by (auto simp: delete_networks_def Let_def P_def ns_def)
  have P_iff: "P x \<longleftrightarrow> n_name x = rtrim name \<and> owner_login t x = rtrim login" if "x \<in> set (networks t)" for x
    using owner_login_iff [OF ok that] by (simp add: P_def)
  have by_login: "user_by_login l t' = user_by_login l t" for l
    by (simp add: user_by_login_def sel)
  have own: "network_info_of t' = network_info_of t"
    by (simp add: network_info_of_def owner_login_def sel fun_eq_iff)
  have by_name: "network_by_name n t' = (case network_by_name n t of None \<Rightarrow> None
      | Some x \<Rightarrow> if P x then None else Some x)" for n
    using ok unfolding network_by_name_def sel tables_ok_def networks_ok_def
    by (simp add: find_key_filter split: option.split)
  have ids_ns: "n_id x \<in> ns \<longleftrightarrow> P x" if "x \<in> set (networks t)" for x
    using key_in_filtered [of n_id "networks t" x] that ok
    by (simp add: ns_def tables_ok_def networks_ok_def del: set_filter)
  have net_id: "network_id_of n t' = Some i \<longleftrightarrow> network_id_of n t = Some i \<and> i \<notin> ns" for n i
    using ids_ns
    by (auto simp: network_id_of_def by_name dest: network_by_name_SomeD split: option.splits if_splits)
  have by_P: "P x \<longleftrightarrow> owned_by (registry_of t) name login \<and> n_name x = rtrim name"
    if x: "x \<in> set (networks t)" for x
    using P_iff [OF x] network_by_name_unique [of t x name] x ok
    by (auto simp: owned_by_registry tables_ok_def)
  have hit: "(\<exists>i \<in> ns. network_id_of n t = Some i) \<longleftrightarrow> owned_by (registry_of t) name login \<and> same_name n name" for n
  proof (cases "network_by_name n t")
    case None
    have "same_name n name \<Longrightarrow> network_by_name name t = None"
      using None by (simp add: network_by_name_def same_name_def)
    with None show ?thesis by (auto simp: network_id_of_def owned_by_registry)
  next
    case (Some x)
    then have x: "x \<in> set (networks t)" "n_name x = rtrim n" by (auto dest: network_by_name_SomeD)
    with Some show ?thesis by (simp add: network_id_of_def ids_ns by_P same_name_def)
  qed
  have lnk: "link_of l n t' (drop_links {} ns ls) =
      (if owned_by (registry_of t) name login \<and> same_name n name then None else link_of l n t ls)"
    for l n and ls :: "'z link_row_scheme list"
    using link_of_dropped [of t' t "{}" ns, OF _ net_id, of l n ls]
    by (simp add: user_id_of_def by_login hit)
  have info: "network_by_name n t' =
      (if owned_by (registry_of t) name login \<and> same_name n name then None else network_by_name n t)" for n
    using by_P by (auto simp: by_name same_name_def dest!: network_by_name_SomeD split: option.split)
  have count: "length (filter P (networks t)) = (if owned_by (registry_of t) name login then 1 else 0)"
  proof (cases "owned_by (registry_of t) name login")
    case True
    then obtain x where "network_by_name name t = Some x" by (auto simp: owned_by_registry)
    then have x: "x \<in> set (networks t)" "n_name x = rtrim name" by (auto dest: network_by_name_SomeD)
    have "filter P (networks t) = filter (\<lambda>y. n_name y = n_name x) (networks t)"
      using True x(2) by (intro filter_cong) (simp_all add: by_P)
    also have "\<dots> = [x]"
      using ok x(1) by (intro filter_key_single) (simp_all add: tables_ok_def networks_ok_def)
    finally show ?thesis using True by simp
  qed (simp add: by_P filter_none)
  show ?thesis
    by (intro conjI registry_eqI)
      (auto simp: sel(6) count reg_delete_network_def reg_remove_def by_login own info lnk sel(3-5))
qed

lemma refine_update_server:
  assumes ok: "tables_ok t" and st: "update_server name login ip port ttl t = Inr (r, t')"
  shows "r = (if r_server (registry_of t) login name = None then 0 else 1)"
proof -
  from st have r: "r = length (filter (link_matches login name t) (servers t))"
    by (auto simp: update_server_def Let_def split: option.splits)
  show ?thesis
  proof (cases "link_of login name t (servers t)")
    case None
    then have "filter (link_matches login name t) (servers t) = []"
      by (simp add: link_of_def find_None_iff filter_empty_conv)
    with None r show ?thesis by simp
  next
    case (Some x)
    then have x: "x \<in> set (servers t)" "link_matches login name t x"
      by (auto simp: link_of_def dest: find_key_SomeD)
    then have "filter (link_matches login name t) (servers t) =
        filter (\<lambda>y. (l_user y, l_network y) = (l_user x, l_network x)) (servers t)"
      by (intro filter_cong) (auto simp: link_matches_def)
    also have "\<dots> = [x]"
      using ok x(1) by (intro filter_key_single [of "\<lambda>y. (l_user y, l_network y)"])
        (simp_all add: tables_ok_def links_ok_def)
    finally show ?thesis using Some r by simp
  qed
qed

lemma refine_delete_server:
  assumes ok: "tables_ok t" and st: "delete_servers (link_matches login name t) t = Inr (r, t')"
  shows "registry_of t' = reg_set_server login name None (registry_of t)"
proof -
  from st have t': "t' = t\<lparr>servers := filter (\<lambda>s. \<not> link_matches login name t s) (servers t)\<rparr>"
    by (simp add: delete_servers_def)
  then have sel: "servers t' = filter (\<lambda>s. \<not> link_matches login name t s) (servers t)"
      "invitations t' = invitations t" "publicKeys t' = publicKeys t"
    by simp_all
  have ids: "user_id_of l t' = user_id_of l t" "network_id_of n t' = network_id_of n t"
      "user_by_login l t' = user_by_login l t" "network_by_name n t' = network_by_name n t"
      "network_info_of t' = network_info_of t" for l n
    by (auto simp: user_id_of_def network_id_of_def user_by_login_def network_by_name_def
        network_info_of_def owner_login_def t' fun_eq_iff)
  have same: "link_matches l n t = (link_matches login name t :: server_row \<Rightarrow> bool)" if "same_name l login" "same_name n name" for l n
    using that by (simp add: fun_eq_iff link_matches_def user_id_of_def network_id_of_def user_by_login_def
        network_by_name_def same_name_def)
  have "link_of l n t' (servers t') =
      (if same_name l login \<and> same_name n name then None else link_of l n t (servers t))" for l n
  proof (cases "same_name l login \<and> same_name n name")
    case True
    then have "link_matches l n t = (link_matches login name t :: server_row \<Rightarrow> bool)" using same by blast
    then have "link_of l n t (servers t') = None"
      unfolding link_of_def sel(1) find_filter_conj by (intro find_all_false) simp
    with True show ?thesis using link_of_cong [OF ids(1,2), of l n "servers t'"] by simp
  next
    case False
    have "link_of l n t (servers t') = link_of l n t (servers t)"
      unfolding sel(1) link_of_def
    proof (rule find_filter_implied)
      fix x :: server_row
      assume "link_matches l n t x"
      then show "\<not> link_matches login name t x"
        using False link_matches_pair [OF ok, of login x name l n] by (auto simp: link_matches_def)
    qed
    with False show ?thesis using link_of_cong [OF ids(1,2), of l n "servers t'"] by auto
  qed
  then show ?thesis
    by (intro registry_eqI)
      (auto simp: reg_set_server_def ids sel(2,3) link_of_cong [OF ids(1,2), where ls = "invitations t"]
        link_of_cong [OF ids(1,2), where ls = "publicKeys t"])
qed

end
