(* ===== verification/Tracker_Contract.thy ===== *)
theory Tracker_Contract
  imports Tracker_Registry
begin

text \<open>
  The contract of \<^verbatim>\<open>AbstractDBConnector\<close> that the handlers rely on, one lemma per writing method:
  the response tells which update of the registry was made. \<open>account_store\<close> states the part about
  accounts as an interface, with what follows from it over any run of account operations.
\<close>

definition reg :: "db \<Rightarrow> registry" where
  "reg d = registry_of (store d)"

lemma reg_store: "store d' = store d \<Longrightarrow> reg d' = reg d"
  by (simp add: reg_def)

lemma work_Inl: "work_if c st d = (Inl e, d') \<Longrightarrow> store d' = store d"
  by (auto simp: work_if_def Let_def split: if_splits sum.splits)

lemma work_Inr:
  "work_if c st d = (Inr r, d') \<Longrightarrow> \<exists>t. st (store d) = Inr (r, t) \<and> store d' = (if c r then t else store d)"
  by (auto simp: work_if_def Let_def split: if_splits sum.splits)

lemma caught_not_OK [simp]: "u \<noteq> DB_OK \<Longrightarrow> caught u e \<noteq> DB_OK"
  by (simp add: caught_def)

lemma createUser_contract:
  assumes "db_ok d" "createUser l p d = (r, d')"
  shows "if r = DB_OK then reg d' = reg_set_password l (rtrim p) (reg d) \<and> r_password (reg d) l = None
         else reg d' = reg d"
proof (cases "r = DB_OK")
  case True
  with assms(2) obtain t where st: "insert_user l p (store d) = Inr ((), t)" and t: "store d' = t"
    by (auto simp: createUser_def split: prod.splits sum.splits dest!: work_Inr)
  have "reg d' = reg_set_password l (rtrim p) (reg d)"
    using refine_insert_user [OF _ st] assms(1) by (simp add: reg_def t db_ok_def)
  moreover have "r_password (reg d) l = None"
    using st unfolding reg_def registry_of_simps user_by_login_def
    by (subst find_all_false) (force simp: insert_user_def char_in_def split: option.splits if_splits)+
  ultimately show ?thesis using True by simp
next
  case False
  with assms(2) show ?thesis
    by (auto simp: createUser_def split: prod.splits sum.splits dest!: work_Inl intro: reg_store)
qed

lemma removeUser_contract:
  assumes "db_ok d" "removeUser l d = (r, d')"
  shows "if r = DB_OK then reg d' = reg_remove_user l (reg d) else reg d' = reg d"
  using assms refine_delete_users [of "store d" l]
  by (fastforce simp: removeUser_def reg_def db_ok_def split: prod.splits sum.splits
      dest: work_Inr work_Inl)

lemma changeUserPassword_contract:
  assumes "db_ok d" "changeUserPassword l p d = (r, d')"
  shows "if r = DB_OK \<and> r_password (reg d) l \<noteq> None then reg d' = reg_set_password l (rtrim p) (reg d)
         else reg d' = reg d"
proof (cases "r = DB_OK")
  case True
  with assms(2) obtain n t where st: "update_password l p (store d) = Inr (n, t)" and t: "store d' = t"
    by (auto simp: changeUserPassword_def split: prod.splits sum.splits dest!: work_Inr)
  have "t = store d" if "user_by_login l (store d) = None"
  proof -
    have "map (\<lambda>u. if u_login u = rtrim l then u\<lparr>u_password := q\<rparr> else u) (users (store d)) = users (store d)" for q
      using that by (intro map_idI) (auto simp: user_by_login_def find_None_iff)
    with st show ?thesis by (auto simp: update_password_def Let_def split: option.splits)
  qed
  then show ?thesis
    using refine_update_password [OF st] True by (auto simp: reg_def t)
next
  case False
  with assms(2) show ?thesis
    by (auto simp: changeUserPassword_def split: prod.splits sum.splits dest!: work_Inl intro: reg_store)
qed

lemma addKey_contract:
  assumes "db_ok d" "addKey l n k d = (r, d')"
  shows "if r = DB_OK then reg d' = reg_set_key l n k (reg d) else reg d' = reg d"
  using assms refine_insert_key [of "store d" l n k]
  by (fastforce simp: addKey_def reg_def db_ok_def split: prod.splits sum.splits
      dest: work_Inr work_Inl)

lemma createInvitation_contract:
  assumes "db_ok d" "createInvitation l n d = (r, d')"
  shows "if r = DB_OK then reg d' = reg_invite l n (reg d) else reg d' = reg d"
  using assms refine_insert_invitation [of "store d" l n]
  by (fastforce simp: createInvitation_def reg_def db_ok_def split: prod.splits sum.splits
      dest: work_Inr work_Inl)

lemma createNetwork_contract:
  assumes "db_ok d" "createNetwork n l a b c m p d = (r, d')"
  shows "if r = DB_OK
         then \<exists>m' p'. reg d' = reg_add_network n
                \<lparr>ni_owner = rtrim l, ni_public = a, ni_visible = b, ni_participable = c,
                 ni_email = m', ni_protocol = p'\<rparr> (reg d) \<and> r_network (reg d) n = None
         else reg d' = reg d"
proof (cases "r = DB_OK")
  case True
  with assms(2) obtain t where st: "insert_network n l a b c m p (store d) = Inr ((), t)" and t: "store d' = t"
    by (auto simp: createNetwork_def split: prod.splits sum.splits if_splits dest!: work_Inr)
  have "r_network (reg d) n = None"
    using st unfolding reg_def registry_of_simps network_by_name_def
    by (subst find_all_false) (force simp: insert_network_def char_in_def split: option.splits if_splits)+
  then show ?thesis
    using refine_insert_network [OF _ st] assms(1) True by (auto simp: reg_def t db_ok_def)
next
  case False
  with assms(2) show ?thesis
    by (auto simp: createNetwork_def split: prod.splits sum.splits dest!: work_Inl intro: reg_store)
qed

lemma deleteNetwork_contract:
  assumes "db_ok d" "deleteNetwork l n d = (r, d')"
  shows "if r = DB_OK then reg d' = reg_delete_network n (reg d) \<and> owned_by (reg d) n l
         else reg d' = reg d \<and> (r = DB_NOT_PERMITED \<longrightarrow> \<not> owned_by (reg d) n l)"
proof (cases "work (\<lambda>t. delete_networks
    (\<lambda>x. n_name x = rtrim n \<and> user_id_of l t = Some (n_owner x)) t) d")
  case (Pair w d'')
  show ?thesis
  proof (cases w)
    case (Inl e)
    with Pair assms(2) have "d' = d''" "r \<noteq> DB_OK" "r \<noteq> DB_NOT_PERMITED"
      by (auto simp: deleteNetwork_def caught_def)
    with work_Inl [OF Pair [unfolded Inl]] show ?thesis by (auto intro: reg_store)
  next
    case (Inr k)
    with Pair obtain t where
      st: "delete_networks (\<lambda>x. n_name x = rtrim n \<and> user_id_of l (store d) = Some (n_owner x)) (store d) = Inr (k, t)"
      and t: "store d'' = t"
      by (auto dest!: work_Inr)
    from Pair Inr assms(2) have "d' = d''" "r = (if k = 0 then DB_NOT_PERMITED else DB_OK)"
      by (auto simp: deleteNetwork_def)
    with refine_delete_networks [OF _ st] assms(1) t show ?thesis
      by (auto simp: reg_def db_ok_def split: if_splits)
  qed
qed

lemma deleteServer_contract:
  assumes "db_ok d" "deleteServer n l d = (r, d')"
  shows "r = DB_NOT_FOUND \<and> reg d' = reg_set_server l n None (reg d) \<or>
         r \<in> {DB_NOT_FOUND, DB_INTERNAL_ERROR} \<and> reg d' = reg d"
proof (cases "work (\<lambda>t. delete_servers (link_matches l n t) t) d")
  case (Pair w d'')
  show ?thesis
  proof (cases w)
    case (Inl e)
    with Pair assms(2) have "d' = d''" "r \<in> {DB_NOT_FOUND, DB_INTERNAL_ERROR}"
      by (auto simp: deleteServer_def caught_def split: if_splits)
    with work_Inl [OF Pair [unfolded Inl]] show ?thesis by (auto intro: reg_store)
  next
    case (Inr k)
    with Pair assms(2) have "d' = d''" "r = DB_NOT_FOUND" by (auto simp: deleteServer_def)
    with work_Inr [OF Pair [unfolded Inr]] refine_delete_server [of "store d" l n] assms(1) show ?thesis
      by (auto simp: reg_def db_ok_def)
  qed
qed

text \<open>A server that is registered already keeps its old row: the update is rolled back.\<close>

lemma updateServer_contract:
  assumes ok: "db_ok d" and st: "updateServer n l ip port ttl d = (r, d')"
  shows "if r = DB_OK \<and> r_server (reg d) l n = None
         then reg d' = reg_set_server l n (Some (rtrim ip, port, ttl)) (reg d)
         else reg d' = reg d"
proof (cases "work_if (\<lambda>k. \<not> k > 0) (update_server n l ip port ttl) d")
  case (Pair w d1)
  show ?thesis
  proof (cases w)
    case (Inl e)
    with Pair st have "r \<noteq> DB_OK" "d' = d1" by (auto simp: updateServer_def)
    with work_Inl [OF Pair [unfolded Inl]] show ?thesis by (auto intro: reg_store)
  next
    case (Inr k)
    obtain t where t: "update_server n l ip port ttl (store d) = Inr (k, t)"
        "store d1 = (if \<not> k > 0 then t else store d)"
      using work_Inr [OF Pair [unfolded Inr]] by blast
    then have k: "k = (if r_server (reg d) l n = None then 0 else 1)"
      using refine_update_server [OF _ t(1)] ok by (simp add: reg_def db_ok_def)
    have same: "store d1 = store d"
    proof (cases "k = 0")
      case True
      then have "servers t = servers (store d)"
        using t(1) by (auto simp: update_server_def Let_def filter_empty_conv intro!: map_idI
            split: option.splits)
      with t(1) True have "t = store d"
        by (auto simp: update_server_def Let_def split: option.splits)
      with t True show ?thesis by simp
    qed (use t in simp)
    show ?thesis
    proof (cases "k = 0")
      case False
      with Pair Inr st have "d' = d1" by (simp add: updateServer_def)
      with same False k show ?thesis by (auto intro: reg_store)
    next
      case True
      obtain w2 d2 where w2: "work (insert_server n l ip port ttl) d1 = (w2, d2)" by fastforce
      with Pair Inr True st have r: "d' = d2" "r = (case w2 of Inl e \<Rightarrow> caught DB_NOT_FOUND e | Inr _ \<Rightarrow> DB_OK)"
        by (auto simp: updateServer_def split: sum.splits)
      show ?thesis
      proof (cases w2)
        case (Inl e)
        with work_Inl [OF w2 [unfolded Inl]] r same show ?thesis by (auto intro: reg_store)
      next
        case (Inr u)
        with work_Inr [OF w2 [unfolded Inr]] same
        have "insert_server n l ip port ttl (store d) = Inr (u, store d2)" by simp
        from refine_insert_server [OF _ this] ok r Inr k True show ?thesis
          by (simp add: reg_def db_ok_def split: if_splits)
      qed
    qed
  qed
qed

subsection \<open>The accounts interface\<close>

datatype account_event = Create string string | Remove string | Change string string

fun account_of :: "account_event \<Rightarrow> string" where
  "account_of (Create l p) = l"
| "account_of (Remove l) = l"
| "account_of (Change l p) = l"

locale account_store =
  fixes inv :: "'s \<Rightarrow> bool"
    and password_of :: "'s \<Rightarrow> string \<Rightarrow> string option"
    and same :: "string \<Rightarrow> string \<Rightarrow> bool"
    and create :: "string \<Rightarrow> string \<Rightarrow> 's \<Rightarrow> DB_Response \<times> 's"
    and remove :: "string \<Rightarrow> 's \<Rightarrow> DB_Response \<times> 's"
    and change :: "string \<Rightarrow> string \<Rightarrow> 's \<Rightarrow> DB_Response \<times> 's"
  assumes inv_create: "inv s \<Longrightarrow> inv (snd (create l p s))"
    and inv_remove: "inv s \<Longrightarrow> inv (snd (remove l s))"
    and inv_change: "inv s \<Longrightarrow> inv (snd (change l p s))"
    and create_effect: "inv s \<Longrightarrow> create l p s = (r, s') \<Longrightarrow>
      password_of s' l' = (if r = DB_OK \<and> same l' l then Some (rtrim p) else password_of s l')"
    and create_fresh: "inv s \<Longrightarrow> create l p s = (DB_OK, s') \<Longrightarrow> same l' l \<Longrightarrow> password_of s l' = None"
    and remove_effect: "inv s \<Longrightarrow> remove l s = (r, s') \<Longrightarrow>
      password_of s' l' = (if r = DB_OK \<and> same l' l then None else password_of s l')"
    and change_effect: "inv s \<Longrightarrow> change l p s = (r, s') \<Longrightarrow>
      password_of s' l' = (if r = DB_OK \<and> same l' l \<and> password_of s l' \<noteq> None then Some (rtrim p)
                           else password_of s l')"
begin

fun run_account :: "account_event \<Rightarrow> 's \<Rightarrow> 's" where
  "run_account (Create l p) s = snd (create l p s)"
| "run_account (Remove l) s = snd (remove l s)"
| "run_account (Change l p) s = snd (change l p s)"

lemma inv_account: "inv s \<Longrightarrow> inv (run_account e s)"
  by (cases e) (simp_all add: inv_create inv_remove inv_change)

lemma password_other:
  assumes "inv s" "\<not> same l (account_of e)"
  shows "password_of (run_account e s) l = password_of s l"
  using assms create_effect [of s _ _ _ _ l, OF _ surjective_pairing]
    remove_effect [of s _ _ _ l, OF _ surjective_pairing]
    change_effect [of s _ _ _ _ l, OF _ surjective_pairing]
  by (cases e) simp_all

lemma passwords_other:
  "inv s \<Longrightarrow> \<forall>e \<in> set es. \<not> same l (account_of e) \<Longrightarrow>
   password_of (fold run_account es s) l = password_of s l"
  by (induction es arbitrary: s) (simp_all add: inv_account password_other)

lemma create_taken:
  "inv s \<Longrightarrow> password_of s l' = Some p' \<Longrightarrow> same l' l \<Longrightarrow> create l p s = (r, s') \<Longrightarrow>
   r \<noteq> DB_OK \<and> password_of s' l' = Some p'"
  using create_fresh [of s l p s' l'] create_effect [of s l p r s' l'] by auto

lemma created_keeps_password:
  assumes "inv s" "create l p s = (DB_OK, s')" "same l l" "\<forall>e \<in> set es. \<not> same l (account_of e)"
  shows "password_of (fold run_account es s') l = Some (rtrim p)"
  using passwords_other [of s' es l] inv_create [OF assms(1), of l p] create_effect [OF assms(1,2)]
    assms by simp

end

definition stored_password :: "db \<Rightarrow> string \<Rightarrow> string option" where
  "stored_password d l = r_password (reg d) l"

interpretation accounts: account_store db_ok stored_password same_name createUser removeUser changeUserPassword
proof (unfold_locales, goal_cases)
  case (4 s l p r s' l')
  with createUser_contract [of s l p r s'] show ?case
    by (auto simp: stored_password_def reg_set_password_def split: if_splits)
next
  case (5 s l p s' l')
  with createUser_contract [of s l p DB_OK s'] show ?case
    by (auto simp: stored_password_def reg_def user_by_login_def same_name_def)
next
  case (6 s l r s' l')
  with removeUser_contract [of s l r s'] show ?case
    by (auto simp: stored_password_def reg_remove_user_def reg_remove_def split: if_splits)
next
  case (7 s l p r s' l')
  have "stored_password s l' = stored_password s l" if "same_name l' l"
    using that by (simp add: stored_password_def reg_def user_by_login_def same_name_def)
  with 7 changeUserPassword_contract [of s l p r s'] show ?case
    by (auto simp: stored_password_def reg_set_password_def split: if_splits)
qed (simp_all add: wf_intros)

end
