(* ===== verification/Tracker_Handler.thy ===== *)
theory Tracker_Handler
  imports Tracker_Messages Tracker_Session Tracker_Contract
begin

text \<open>
  \<^verbatim>\<open>tracker/qmake_project/requesthandler.cpp\<close>: one function per handler, from the request and the
  tracker's state (the database and the sessions) to the answer and the new state, and
  \<open>handleRequest\<close>, the dispatch. \<open>env\<close> is what a call finds around it: the clock, the peer's
  address, the values of \<^verbatim>\<open>rand()\<close>, bcrypt and the certificate authority of Botan, the node's
  certificate and the contents of uninitialised storage. Logging is left out.
\<close>

record tracker =
  t_db :: db
  t_sess :: session

record env =
  env_now :: int64
  env_addr :: string
  env_rand :: "nat \<Rightarrow> nat"
  env_hash :: "string \<Rightarrow> string"
  env_check :: "string \<Rightarrow> string \<Rightarrow> bool"
  env_ca :: authority
  env_cert :: string
  env_indet :: "nat \<Rightarrow> bool"

type_synonym reply = "cpp_error + NodeMessage \<times> tracker"

definition on_db :: "(db \<Rightarrow> 'a \<times> db) \<Rightarrow> tracker \<Rightarrow> 'a \<times> tracker" where
  "on_db f s = (case f (t_db s) of (r, d) \<Rightarrow> (r, s\<lparr>t_db := d\<rparr>))"

text \<open>The opening of every handler that needs a session: \<^verbatim>\<open>getLogin\<close>, and \<^verbatim>\<open>NOT_LOGGED\<close> for the
  empty login.\<close>

definition with_login :: "string \<Rightarrow> (string \<Rightarrow> tracker \<Rightarrow> reply) \<Rightarrow> tracker \<Rightarrow> reply" where
  "with_login cookie body s =
     (case getLogin cookie (t_sess s) of
        Inl e \<Rightarrow> Inl e
      | Inr login \<Rightarrow>
          if login = '''' then Inr (errorMesage RT_NOT_LOGGED, s) else body login s)"

text \<open>The \<^verbatim>\<open>switch\<close> over the database's response; the handlers differ in the answer to \<^verbatim>\<open>NOT_FOUND\<close>
  and in the answer of success.\<close>

definition db_answer :: "ResponseType \<Rightarrow> NodeMessage \<Rightarrow> DB_Response \<Rightarrow> NodeMessage" where
  "db_answer not_found done_msg r =
     (case r of
        DB_INTERNAL_ERROR \<Rightarrow> errorMesage RT_INTERNAL_SERVER_ERROR
      | DB_NOT_FOUND \<Rightarrow> errorMesage not_found
      | DB_NOT_PERMITED \<Rightarrow> errorMesage RT_NO_PRIVILAGES
      | DB_NOT_UNIQUE \<Rightarrow> errorMesage RT_ALREADY_EXISTS
      | DB_OK \<Rightarrow> done_msg)"

definition goodCredentials :: "env \<Rightarrow> string \<Rightarrow> string \<Rightarrow> tracker \<Rightarrow> bool \<times> tracker" where
  "goodCredentials e login password s =
     (case on_db (getPassHash login) s of (hash, s') \<Rightarrow> (env_check e password hash, s'))"

subsection \<open>Accounts\<close>

definition handleRegister :: "env \<Rightarrow> ClientMessage \<Rightarrow> tracker \<Rightarrow> reply" where
  "handleRegister e clientMessage s =
     (case register_message clientMessage of
        None \<Rightarrow> Inr (badRequestMessage, s)
      | Some m \<Rightarrow>
          if has (reg_username m) \<and> has (reg_password m) \<and> has (reg_public_key m)
          then let login = str_of (reg_username m);
                   hash = env_hash e (str_of (reg_password m));
                   (db_response, s') = on_db (createUser login hash) s;
                   signedKey = signCertyficate (env_ca e) (env_now e) (str_of (reg_public_key m))
               in Inr (db_answer RT_NO_SUCH_USER
                         (if signedKey = '''' then errorMesage RT_BAD_REQUEST
                          else registerResponse signedKey (env_cert e)) db_response, s')
          else Inr (badRequestMessage, s))"

definition handleUnregister :: "env \<Rightarrow> ClientMessage \<Rightarrow> tracker \<Rightarrow> reply" where
  "handleUnregister e clientMessage s =
     (case unregister_message clientMessage of
        None \<Rightarrow> Inr (badRequestMessage, s)
      | Some m \<Rightarrow>
          (case ck_cookie m of
             None \<Rightarrow> Inr (badRequestMessage, s)
           | Some cookie \<Rightarrow>
               with_login cookie (\<lambda>login s.
                 let (db_response, s') = on_db (removeUser login) s
                 in Inr (db_answer RT_NO_SUCH_USER (errorMesage RT_OK) db_response, s')) s))"

definition handleLogin :: "env \<Rightarrow> ClientMessage \<Rightarrow> tracker \<Rightarrow> reply" where
  "handleLogin e clientMessage s =
     (case login_message clientMessage of
        None \<Rightarrow> Inr (badRequestMessage, s)
      | Some m \<Rightarrow>
          if has (lg_password m) \<and> has (lg_username m)
          then let login = str_of (lg_username m);
                   (goodPass, s') = goodCredentials e login (str_of (lg_password m)) s
               in if \<not> goodPass then Inr (errorMesage RT_BAD_CREDENTIALS, s')
                  else let (cookie, sess) = session_login (env_rand e) (env_now e) login (t_sess s')
                       in Inr (loginResponse cookie ''notimplementedyet'', s'\<lparr>t_sess := sess\<rparr>)
          else Inr (badRequestMessage, s))"

definition handleLogout :: "env \<Rightarrow> ClientMessage \<Rightarrow> tracker \<Rightarrow> reply" where
  "handleLogout e clientMessage s =
     (case logout_message clientMessage of
        None \<Rightarrow> Inr (badRequestMessage, s)
      | Some m \<Rightarrow>
          (case ck_cookie m of
             None \<Rightarrow> Inr (badRequestMessage, s)
           | Some cookie \<Rightarrow>
               (case logout cookie (t_sess s) of
                  Inl err \<Rightarrow> Inl err
                | Inr (ok, sess) \<Rightarrow>
                    Inr (errorMesage (if ok then RT_OK else RT_NOT_LOGGED), s\<lparr>t_sess := sess\<rparr>))))"

definition handleChange_password :: "env \<Rightarrow> ClientMessage \<Rightarrow> tracker \<Rightarrow> reply" where
  "handleChange_password e clientMessage s =
     (case change_password_message clientMessage of
        None \<Rightarrow> Inr (badRequestMessage, s)
      | Some m \<Rightarrow>
          with_login (str_of (cp_cookie m)) (\<lambda>login s.
            let (good, s1) = goodCredentials e login (str_of (cp_old_password m)) s
            in if \<not> good then Inr (errorMesage RT_BAD_CREDENTIALS, s1)
               else let hash = env_hash e (str_of (cp_new_password m));
                        (db_response, s2) = on_db (changeUserPassword login hash) s1
                    in Inr (db_answer RT_NO_SUCH_USER (errorMesage RT_OK) db_response, s2)) s)"

text \<open>The handler of \<^verbatim>\<open>REMOVE_USER\<close> removes the account of the caller and logs the cookie out.\<close>

definition handleRemove_user :: "env \<Rightarrow> ClientMessage \<Rightarrow> tracker \<Rightarrow> reply" where
  "handleRemove_user e clientMessage s =
     (case remove_user_message clientMessage of
        None \<Rightarrow> Inr (badRequestMessage, s)
      | Some m \<Rightarrow>
          (let cookie = str_of (un_cookie m)
           in with_login cookie (\<lambda>login s.
                let (db_response, s') = on_db (removeUser login) s
                in case logout cookie (t_sess s') of
                     Inl err \<Rightarrow> Inl err
                   | Inr (_, sess) \<Rightarrow>
                       Inr (db_answer RT_NO_SUCH_USER (errorMesage RT_OK) db_response,
                            s'\<lparr>t_sess := sess\<rparr>)) s))"

subsection \<open>Listings\<close>

definition handleList_networks :: "env \<Rightarrow> ClientMessage \<Rightarrow> tracker \<Rightarrow> reply" where
  "handleList_networks e clientMessage s =
     (case list_networks_message clientMessage of
        None \<Rightarrow> Inr (badRequestMessage, s)
      | Some m \<Rightarrow>
          (case ck_cookie m of
             None \<Rightarrow> Inr (badRequestMessage, s)
           | Some cookie \<Rightarrow>
               with_login cookie (\<lambda>login s.
                 let (L, s') = on_db (getAllNetworks (env_indet e) login) s
                 in Inr (listNetworksResponse L, s')) s))"

definition handleList_my_networks :: "env \<Rightarrow> ClientMessage \<Rightarrow> tracker \<Rightarrow> reply" where
  "handleList_my_networks e clientMessage s =
     (case list_my_networks_message clientMessage of
        None \<Rightarrow> Inr (badRequestMessage, s)
      | Some m \<Rightarrow>
          (case ck_cookie m of
             None \<Rightarrow> Inr (badRequestMessage, s)
           | Some cookie \<Rightarrow>
               with_login cookie (\<lambda>login s.
                 let (L, s') = on_db (getUserNetworks (env_indet e) login) s
                 in Inr (listMyNetworksResponse L, s')) s))"

definition handleList_servers :: "env \<Rightarrow> ClientMessage \<Rightarrow> tracker \<Rightarrow> reply" where
  "handleList_servers e clientMessage s =
     (case list_servers_message clientMessage of
        None \<Rightarrow> Inr (badRequestMessage, s)
      | Some m \<Rightarrow>
          if has (ls_cookie m) \<and> has (ls_network_name m)
          then with_login (str_of (ls_cookie m)) (\<lambda>login s.
                 let network = str_of (ls_network_name m);
                     (known, s1) = on_db (networkExists network) s
                 in if \<not> known then Inr (errorMesage RT_NO_SUCH_NETWORK, s1)
                    else let (seen, s2) = on_db (canSeeNetwork network login) s1
                         in if \<not> seen then Inr (errorMesage RT_NO_PRIVILAGES, s2)
                            else let (L, s3) = on_db (getServers network) s2
                                 in Inr (listServersResponse L, s3)) s
          else Inr (badRequestMessage, s))"

definition handleUser_info :: "env \<Rightarrow> ClientMessage \<Rightarrow> tracker \<Rightarrow> reply" where
  "handleUser_info e clientMessage s =
     (case user_info_message clientMessage of
        None \<Rightarrow> Inr (badRequestMessage, s)
      | Some m \<Rightarrow>
          with_login (str_of (un_cookie m)) (\<lambda>login s.
            let infoLogin = str_of (un_username m);
                (known, s1) = on_db (userExists infoLogin) s
            in if \<not> known then Inr (errorMesage RT_NO_SUCH_USER, s1)
               else let network = str_of (un_network_name m);
                        (exists, s2) = on_db (networkExists network) s1
                    in if \<not> exists then Inr (errorMesage RT_NO_SUCH_NETWORK, s2)
                       else let (key, s3) = on_db (getUserInfo infoLogin network) s2
                            in Inr (userInfoResponse key, s3)) s)"

subsection \<open>Networks\<close>

definition handleCreate_network :: "env \<Rightarrow> ClientMessage \<Rightarrow> tracker \<Rightarrow> reply" where
  "handleCreate_network e clientMessage s =
     (case create_network_message clientMessage of
        None \<Rightarrow> Inr (badRequestMessage, s)
      | Some m \<Rightarrow>
          if has (cn_cookie m) \<and> has (cn_network_name m) \<and> has (cn_access_rights m) \<and>
             has (cn_visibility m) \<and> has (cn_participation_rights m)
          then with_login (str_of (cn_cookie m)) (\<lambda>login s.
                 let name = str_of (cn_network_name m);
                     accessRights = (cn_access_rights m = Some PB_PUBLIC);
                     visible = (cn_visibility m = Some PB_LISTED);
                     participable = (cn_participation_rights m = Some PB_CLIENT_SERVER);
                     (db_response, s') =
                       on_db (createNetwork name login accessRights visible participable
                                (str_of (cn_creator_email m)) (str_of (cn_protocol_name m))) s
                 in if db_response = DB_OK
                    then let (_, s'') = on_db (createInvitation login name) s'
                         in Inr (errorMesage RT_OK, s'')
                    else Inr (db_answer RT_NO_SUCH_USER (errorMesage RT_OK) db_response, s')) s
          else Inr (badRequestMessage, s))"

definition handleDelete_network :: "env \<Rightarrow> ClientMessage \<Rightarrow> tracker \<Rightarrow> reply" where
  "handleDelete_network e clientMessage s =
     (case delete_network_message clientMessage of
        None \<Rightarrow> Inr (badRequestMessage, s)
      | Some m \<Rightarrow>
          if has (dn_cookie m) \<and> has (dn_name m)
          then with_login (str_of (dn_cookie m)) (\<lambda>login s.
                 let name = str_of (dn_name m);
                     (known, s1) = on_db (networkExists name) s
                 in if \<not> known then Inr (errorMesage RT_NO_SUCH_NETWORK, s1)
                    else let (db_response, s2) = on_db (deleteNetwork login name) s1
                         in Inr (db_answer RT_NO_SUCH_NETWORK (errorMesage RT_OK) db_response, s2)) s
          else Inr (badRequestMessage, s))"

definition handleInvite_user :: "env \<Rightarrow> ClientMessage \<Rightarrow> tracker \<Rightarrow> reply" where
  "handleInvite_user e clientMessage s =
     (case invite_user_message clientMessage of
        None \<Rightarrow> Inr (badRequestMessage, s)
      | Some m \<Rightarrow>
          if has (un_cookie m) \<and> has (un_network_name m) \<and> has (un_username m)
          then with_login (str_of (un_cookie m)) (\<lambda>login s.
                 let invitedLogin = str_of (un_username m);
                     network = str_of (un_network_name m);
                     (known, s1) = on_db (networkExists network) s
                 in if \<not> known then Inr (errorMesage RT_NO_SUCH_NETWORK, s1)
                    else let (exists, s2) = on_db (userExists invitedLogin) s1
                         in if \<not> exists then Inr (errorMesage RT_NO_SUCH_USER, s2)
                            else let (db_response, s3) = on_db (createInvitation invitedLogin network) s2
                                 in Inr (db_answer RT_NO_SUCH_NETWORK (errorMesage RT_OK) db_response,
                                         s3)) s
          else Inr (badRequestMessage, s))"

subsection \<open>Servers and keys\<close>

definition server_deadline :: "int64 \<Rightarrow> int32" where
  "server_deadline now = ucast (now + scast SERVER_TTL)"

definition handleUpdate_server :: "env \<Rightarrow> ClientMessage \<Rightarrow> tracker \<Rightarrow> reply" where
  "handleUpdate_server e clientMessage s =
     (case update_server_message clientMessage of
        None \<Rightarrow> Inr (badRequestMessage, s)
      | Some m \<Rightarrow>
          with_login (str_of (us_cookie m)) (\<lambda>login s.
            let network = str_of (us_network_name m);
                (known, s1) = on_db (networkExists network) s
            in if \<not> known then Inr (errorMesage RT_NO_SUCH_NETWORK, s1)
               else let (allowed, s2) = on_db (canAddServer login network) s1
                    in if \<not> allowed then Inr (errorMesage RT_NO_PRIVILAGES, s2)
                       else let port = int_of (us_port_number m);
                                (db_response, s3) =
                                  on_db (updateServer network login (env_addr e) port
                                           (server_deadline (env_now e))) s2
                            in Inr (db_answer RT_NO_SUCH_USER (updateServerResponse SERVER_TTL)
                                      db_response, s3)) s)"

definition handleStop_server :: "env \<Rightarrow> ClientMessage \<Rightarrow> tracker \<Rightarrow> reply" where
  "handleStop_server e clientMessage s =
     (case stop_server_message clientMessage of
        None \<Rightarrow> Inr (badRequestMessage, s)
      | Some m \<Rightarrow>
          with_login (str_of (ss_cookie m)) (\<lambda>login s.
            let network = str_of (ss_network_name m);
                (known, s1) = on_db (networkExists network) s
            in if \<not> known then Inr (errorMesage RT_NO_SUCH_NETWORK, s1)
               else let (db_response, s2) = on_db (deleteServer network login) s1
                    in Inr (db_answer RT_BAD_REQUEST (errorMesage RT_OK) db_response, s2)) s)"

text \<open>The key is stored before the handler looks whether there is one.\<close>

definition handleSign_key :: "env \<Rightarrow> ClientMessage \<Rightarrow> tracker \<Rightarrow> reply" where
  "handleSign_key e clientMessage s =
     (case sign_key_message clientMessage of
        None \<Rightarrow> Inr (errorMesage RT_INTERNAL_SERVER_ERROR, s)
      | Some m \<Rightarrow>
          with_login (str_of (sk_cookie m)) (\<lambda>login s.
            let signedCert = signCertyficate (env_ca e) (env_now e) (str_of (sk_public_key m));
                (db_response, s') = on_db (addKey login (str_of (sk_network_name m)) signedCert) s
            in if signedCert = '''' then Inr (errorMesage RT_BAD_REQUEST, s')
               else Inr (db_answer RT_NO_SUCH_USER (signKeyResponse signedCert) db_response, s')) s)"

subsection \<open>The dispatch\<close>

definition handleRequest :: "env \<Rightarrow> ClientMessage \<Rightarrow> tracker \<Rightarrow> reply" where
  "handleRequest e clientMessage s =
     (case request clientMessage of
        REGISTER \<Rightarrow> handleRegister e clientMessage s
      | UNREGISTER \<Rightarrow> handleUnregister e clientMessage s
      | LOGIN \<Rightarrow> handleLogin e clientMessage s
      | LOGOUT \<Rightarrow> handleLogout e clientMessage s
      | LIST_NETWORKS \<Rightarrow> handleList_networks e clientMessage s
      | LIST_MY_NETWORKS \<Rightarrow> handleList_my_networks e clientMessage s
      | LIST_SERVERS \<Rightarrow> handleList_servers e clientMessage s
      | CREATE_NETWORK \<Rightarrow> handleCreate_network e clientMessage s
      | DELETE_NETWORK \<Rightarrow> handleDelete_network e clientMessage s
      | INVITE_USER \<Rightarrow> handleInvite_user e clientMessage s
      | REMOVE_USER \<Rightarrow> handleRemove_user e clientMessage s
      | USER_INFO \<Rightarrow> handleUser_info e clientMessage s
      | UPDATE_SERVER \<Rightarrow> handleUpdate_server e clientMessage s
      | STOP_SERVER \<Rightarrow> handleStop_server e clientMessage s
      | SIGN_KEY \<Rightarrow> handleSign_key e clientMessage s
      | CHANGE_PASSWORD \<Rightarrow> handleChange_password e clientMessage s)"

definition badRequestResponse :: NodeMessage where
  "badRequestResponse = badRequestMessage"

end
