(* ===== verification/Tracker_Safety.thy ===== *)
theory Tracker_Safety
  imports Tracker_Handler
begin

text \<open>
  What every request does to the tracker: no handler raises, each keeps the integrity of the tables
  and of the sessions, and the effect on the tables is one of the updates of the registry. The
  handlers are opened up once, in \<open>yields\<close> lemmas (the answer and state of a handler satisfy a
  predicate), which the properties reuse.
\<close>

definition tracker_ok :: "tracker \<Rightarrow> bool" where
  "tracker_ok s \<longleftrightarrow> db_ok (t_db s) \<and> session_ok (t_sess s)"

definition yields :: "reply \<Rightarrow> (NodeMessage \<Rightarrow> tracker \<Rightarrow> bool) \<Rightarrow> bool" where
  "yields r Q = (case r of Inl _ \<Rightarrow> False | Inr (m, s) \<Rightarrow> Q m s)"

lemma yields_Inr [simp]: "yields (Inr (m, s)) Q = Q m s"
  by (simp add: yields_def)

lemma yieldsE: "yields r Q \<Longrightarrow> (\<And>m s. r = Inr (m, s) \<Longrightarrow> Q m s \<Longrightarrow> P) \<Longrightarrow> P"
  by (auto simp: yields_def split: sum.splits)

lemma yields_mono: "yields r Q \<Longrightarrow> (\<And>m s. Q m s \<Longrightarrow> R m s) \<Longrightarrow> yields r R"
  by (auto simp: yields_def split: sum.splits)

lemma yields_iff: "yields r Q \<longleftrightarrow> (\<exists>m s. r = Inr (m, s) \<and> Q m s)"
  by (auto simp: yields_def split: sum.splits)

lemma on_db_eq: "on_db f s = (fst (f (t_db s)), s\<lparr>t_db := snd (f (t_db s))\<rparr>)"
  by (simp add: on_db_def split: prod.split)

text \<open>The login a cookie stands for, empty when there is none.\<close>

definition caller :: "tracker \<Rightarrow> string \<Rightarrow> string" where
  "caller s cookie = (case who (t_sess s) cookie of None \<Rightarrow> '''' | Some l \<Rightarrow> l)"

lemma with_login_eq:
  "session_ok (t_sess s) \<Longrightarrow> with_login cookie body s =
     (if caller s cookie = '''' then Inr (errorMesage RT_NOT_LOGGED, s) else body (caller s cookie) s)"
  by (simp add: with_login_def getLogin_who caller_def)

lemma yields_with_login:
  "session_ok (t_sess s) \<Longrightarrow> Q (errorMesage RT_NOT_LOGGED) s \<Longrightarrow>
   (caller s cookie \<noteq> '''' \<Longrightarrow> yields (body (caller s cookie) s) Q) \<Longrightarrow>
   yields (with_login cookie body s) Q"
  by (simp add: with_login_eq)

lemma goodCredentials_eq:
  "goodCredentials e l p s =
     (env_check e p (fst (getPassHash l (t_db s))), s\<lparr>t_db := snd (getPassHash l (t_db s))\<rparr>)"
  by (simp add: goodCredentials_def on_db_eq)

lemma logout_no_error: "session_ok s \<Longrightarrow> logout c s = Inr (who s c \<noteq> None, logged_out c s)"
  by (simp add: logged_out_def logout_cases)

lemmas handler_simps = on_db_eq with_login_eq goodCredentials_eq Let_def logout_no_error

subsection \<open>Integrity\<close>

definition keeps_ok :: "NodeMessage \<Rightarrow> tracker \<Rightarrow> bool" where
  "keeps_ok m s \<longleftrightarrow> tracker_ok s"

lemma keeps_ok_Register: "tracker_ok s \<Longrightarrow> yields (handleRegister e c s) keeps_ok"
  by (auto simp: handleRegister_def handler_simps keeps_ok_def tracker_ok_def wf_intros split: option.split)

lemma keeps_ok_Unregister: "tracker_ok s \<Longrightarrow> yields (handleUnregister e c s) keeps_ok"
  by (auto simp: handleUnregister_def handler_simps keeps_ok_def tracker_ok_def wf_intros split: option.split)

lemma keeps_ok_Login: "tracker_ok s \<Longrightarrow> yields (handleLogin e c s) keeps_ok"
  by (auto simp: handleLogin_def handler_simps keeps_ok_def tracker_ok_def wf_intros session_login_def
      session_ok_open split: option.split)

lemma keeps_ok_Logout: "tracker_ok s \<Longrightarrow> yields (handleLogout e c s) keeps_ok"
  by (auto simp: handleLogout_def handler_simps keeps_ok_def tracker_ok_def session_ok_logged_out
      split: option.split)

lemma keeps_ok_Change_password: "tracker_ok s \<Longrightarrow> yields (handleChange_password e c s) keeps_ok"
  by (auto simp: handleChange_password_def handler_simps keeps_ok_def tracker_ok_def wf_intros split: option.split)

lemma keeps_ok_Remove_user: "tracker_ok s \<Longrightarrow> yields (handleRemove_user e c s) keeps_ok"
  by (auto simp: handleRemove_user_def handler_simps keeps_ok_def tracker_ok_def wf_intros
      session_ok_logged_out split: option.split)

lemma keeps_ok_List_networks: "tracker_ok s \<Longrightarrow> yields (handleList_networks e c s) keeps_ok"
  by (auto simp: handleList_networks_def handler_simps keeps_ok_def tracker_ok_def wf_intros split: option.split)

lemma keeps_ok_List_my_networks: "tracker_ok s \<Longrightarrow> yields (handleList_my_networks e c s) keeps_ok"
  by (auto simp: handleList_my_networks_def handler_simps keeps_ok_def tracker_ok_def wf_intros split: option.split)

lemma keeps_ok_List_servers: "tracker_ok s \<Longrightarrow> yields (handleList_servers e c s) keeps_ok"
  by (auto simp: handleList_servers_def handler_simps keeps_ok_def tracker_ok_def wf_intros split: option.split)

lemma keeps_ok_User_info: "tracker_ok s \<Longrightarrow> yields (handleUser_info e c s) keeps_ok"
  by (auto simp: handleUser_info_def handler_simps keeps_ok_def tracker_ok_def wf_intros split: option.split)

lemma keeps_ok_Create_network: "tracker_ok s \<Longrightarrow> yields (handleCreate_network e c s) keeps_ok"
  by (auto simp: handleCreate_network_def handler_simps keeps_ok_def tracker_ok_def wf_intros split: option.split)

lemma keeps_ok_Delete_network: "tracker_ok s \<Longrightarrow> yields (handleDelete_network e c s) keeps_ok"
  by (auto simp: handleDelete_network_def handler_simps keeps_ok_def tracker_ok_def wf_intros split: option.split)

lemma keeps_ok_Invite_user: "tracker_ok s \<Longrightarrow> yields (handleInvite_user e c s) keeps_ok"
  by (auto simp: handleInvite_user_def handler_simps keeps_ok_def tracker_ok_def wf_intros split: option.split)

lemma keeps_ok_Update_server: "tracker_ok s \<Longrightarrow> yields (handleUpdate_server e c s) keeps_ok"
  by (auto simp: handleUpdate_server_def handler_simps keeps_ok_def tracker_ok_def wf_intros split: option.split)

lemma keeps_ok_Stop_server: "tracker_ok s \<Longrightarrow> yields (handleStop_server e c s) keeps_ok"
  by (auto simp: handleStop_server_def handler_simps keeps_ok_def tracker_ok_def wf_intros split: option.split)

lemma keeps_ok_Sign_key: "tracker_ok s \<Longrightarrow> yields (handleSign_key e c s) keeps_ok"
  by (auto simp: handleSign_key_def handler_simps keeps_ok_def tracker_ok_def wf_intros split: option.split)

lemmas keeps_ok_handlers =
  keeps_ok_Register keeps_ok_Unregister keeps_ok_Login keeps_ok_Logout keeps_ok_List_networks
  keeps_ok_List_my_networks keeps_ok_List_servers keeps_ok_Create_network keeps_ok_Delete_network
  keeps_ok_Invite_user keeps_ok_Remove_user keeps_ok_User_info keeps_ok_Update_server
  keeps_ok_Stop_server keeps_ok_Sign_key keeps_ok_Change_password

lemma handleRequest_keeps_ok: "tracker_ok s \<Longrightarrow> yields (handleRequest e c s) keeps_ok"
  by (simp add: handleRequest_def keeps_ok_handlers split: RequestType.split)

subsection \<open>The effect on the registry\<close>

definition cookie_of :: "ClientMessage \<Rightarrow> string" where
  "cookie_of c =
     (case request c of
        REGISTER \<Rightarrow> '''' | LOGIN \<Rightarrow> ''''
      | UNREGISTER \<Rightarrow> str_of (Option.bind (unregister_message c) ck_cookie)
      | LOGOUT \<Rightarrow> str_of (Option.bind (logout_message c) ck_cookie)
      | LIST_NETWORKS \<Rightarrow> str_of (Option.bind (list_networks_message c) ck_cookie)
      | LIST_MY_NETWORKS \<Rightarrow> str_of (Option.bind (list_my_networks_message c) ck_cookie)
      | LIST_SERVERS \<Rightarrow> str_of (Option.bind (list_servers_message c) ls_cookie)
      | CREATE_NETWORK \<Rightarrow> str_of (Option.bind (create_network_message c) cn_cookie)
      | DELETE_NETWORK \<Rightarrow> str_of (Option.bind (delete_network_message c) dn_cookie)
      | INVITE_USER \<Rightarrow> str_of (Option.bind (invite_user_message c) un_cookie)
      | REMOVE_USER \<Rightarrow> str_of (Option.bind (remove_user_message c) un_cookie)
      | USER_INFO \<Rightarrow> str_of (Option.bind (user_info_message c) un_cookie)
      | UPDATE_SERVER \<Rightarrow> str_of (Option.bind (update_server_message c) us_cookie)
      | STOP_SERVER \<Rightarrow> str_of (Option.bind (stop_server_message c) ss_cookie)
      | SIGN_KEY \<Rightarrow> str_of (Option.bind (sign_key_message c) sk_cookie)
      | CHANGE_PASSWORD \<Rightarrow> str_of (Option.bind (change_password_message c) cp_cookie))"

text \<open>The specification: what a request may do to the registry, and on whose behalf. \<open>l\<close> is the
  login the request's cookie stands for.\<close>

inductive registry_step :: "string \<Rightarrow> ClientMessage \<Rightarrow> registry \<Rightarrow> registry \<Rightarrow> bool"
  for l :: string and c :: ClientMessage where
  rs_unchanged: "registry_step l c r r"
| rs_register: "request c = REGISTER \<Longrightarrow> register_message c = Some m \<Longrightarrow> reg_username m = Some n \<Longrightarrow>
    r_password r n = None \<Longrightarrow> registry_step l c r (reg_set_password n p r)"
| rs_remove: "request c \<in> {UNREGISTER, REMOVE_USER} \<Longrightarrow> l \<noteq> '''' \<Longrightarrow>
    registry_step l c r (reg_remove_user l r)"
| rs_password: "request c = CHANGE_PASSWORD \<Longrightarrow> l \<noteq> '''' \<Longrightarrow> r_password r l \<noteq> None \<Longrightarrow>
    registry_step l c r (reg_set_password l p r)"
| rs_create: "request c = CREATE_NETWORK \<Longrightarrow> l \<noteq> '''' \<Longrightarrow> r_network r n = None \<Longrightarrow>
    ni_owner i = rtrim l \<Longrightarrow> registry_step l c r (reg_add_network n i r)"
| rs_create_invite: "request c = CREATE_NETWORK \<Longrightarrow> l \<noteq> '''' \<Longrightarrow> r_network r n = None \<Longrightarrow>
    ni_owner i = rtrim l \<Longrightarrow> registry_step l c r (reg_invite l n (reg_add_network n i r))"
| rs_delete: "request c = DELETE_NETWORK \<Longrightarrow> l \<noteq> '''' \<Longrightarrow> owned_by r n l \<Longrightarrow>
    registry_step l c r (reg_delete_network n r)"
| rs_invite: "request c = INVITE_USER \<Longrightarrow> l \<noteq> '''' \<Longrightarrow> registry_step l c r (reg_invite u n r)"
| rs_server: "request c = UPDATE_SERVER \<Longrightarrow> l \<noteq> '''' \<Longrightarrow> r_server r l n = None \<Longrightarrow>
    registry_step l c r (reg_set_server l n (Some v) r)"
| rs_stop: "request c = STOP_SERVER \<Longrightarrow> l \<noteq> '''' \<Longrightarrow>
    registry_step l c r (reg_set_server l n None r)"
| rs_key: "request c = SIGN_KEY \<Longrightarrow> l \<noteq> '''' \<Longrightarrow> registry_step l c r (reg_set_key l n k r)"

inductive_cases registry_stepE: "registry_step l c r r'"

definition steps_from :: "tracker \<Rightarrow> ClientMessage \<Rightarrow> NodeMessage \<Rightarrow> tracker \<Rightarrow> bool" where
  "steps_from s c m s' \<longleftrightarrow> registry_step (caller s (cookie_of c)) c (reg (t_db s)) (reg (t_db s'))"

lemma reg_readers [simp]:
  "reg (snd (userExists x d)) = reg d"
  "reg (snd (networkExists n d)) = reg d"
  "reg (snd (canSeeNetwork n x d)) = reg d"
  "reg (snd (canAddServer x n d)) = reg d"
  "reg (snd (getAllNetworks b x d)) = reg d"
  "reg (snd (getUserNetworks b x d)) = reg d"
  "reg (snd (getServers n d)) = reg d"
  "reg (snd (getPassHash x d)) = reg d"
  "reg (snd (getUserInfo x n d)) = reg d"
  by (simp_all add: reg_def frame_simps)

text \<open>One method call of a handler is one step, also after calls that only read.\<close>

lemma step_createUser:
  "db_ok d \<Longrightarrow> reg d = r \<Longrightarrow> request c = REGISTER \<Longrightarrow> register_message c = Some m \<Longrightarrow>
   reg_username m = Some n \<Longrightarrow> registry_step l c r (reg (snd (createUser n p d)))"
  using createUser_contract [OF _ surjective_pairing, of d n p]
  by (cases "fst (createUser n p d) = DB_OK") (auto intro: rs_register rs_unchanged)

lemma step_removeUser:
  "db_ok d \<Longrightarrow> reg d = r \<Longrightarrow> request c \<in> {UNREGISTER, REMOVE_USER} \<Longrightarrow> l \<noteq> '''' \<Longrightarrow>
   registry_step l c r (reg (snd (removeUser l d)))"
  using removeUser_contract [OF _ surjective_pairing, of d l]
  by (cases "fst (removeUser l d) = DB_OK") (auto intro: rs_remove rs_unchanged)

lemma step_changeUserPassword:
  "db_ok d \<Longrightarrow> reg d = r \<Longrightarrow> request c = CHANGE_PASSWORD \<Longrightarrow> l \<noteq> '''' \<Longrightarrow>
   registry_step l c r (reg (snd (changeUserPassword l p d)))"
  using changeUserPassword_contract [OF _ surjective_pairing, of d l p]
    rs_password [of c l "reg d" "rtrim p"] rs_unchanged [of l c "reg d"]
  by (auto split: if_splits)

lemma rs_created:
  assumes "request c = CREATE_NETWORK" "l \<noteq> []" "r_network r n = None"
  shows "registry_step l c r (reg_add_network n \<lparr>ni_owner = rtrim l, ni_public = x, ni_visible = y,
      ni_participable = z, ni_email = m, ni_protocol = p\<rparr> r)"
    and "registry_step l c r (reg_invite l n (reg_add_network n \<lparr>ni_owner = rtrim l, ni_public = x,
      ni_visible = y, ni_participable = z, ni_email = m, ni_protocol = p\<rparr> r))"
  using assms by (simp_all add: rs_create rs_create_invite)

lemma step_createNetwork:
  "db_ok d \<Longrightarrow> reg d = r \<Longrightarrow> request c = CREATE_NETWORK \<Longrightarrow> l \<noteq> '''' \<Longrightarrow>
   registry_step l c r (reg (snd (createNetwork n l x y z m p d)))"
  using createNetwork_contract [OF _ surjective_pairing, of d n l x y z m p]
  by (cases "fst (createNetwork n l x y z m p d) = DB_OK") (auto intro: rs_created rs_unchanged)

lemma step_createNetwork_invite:
  assumes "db_ok d" "reg d = r" "request c = CREATE_NETWORK" "l \<noteq> ''''"
    and "fst (createNetwork n l x y z m p d) = DB_OK"
  shows "registry_step l c r (reg (snd (createInvitation l n (snd (createNetwork n l x y z m p d)))))"
proof -
  let ?d = "snd (createNetwork n l x y z m p d)"
  have "db_ok ?d" using assms(1) by (simp add: wf_intros)
  then show ?thesis
    using createNetwork_contract [OF assms(1) surjective_pairing, of n l x y z m p]
      createInvitation_contract [OF _ surjective_pairing, of ?d l n] assms
    by (cases "fst (createInvitation l n ?d) = DB_OK") (auto intro: rs_created)
qed

lemma step_deleteNetwork:
  "db_ok d \<Longrightarrow> reg d = r \<Longrightarrow> request c = DELETE_NETWORK \<Longrightarrow> l \<noteq> '''' \<Longrightarrow>
   registry_step l c r (reg (snd (deleteNetwork l n d)))"
  using deleteNetwork_contract [OF _ surjective_pairing, of d l n]
  by (cases "fst (deleteNetwork l n d) = DB_OK") (auto intro: rs_delete rs_unchanged)

lemma step_createInvitation:
  "db_ok d \<Longrightarrow> reg d = r \<Longrightarrow> request c = INVITE_USER \<Longrightarrow> l \<noteq> '''' \<Longrightarrow>
   registry_step l c r (reg (snd (createInvitation u n d)))"
  using createInvitation_contract [OF _ surjective_pairing, of d u n]
  by (cases "fst (createInvitation u n d) = DB_OK") (auto intro: rs_invite rs_unchanged)

lemma step_updateServer:
  "db_ok d \<Longrightarrow> reg d = r \<Longrightarrow> request c = UPDATE_SERVER \<Longrightarrow> l \<noteq> '''' \<Longrightarrow>
   registry_step l c r (reg (snd (updateServer n l ip port ttl d)))"
  using updateServer_contract [OF _ surjective_pairing, of d n l ip port ttl]
    rs_server [of c l "reg d" n "(rtrim ip, port, ttl)"] rs_unchanged [of l c "reg d"]
  by (auto split: if_splits)

lemma step_deleteServer:
  "db_ok d \<Longrightarrow> reg d = r \<Longrightarrow> request c = STOP_SERVER \<Longrightarrow> l \<noteq> '''' \<Longrightarrow>
   registry_step l c r (reg (snd (deleteServer n l d)))"
  using deleteServer_contract [OF _ surjective_pairing, of d n l]
    rs_stop [of c l "reg d" n] rs_unchanged [of l c "reg d"] by auto

lemma step_addKey:
  "db_ok d \<Longrightarrow> reg d = r \<Longrightarrow> request c = SIGN_KEY \<Longrightarrow> l \<noteq> '''' \<Longrightarrow>
   registry_step l c r (reg (snd (addKey l n k d)))"
  using addKey_contract [OF _ surjective_pairing, of d l n k]
  by (cases "fst (addKey l n k d) = DB_OK") (auto intro: rs_key rs_unchanged)

lemmas handler_steps =
  step_createUser step_removeUser step_changeUserPassword step_createNetwork
  step_createNetwork_invite step_deleteNetwork step_createInvitation step_updateServer
  step_deleteServer step_addKey

lemma steps_Register:
  "tracker_ok s \<Longrightarrow> request c = REGISTER \<Longrightarrow> yields (handleRegister e c s) (steps_from s c)"
  by (auto simp: handleRegister_def handler_simps steps_from_def tracker_ok_def has_def
      rs_unchanged intro: handler_steps split: option.split)

lemma steps_Unregister:
  "tracker_ok s \<Longrightarrow> request c = UNREGISTER \<Longrightarrow> yields (handleUnregister e c s) (steps_from s c)"
  by (auto simp: handleUnregister_def handler_simps steps_from_def tracker_ok_def cookie_of_def
      rs_unchanged intro: handler_steps split: option.split)

lemma steps_Login: "tracker_ok s \<Longrightarrow> yields (handleLogin e c s) (steps_from s c)"
  by (auto simp: handleLogin_def handler_simps steps_from_def tracker_ok_def session_login_def
      rs_unchanged split: option.split)

lemma steps_Logout: "tracker_ok s \<Longrightarrow> yields (handleLogout e c s) (steps_from s c)"
  by (auto simp: handleLogout_def handler_simps steps_from_def tracker_ok_def rs_unchanged split: option.split)

lemma steps_Change_password:
  "tracker_ok s \<Longrightarrow> request c = CHANGE_PASSWORD \<Longrightarrow> yields (handleChange_password e c s) (steps_from s c)"
  by (auto simp: handleChange_password_def handler_simps steps_from_def tracker_ok_def cookie_of_def
      rs_unchanged wf_intros intro!: handler_steps split: option.split)

lemma steps_Remove_user:
  "tracker_ok s \<Longrightarrow> request c = REMOVE_USER \<Longrightarrow> yields (handleRemove_user e c s) (steps_from s c)"
  by (auto simp: handleRemove_user_def handler_simps steps_from_def tracker_ok_def cookie_of_def
      rs_unchanged intro: handler_steps split: option.split)

lemma steps_List_networks: "tracker_ok s \<Longrightarrow> yields (handleList_networks e c s) (steps_from s c)"
  by (auto simp: handleList_networks_def handler_simps steps_from_def tracker_ok_def rs_unchanged
      split: option.split)

lemma steps_List_my_networks: "tracker_ok s \<Longrightarrow> yields (handleList_my_networks e c s) (steps_from s c)"
  by (auto simp: handleList_my_networks_def handler_simps steps_from_def tracker_ok_def rs_unchanged
      split: option.split)

lemma steps_List_servers: "tracker_ok s \<Longrightarrow> yields (handleList_servers e c s) (steps_from s c)"
  by (auto simp: handleList_servers_def handler_simps steps_from_def tracker_ok_def rs_unchanged
      split: option.split)

lemma steps_User_info: "tracker_ok s \<Longrightarrow> yields (handleUser_info e c s) (steps_from s c)"
  by (auto simp: handleUser_info_def handler_simps steps_from_def tracker_ok_def rs_unchanged
      split: option.split)

lemma steps_Create_network:
  "tracker_ok s \<Longrightarrow> request c = CREATE_NETWORK \<Longrightarrow> yields (handleCreate_network e c s) (steps_from s c)"
  by (auto simp: handleCreate_network_def handler_simps steps_from_def tracker_ok_def cookie_of_def
      rs_unchanged intro: handler_steps split: option.split)

lemma steps_Delete_network:
  "tracker_ok s \<Longrightarrow> request c = DELETE_NETWORK \<Longrightarrow> yields (handleDelete_network e c s) (steps_from s c)"
  by (auto simp: handleDelete_network_def handler_simps steps_from_def tracker_ok_def cookie_of_def
      rs_unchanged wf_intros intro!: handler_steps split: option.split)

lemma steps_Invite_user:
  "tracker_ok s \<Longrightarrow> request c = INVITE_USER \<Longrightarrow> yields (handleInvite_user e c s) (steps_from s c)"
  by (auto simp: handleInvite_user_def handler_simps steps_from_def tracker_ok_def cookie_of_def
      rs_unchanged wf_intros intro!: handler_steps split: option.split)

lemma steps_Update_server:
  "tracker_ok s \<Longrightarrow> request c = UPDATE_SERVER \<Longrightarrow> yields (handleUpdate_server e c s) (steps_from s c)"
  by (auto simp: handleUpdate_server_def handler_simps steps_from_def tracker_ok_def cookie_of_def
      rs_unchanged wf_intros intro!: handler_steps split: option.split)

lemma steps_Stop_server:
  "tracker_ok s \<Longrightarrow> request c = STOP_SERVER \<Longrightarrow> yields (handleStop_server e c s) (steps_from s c)"
  by (auto simp: handleStop_server_def handler_simps steps_from_def tracker_ok_def cookie_of_def
      rs_unchanged wf_intros intro!: handler_steps split: option.split)

lemma steps_Sign_key:
  "tracker_ok s \<Longrightarrow> request c = SIGN_KEY \<Longrightarrow> yields (handleSign_key e c s) (steps_from s c)"
  by (auto simp: handleSign_key_def handler_simps steps_from_def tracker_ok_def cookie_of_def
      rs_unchanged intro!: handler_steps split: option.split)

lemmas steps_handlers =
  steps_Register steps_Unregister steps_Login steps_Logout steps_Change_password steps_Remove_user
  steps_List_networks steps_List_my_networks steps_List_servers steps_User_info
  steps_Create_network steps_Delete_network steps_Invite_user steps_Update_server
  steps_Stop_server steps_Sign_key

lemma handleRequest_steps: "tracker_ok s \<Longrightarrow> yields (handleRequest e c s) (steps_from s c)"
  by (simp add: handleRequest_def steps_handlers split: RequestType.split)

end
