(* ===== verification/Tracker_Wire.thy ===== *)
theory Tracker_Wire
  imports Tracker_Safety
begin

text \<open>
  The tracker's end of a connection: \<^verbatim>\<open>requestparser.cpp\<close>, \<^verbatim>\<open>request.cpp\<close>, \<^verbatim>\<open>response.cpp\<close> and the
  callbacks of \<^verbatim>\<open>connection.cpp\<close>. Reading and writing a protobuf message are the parameters
  \<open>parse_pb\<close> and \<open>ser_pb\<close> (generated code). A connection is a state machine driven by the events
  that \<^verbatim>\<open>boost::asio\<close> delivers: the end of the handshake (which calls \<open>handle_read\<close> with no byte),
  a chunk of at most 8192 bytes, an error, the end of the write. TLS is transparent. \<open>conn_step\<close> is what an
  event does while the peer is there; \<open>connection_start\<close> and \<open>logged_step\<close> add the exception of
  \<^verbatim>\<open>remote_endpoint()\<close> when it has gone, which the server does not catch.
\<close>

datatype tribool = Tri_True | Tri_False | Tri_Indeterminate

text \<open>The parser object keeps only the announced length; the bytes of a call are in a local buffer.
  \<^verbatim>\<open>Request::parseFromIstream\<close> reads the buffer to its end.\<close>

definition RequestParser_init :: int32 where
  "RequestParser_init = - 1"

definition parse_body ::
  "(byte list \<Rightarrow> ClientMessage option) \<Rightarrow> int32 \<Rightarrow> byte list \<Rightarrow> tribool \<times> ClientMessage option \<times> int32" where
  "parse_body parse_pb len streambuf =
     (if length streambuf < unat len then (Tri_Indeterminate, None, len)
      else if length streambuf = unat len
      then (case parse_pb streambuf of
              Some m \<Rightarrow> (Tri_True, Some m, len)
            | None \<Rightarrow> (Tri_False, None, len))
      else (Tri_False, None, len))"

definition request_parse ::
  "(byte list \<Rightarrow> ClientMessage option) \<Rightarrow> int32 \<Rightarrow> byte list \<Rightarrow> tribool \<times> ClientMessage option \<times> int32" where
  "request_parse parse_pb len data =
     (if len = - 1 \<and> length data < 4 then (Tri_Indeterminate, None, len)
      else if len = - 1 then parse_body parse_pb (le32_value (take 4 data)) (drop 4 data)
      else parse_body parse_pb len data)"

text \<open>\<^verbatim>\<open>Response::parseIntoOstream\<close>: \<^verbatim>\<open>ByteSize()\<close> is the number of bytes that are then written.\<close>

definition parseIntoOstream :: "(NodeMessage \<Rightarrow> byte list) \<Rightarrow> NodeMessage \<Rightarrow> byte list" where
  "parseIntoOstream ser_pb message =
     (let messageSize = (word_of_nat (length (ser_pb message)) :: int32)
      in le32_bytes messageSize @ ser_pb message)"

definition status_text :: "NodeMessage \<Rightarrow> string" where
  "status_text m =
     (case response_type m of
        RT_INTERNAL_SERVER_ERROR \<Rightarrow> ''INTERNAL_SERVER_ERROR''
      | RT_BAD_REQUEST \<Rightarrow> ''BAD_REQUEST''
      | RT_NO_PRIVILAGES \<Rightarrow> ''NO_PRIVILAGES''
      | RT_NOT_LOGGED \<Rightarrow> ''NOT_LOGGED''
      | RT_BAD_CREDENTIALS \<Rightarrow> ''BAD_CREDENTIALS''
      | RT_NO_SUCH_USER \<Rightarrow> ''NO_SUCH_USER''
      | RT_NO_SUCH_NETWORK \<Rightarrow> ''NO_SUCH_NETWORK''
      | RT_BAD_DATA \<Rightarrow> ''BAD_DATA''
      | RT_ALREADY_EXISTS \<Rightarrow> ''ALREADY_EXISTS''
      | RT_OK \<Rightarrow> ''OK'')"

subsection \<open>A connection\<close>

datatype phase = Handshaking | Reading | Writing | Closed

record connection =
  c_phase :: phase
  c_len :: int32
  c_address :: string
  c_written :: "byte list"

definition new_connection :: "string \<Rightarrow> connection" where
  "new_connection address =
     \<lparr>c_phase = Handshaking, c_len = RequestParser_init, c_address = address, c_written = []\<rparr>"

text \<open>\<^verbatim>\<open>Connection::start\<close> asks the socket for the peer's address, which throws when the peer has gone.\<close>

definition connection_start :: "string option \<Rightarrow> cpp_error + connection" where
  "connection_start peer = (case peer of None \<Rightarrow> Inl No_Peer | Some address \<Rightarrow> Inr (new_connection address))"

definition BUFFER_SIZE :: nat where "BUFFER_SIZE = 8192"

datatype event =
    Handshake_Done bool      \<comment> \<open>with an error?\<close>
  | Chunk "byte list"
  | Read_Error
  | Write_Done bool          \<comment> \<open>with an error?\<close>

text \<open>\<^verbatim>\<open>Connection::handle_read\<close>. Nothing is armed after an error, so the connection dies.\<close>

definition handle_read ::
  "(byte list \<Rightarrow> ClientMessage option) \<Rightarrow> (NodeMessage \<Rightarrow> byte list) \<Rightarrow> env \<Rightarrow> bool \<Rightarrow> byte list \<Rightarrow>
   connection \<Rightarrow> tracker \<Rightarrow> cpp_error + connection \<times> tracker" where
  "handle_read parse_pb ser_pb e err data c s =
     (if err then Inr (c\<lparr>c_phase := Closed\<rparr>, s)
      else let (result, request, len) = request_parse parse_pb (c_len c) data;
               c' = c\<lparr>c_len := len\<rparr>
           in case result of
                Tri_True \<Rightarrow>
                  (case handleRequest (e\<lparr>env_addr := c_address c\<rparr>) (the request) s of
                     Inl x \<Rightarrow> Inl x
                   | Inr (reply, s') \<Rightarrow>
                       Inr (c'\<lparr>c_phase := Writing, c_written := parseIntoOstream ser_pb reply\<rparr>, s'))
              | Tri_False \<Rightarrow>
                  Inr (c'\<lparr>c_phase := Writing, c_written := parseIntoOstream ser_pb badRequestResponse\<rparr>, s)
              | Tri_Indeterminate \<Rightarrow> Inr (c'\<lparr>c_phase := Reading\<rparr>, s))"

definition handle_write :: "bool \<Rightarrow> connection \<Rightarrow> connection" where
  "handle_write err c = c\<lparr>c_phase := Closed\<rparr>"

text \<open>What an event does to a connection; an event that its phase does not wait for cannot arrive.
  A read delivers at most the buffer.\<close>

definition conn_step ::
  "(byte list \<Rightarrow> ClientMessage option) \<Rightarrow> (NodeMessage \<Rightarrow> byte list) \<Rightarrow> env \<Rightarrow> event \<Rightarrow>
   connection \<Rightarrow> tracker \<Rightarrow> cpp_error + connection \<times> tracker" where
  "conn_step parse_pb ser_pb e ev c s =
     (case (c_phase c, ev) of
        (Handshaking, Handshake_Done err) \<Rightarrow> handle_read parse_pb ser_pb e err [] c s
      | (Reading, Chunk data) \<Rightarrow>
          if data \<noteq> [] \<and> length data \<le> BUFFER_SIZE
          then handle_read parse_pb ser_pb e False data c s else Inr (c, s)
      | (Reading, Read_Error) \<Rightarrow> handle_read parse_pb ser_pb e True [] c s
      | (Writing, Write_Done err) \<Rightarrow> Inr (handle_write err c, s)
      | _ \<Rightarrow> Inr (c, s))"

fun conn_run ::
  "(byte list \<Rightarrow> ClientMessage option) \<Rightarrow> (NodeMessage \<Rightarrow> byte list) \<Rightarrow> (env \<times> event) list \<Rightarrow>
   connection \<Rightarrow> tracker \<Rightarrow> cpp_error + connection \<times> tracker" where
  "conn_run parse_pb ser_pb [] c s = Inr (c, s)"
| "conn_run parse_pb ser_pb ((e, ev) # evs) c s =
     (case conn_step parse_pb ser_pb e ev c s of
        Inl x \<Rightarrow> Inl x
      | Inr (c', s') \<Rightarrow> conn_run parse_pb ser_pb evs c' s')"

text \<open>After a complete request has been handled, and before the answer is written, the log (on in the
  project file, \<^verbatim>\<open>DEBUG_LOGGING\<close>) asks for the peer's address again. \<open>there\<close> says whether the socket
  still has a peer.\<close>

definition sends_reply :: "(byte list \<Rightarrow> ClientMessage option) \<Rightarrow> event \<Rightarrow> connection \<Rightarrow> bool" where
  "sends_reply parse_pb ev c =
     (case (c_phase c, ev) of
        (Handshaking, Handshake_Done False) \<Rightarrow> fst (request_parse parse_pb (c_len c) []) = Tri_True
      | (Reading, Chunk data) \<Rightarrow>
          data \<noteq> [] \<and> length data \<le> BUFFER_SIZE \<and> fst (request_parse parse_pb (c_len c) data) = Tri_True
      | _ \<Rightarrow> False)"

definition logged_step ::
  "(byte list \<Rightarrow> ClientMessage option) \<Rightarrow> (NodeMessage \<Rightarrow> byte list) \<Rightarrow> env \<Rightarrow> event \<Rightarrow> bool \<Rightarrow>
   connection \<Rightarrow> tracker \<Rightarrow> cpp_error + connection \<times> tracker" where
  "logged_step parse_pb ser_pb e ev there c s =
     (case conn_step parse_pb ser_pb e ev c s of
        Inl x \<Rightarrow> Inl x
      | Inr r \<Rightarrow> if sends_reply parse_pb ev c \<and> \<not> there then Inl No_Peer else Inr r)"

subsection \<open>The server\<close>

text \<open>Any number of connections over one tracker (\<^verbatim>\<open>Server::handle_accept\<close> and the callbacks), with
  the callbacks taken one at a time. The cleaning of expired servers may happen in between. An
  exception leaves the thread that runs the callback, which ends the program.\<close>

type_synonym server = "(nat \<Rightarrow> connection option) \<times> tracker"

datatype server_event =
    Accept_Done bool nat "string option"   \<comment> \<open>with an error? the new connection, its peer's address\<close>
  | On nat env event bool                  \<comment> \<open>an event of a connection; is its peer there?\<close>
  | Clean int32 int32

definition server_init :: "bool list \<Rightarrow> server" where
  "server_init fs = (\<lambda>_. None, \<lparr>t_db = \<lparr>store = empty_tables, faults = fs\<rparr>, t_sess = new_session\<rparr>)"

fun server_do ::
  "(byte list \<Rightarrow> ClientMessage option) \<Rightarrow> (NodeMessage \<Rightarrow> byte list) \<Rightarrow> server_event \<Rightarrow> server \<Rightarrow>
   cpp_error + server" where
  "server_do parse_pb ser_pb (Accept_Done err i peer) (cs, s) =
     (if err \<or> cs i \<noteq> None then Inr (cs, s)
      else case connection_start peer of Inl x \<Rightarrow> Inl x | Inr c \<Rightarrow> Inr (cs(i \<mapsto> c), s))"
| "server_do parse_pb ser_pb (On i e ev there) (cs, s) =
     (case cs i of
        None \<Rightarrow> Inr (cs, s)
      | Some c \<Rightarrow>
          (case logged_step parse_pb ser_pb e ev there c s of
             Inl x \<Rightarrow> Inl x
           | Inr (c', s') \<Rightarrow> Inr (cs(i \<mapsto> c'), s')))"
| "server_do parse_pb ser_pb (Clean epoch ttl) (cs, s) = Inr (cs, s\<lparr>t_db := cleanServers epoch ttl (t_db s)\<rparr>)"

inductive server_step ::
  "(byte list \<Rightarrow> ClientMessage option) \<Rightarrow> (NodeMessage \<Rightarrow> byte list) \<Rightarrow> server \<Rightarrow> server \<Rightarrow> bool"
  for parse_pb ser_pb where
  sv_event: "server_do parse_pb ser_pb ev x = Inr y \<Longrightarrow> server_step parse_pb ser_pb x y"

inductive_cases server_stepE: "server_step p q x y"

inductive server_reach ::
  "(byte list \<Rightarrow> ClientMessage option) \<Rightarrow> (NodeMessage \<Rightarrow> byte list) \<Rightarrow> server \<Rightarrow> bool"
  for parse_pb ser_pb where
  sr_init: "server_reach parse_pb ser_pb (server_init fs)"
| sr_step: "server_reach parse_pb ser_pb x \<Longrightarrow> server_step parse_pb ser_pb x y \<Longrightarrow>
    server_reach parse_pb ser_pb y"

subsection \<open>Lemmas\<close>

lemma parseIntoOstream_framed: "parseIntoOstream ser_pb m = framed (ser_pb m)"
  by (simp add: parseIntoOstream_def framed_def Let_def)

lemma request_parse_empty [simp]: "request_parse p (- 1) [] = (Tri_Indeterminate, None, - 1)"
  by (simp add: request_parse_def)

lemma request_parse_framed:
  "length body < 2 ^ 32 \<Longrightarrow> request_parse p (- 1) (framed body) =
     (case p body of Some m \<Rightarrow> (Tri_True, Some m, word_of_nat (length body))
      | None \<Rightarrow> (Tri_False, None, word_of_nat (length body)))"
  by (simp add: request_parse_def parse_body_def framed_def unat_of_nat32 split: option.split)

text \<open>The first part of a message that comes in two chunks is dropped with the local buffer.\<close>

lemma request_parse_first_part:
  assumes "length (a @ b) < 2 ^ 32" "b \<noteq> []"
  shows "request_parse p (- 1) (le32_bytes (word_of_nat (length (a @ b))) @ a) =
    (Tri_Indeterminate, None, word_of_nat (length (a @ b)))"
  using assms by (simp add: request_parse_def parse_body_def unat_of_nat32 del: of_nat_add)

lemma request_parse_short:
  "len \<noteq> - 1 \<Longrightarrow> length data < unat len \<Longrightarrow> request_parse p len data = (Tri_Indeterminate, None, len)"
  by (simp add: request_parse_def parse_body_def)

lemma request_parse_True_Some:
  "request_parse p len data = (Tri_True, r, len') \<Longrightarrow> r \<noteq> None"
  by (auto simp: request_parse_def parse_body_def split: if_splits option.splits) (metis option.distinct(1))+

lemma handle_read_ok:
  assumes "tracker_ok s"
  shows "\<exists>c' s'. handle_read p q e err data c s = Inr (c', s') \<and> tracker_ok s'"
proof -
  obtain r req len where parse: "request_parse p (c_len c) data = (r, req, len)"
    by (metis prod_cases3)
  obtain m s' where "handleRequest (e\<lparr>env_addr := c_address c\<rparr>) (the req) s = Inr (m, s')" "tracker_ok s'"
    using handleRequest_keeps_ok [OF assms, of "e\<lparr>env_addr := c_address c\<rparr>" "the req"]
    by (auto simp: yields_iff keeps_ok_def)
  then show ?thesis
    using assms by (cases r) (simp_all add: handle_read_def parse Let_def)
qed

lemma conn_step_ok:
  assumes "tracker_ok s"
  shows "\<exists>c' s'. conn_step p q e ev c s = Inr (c', s') \<and> tracker_ok s'"
  using handle_read_ok [OF assms] assms by (simp add: conn_step_def split: phase.split event.split)

lemma tracker_ok_clean: "tracker_ok s \<Longrightarrow> tracker_ok (s\<lparr>t_db := cleanServers epoch ttl (t_db s)\<rparr>)"
  by (simp add: tracker_ok_def wf_intros)

lemma logged_step_iff:
  assumes "tracker_ok s"
  shows "logged_step p q e ev there c s = Inl x \<longleftrightarrow> x = No_Peer \<and> sends_reply p ev c \<and> \<not> there"
    and "logged_step p q e ev there c s = Inr (c', s') \<Longrightarrow> tracker_ok s'"
  using conn_step_ok [OF assms, of p q e ev c] by (auto simp: logged_step_def split: if_splits)

lemma server_step_ok: "server_step p q x y \<Longrightarrow> tracker_ok (snd x) \<Longrightarrow> tracker_ok (snd y)"
proof (elim server_stepE)
  fix ev
  assume "server_do p q ev x = Inr y" "tracker_ok (snd x)"
  then show "tracker_ok (snd y)"
    using logged_step_iff(2)
    by (cases "(p, q, ev, x)" rule: server_do.cases) (auto simp: tracker_ok_clean split: if_splits sum.splits option.splits)
qed

text \<open>So only a peer that has gone makes an event raise.\<close>

lemma server_do_raises:
  assumes "tracker_ok s"
  shows "server_do p q ev (cs, s) = Inl x \<longleftrightarrow> x = No_Peer \<and>
    ((\<exists>i. ev = Accept_Done False i None \<and> cs i = None) \<or>
     (\<exists>i e ev' c. ev = On i e ev' False \<and> cs i = Some c \<and> sends_reply p ev' c))"
proof (cases ev)
  case (Accept_Done err i peer)
  then show ?thesis by (auto simp: connection_start_def split: option.split)
next
  case (On i e ev' there)
  show ?thesis
  proof (cases "cs i")
    case (Some c)
    then show ?thesis
      using On logged_step_iff(1) [OF assms, of p q e ev' there c]
      by (cases "logged_step p q e ev' there c s") auto
  qed (simp add: On)
qed simp

lemma server_reach_ok: "server_reach p q x \<Longrightarrow> tracker_ok (snd x)"
proof (induction rule: server_reach.induct)
  case (sr_init fs)
  then show ?case
    by (simp add: server_init_def tracker_ok_def db_ok_def tables_ok_empty session_ok_new)
qed (rule server_step_ok)

end
