(* ===== verification/Tracker_Properties.thy ===== *)
theory Tracker_Properties
  imports Tracker_Wire
begin

text \<open>
  The properties of the tracker. The first section states what any request may do, from the
  refinement of the handlers to the steps of the registry; then follow the functional properties of
  single handlers, of the sessions and of the connection.
\<close>

subsection \<open>Steps of the registry\<close>

text \<open>Names that differ in trailing blanks name the same account and the same network.\<close>

definition names_ok :: "registry \<Rightarrow> bool" where
  "names_ok r \<longleftrightarrow> (\<forall>a b. same_name a b \<longrightarrow> r_network r a = r_network r b \<and>
     (\<forall>u v. same_name u v \<longrightarrow> r_server r u a = r_server r v b))"

lemma names_ok_reg: "names_ok (reg d)"
proof -
  have lookup: "network_by_name a t = network_by_name b t" if "same_name a b" for a b t
    using that by (simp add: network_by_name_def same_name_def)
  have "link_of u a t (servers t) = link_of v b t (servers t)" if "same_name u v" "same_name a b" for u v a b t
    unfolding link_of_def using that lookup [of a b t]
    by (intro find_cong_pred)
      (simp add: link_matches_def network_id_of_def user_id_of_def user_by_login_def same_name_def)
  then show ?thesis
    unfolding names_ok_def reg_def registry_of_simps by (intro allI impI conjI) (simp_all only: lookup)
qed

lemma names_ok_network: "names_ok r \<Longrightarrow> same_name a b \<Longrightarrow> r_network r a = r_network r b"
  by (simp add: names_ok_def)

lemma names_ok_server:
  "names_ok r \<Longrightarrow> same_name u v \<Longrightarrow> same_name a b \<Longrightarrow> r_server r u a = r_server r v b"
  by (simp add: names_ok_def)

lemma names_ok_owned: "names_ok r \<Longrightarrow> same_name a b \<Longrightarrow> owned_by r a l = owned_by r b l"
  by (simp add: owned_by_def names_ok_network)

lemma registry_step_network:
  assumes step: "registry_step l c r r'" and ok: "names_ok r"
    and before: "r_network r n = Some i" and after: "r_network r' n \<noteq> Some i"
  shows "r_network r' n = None \<and> l \<noteq> '''' \<and> ni_owner i = rtrim l \<and>
    request c \<in> {DELETE_NETWORK, UNREGISTER, REMOVE_USER}"
  using step before after
proof (cases rule: registry_step.cases)
  case (rs_create n' j)
  then show ?thesis using before after names_ok_network [OF ok, of n n'] by (auto split: if_splits)
next
  case (rs_create_invite n' j)
  then show ?thesis using before after names_ok_network [OF ok, of n n'] by (auto split: if_splits)
next
  case (rs_delete n')
  then show ?thesis using before after names_ok_owned [OF ok, of n n' l]
    by (auto simp: reg_delete_network_def owned_by_def split: if_splits)
next
  case rs_remove
  then show ?thesis using before after by (auto simp: reg_remove_user_def owned_by_def split: if_splits)
qed auto

lemma registry_step_password:
  assumes step: "registry_step l c r r'"
    and before: "r_password r u = Some p" and after: "r_password r' u \<noteq> Some p"
    and ok: "\<And>a b. same_name a b \<Longrightarrow> r_password r a = r_password r b"
  shows "same_name u l \<and> l \<noteq> '''' \<and>
    (request c = CHANGE_PASSWORD \<or> r_password r' u = None \<and> request c \<in> {UNREGISTER, REMOVE_USER})"
  using step before after
proof (cases rule: registry_step.cases)
  case (rs_register m n q)
  then show ?thesis using before after ok [of u n] by (auto split: if_splits)
qed (auto simp: reg_remove_user_def reg_delete_network_def split: if_splits)

lemma registry_step_server:
  assumes step: "registry_step l c r r'" and ok: "names_ok r"
    and before: "r_server r u n = Some v" and after: "r_server r' u n \<noteq> Some v"
  shows "r_server r' u n = None \<and> l \<noteq> '''' \<and>
    (same_name u l \<and> request c \<in> {STOP_SERVER, UNREGISTER, REMOVE_USER} \<or>
     owned_by r n l \<and> request c \<in> {DELETE_NETWORK, UNREGISTER, REMOVE_USER})"
  using step before after
proof (cases rule: registry_step.cases)
  case (rs_server n' w)
  then show ?thesis using before after names_ok_server [OF ok, of u l n n'] by (auto split: if_splits)
next
  case (rs_delete n')
  then show ?thesis using before after names_ok_owned [OF ok, of n n' l]
    by (auto simp: reg_delete_network_def split: if_splits)
qed (auto simp: reg_remove_user_def split: if_splits)

lemma handleRequest_step:
  "tracker_ok s \<Longrightarrow> handleRequest e c s = Inr (m, s') \<Longrightarrow>
   registry_step (caller s (cookie_of c)) c (reg (t_db s)) (reg (t_db s'))"
  using handleRequest_steps [of s e c] by (simp add: steps_from_def)

subsection \<open>A concrete tracker\<close>

text \<open>Two users, a network of the first with a server of the second, and a session of each.\<close>

definition ex_tables :: tables where
  "ex_tables =
     \<lparr>users = [\<lparr>u_id = 1, u_login = ''ann'', u_password = ''h1''\<rparr>,
               \<lparr>u_id = 2, u_login = ''bob'', u_password = ''h2''\<rparr>],
      networks = [\<lparr>n_id = 1, n_owner = 1, n_name = ''net'', n_public = True, n_visible = True,
                   n_participable = True, n_email = ''ann@x'', n_protocol = ''chat''\<rparr>],
      servers = [\<lparr>l_id = 1, l_user = 2, l_network = 1, s_ip = ''10.0.0.2'', s_port = 80, s_ttl = 7\<rparr>],
      invitations = [\<lparr>l_id = 1, l_user = 1, l_network = 1\<rparr>],
      publicKeys = [], user_seq = 3, network_seq = 2, server_seq = 2, invitation_seq = 2, key_seq = 1\<rparr>"

definition ex_tracker :: tracker where
  "ex_tracker =
     \<lparr>t_db = \<lparr>store = ex_tables, faults = []\<rparr>,
      t_sess = open_session ''c2'' ''bob'' 5 (open_session ''c1'' ''ann'' 5 new_session)\<rparr>"

text \<open>bcrypt with a visible prefix; the authority appends a mark.\<close>

definition ex_env :: env where
  "ex_env =
     \<lparr>env_now = 1000, env_addr = ''10.0.0.9'', env_rand = (\<lambda>i. i), env_hash = (\<lambda>p. ''h'' @ p),
      env_check = (\<lambda>p h. h = ''h'' @ p), env_ca = (\<lambda>req nb na. Some (req @ ''!'')),
      env_cert = ''node'', env_indet = (\<lambda>_. True)\<rparr>"

definition cookie_msg :: "string \<Rightarrow> Cookie_msg" where
  "cookie_msg c = \<lparr>ck_cookie = Some c\<rparr>"

lemma tables_ok_ex: "tables_ok ex_tables"
  by (simp add: tables_ok_def users_ok_def networks_ok_def links_ok_def ex_tables_def char_ok_def rtrim_def)

lemma tracker_ok_ex: "tracker_ok ex_tracker"
  by (simp add: tracker_ok_def db_ok_def ex_tracker_def tables_ok_ex session_ok_open session_ok_new)

definition ex_delete :: ClientMessage where
  "ex_delete = new_ClientMessage\<lparr>cm_request := Some DELETE_NETWORK,
     delete_network_message := Some \<lparr>dn_cookie = Some ''c1'', dn_name = Some ''net''\<rparr>\<rparr>"

definition ex_delete_by_bob :: ClientMessage where
  "ex_delete_by_bob = new_ClientMessage\<lparr>cm_request := Some DELETE_NETWORK,
     delete_network_message := Some \<lparr>dn_cookie = Some ''c2'', dn_name = Some ''net''\<rparr>\<rparr>"

definition ex_change :: ClientMessage where
  "ex_change = new_ClientMessage\<lparr>cm_request := Some CHANGE_PASSWORD,
     change_password_message := Some \<lparr>cp_cookie = Some ''c1'', cp_old_password = Some ''1'',
       cp_new_password = Some ''new''\<rparr>\<rparr>"

definition ex_unregister :: ClientMessage where
  "ex_unregister = new_ClientMessage\<lparr>cm_request := Some UNREGISTER,
     unregister_message := Some (cookie_msg ''c1'')\<rparr>"

definition ex_login :: ClientMessage where
  "ex_login = new_ClientMessage\<lparr>cm_request := Some LOGIN,
     login_message := Some \<lparr>lg_username = Some ''ann'', lg_password = Some ''1''\<rparr>\<rparr>"

definition answer_of :: "reply \<Rightarrow> NodeMessage" where
  "answer_of r = (case r of Inr (m, s) \<Rightarrow> m | Inl _ \<Rightarrow> new_NodeMessage)"

definition state_of :: "tracker \<Rightarrow> reply \<Rightarrow> tracker" where
  "state_of s r = (case r of Inr (m, s') \<Rightarrow> s' | Inl _ \<Rightarrow> s)"

lemma handled: "tracker_ok s \<Longrightarrow> handleRequest e c s = Inr (answer_of (handleRequest e c s), state_of s (handleRequest e c s))"
  using handleRequest_keeps_ok [of s e c] by (auto simp: yields_iff answer_of_def state_of_def)

lemma ex_net_known: "r_network (reg (t_db ex_tracker)) ''net'' \<noteq> None"
  by code_simp

lemma ex_net_gone:
  "r_network (reg (t_db (state_of ex_tracker (handleRequest ex_env ex_delete ex_tracker)))) ''net'' = None"
  by code_simp

subsection \<open>What any request may do\<close>












text \<open>C2. In every state the server can reach, whatever the connections and the order of their
  events, the tracker is well formed, and an event raises in exactly two cases, both with the exception
  of \<^verbatim>\<open>remote_endpoint()\<close> of a socket whose peer has gone: when the accepted connection starts, and when a
  complete request has been handled and the answer is about to be logged and written. Nothing else that
  arrives on any connection raises.\<close>

theorem server_raises_only_without_peer:
  assumes "server_reach parse_pb ser_pb (cs, s)"
  shows "tracker_ok s \<and>
    (\<forall>ev x. server_do parse_pb ser_pb ev (cs, s) = Inl x \<longleftrightarrow> x = No_Peer \<and>
      ((\<exists>i. ev = Accept_Done False i None \<and> cs i = None) \<or>
       (\<exists>i e ev' c. ev = On i e ev' False \<and> cs i = Some c \<and> sends_reply parse_pb ev' c)))"
  using server_reach_ok [OF assms] server_do_raises [of s] by simp

theorem server_raises_only_without_peer_witness:
  "server_do (\<lambda>_. None) (\<lambda>_. []) (Accept_Done False 0 None) (server_init [True]) = Inl No_Peer \<and>
   (\<exists>y. server_do (\<lambda>_. None) (\<lambda>_. []) (Accept_Done False 0 (Some ''a'')) (server_init [True]) = Inr y)"
proof -
  obtain cs s where init: "server_init [True] = (cs, s)" "cs 0 = None" by (simp add: server_init_def)
  have "server_reach (\<lambda>_. None) (\<lambda>_. []) (cs, s)" using sr_init [of _ _ "[True]"] init(1) by simp
  note facts = server_raises_only_without_peer [OF this]
  have "server_do (\<lambda>_. None) (\<lambda>_. []) (Accept_Done False 0 None) (cs, s) = Inl No_Peer"
    using facts init(2) by blast
  moreover have "server_do (\<lambda>_. None) (\<lambda>_. []) (Accept_Done False 0 (Some ''a'')) (cs, s) \<noteq> Inl x" for x
    using facts by blast
  ultimately show ?thesis unfolding init(1) by (metis sum.exhaust)
qed

text \<open>C3. The handlers implement the specification of the tracker: the effect of a request on the
  registry (accounts, networks, servers, invitations, keys) is one of the steps that the
  specification allows to the login behind the request's cookie, and none other.\<close>

theorem handleRequest_refines_registry:
  assumes "tracker_ok s" "handleRequest e c s = Inr (m, s')"
  shows "registry_step (caller s (cookie_of c)) c (reg (t_db s)) (reg (t_db s'))"
  using assms by (rule handleRequest_step)

theorem handleRequest_refines_registry_witness:
  "registry_step ''ann'' ex_delete (reg (t_db ex_tracker))
     (reg (t_db (state_of ex_tracker (handleRequest ex_env ex_delete ex_tracker))))"
proof -
  have "caller ex_tracker (cookie_of ex_delete) = ''ann''" by code_simp
  with handleRequest_refines_registry [OF tracker_ok_ex handled [OF tracker_ok_ex]] show ?thesis by metis
qed

text \<open>C4. A network disappears only through a request of its owner: \<^verbatim>\<open>DELETE_NETWORK\<close> with a cookie of
  the owner, or the removal of the owner's account. Nothing else changes its description.\<close>

theorem network_only_removed_by_owner:
  assumes "tracker_ok s" "handleRequest e c s = Inr (m, s')"
    and "r_network (reg (t_db s)) n = Some i" "r_network (reg (t_db s')) n \<noteq> Some i"
  shows "r_network (reg (t_db s')) n = None \<and> caller s (cookie_of c) \<noteq> '''' \<and>
    ni_owner i = rtrim (caller s (cookie_of c)) \<and> request c \<in> {DELETE_NETWORK, UNREGISTER, REMOVE_USER}"
  using registry_step_network [OF handleRequest_step [OF assms(1,2)] names_ok_reg assms(3,4)] .

theorem network_only_removed_by_owner_witness:
  "request ex_delete \<in> {DELETE_NETWORK, UNREGISTER, REMOVE_USER} \<and> caller ex_tracker (cookie_of ex_delete) = ''ann''"
proof -
  obtain i where i: "r_network (reg (t_db ex_tracker)) ''net'' = Some i"
    using option.exhaust [of "r_network (reg (t_db ex_tracker)) ''net''"] by (metis ex_net_known)
  have "r_network (reg (t_db (state_of ex_tracker (handleRequest ex_env ex_delete ex_tracker)))) ''net'' \<noteq> Some i"
    by (simp add: ex_net_gone)
  from network_only_removed_by_owner [OF tracker_ok_ex handled [OF tracker_ok_ex] i this]
  have "request ex_delete \<in> {DELETE_NETWORK, UNREGISTER, REMOVE_USER}" by blast
  moreover have "caller ex_tracker (cookie_of ex_delete) = ''ann''" by code_simp
  ultimately show ?thesis by blast
qed

text \<open>C5. The stored password of an account changes only through requests of that account: a
  \<^verbatim>\<open>CHANGE_PASSWORD\<close>, or the removal of the account.\<close>

theorem password_only_changed_by_owner:
  assumes "tracker_ok s" "handleRequest e c s = Inr (m, s')"
    and "stored_password (t_db s) u = Some p" "stored_password (t_db s') u \<noteq> Some p"
  shows "same_name u (caller s (cookie_of c)) \<and> caller s (cookie_of c) \<noteq> '''' \<and>
    (request c = CHANGE_PASSWORD \<or>
     stored_password (t_db s') u = None \<and> request c \<in> {UNREGISTER, REMOVE_USER})"
  using registry_step_password [OF handleRequest_step [OF assms(1,2)] assms(3,4) [unfolded stored_password_def]]
  by (auto simp: stored_password_def reg_def user_by_login_def same_name_def)

theorem password_only_changed_by_owner_witness:
  "same_name ''ann'' (caller ex_tracker (cookie_of ex_change))"
proof -
  have "stored_password (t_db ex_tracker) ''ann'' = Some ''h1''"
    and "stored_password (t_db (state_of ex_tracker (handleRequest ex_env ex_change ex_tracker))) ''ann'' \<noteq> Some ''h1''"
    by code_simp+
  from password_only_changed_by_owner [OF tracker_ok_ex handled [OF tracker_ok_ex] this] show ?thesis by blast
qed

text \<open>C6. A registered server stays as it was registered until its user stops it, its user's account
  is removed, or the network's owner removes the network or the account.\<close>

theorem server_only_removed_by_user_or_owner:
  assumes "tracker_ok s" "handleRequest e c s = Inr (m, s')"
    and "r_server (reg (t_db s)) u n = Some v" "r_server (reg (t_db s')) u n \<noteq> Some v"
  shows "r_server (reg (t_db s')) u n = None \<and> caller s (cookie_of c) \<noteq> '''' \<and>
    (same_name u (caller s (cookie_of c)) \<and> request c \<in> {STOP_SERVER, UNREGISTER, REMOVE_USER} \<or>
     owned_by (reg (t_db s)) n (caller s (cookie_of c)) \<and>
       request c \<in> {DELETE_NETWORK, UNREGISTER, REMOVE_USER})"
  using registry_step_server [OF handleRequest_step [OF assms(1,2)] names_ok_reg assms(3,4)] .

theorem server_only_removed_by_user_or_owner_witness:
  "owned_by (reg (t_db ex_tracker)) ''net'' (caller ex_tracker (cookie_of ex_delete)) \<or>
   same_name ''bob'' (caller ex_tracker (cookie_of ex_delete))"
proof -
  have "r_server (reg (t_db ex_tracker)) ''bob'' ''net'' = Some (''10.0.0.2'', 80, 7)"
    and "r_server (reg (t_db (state_of ex_tracker (handleRequest ex_env ex_delete ex_tracker)))) ''bob'' ''net''
      \<noteq> Some (''10.0.0.2'', 80, 7)"
    by code_simp+
  from server_only_removed_by_user_or_owner [OF tracker_ok_ex handled [OF tracker_ok_ex] this]
  show ?thesis by blast
qed

subsection \<open>Sessions\<close>

lemma caller_none_steps:
  assumes "tracker_ok s" "caller s (cookie_of c) = ''''" "request c \<notin> {REGISTER, LOGIN, LOGOUT}"
  shows "yields (handleRequest e c s) (\<lambda>m s'. s' = s \<and> carries_nothing m \<and>
    response_type m \<in> {RT_NOT_LOGGED, RT_BAD_REQUEST, RT_INTERNAL_SERVER_ERROR})"
proof -
  have ok: "session_ok (t_sess s)" using assms(1) by (simp add: tracker_ok_def)
  show ?thesis
    using assms(2,3)
    by (cases "request c")
      (auto simp: handleRequest_def cookie_of_def handleUnregister_def handleList_networks_def
        handleList_my_networks_def handleList_servers_def handleCreate_network_def
        handleDelete_network_def handleInvite_user_def handleRemove_user_def handleUser_info_def
        handleUpdate_server_def handleStop_server_def handleSign_key_def handleChange_password_def
        with_login_eq [OF ok] has_def Let_def split: option.split)
qed

text \<open>C7. A request whose cookie belongs to no session (or to a session of the empty login) changes
  nothing at all, neither tables nor sessions, and its answer carries no data and is \<^verbatim>\<open>NOT_LOGGED\<close>,
  \<^verbatim>\<open>BAD_REQUEST\<close> or \<^verbatim>\<open>INTERNAL_SERVER_ERROR\<close>; registering, logging in and logging out apart.\<close>

theorem request_without_session_changes_nothing:
  assumes "tracker_ok s" "caller s (cookie_of c) = ''''" "request c \<notin> {REGISTER, LOGIN, LOGOUT}"
  shows "\<exists>m. handleRequest e c s = Inr (m, s) \<and> carries_nothing m \<and>
    response_type m \<in> {RT_NOT_LOGGED, RT_BAD_REQUEST, RT_INTERNAL_SERVER_ERROR}"
  using caller_none_steps [OF assms, of e] by (auto simp: yields_iff)

theorem request_without_session_changes_nothing_witness:
  "caller ex_tracker ''c9'' = '''' \<and>
   (\<exists>m. handleRequest ex_env (new_ClientMessage\<lparr>cm_request := Some UNREGISTER,
      unregister_message := Some (cookie_msg ''c9'')\<rparr>) ex_tracker = Inr (m, ex_tracker))"
proof -
  let ?c = "new_ClientMessage\<lparr>cm_request := Some UNREGISTER, unregister_message := Some (cookie_msg ''c9'')\<rparr>"
  have "caller ex_tracker (cookie_of ?c) = ''''" "caller ex_tracker ''c9'' = ''''"
    and "request ?c \<notin> {REGISTER, LOGIN, LOGOUT}"
    by code_simp+
  with request_without_session_changes_nothing [OF tracker_ok_ex, of ?c ex_env] show ?thesis by blast
qed

text \<open>The session events of a request: a login whose password is accepted, a logout, and the logout
  that \<^verbatim>\<open>REMOVE_USER\<close> ends with.\<close>

definition session_events :: "env \<Rightarrow> ClientMessage \<Rightarrow> tracker \<Rightarrow> session_event list" where
  "session_events e c s =
     (case request c of
        LOGIN \<Rightarrow>
          (case login_message c of
             None \<Rightarrow> []
           | Some m \<Rightarrow>
               if has (lg_password m) \<and> has (lg_username m) \<and>
                  env_check e (str_of (lg_password m)) (fst (getPassHash (str_of (lg_username m)) (t_db s)))
               then [Log_In (getRandomString (env_rand e) COOKIE_LEN) (str_of (lg_username m)) (env_now e)]
               else [])
      | LOGOUT \<Rightarrow> (case Option.bind (logout_message c) ck_cookie of None \<Rightarrow> [] | Some ck \<Rightarrow> [Log_Out ck])
      | REMOVE_USER \<Rightarrow>
          (case remove_user_message c of
             None \<Rightarrow> []
           | Some m \<Rightarrow> if caller s (str_of (un_cookie m)) = [] then [] else [Log_Out (str_of (un_cookie m))])
      | _ \<Rightarrow> [])"

lemma handleRequest_sessions:
  assumes "tracker_ok s"
  shows "yields (handleRequest e c s) (\<lambda>m s'. t_sess s' = fold sessions.apply_event (session_events e c s) (t_sess s))"
proof -
  have ok: "session_ok (t_sess s)" using assms(1) by (simp add: tracker_ok_def)
  show ?thesis
    by (cases "request c")
      (auto simp: handleRequest_def session_events_def handleRegister_def handleLogin_def
        handleLogout_def handleUnregister_def handleList_networks_def
        handleList_my_networks_def handleList_servers_def handleCreate_network_def
        handleDelete_network_def handleInvite_user_def handleRemove_user_def handleUser_info_def
        handleUpdate_server_def handleStop_server_def handleSign_key_def handleChange_password_def
        with_login_eq [OF ok] on_db_eq goodCredentials_eq session_login_def logout_no_error [OF ok]
        has_def Let_def split: option.split)
qed

text \<open>Requests one after the other.\<close>

fun tracker_run :: "(env \<times> ClientMessage) list \<Rightarrow> tracker \<Rightarrow> tracker" where
  "tracker_run [] s = s"
| "tracker_run ((e, c) # rs) s = tracker_run rs (state_of s (handleRequest e c s))"

text \<open>A request that neither ends the session of a cookie nor draws the same cookie again.\<close>

definition leaves_cookie :: "string \<Rightarrow> env \<times> ClientMessage \<Rightarrow> bool" where
  "leaves_cookie ck = (\<lambda>(e, c).
     (request c = LOGIN \<longrightarrow> getRandomString (env_rand e) COOKIE_LEN \<noteq> ck) \<and>
     (request c \<in> {LOGOUT, REMOVE_USER} \<longrightarrow> cookie_of c \<noteq> ck))"

lemma handled_ok: "tracker_ok s \<Longrightarrow> tracker_ok (state_of s (handleRequest e c s))"
  using handleRequest_keeps_ok [of s e c] by (auto simp: yields_iff state_of_def keeps_ok_def)

lemma handled_sessions:
  "tracker_ok s \<Longrightarrow> t_sess (state_of s (handleRequest e c s)) = fold sessions.apply_event (session_events e c s) (t_sess s)"
  using handleRequest_sessions [of s e c] by (auto simp: yields_iff state_of_def)

lemma leaves_cookie_events:
  "leaves_cookie ck (e, c) \<Longrightarrow> \<forall>ev \<in> set (session_events e c s).
     (case ev of Log_In c' _ _ \<Rightarrow> c' \<noteq> ck | Log_Out c' \<Rightarrow> c' \<noteq> ck)"
  by (auto simp: leaves_cookie_def session_events_def cookie_of_def
      split: RequestType.splits option.splits if_splits bind_splits dest!: sym [where s = "Some ck"])

lemma who_handled:
  assumes "tracker_ok s" "leaves_cookie ck (e, c)"
  shows "who (t_sess (state_of s (handleRequest e c s))) ck = who (t_sess s) ck"
  using sessions.owner_run_other [OF _ leaves_cookie_events [OF assms(2)], of "t_sess s" s] assms(1)
  by (simp add: handled_sessions tracker_ok_def)

lemma who_tracker_run:
  "tracker_ok s \<Longrightarrow> \<forall>r \<in> set rs. leaves_cookie ck r \<Longrightarrow> who (t_sess (tracker_run rs s)) ck = who (t_sess s) ck"
  by (induction rs s rule: tracker_run.induct) (simp_all add: handled_ok who_handled)

lemma login_answer:
  assumes "tracker_ok s" "request c = LOGIN" "handleRequest e c s = Inr (m, s1)"
    "Option.bind (login_response m) lr_cookie = Some ck"
  obtains lm p l where "login_message c = Some lm" "lg_username lm = Some l" "lg_password lm = Some p"
    "env_check e p (fst (getPassHash l (t_db s)))" "ck = getRandomString (env_rand e) COOKIE_LEN"
    "who (t_sess s1) ck = Some l"
proof -
  have "session_ok (t_sess s)" using assms(1) by (simp add: tracker_ok_def)
  with assms show ?thesis
    by (auto simp: handleRequest_def handleLogin_def on_db_eq goodCredentials_eq session_login_def Let_def
        has_def errorMesage_def badRequestMessage_def loginResponse_def who_open intro!: that
        split: option.splits if_splits)
qed

text \<open>C8. A session lasts: after a successful login the cookie stands for the login that was given,
  with the password checked against the stored hash, until a logout or a \<^verbatim>\<open>REMOVE_USER\<close> with that
  cookie, or until another login draws the same cookie; no other request of anybody ends or takes
  over the session.\<close>

theorem session_lasts:
  assumes "tracker_ok s" "request c = LOGIN" "handleRequest e c s = Inr (m, s1)"
    "Option.bind (login_response m) lr_cookie = Some ck" "\<forall>r \<in> set rs. leaves_cookie ck r"
  shows "\<exists>lm l p. login_message c = Some lm \<and> lg_username lm = Some l \<and> lg_password lm = Some p \<and>
    env_check e p (fst (getPassHash l (t_db s))) \<and> caller (tracker_run rs s1) ck = l"
proof -
  obtain lm p l where l: "login_message c = Some lm" "lg_username lm = Some l" "lg_password lm = Some p"
    "env_check e p (fst (getPassHash l (t_db s)))" "who (t_sess s1) ck = Some l"
    using login_answer [OF assms(1-4)] by metis
  have "tracker_ok s1" using handled_ok [OF assms(1), of e c] assms(3) by (simp add: state_of_def)
  with l assms(5) show ?thesis by (simp add: caller_def who_tracker_run)
qed

theorem session_lasts_witness:
  "caller (tracker_run [(ex_env, ex_change), (ex_env, ex_delete)]
     (state_of ex_tracker (handleRequest ex_env ex_login ex_tracker))) ''0123456789ABCDE'' = ''ann''"
proof -
  have "request ex_login = LOGIN"
    and "Option.bind (login_response (answer_of (handleRequest ex_env ex_login ex_tracker))) lr_cookie
      = Some ''0123456789ABCDE''"
    and "\<forall>r \<in> set [(ex_env, ex_change), (ex_env, ex_delete)]. leaves_cookie ''0123456789ABCDE'' r"
    and name: "map_option lg_username (login_message ex_login) = Some (Some ''ann'')"
    by code_simp+
  from session_lasts [OF tracker_ok_ex this(1) handled [OF tracker_ok_ex] this(2,3)] name
  show ?thesis by auto
qed

text \<open>C9. Only a login opens a session: a cookie starts to stand for a login only through a
  \<^verbatim>\<open>LOGIN\<close> with that login and a password that the stored hash accepts, and the cookie is the one
  drawn for that login.\<close>

theorem session_opened_by_login:
  assumes "tracker_ok s" "handleRequest e c s = Inr (m, s')"
    and "who (t_sess s') ck = Some l" "who (t_sess s) ck \<noteq> Some l"
  shows "request c = LOGIN \<and> ck = getRandomString (env_rand e) COOKIE_LEN \<and>
    (\<exists>lm p. login_message c = Some lm \<and> lg_username lm = Some l \<and> lg_password lm = Some p \<and>
       env_check e p (fst (getPassHash l (t_db s))))"
proof -
  have ok: "session_ok (t_sess s)" using assms(1) by (simp add: tracker_ok_def)
  have "t_sess s' = fold sessions.apply_event (session_events e c s) (t_sess s)"
    using handled_sessions [OF assms(1), of e c] assms(2) by (simp add: state_of_def)
  with assms(3,4) ok show ?thesis
    by (auto simp: session_events_def who_open who_logged_out has_def
        split: RequestType.splits option.splits if_splits bind_splits)
qed

theorem session_opened_by_login_witness:
  "who (t_sess (state_of ex_tracker (handleRequest ex_env ex_login ex_tracker))) ''0123456789ABCDE'' = Some ''ann''
   \<and> request ex_login = LOGIN"
proof -
  have w: "who (t_sess (state_of ex_tracker (handleRequest ex_env ex_login ex_tracker))) ''0123456789ABCDE'' = Some ''ann''"
    and "who (t_sess ex_tracker) ''0123456789ABCDE'' \<noteq> Some ''ann''"
    by code_simp+
  from session_opened_by_login [OF tracker_ok_ex handled [OF tracker_ok_ex] this] w show ?thesis by blast
qed

end
