(* ===== verification/Tracker_Services.thy ===== *)
theory Tracker_Services
  imports Tracker_Properties
begin

text \<open>
  What the single services of the tracker do when the database works (\<open>faults\<close> is empty): the
  outcome of each method in terms of the registry, and from it the functional properties of the
  handlers: accounts, networks, listings and servers.
\<close>

subsection \<open>Outcomes without failures\<close>

definition working :: "tracker \<Rightarrow> bool" where
  "working s \<longleftrightarrow> tracker_ok s \<and> faults (t_db s) = []"

lemma find_hd_filter: "find P xs = (case filter P xs of [] \<Rightarrow> None | x # _ \<Rightarrow> Some x)"
  by (induction xs) auto

lemma same_login: "same_name a b \<Longrightarrow> user_by_login a t = user_by_login b t"
  by (simp add: user_by_login_def same_name_def)

lemma same_stored: "same_name a b \<Longrightarrow> stored_password d a = stored_password d b"
  by (simp add: stored_password_def reg_def same_login [of a b])

lemma createUser_outcome:
  assumes "faults d = []" "length (rtrim l) \<le> 30" "length (rtrim p) \<le> 70"
  shows "fst (createUser l p d) = (if stored_password d l = None then DB_OK else DB_NOT_UNIQUE)"
proof -
  have "rtrim l \<in> u_login ` set (users (store d)) \<longleftrightarrow> stored_password d l \<noteq> None"
    by (auto simp: stored_password_def reg_def user_by_login_def find_None_iff image_iff)
      (metis (mono_tags, lifting) find_None_iff not_None_eq)
  with assms show ?thesis
    by (auto simp: createUser_def work_faultless insert_user_def char_in_def caught_def)
qed

lemma getPassHash_outcome:
  assumes "faults d = []"
  shows "getPassHash l d = (case stored_password d l of None \<Rightarrow> '''' | Some p \<Rightarrow> toString p, d)"
  using assms by (auto simp: getPassHash_def work_faultless stored_password_def reg_def user_by_login_def
      find_hd_filter split: list.split)

lemma query_faultless: "faults d = [] \<Longrightarrow> work_if c (query f) d = (Inr (f (store d)), d)"
  by (simp add: work_faultless)

lemma networkExists_outcome:
  "faults d = [] \<Longrightarrow> networkExists n d = (r_network (reg d) n \<noteq> None, d)"
  by (auto simp: networkExists_def query_faultless reg_def network_by_name_def find_hd_filter split: list.split)

lemma userExists_outcome:
  assumes "faults d = []" "db_ok d"
  shows "userExists l d = (stored_password d l \<noteq> None, d)"
proof -
  have "filter (\<lambda>u. u_login u = rtrim l) (users (store d)) = [u]" if "user_by_login l (store d) = Some u" for u
    using filter_key_single [of u_login "users (store d)" u] user_by_login_SomeD [OF that] assms(2)
    by (simp add: db_ok_def tables_ok_def users_ok_def)
  then show ?thesis
    using assms(1) by (cases "user_by_login l (store d)")
      (auto simp: userExists_def query_faultless stored_password_def reg_def user_by_login_def
        find_None_iff filter_empty_conv)
qed

lemma network_test_outcome:
  assumes ok: "db_ok d"
  shows "(\<exists>x \<in> set (networks (store d)). n_name x = rtrim n \<and> (P x \<or> user_id_of l (store d) = Some (n_owner x))) \<longleftrightarrow>
    (\<exists>x. network_by_name n (store d) = Some x \<and> (P x \<or> owner_login (store d) x = rtrim l))"
proof -
  have t: "tables_ok (store d)" using ok by (simp add: db_ok_def)
  then show ?thesis
    using owner_login_iff [OF t, of _ l] network_by_name_unique [of "store d" _ n]
    by (auto simp: tables_ok_def dest!: network_by_name_SomeD)
qed

lemma canSeeNetwork_outcome:
  assumes "faults d = []" "db_ok d"
  shows "canSeeNetwork n l d =
    (\<exists>i. r_network (reg d) n = Some i \<and> (ni_public i \<or> ni_owner i = rtrim l), d)"
  using network_test_outcome [OF assms(2), of n n_public l] assms(1)
  by (auto simp: canSeeNetwork_def query_faultless reg_def network_info_of_def filter_empty_conv)

lemma canAddServer_outcome:
  assumes "faults d = []" "db_ok d"
  shows "canAddServer l n d =
    (\<exists>i. r_network (reg d) n = Some i \<and> (ni_participable i \<or> ni_owner i = rtrim l), d)"
  using network_test_outcome [OF assms(2), of n n_participable l] assms(1)
  by (auto simp: canAddServer_def query_faultless reg_def network_info_of_def filter_empty_conv)

lemma createNetwork_outcome:
  assumes "faults d = []" "length (rtrim n) \<le> 30" "length m \<le> 40" "length p \<le> 40"
    and "stored_password d l \<noteq> None"
  shows "fst (createNetwork n l a b c m p d) = (if r_network (reg d) n = None then DB_OK else DB_NOT_UNIQUE)"
proof -
  have "rtrim n \<in> n_name ` set (networks (store d)) \<longleftrightarrow> r_network (reg d) n \<noteq> None"
    by (auto simp: reg_def network_by_name_def find_None_iff image_iff)
      (metis (mono_tags, lifting) find_None_iff not_None_eq)
  moreover obtain i where "user_id_of l (store d) = Some i"
    using assms(5) by (auto simp: stored_password_def reg_def user_id_of_def)
  ultimately show ?thesis
    using assms by (auto simp: createNetwork_def work_faultless insert_network_def char_in_def
        varchar_in_def caught_def)
qed

subsection \<open>Accounts\<close>

lemma work_faults: "faults d = [] \<Longrightarrow> faults (snd (createUser l p d)) = []"
  "faults d = [] \<Longrightarrow> faults (snd (changeUserPassword l p d)) = []"
  "faults d = [] \<Longrightarrow> faults (snd (createNetwork n l x y z m q d)) = []"
  by (simp_all add: createUser_def changeUserPassword_def createNetwork_def)

text \<open>The two runs of the handler behind a registration and the login that follows it.\<close>

lemma register_login_runs:
  assumes work: "working s"
    and reg: "request c = REGISTER" "register_message c =
      Some \<lparr>reg_username = Some login, reg_password = Some pw, reg_public_key = Some key\<rparr>"
    and log: "request c' = LOGIN" "login_message c' = Some \<lparr>lg_username = Some login, lg_password = Some pw\<rparr>"
    and fresh: "stored_password (t_db s) login = None" "login \<noteq> ''''" "length login \<le> 30" "word_like login"
    and hash: "word_like (env_hash e pw)" "length (env_hash e pw) \<le> 70" "env_check e' pw (env_hash e pw)"
    and cert: "signCertyficate (env_ca e) (env_now e) key \<noteq> ''''"
  shows "\<exists>s1 s2. handleRequest e c s =
      Inr (registerResponse (signCertyficate (env_ca e) (env_now e) key) (env_cert e), s1) \<and>
    handleRequest e' c' s1 =
      Inr (loginResponse (getRandomString (env_rand e') COOKIE_LEN) ''notimplementedyet'', s2) \<and>
    caller s2 (getRandomString (env_rand e') COOKIE_LEN) = login"
proof -
  let ?d = "snd (createUser login (env_hash e pw) (t_db s))"
  have ok: "db_ok (t_db s)" "session_ok (t_sess s)" "faults (t_db s) = []"
    using work by (auto simp: working_def tracker_ok_def)
  have OK: "fst (createUser login (env_hash e pw) (t_db s)) = DB_OK"
    using createUser_outcome [of "t_db s" login "env_hash e pw"] ok fresh hash by simp
  have "stored_password ?d login = Some (env_hash e pw)"
    using accounts.create_effect [OF ok(1) surjective_pairing, of login "env_hash e pw" login] OK hash(1) by simp
  then have "fst (getPassHash login ?d) = env_hash e pw"
    using getPassHash_outcome [of ?d login] work_faults(1) [OF ok(3)] hash(1) by simp
  with reg log OK cert hash(3) ok(2) show ?thesis
    by (simp add: handleRequest_def handleRegister_def handleLogin_def handler_simps db_answer_def
        session_login_def caller_def who_open)
qed

text \<open>C10. Registering a fresh name answers with the signed certificate, and logging in with the same
  password afterwards succeeds and binds the new cookie to that login. bcrypt accepts the password
  for the hash it made of it, which has no blanks and fits its column.\<close>

theorem register_then_login:
  assumes work: "working s"
    and reg: "request c = REGISTER" "register_message c =
      Some \<lparr>reg_username = Some login, reg_password = Some pw, reg_public_key = Some key\<rparr>"
    and log: "request c' = LOGIN" "login_message c' = Some \<lparr>lg_username = Some login, lg_password = Some pw\<rparr>"
    and fresh: "stored_password (t_db s) login = None" "login \<noteq> ''''" "length login \<le> 30" "word_like login"
    and hash: "word_like (env_hash e pw)" "length (env_hash e pw) \<le> 70" "env_check e' pw (env_hash e pw)"
    and cert: "signCertyficate (env_ca e) (env_now e) key \<noteq> ''''"
  shows "\<exists>s1 s2. handleRequest e c s =
      Inr (registerResponse (signCertyficate (env_ca e) (env_now e) key) (env_cert e), s1) \<and>
    handleRequest e' c' s1 =
      Inr (loginResponse (getRandomString (env_rand e') COOKIE_LEN) ''notimplementedyet'', s2) \<and>
    caller s2 (getRandomString (env_rand e') COOKIE_LEN) = login"
  using assms by (rule register_login_runs)

definition ex_register :: ClientMessage where
  "ex_register = new_ClientMessage\<lparr>cm_request := Some REGISTER, register_message :=
     Some \<lparr>reg_username = Some ''eve'', reg_password = Some ''pw'', reg_public_key = Some ''key''\<rparr>\<rparr>"

definition ex_login_eve :: ClientMessage where
  "ex_login_eve = new_ClientMessage\<lparr>cm_request := Some LOGIN,
     login_message := Some \<lparr>lg_username = Some ''eve'', lg_password = Some ''pw''\<rparr>\<rparr>"

lemma working_ex: "working ex_tracker"
  using tracker_ok_ex by (simp add: working_def ex_tracker_def)

theorem register_then_login_witness:
  "\<exists>s1 s2. handleRequest ex_env ex_register ex_tracker = Inr (registerResponse ''key!'' ''node'', s1) \<and>
     handleRequest ex_env ex_login_eve s1 = Inr (loginResponse ''0123456789ABCDE'' ''notimplementedyet'', s2) \<and>
     caller s2 ''0123456789ABCDE'' = ''eve''"
proof -
  have "request ex_register = REGISTER"
    and "register_message ex_register =
      Some \<lparr>reg_username = Some ''eve'', reg_password = Some ''pw'', reg_public_key = Some ''key''\<rparr>"
    and "request ex_login_eve = LOGIN"
    and "login_message ex_login_eve = Some \<lparr>lg_username = Some ''eve'', lg_password = Some ''pw''\<rparr>"
    and "stored_password (t_db ex_tracker) ''eve'' = None" and "''eve'' \<noteq> ''''" and "length ''eve'' \<le> 30"
    and "word_like ''eve''" and "word_like (env_hash ex_env ''pw'')"
    and "length (env_hash ex_env ''pw'') \<le> 70" and "env_check ex_env ''pw'' (env_hash ex_env ''pw'')"
    and "signCertyficate (env_ca ex_env) (env_now ex_env) ''key'' \<noteq> ''''"
    by code_simp+
  note facts = register_then_login [OF working_ex this]
  have "signCertyficate (env_ca ex_env) (env_now ex_env) ''key'' = ''key!''" "env_cert ex_env = ''node''"
    "getRandomString (env_rand ex_env) COOKIE_LEN = ''0123456789ABCDE''"
    by code_simp+
  with facts show ?thesis by simp
qed

text \<open>Logging in is decided by the stored hash alone, bcrypt's answer for an unknown name being
  that of the empty hash; a refused login changes nothing and an accepted one leaves the tables
  alone.\<close>

theorem login_decided_by_hash:
  assumes "working s" "request c = LOGIN"
    "login_message c = Some \<lparr>lg_username = Some login, lg_password = Some pw\<rparr>"
  shows "if env_check e pw (case stored_password (t_db s) login of None \<Rightarrow> '''' | Some h \<Rightarrow> toString h)
    then \<exists>s'. handleRequest e c s =
      Inr (loginResponse (getRandomString (env_rand e) COOKIE_LEN) ''notimplementedyet'', s') \<and> t_db s' = t_db s
    else handleRequest e c s = Inr (errorMesage RT_BAD_CREDENTIALS, s)"
  using assms getPassHash_outcome [of "t_db s" login]
  by (simp add: handleRequest_def handleLogin_def handler_simps session_login_def working_def)

theorem login_decided_by_hash_witness:
  "handleRequest ex_env (ex_login\<lparr>login_message := Some \<lparr>lg_username = Some ''ann'', lg_password = Some ''2''\<rparr>\<rparr>)
     ex_tracker = Inr (errorMesage RT_BAD_CREDENTIALS, ex_tracker)"
proof -
  let ?c = "ex_login\<lparr>login_message := Some \<lparr>lg_username = Some ''ann'', lg_password = Some ''2''\<rparr>\<rparr>"
  have "request ?c = LOGIN" "login_message ?c = Some \<lparr>lg_username = Some ''ann'', lg_password = Some ''2''\<rparr>"
    and "\<not> env_check ex_env ''2''
      (case stored_password (t_db ex_tracker) ''ann'' of None \<Rightarrow> '''' | Some h \<Rightarrow> toString h)"
    by code_simp+
  with login_decided_by_hash [OF working_ex this(1,2), of ex_env] show ?thesis by simp
qed

text \<open>C12. Changing the password needs the old one: with a password that the stored hash does not
  accept nothing changes, with the right one exactly the caller's stored hash is replaced.\<close>

theorem change_password_needs_old:
  assumes work: "working s" and c: "request c = CHANGE_PASSWORD" "change_password_message c =
      Some \<lparr>cp_cookie = Some ck, cp_old_password = Some old, cp_new_password = Some new\<rparr>"
    and l: "caller s ck = login" "login \<noteq> ''''" "stored_password (t_db s) login = Some h"
    and fits: "length (rtrim (env_hash e new)) \<le> 70"
  shows "if env_check e old (toString h)
    then \<exists>s'. handleRequest e c s = Inr (errorMesage RT_OK, s') \<and> (\<forall>u. stored_password (t_db s') u =
      (if same_name u login then Some (rtrim (env_hash e new)) else stored_password (t_db s) u))
    else handleRequest e c s = Inr (errorMesage RT_BAD_CREDENTIALS, s)"
proof -
  let ?w = "changeUserPassword login (env_hash e new) (t_db s)"
  have ok: "db_ok (t_db s)" "session_ok (t_sess s)" "faults (t_db s) = []"
    using work by (auto simp: working_def tracker_ok_def)
  have OK: "fst ?w = DB_OK"
    using ok fits by (simp add: changeUserPassword_def work_faultless update_password_def char_in_def)
  have "stored_password (snd ?w) u = (if same_name u login then Some (rtrim (env_hash e new))
      else stored_password (t_db s) u)" for u
    using accounts.change_effect [OF ok(1) surjective_pairing, of login "env_hash e new" u] OK l(3)
      same_stored [of u login "t_db s"] by auto
  with OK c l ok getPassHash_outcome [of "t_db s" login] show ?thesis
    by (simp add: handleRequest_def handleChange_password_def handler_simps db_answer_def)
qed

theorem change_password_needs_old_witness:
  "\<exists>s'. handleRequest ex_env ex_change ex_tracker = Inr (errorMesage RT_OK, s') \<and>
     stored_password (t_db s') ''ann'' = Some ''hnew'' \<and> stored_password (t_db s') ''bob'' = Some ''h2''"
proof -
  have "request ex_change = CHANGE_PASSWORD" and "change_password_message ex_change =
      Some \<lparr>cp_cookie = Some ''c1'', cp_old_password = Some ''1'', cp_new_password = Some ''new''\<rparr>"
    and "caller ex_tracker ''c1'' = ''ann''" and "''ann'' \<noteq> ''''"
    and "stored_password (t_db ex_tracker) ''ann'' = Some ''h1''"
    and "length (rtrim (env_hash ex_env ''new'')) \<le> 70"
    by code_simp+
  note facts = change_password_needs_old [OF working_ex this]
  have "env_check ex_env ''1'' (toString ''h1'')" "rtrim (env_hash ex_env ''new'') = ''hnew''"
    "same_name ''ann'' ''ann''" "\<not> same_name ''bob'' ''ann''" "stored_password (t_db ex_tracker) ''bob'' = Some ''h2''"
    by code_simp+
  with facts show ?thesis by auto
qed

subsection \<open>Networks\<close>

definition create_ok :: "CreateNetwork_msg \<Rightarrow> string \<Rightarrow> string \<Rightarrow> bool" where
  "create_ok m ck n \<longleftrightarrow> cn_cookie m = Some ck \<and> cn_network_name m = Some n \<and>
     has (cn_access_rights m) \<and> has (cn_visibility m) \<and> has (cn_participation_rights m) \<and>
     length (rtrim n) \<le> 30 \<and> length (str_of (cn_creator_email m)) \<le> 40 \<and>
     length (str_of (cn_protocol_name m)) \<le> 40"

text \<open>C29. With a database that works, a registered caller's complete \<^verbatim>\<open>CREATE_NETWORK\<close>, whose texts fit
  their columns, is answered with \<^verbatim>\<open>OK\<close> exactly when the name is free; then the registry has the network
  with the requested rights and the caller as its owner. When the name is taken nothing changes in the
  registry and the answer is \<^verbatim>\<open>ALREADY_EXISTS\<close>.\<close>

theorem create_network_iff_free:
  assumes work: "working s" and c: "request c = CREATE_NETWORK" "create_network_message c = Some m" "create_ok m ck n"
    and l: "caller s ck = login" "login \<noteq> ''''" "stored_password (t_db s) login \<noteq> None"
  shows "\<exists>s'. if r_network (reg (t_db s)) n = None
    then handleRequest e c s = Inr (errorMesage RT_OK, s') \<and>
      (\<exists>i. r_network (reg (t_db s')) n = Some i \<and> ni_owner i = rtrim login \<and>
        (ni_public i \<longleftrightarrow> cn_access_rights m = Some PB_PUBLIC) \<and>
        (ni_visible i \<longleftrightarrow> cn_visibility m = Some PB_LISTED) \<and>
        (ni_participable i \<longleftrightarrow> cn_participation_rights m = Some PB_CLIENT_SERVER))
    else handleRequest e c s = Inr (errorMesage RT_ALREADY_EXISTS, s') \<and> reg (t_db s') = reg (t_db s)"
proof -
  let ?w = "createNetwork n login (cn_access_rights m = Some PB_PUBLIC) (cn_visibility m = Some PB_LISTED)
    (cn_participation_rights m = Some PB_CLIENT_SERVER) (str_of (cn_creator_email m))
    (str_of (cn_protocol_name m)) (t_db s)"
  let ?v = "createInvitation login n (snd ?w)"
  have ok: "db_ok (t_db s)" "session_ok (t_sess s)" "faults (t_db s) = []"
    using work by (auto simp: working_def tracker_ok_def)
  have r: "fst ?w = (if r_network (reg (t_db s)) n = None then DB_OK else DB_NOT_UNIQUE)"
    using createNetwork_outcome ok(3) l(3) c(3) by (simp add: create_ok_def)
  have inv: "r_network (reg (snd ?v)) n = r_network (reg (snd ?w)) n"
    using createInvitation_contract [OF _ surjective_pairing, of "snd ?w" login n] ok(1)
    by (simp add: wf_intros split: if_splits)
  show ?thesis
    using createNetwork_contract [OF ok(1) surjective_pairing, of n login
        "cn_access_rights m = Some PB_PUBLIC" "cn_visibility m = Some PB_LISTED"
        "cn_participation_rights m = Some PB_CLIENT_SERVER" "str_of (cn_creator_email m)"
        "str_of (cn_protocol_name m)"] r inv c l(1,2)
      with_login_eq [OF ok(2)]
    by (auto simp: handleRequest_def handleCreate_network_def handler_simps create_ok_def db_answer_def
        split: if_splits)
qed

definition ex_create_msg :: CreateNetwork_msg where
  "ex_create_msg = \<lparr>cn_cookie = Some ''c2'', cn_network_name = Some ''lan'', cn_access_rights = Some PB_PUBLIC,
     cn_visibility = Some PB_UNLISTED, cn_participation_rights = Some PB_CLIENT_ONLY,
     cn_creator_email = None, cn_protocol_name = None\<rparr>"

definition ex_create :: ClientMessage where
  "ex_create = new_ClientMessage\<lparr>cm_request := Some CREATE_NETWORK,
     create_network_message := Some ex_create_msg\<rparr>"

theorem create_network_iff_free_witness:
  "\<exists>s' i. handleRequest ex_env ex_create ex_tracker = Inr (errorMesage RT_OK, s') \<and>
     r_network (reg (t_db s')) ''lan'' = Some i \<and> ni_owner i = ''bob'' \<and> ni_public i \<and> \<not> ni_visible i"
proof -
  have "request ex_create = CREATE_NETWORK" "create_network_message ex_create = Some ex_create_msg"
    and "create_ok ex_create_msg ''c2'' ''lan''" and "caller ex_tracker ''c2'' = ''bob''" and "''bob'' \<noteq> ''''"
    and "stored_password (t_db ex_tracker) ''bob'' \<noteq> None"
    by code_simp+
  note facts = create_network_iff_free [OF working_ex this, of ex_env]
  have "r_network (reg (t_db ex_tracker)) ''lan'' = None" "rtrim ''bob'' = ''bob''"
    "cn_access_rights ex_create_msg = Some PB_PUBLIC" "cn_visibility ex_create_msg = Some PB_UNLISTED"
    by code_simp+
  with facts show ?thesis by auto
qed

text \<open>The rows a listing reads, by their names in the registry.\<close>

lemma join_owner_iff:
  assumes "tables_ok t"
  shows "(n, u) \<in> set (join_owner t) \<longleftrightarrow>
    n \<in> set (networks t) \<and> u \<in> set (users t) \<and> n_owner n = u_id u \<and> u_login u = owner_login t n"
  using owner_login_eq [OF assms] by (auto simp: join_owner_def)

text \<open>What an entry of a listing says of a network, its access rights apart.\<close>

definition entry_view :: "NetworkEntry \<Rightarrow> string option \<times> string option \<times> string option \<times> pb_participation option \<times> string option" where
  "entry_view x = (ne_name x, ne_creator_name x, ne_creator_email x, ne_participation_rights x, ne_protocol_name x)"

definition listing_view :: "string \<Rightarrow> network_info \<Rightarrow> string option \<times> string option \<times> string option \<times> pb_participation option \<times> string option" where
  "listing_view n i = (Some (toString n), Some (toString (ni_owner i)), Some (toString (ni_email i)),
     Some (if ni_participable i then PB_CLIENT_SERVER else PB_CLIENT_ONLY), Some (toString (ni_protocol i)))"

lemma map_read_views:
  "map (entry_view \<circ> network_entry) (read_networks b res) =
   map (\<lambda>(n, u). listing_view (n_name n) \<lparr>ni_owner = u_login u, ni_public = n_public n, ni_visible = n_visible n,
     ni_participable = n_participable n, ni_email = n_email n, ni_protocol = n_protocol n\<rparr>) res"
  by (rule nth_equalityI)
    (simp_all add: read_networks_def read_network_def entry_view_def network_entry_def listing_view_def split: prod.split)

lemma registry_networks:
  assumes "tables_ok t"
  shows "n \<in> set (networks t) \<longleftrightarrow> network_by_name (n_name n) t = Some n"
  using network_by_name_unique [of t n "n_name n"] network_by_name_SomeD [of "n_name n" t n] assms
  by (auto simp: tables_ok_def networks_ok_def char_ok_def)

lemma invited_iff:
  assumes ok: "tables_ok t" and n: "n \<in> set (networks t)"
  shows "(\<exists>i \<in> set (invitations t). user_id_of l t = Some (l_user i) \<and> l_network i = n_id n) \<longleftrightarrow>
    link_of l (n_name n) t (invitations t) \<noteq> None"
proof -
  have "network_id_of (n_name n) t = Some (n_id n)"
    using registry_networks [OF ok, of n] n by (simp add: network_id_of_def)
  then show ?thesis by (auto simp: link_of_def link_matches_def find_None_iff)
qed

text \<open>What a listing shows to a login: the listed networks, its own, and those it is invited to.\<close>

definition listed_for :: "registry \<Rightarrow> string \<Rightarrow> string \<Rightarrow> bool" where
  "listed_for r l n \<longleftrightarrow> rtrim n = n \<and>
     (\<exists>i. r_network r n = Some i \<and> (ni_visible i \<or> ni_owner i = rtrim l \<or> r_invited r l n))"

lemma listed_rows:
  assumes ok: "tables_ok t"
  shows "(\<exists>u. (n, u) \<in> set (filter (visible_to l t) (join_owner t))) \<longleftrightarrow>
    n \<in> set (networks t) \<and> listed_for (registry_of t) l (n_name n)"
proof (cases "n \<in> set (networks t)")
  case True
  then obtain u where u: "u \<in> set (users t)" "n_owner n = u_id u" "owner_login t n = u_login u"
    using owner_exists [OF ok] by blast
  have trim: "rtrim (n_name n) = n_name n"
    using ok True by (simp add: tables_ok_def networks_ok_def char_ok_def)
  show ?thesis
    using True u trim registry_networks [OF ok, of n] invited_iff [OF ok True, of l]
    by (auto simp: join_owner_iff [OF ok] visible_to_def listed_for_def network_info_of_def)
qed (simp add: join_owner_iff [OF ok])

lemma listed_infos:
  assumes ok: "tables_ok t"
  shows "(\<lambda>n. f (n_name n) (network_info_of t n)) ` {n. n \<in> set (networks t) \<and> listed_for (registry_of t) l (n_name n)} =
    {f n i | n i. r_network (registry_of t) n = Some i \<and> listed_for (registry_of t) l n}" (is "?A = ?B")
proof
  show "?A \<subseteq> ?B" using registry_networks [OF ok] by auto
  show "?B \<subseteq> ?A"
  proof
    fix x
    assume "x \<in> ?B"
    then obtain m i where m: "x = f m i" "r_network (registry_of t) m = Some i" "listed_for (registry_of t) l m" by blast
    then obtain n where n: "network_by_name m t = Some n" "i = network_info_of t n" by auto
    moreover have "rtrim m = m" using m(3) by (simp add: listed_for_def)
    ultimately have "n \<in> set (networks t)" "n_name n = m" using network_by_name_SomeD [OF n(1)] by simp_all
    with m n show "x \<in> ?A" by blast
  qed
qed

text \<open>C14. \<^verbatim>\<open>LIST_NETWORKS\<close> is answered with \<^verbatim>\<open>OK\<close>, and the entries of the answer describe exactly the
  networks the caller may see in a listing: those marked visible, its own, and those it is invited to.
  Each entry has the first word of the network's name, of its owner's login, of its address and of its
  protocol, and the right to participate; only its access rights are left open here (C1). The tracker's
  state is as before.\<close>

theorem list_networks_exact:
  assumes work: "working s" and c: "request c = LIST_NETWORKS" "list_networks_message c = Some \<lparr>ck_cookie = Some ck\<rparr>"
    and l: "caller s ck = login" "login \<noteq> ''''"
  shows "\<exists>m es. handleRequest e c s = Inr (m, s) \<and> response_type m = RT_OK \<and> list_networks_response m = Some es \<and>
    set (map entry_view es) =
      {listing_view n i | n i. r_network (reg (t_db s)) n = Some i \<and> listed_for (reg (t_db s)) login n}"
proof -
  have ok: "tables_ok (store (t_db s))" "session_ok (t_sess s)" "faults (t_db s) = []"
    using work by (auto simp: working_def tracker_ok_def db_ok_def)
  let ?t = "store (t_db s)"
  let ?rows = "filter (visible_to login ?t) (join_owner ?t)"
  let ?L = "read_networks (env_indet e) ?rows"
  have "set (map (entry_view \<circ> network_entry) ?L) =
      (\<lambda>(n, u). listing_view (n_name n) (network_info_of ?t n)) ` set ?rows"
    unfolding map_read_views set_map
    by (intro image_cong) (auto simp: join_owner_iff [OF ok(1)] network_info_of_def)
  also have "\<dots> = (\<lambda>n. listing_view (n_name n) (network_info_of ?t n)) ` {n. \<exists>u. (n, u) \<in> set ?rows}"
    by force
  also have "\<dots> = {listing_view n i | n i. r_network (reg (t_db s)) n = Some i \<and> listed_for (reg (t_db s)) login n}"
    unfolding listed_rows [OF ok(1)] reg_def by (rule listed_infos [OF ok(1)])
  finally have "set (map entry_view (map network_entry ?L)) =
      {listing_view n i | n i. r_network (reg (t_db s)) n = Some i \<and> listed_for (reg (t_db s)) login n}"
    by (simp only: map_map)
  moreover have "getAllNetworks (env_indet e) login (t_db s) = (?L, t_db s)"
    using ok(3) by (simp add: getAllNetworks_def query_faultless)
  then have "handleRequest e c s = Inr (listNetworksResponse ?L, s)"
    using c l with_login_eq [OF ok(2)] by (simp add: handleRequest_def handleList_networks_def on_db_eq)
  ultimately show ?thesis
    by (intro exI [of _ "listNetworksResponse ?L"] exI [of _ "map network_entry ?L"])
      (simp add: listNetworksResponse_def)
qed

theorem list_networks_exact_witness:
  "\<exists>m es. handleRequest ex_env (new_ClientMessage\<lparr>cm_request := Some LIST_NETWORKS,
      list_networks_message := Some (cookie_msg ''c2'')\<rparr>) ex_tracker = Inr (m, ex_tracker) \<and>
    list_networks_response m = Some es \<and> Some ''net'' \<in> ne_name ` set es"
proof -
  let ?c = "new_ClientMessage\<lparr>cm_request := Some LIST_NETWORKS, list_networks_message := Some (cookie_msg ''c2'')\<rparr>"
  have "request ?c = LIST_NETWORKS" "list_networks_message ?c = Some \<lparr>ck_cookie = Some ''c2''\<rparr>"
    and "caller ex_tracker ''c2'' = ''bob''" and "''bob'' \<noteq> ''''"
    by code_simp+
  from list_networks_exact [OF working_ex this, of ex_env] obtain m es where answer:
    "handleRequest ex_env ?c ex_tracker = Inr (m, ex_tracker)" "list_networks_response m = Some es"
    "set (map entry_view es) = {listing_view n i | n i. r_network (reg (t_db ex_tracker)) n = Some i \<and>
       listed_for (reg (t_db ex_tracker)) ''bob'' n}"
    by blast
  obtain i where i: "r_network (reg (t_db ex_tracker)) ''net'' = Some i" using ex_net_known by blast
  moreover have "map_option ni_visible (r_network (reg (t_db ex_tracker)) ''net'') = Some True" "rtrim ''net'' = ''net''"
    "toString ''net'' = ''net''"
    by code_simp+
  ultimately have "listed_for (reg (t_db ex_tracker)) ''bob'' ''net''" "fst (listing_view ''net'' i) = Some ''net''"
    by (auto simp: listed_for_def listing_view_def)
  with i have "listing_view ''net'' i \<in> set (map entry_view es)" "fst (listing_view ''net'' i) = Some ''net''"
    unfolding answer(3) by blast+
  then have "Some ''net'' \<in> ne_name ` set es" by (force simp: entry_view_def)
  with answer(1,2) show ?thesis by blast
qed

text \<open>\<^verbatim>\<open>DELETE_NETWORK\<close> answers by the state of the registry: unknown name, network of somebody
  else, or success; on success the network is gone with its servers, invitations and keys, and in
  the other cases nothing has changed.\<close>

theorem delete_network_outcome:
  assumes work: "working s" and c: "request c = DELETE_NETWORK"
    "delete_network_message c = Some \<lparr>dn_cookie = Some ck, dn_name = Some n\<rparr>"
    and l: "caller s ck = login" "login \<noteq> ''''"
  shows "\<exists>s'. handleRequest e c s =
      Inr (errorMesage (if r_network (reg (t_db s)) n = None then RT_NO_SUCH_NETWORK
             else if owned_by (reg (t_db s)) n login then RT_OK else RT_NO_PRIVILAGES), s') \<and>
    reg (t_db s') = (if owned_by (reg (t_db s)) n login then reg_delete_network n (reg (t_db s))
                     else reg (t_db s))"
proof -
  let ?w = "deleteNetwork login n (t_db s)"
  have ok: "db_ok (t_db s)" "session_ok (t_sess s)" "faults (t_db s) = []"
    using work by (auto simp: working_def tracker_ok_def)
  have "fst ?w \<in> {DB_OK, DB_NOT_PERMITED}"
    using ok(3) by (simp add: deleteNetwork_def work_faultless delete_networks_def Let_def)
  moreover have "\<not> owned_by (reg (t_db s)) n login" if "r_network (reg (t_db s)) n = None"
    using that by (simp add: owned_by_def)
  ultimately show ?thesis
    using deleteNetwork_contract [OF ok(1) surjective_pairing, of login n] c l with_login_eq [OF ok(2)]
      networkExists_outcome [OF ok(3), of n]
    by (auto simp: handleRequest_def handleDelete_network_def on_db_eq db_answer_def Let_def split: if_splits)
qed

theorem delete_network_outcome_witness:
  "\<exists>s'. handleRequest ex_env ex_delete_by_bob ex_tracker = Inr (errorMesage RT_NO_PRIVILAGES, s') \<and>
     reg (t_db s') = reg (t_db ex_tracker)"
proof -
  have "request ex_delete_by_bob = DELETE_NETWORK"
    and "delete_network_message ex_delete_by_bob = Some \<lparr>dn_cookie = Some ''c2'', dn_name = Some ''net''\<rparr>"
    and "caller ex_tracker ''c2'' = ''bob''" and "''bob'' \<noteq> ''''"
    by code_simp+
  note facts = delete_network_outcome [OF working_ex this, of ex_env]
  have "r_network (reg (t_db ex_tracker)) ''net'' \<noteq> None"
    "map_option ni_owner (r_network (reg (t_db ex_tracker)) ''net'') = Some ''ann''" "rtrim ''bob'' = ''bob''"
    by code_simp+
  then have "\<not> owned_by (reg (t_db ex_tracker)) ''net'' ''bob''" by (auto simp: owned_by_def)
  with facts \<open>r_network (reg (t_db ex_tracker)) ''net'' \<noteq> None\<close> show ?thesis by simp
qed

text \<open>C16. Removing an account (\<^verbatim>\<open>UNREGISTER\<close>, and also \<^verbatim>\<open>REMOVE_USER\<close>, which removes the caller's
  own account) leaves nothing of it: no password, no network it owns, and no server, invitation or
  key of it; whenever the answer is \<^verbatim>\<open>OK\<close>.\<close>

theorem removed_account_leaves_nothing:
  assumes ok: "tracker_ok s" and c: "request c \<in> {UNREGISTER, REMOVE_USER}"
    and r: "handleRequest e c s = Inr (m, s')" "response_type m = RT_OK"
  shows "stored_password (t_db s') (caller s (cookie_of c)) = None \<and>
    (\<forall>n. \<not> owned_by (reg (t_db s')) n (caller s (cookie_of c)) \<and>
      r_server (reg (t_db s')) (caller s (cookie_of c)) n = None \<and>
      \<not> r_invited (reg (t_db s')) (caller s (cookie_of c)) n \<and>
      r_key (reg (t_db s')) (caller s (cookie_of c)) n = None)"
proof -
  let ?l = "caller s (cookie_of c)"
  have db: "db_ok (t_db s)" "session_ok (t_sess s)" using ok by (auto simp: tracker_ok_def)
  have "fst (removeUser ?l (t_db s)) = DB_OK \<and> t_db s' = snd (removeUser ?l (t_db s))"
    using c r db(2)
    by (auto simp: handleRequest_def handleUnregister_def handleRemove_user_def handler_simps cookie_of_def
        db_answer_def split: option.splits if_splits DB_Response.splits)
  then have "reg (t_db s') = reg_remove_user ?l (reg (t_db s))"
    using removeUser_contract [OF db(1) surjective_pairing, of ?l] by simp
  then show ?thesis
    by (auto simp: stored_password_def reg_remove_user_def reg_remove_def owned_by_def)
qed

theorem removed_account_leaves_nothing_witness:
  "stored_password (t_db (state_of ex_tracker (handleRequest ex_env ex_unregister ex_tracker))) ''ann'' = None"
proof -
  have "request ex_unregister \<in> {UNREGISTER, REMOVE_USER}"
    and "response_type (answer_of (handleRequest ex_env ex_unregister ex_tracker)) = RT_OK"
    and l: "caller ex_tracker (cookie_of ex_unregister) = ''ann''"
    by code_simp+
  from removed_account_leaves_nothing [OF tracker_ok_ex this(1) handled [OF tracker_ok_ex] this(2)] l
  show ?thesis by simp
qed

subsection \<open>Servers\<close>

lemma join_servers_iff:
  "(x, u) \<in> set (join_servers n t) \<longleftrightarrow>
    x \<in> set (servers t) \<and> u \<in> set (users t) \<and> l_user x = u_id u \<and> network_id_of n t = Some (l_network x)"
  by (auto simp: join_servers_def)

lemma link_of_match:
  assumes x: "x \<in> set ls" "link_matches l n t x" and d: "distinct (map (\<lambda>l. (l_user l, l_network l)) ls)"
  shows "link_of l n t ls = Some x"
proof -
  have "link_of l n t ls = find (\<lambda>y. (l_user y, l_network y) = (l_user x, l_network x)) ls"
    unfolding link_of_def using x(2) by (intro find_cong_pred) (auto simp: link_matches_def)
  also have "\<dots> = Some x"
    using find_key_unique [OF d x(1)] by simp
  finally show ?thesis .
qed

lemma server_rows:
  assumes ok: "tables_ok t"
  shows "(\<exists>u. (x, u) \<in> set (join_servers n t)) \<longleftrightarrow>
    x \<in> set (servers t) \<and> (\<exists>l. link_of l n t (servers t) = Some x)"
proof
  assume "\<exists>u. (x, u) \<in> set (join_servers n t)"
  then obtain u where u: "x \<in> set (servers t)" "u \<in> set (users t)" "l_user x = u_id u"
      "network_id_of n t = Some (l_network x)"
    by (auto simp: join_servers_iff)
  then have "user_by_login (u_login u) t = Some u"
    using ok by (intro user_by_login_unique) (auto simp: tables_ok_def users_ok_def char_ok_def)
  with u have match: "link_matches (u_login u) n t x" by (simp add: link_matches_def user_id_of_def)
  have "link_of (u_login u) n t (servers t) = Some x"
    using link_of_match [OF u(1) match] ok by (simp add: tables_ok_def links_ok_def)
  with u(1) show "x \<in> set (servers t) \<and> (\<exists>l. link_of l n t (servers t) = Some x)" by blast
next
  assume "x \<in> set (servers t) \<and> (\<exists>l. link_of l n t (servers t) = Some x)"
  then obtain l where x: "x \<in> set (servers t)" "link_matches l n t x"
    by (auto simp: link_of_def dest: find_key_SomeD)
  then obtain u where "u \<in> set (users t)" "u_id u = l_user x"
    by (auto simp: link_matches_def user_id_of_def dest!: user_by_login_SomeD)
  with x show "\<exists>u. (x, u) \<in> set (join_servers n t)"
    by (auto simp: join_servers_iff link_matches_def)
qed

lemma getServers_outcome:
  assumes ok: "tables_ok (store d)" and fine: "faults d = []"
  shows "snd (getServers n d) = d \<and>
    set (map (\<lambda>x. (ps_networkName x, ps_ip x, ps_port x)) (fst (getServers n d))) =
      {(n, toString ip, port) | u ip port ttl. r_server (reg d) u n = Some (ip, port, ttl)}" (is "_ \<and> ?A = ?B")
proof -
  have get: "getServers n d = (map (\<lambda>(x, u). \<lparr>ps_userLogin = [], ps_networkName = n,
      ps_ip = toString (char_out 20 (s_ip x)), ps_port = s_port x\<rparr>) (join_servers n (store d)), d)"
    using fine by (simp add: getServers_def query_faultless)
  have "?A = (\<lambda>x. (n, toString (s_ip x), s_port x)) ` {x. \<exists>u. (x, u) \<in> set (join_servers n (store d))}"
    by (force simp: get image_iff)
  also have "\<dots> = (\<lambda>x. (n, toString (s_ip x), s_port x)) ` {x. \<exists>l. link_of l n (store d) (servers (store d)) = Some x}"
    unfolding server_rows [OF ok] by (auto simp: link_of_def dest: find_key_SomeD intro!: image_eqI)
  also have "\<dots> = ?B"
    by (force simp: reg_def)
  finally show ?thesis by (simp add: get)
qed

text \<open>C17. \<^verbatim>\<open>LIST_SERVERS\<close> of an existing network is refused exactly to callers who neither own the
  network nor find it public; otherwise the answer is \<^verbatim>\<open>OK\<close> and its entries are exactly the addresses and
  ports of the servers registered in the network, with the name of the network in the place of the
  user's name.\<close>

theorem list_servers_exact:
  assumes work: "working s" and c: "request c = LIST_SERVERS"
    "list_servers_message c = Some \<lparr>ls_cookie = Some ck, ls_network_name = Some n\<rparr>"
    and l: "caller s ck = login" "login \<noteq> ''''" and i: "r_network (reg (t_db s)) n = Some i"
  shows "if ni_public i \<or> ni_owner i = rtrim login
    then \<exists>m es. handleRequest e c s = Inr (m, s) \<and> response_type m = RT_OK \<and> list_servers_response m = Some es \<and>
      set es = {\<lparr>se_username = Some n, se_ip_address = Some (toString ip), se_port_number = Some port\<rparr> |
        u ip port ttl. r_server (reg (t_db s)) u n = Some (ip, port, ttl)}
    else handleRequest e c s = Inr (errorMesage RT_NO_PRIVILAGES, s)"
proof -
  have ok: "tables_ok (store (t_db s))" "session_ok (t_sess s)" "faults (t_db s) = []" "db_ok (t_db s)"
    using work by (auto simp: working_def tracker_ok_def db_ok_def)
  let ?L = "fst (getServers n (t_db s))"
  let ?entry = "\<lambda>(name, ip, port). \<lparr>se_username = Some name, se_ip_address = Some ip, se_port_number = Some port\<rparr>"
  let ?es = "map (\<lambda>x. \<lparr>se_username = Some (ps_networkName x), se_ip_address = Some (ps_ip x), se_port_number = Some (ps_port x)\<rparr>) ?L"
  have run: "handleRequest e c s = (if ni_public i \<or> ni_owner i = rtrim login
      then Inr (listServersResponse ?L, s) else Inr (errorMesage RT_NO_PRIVILAGES, s))"
    using c l i with_login_eq [OF ok(2)] networkExists_outcome [OF ok(3), of n]
      canSeeNetwork_outcome [OF ok(3,4), of n login] getServers_outcome [OF ok(1,3), of n]
    by (simp add: handleRequest_def handleList_servers_def on_db_eq)
  have "set ?es = ?entry ` set (map (\<lambda>x. (ps_networkName x, ps_ip x, ps_port x)) ?L)"
    by (simp add: image_image)
  also have "\<dots> = ?entry ` {(n, toString ip, port) | u ip port ttl. r_server (reg (t_db s)) u n = Some (ip, port, ttl)}"
    using getServers_outcome [OF ok(1,3), of n] by (simp only:)
  also have "\<dots> = {?entry (n, toString ip, port) | u ip port ttl. r_server (reg (t_db s)) u n = Some (ip, port, ttl)}"
    by blast
  also have "\<dots> = {\<lparr>se_username = Some n, se_ip_address = Some (toString ip), se_port_number = Some port\<rparr> |
        u ip port ttl. r_server (reg (t_db s)) u n = Some (ip, port, ttl)}"
    by (simp only: prod.case)
  finally have "set ?es = \<dots>" .
  moreover have "list_servers_response (listServersResponse ?L) = Some ?es"
    by (simp add: listServersResponse_def)
  ultimately show ?thesis unfolding run by (simp del: set_map)
qed

definition ex_list_servers :: ClientMessage where
  "ex_list_servers = new_ClientMessage\<lparr>cm_request := Some LIST_SERVERS,
     list_servers_message := Some \<lparr>ls_cookie = Some ''c1'', ls_network_name = Some ''net''\<rparr>\<rparr>"

theorem list_servers_exact_witness:
  "\<exists>m es. handleRequest ex_env ex_list_servers ex_tracker = Inr (m, ex_tracker) \<and> list_servers_response m = Some es \<and>
     \<lparr>se_username = Some ''net'', se_ip_address = Some ''10.0.0.2'', se_port_number = Some 80\<rparr> \<in> set es"
proof -
  obtain i where i: "r_network (reg (t_db ex_tracker)) ''net'' = Some i" using ex_net_known by blast
  have "map_option ni_public (r_network (reg (t_db ex_tracker)) ''net'') = Some True" by code_simp
  with i have public: "ni_public i" by simp
  have "request ex_list_servers = LIST_SERVERS"
    and "list_servers_message ex_list_servers = Some \<lparr>ls_cookie = Some ''c1'', ls_network_name = Some ''net''\<rparr>"
    and "caller ex_tracker ''c1'' = ''ann''" and "''ann'' \<noteq> ''''"
    by code_simp+
  from list_servers_exact [OF working_ex this i, of ex_env] public obtain m es where answer:
    "handleRequest ex_env ex_list_servers ex_tracker = Inr (m, ex_tracker)" "list_servers_response m = Some es"
    "set es = {\<lparr>se_username = Some ''net'', se_ip_address = Some (toString ip), se_port_number = Some port\<rparr> |
        u ip port ttl. r_server (reg (t_db ex_tracker)) u ''net'' = Some (ip, port, ttl)}"
    by auto
  have "r_server (reg (t_db ex_tracker)) ''bob'' ''net'' = Some (''10.0.0.2'', 80, 7)"
    "toString ''10.0.0.2'' = ''10.0.0.2''"
    by code_simp+
  then have "\<lparr>se_username = Some ''net'', se_ip_address = Some ''10.0.0.2'', se_port_number = Some 80\<rparr> \<in> set es"
    unfolding answer(3) by force
  with answer(1,2) show ?thesis by blast
qed

lemma updateServer_known:
  assumes "faults d = []" "r_server (reg d) l n \<noteq> None" "char_in 20 ip \<noteq> None"
  shows "updateServer n l ip port ttl d = (DB_OK, d)"
proof -
  obtain x where "x \<in> set (servers (store d))" "link_matches l n (store d) x"
    using assms(2) by (auto simp: reg_def link_of_def dest: find_key_SomeD)
  then have "filter (link_matches l n (store d)) (servers (store d)) \<noteq> []" by (auto simp: filter_empty_conv)
  then show ?thesis
    using assms(1,3) by (auto simp: updateServer_def work_if_def update_server_def Let_def)
qed

text \<open>C18. Announcing a server that is registered already has no effect: the transaction with the new
  address, port and time is rolled back. All the same, with a database that works, a caller who may add
  servers to the network is answered with \<^verbatim>\<open>OK\<close> and the time to live, as if it had been renewed.\<close>

theorem update_server_keeps_old_row:
  assumes "tracker_ok s" "request c = UPDATE_SERVER" "update_server_message c = Some m" "us_network_name m = Some n"
    and "r_server (reg (t_db s)) (caller s (cookie_of c)) n \<noteq> None"
  shows "\<exists>a s'. handleRequest e c s = Inr (a, s') \<and> reg (t_db s') = reg (t_db s) \<and>
    (working s \<and> caller s (cookie_of c) \<noteq> '''' \<and> char_in 20 (env_addr e) \<noteq> None \<and>
       (\<exists>i. r_network (reg (t_db s)) n = Some i \<and> (ni_participable i \<or> ni_owner i = rtrim (caller s (cookie_of c))))
     \<longrightarrow> a = updateServerResponse SERVER_TTL \<and> s' = s)"
proof -
  let ?l = "caller s (cookie_of c)"
  have ok: "db_ok (t_db s)" "session_ok (t_sess s)" using assms(1) by (auto simp: tracker_ok_def)
  have upd: "reg (snd (updateServer n ?l ip port ttl d)) = reg (t_db s)"
    if "db_ok d" "reg d = reg (t_db s)" for d ip port ttl
    using updateServer_contract [OF that(1) surjective_pairing, of n ?l ip port ttl]
      assms(5) that(2) by auto
  have "\<exists>a s'. handleRequest e c s = Inr (a, s') \<and> reg (t_db s') = reg (t_db s)"
    using assms(2-4) ok upd
    by (auto simp: handleRequest_def handleUpdate_server_def handler_simps cookie_of_def wf_intros)
  then obtain a s' where run: "handleRequest e c s = Inr (a, s')" "reg (t_db s') = reg (t_db s)" by blast
  have "a = updateServerResponse SERVER_TTL \<and> s' = s"
    if "working s" and l: "?l \<noteq> ''''" and addr: "char_in 20 (env_addr e) \<noteq> None"
      and may: "\<exists>i. r_network (reg (t_db s)) n = Some i \<and> (ni_participable i \<or> ni_owner i = rtrim ?l)"
  proof -
    have fine: "faults (t_db s) = []" using that(1) by (simp add: working_def)
    have "fst (updateServer n ?l (env_addr e) port ttl (t_db s)) = DB_OK \<and>
        snd (updateServer n ?l (env_addr e) port ttl (t_db s)) = t_db s" for port ttl
      using updateServer_known [OF fine assms(5) addr] by simp
    with run(1) l may show ?thesis
      using assms(2-4) ok networkExists_outcome [OF fine, of n] canAddServer_outcome [OF fine ok(1), of ?l n]
      by (auto simp: handleRequest_def handleUpdate_server_def handler_simps cookie_of_def db_answer_def)
  qed
  with run show ?thesis by blast
qed

definition ex_update :: ClientMessage where
  "ex_update = new_ClientMessage\<lparr>cm_request := Some UPDATE_SERVER, update_server_message :=
     Some \<lparr>us_cookie = Some ''c2'', us_network_name = Some ''net'', us_port_number = Some 99\<rparr>\<rparr>"

theorem update_server_keeps_old_row_witness:
  "\<exists>a s'. handleRequest ex_env ex_update ex_tracker = Inr (a, s') \<and> reg (t_db s') = reg (t_db ex_tracker) \<and>
    response_type a = RT_OK"
proof -
  have "request ex_update = UPDATE_SERVER" and "update_server_message ex_update =
      Some \<lparr>us_cookie = Some ''c2'', us_network_name = Some ''net'', us_port_number = Some 99\<rparr>"
    and "r_server (reg (t_db ex_tracker)) (caller ex_tracker (cookie_of ex_update)) ''net'' \<noteq> None"
    and extra: "caller ex_tracker (cookie_of ex_update) \<noteq> ''''" "char_in 20 (env_addr ex_env) \<noteq> None"
    by code_simp+
  note facts = update_server_keeps_old_row [OF tracker_ok_ex this(1,2), of "''net''" ex_env]
  obtain i where i: "r_network (reg (t_db ex_tracker)) ''net'' = Some i" using ex_net_known by blast
  have "map_option ni_participable (r_network (reg (t_db ex_tracker)) ''net'') = Some True" by code_simp
  with i have "ni_participable i" by simp
  with facts i extra working_ex show ?thesis
    using \<open>r_server (reg (t_db ex_tracker)) (caller ex_tracker (cookie_of ex_update)) ''net'' \<noteq> None\<close> by fastforce
qed

lemma deleteServer_answer:
  "response_type (db_answer RT_BAD_REQUEST m (fst (deleteServer n l d))) = RT_BAD_REQUEST \<or>
   response_type (db_answer RT_BAD_REQUEST m (fst (deleteServer n l d))) = RT_INTERNAL_SERVER_ERROR"
  by (auto simp: deleteServer_def caught_def db_answer_def split: prod.split sum.split)

text \<open>\<^verbatim>\<open>STOP_SERVER\<close> is never answered with \<^verbatim>\<open>OK\<close>: also when the caller's server is removed the
  answer is \<^verbatim>\<open>BAD_REQUEST\<close>.\<close>

theorem stop_server_never_ok:
  assumes "tracker_ok s" "request c = STOP_SERVER" "handleRequest e c s = Inr (m, s')"
  shows "response_type m \<in> {RT_BAD_REQUEST, RT_INTERNAL_SERVER_ERROR, RT_NOT_LOGGED, RT_NO_SUCH_NETWORK}"
proof -
  have "session_ok (t_sess s)" using assms(1) by (simp add: tracker_ok_def)
  with assms(2,3) show ?thesis
    using deleteServer_answer
    by (auto simp: handleRequest_def handleStop_server_def handler_simps split: option.splits if_splits)
qed

definition ex_stop :: ClientMessage where
  "ex_stop = new_ClientMessage\<lparr>cm_request := Some STOP_SERVER, stop_server_message :=
     Some \<lparr>ss_cookie = Some ''c2'', ss_network_name = Some ''net''\<rparr>\<rparr>"

theorem stop_server_never_ok_witness:
  "response_type (answer_of (handleRequest ex_env ex_stop ex_tracker)) \<noteq> RT_OK \<and>
   r_server (reg (t_db (state_of ex_tracker (handleRequest ex_env ex_stop ex_tracker)))) ''bob'' ''net'' = None"
proof -
  have "request ex_stop = STOP_SERVER"
    and gone: "r_server (reg (t_db (state_of ex_tracker (handleRequest ex_env ex_stop ex_tracker)))) ''bob'' ''net'' = None"
    by code_simp+
  from stop_server_never_ok [OF tracker_ok_ex this(1) handled [OF tracker_ok_ex], of ex_env] gone
  show ?thesis by auto
qed

end
