(* ===== verification/Tracker_Channel.thy ===== *)
theory Tracker_Channel
  imports Tracker_Services
begin

text \<open>
  The tracker's side of the wire, from the bytes a client sends to the bytes it gets: which requests
  are answered and which are lost, and the arithmetic of the helper functions: numbers in a buffer,
  cookies, certificate validity, the deadline of a server, the cleaning of sessions and servers.
\<close>

subsection \<open>Requests on a connection\<close>

text \<open>C20. A framed request that arrives in one chunk is answered: the handler runs on the message and
  the connection writes the framed answer and closes. Reading a message back is the inverse of
  writing it (the documented behaviour of protobuf).\<close>

theorem request_in_one_chunk_answered:
  assumes "tracker_ok s" "parse_pb (ser_req m) = Some m" "length (ser_req m) + 4 \<le> BUFFER_SIZE"
  shows "\<exists>reply s' c'. handleRequest (e\<lparr>env_addr := a\<rparr>) m s = Inr (reply, s') \<and>
    conn_run parse_pb ser_pb [(e0, Handshake_Done False), (e, Chunk (framed (ser_req m))), (e2, Write_Done w)]
      (new_connection a) s = Inr (c', s') \<and>
    c_phase c' = Closed \<and> c_written c' = framed (ser_pb reply)"
proof -
  obtain reply s' where r: "handleRequest (e\<lparr>env_addr := a\<rparr>) m s = Inr (reply, s')"
    using handleRequest_keeps_ok [OF assms(1)] by (meson yields_iff)
  have "length (ser_req m) < 2 ^ 32" using assms(3) by (simp add: BUFFER_SIZE_def)
  moreover have "framed (ser_req m) \<noteq> []" by (simp add: framed_def le32_bytes_def)
  ultimately show ?thesis
    using r assms(2,3)
    by (simp add: conn_step_def new_connection_def RequestParser_init_def handle_read_def
        request_parse_framed parseIntoOstream_framed handle_write_def)
qed

text \<open>A toy encoding for the examples: a login request is one byte.\<close>

definition ex_ser :: "ClientMessage \<Rightarrow> byte list" where
  "ex_ser m = [7]"

definition ex_parse :: "byte list \<Rightarrow> ClientMessage option" where
  "ex_parse bs = (if bs = [7] then Some ex_login else None)"

definition ex_ser_node :: "NodeMessage \<Rightarrow> byte list" where
  "ex_ser_node m = (if response_type m = RT_OK then [1] else [2, 2])"

theorem request_in_one_chunk_answered_witness:
  "\<exists>s' c'. conn_run ex_parse ex_ser_node
     [(ex_env, Handshake_Done False), (ex_env, Chunk (framed (ex_ser ex_login))), (ex_env, Write_Done False)]
     (new_connection ''a'') ex_tracker = Inr (c', s') \<and> c_phase c' = Closed"
proof -
  have "ex_parse (ex_ser ex_login) = Some ex_login" "length (ex_ser ex_login) + 4 \<le> BUFFER_SIZE"
    by (simp_all add: ex_parse_def ex_ser_def BUFFER_SIZE_def)
  with request_in_one_chunk_answered [OF tracker_ok_ex, where parse_pb = ex_parse and
      ser_req = ex_ser and m = ex_login and e = ex_env and a = "''a''" and ser_pb = ex_ser_node and
      ?e0.0 = ex_env and ?e2.0 = ex_env and w = False] show ?thesis by blast
qed

text \<open>C21. A request whose body is split over two chunks is lost: the tracker waits for ever, has
  written nothing and changed nothing, although every byte has arrived. The parser's buffer is local
  to a call.\<close>

theorem split_request_is_lost:
  assumes "body = a @ b" "a \<noteq> []" "b \<noteq> []" "length body + 4 \<le> BUFFER_SIZE"
  shows "\<exists>c'. conn_run parse_pb ser_pb [(e0, Handshake_Done False),
      (e1, Chunk (le32_bytes (word_of_nat (length body)) @ a)), (e2, Chunk b)]
      (new_connection addr) s = Inr (c', s) \<and> c_phase c' = Reading \<and> c_written c' = []"
proof -
  let ?n = "word_of_nat (length body) :: int32"
  have len: "length body < 2 ^ 32 - 1" using assms(4) by (simp add: BUFFER_SIZE_def)
  then have first: "request_parse parse_pb (- 1) (le32_bytes ?n @ a) = (Tri_Indeterminate, None, ?n)"
    using request_parse_first_part [of a b parse_pb] assms(1,3) by (simp del: length_append)
  have "unat ?n = length body" using len by (simp add: unat_of_nat32)
  then have second: "request_parse parse_pb ?n b = (Tri_Indeterminate, None, ?n)"
    using of_nat32_neq_minus1 [OF len] assms(1,2) by (intro request_parse_short) simp_all
  have "b \<noteq> []" "length b \<le> BUFFER_SIZE" "length (le32_bytes ?n @ a) \<le> BUFFER_SIZE" "le32_bytes ?n @ a \<noteq> []"
    using assms by (simp_all add: le32_bytes_def)
  then show ?thesis
    by (simp add: conn_step_def new_connection_def RequestParser_init_def handle_read_def first second
        del: length_append)
qed

theorem split_request_is_lost_witness:
  "\<exists>c'. conn_run ex_parse ex_ser_node [(ex_env, Handshake_Done False),
      (ex_env, Chunk (le32_bytes (word_of_nat (length [7, 8 :: byte])) @ [7])), (ex_env, Chunk [8])]
      (new_connection ''a'') ex_tracker = Inr (c', ex_tracker) \<and> c_phase c' = Reading"
  using split_request_is_lost [of "[7, 8]" "[7]" "[8]" ex_parse ex_ser_node ex_env ex_env ex_env "''a''" ex_tracker]
  by (auto simp: BUFFER_SIZE_def)

subsection \<open>Numbers, cookies and times\<close>

text \<open>\<^verbatim>\<open>getNumFromBuff\<close> reads at most four bytes as a little-endian unsigned number, whatever the
  size asked for, and throws exactly when the buffer is shorter than that size.\<close>

theorem getNumFromBuff_little_endian:
  "getNumFromBuff buff n = (if n \<le> length buff
     then Some (ucast (le32_value (take (min n 4) buff @ replicate (4 - n) 0))) else None)"
proof (cases "n \<le> length buff")
  case True
  show ?thesis
  proof (cases "4 \<le> n")
    case False
    with True show ?thesis using getNumFromBuff_short [of n buff] by (simp add: min_def)
  next
    case more: True
    with True show ?thesis
      using getNumFromBuff_more [of n buff] getNumFromBuff_short [of 4 buff] by (simp add: min_def)
  qed
next
  case False
  then show ?thesis using getNumFromBuff_loop_None [of buff 0 n 0 1] by (simp add: getNumFromBuff_def)
qed

text \<open>A login draws a cookie of fifteen letters and digits, binds it to the login at the current
  time, and leaves every other session alone.\<close>

theorem login_binds_fresh_cookie:
  assumes "session_ok s" "session_login r now l s = (c, s')"
  shows "length c = 15 \<and> set c \<subseteq> set charset \<and> session_ok s' \<and>
    (\<forall>c'. who s' c' = (if c' = c then Some l else who s c')) \<and>
    smap_get string_lt c (cookieToTime s') = Some now"
proof -
  have c: "c = getRandomString r COOKIE_LEN" "s' = open_session c l now s"
    using assms(2) by (auto simp: session_login_def Let_def)
  have "smap_get string_lt c (cookieToTime s') = Some now"
    using assms(1) by (simp add: c(2) open_session_def session_ok_def strings.get_set)
  then show ?thesis
    using assms(1) set_getRandomString [of r COOKIE_LEN]
    by (simp add: c(2) who_open session_ok_open) (simp add: c(1) COOKIE_LEN_def)
qed

theorem login_binds_fresh_cookie_witness:
  "who (snd (session_login (\<lambda>i. i) 7 ''ann'' new_session)) ''0123456789ABCDE'' = Some ''ann''"
proof -
  have "fst (session_login (\<lambda>i. i) 7 ''ann'' new_session) = ''0123456789ABCDE''" by code_simp
  with login_binds_fresh_cookie [OF session_ok_new surjective_pairing, of "\<lambda>i. i" 7 "''ann''"]
  show ?thesis by metis
qed

lemma sint_of_seconds:
  assumes "0 \<le> n" "n < 2 ^ 62"
  shows "sint (word_of_int (n sdiv 1000) :: int64) = n div 1000"
proof -
  have "n sdiv 1000 = n div 1000"
    using assms(1) by (cases "n = 0") (simp_all add: divide_int_eq_signed_divide_int sgn_if)
  moreover have "- (2 ^ 63) \<le> n div 1000" "n div 1000 < 2 ^ 63" using assms by auto
  ultimately show ?thesis by (simp add: signed_of_int signed_take_bit_int_eq_self)
qed

lemma uint_year_later:
  assumes "0 \<le> n" "n < 2 ^ 62"
  shows "uint ((word_of_int n :: int64) + 31536000000) = n + 31536000000"
proof -
  have "(word_of_int n :: int64) + 31536000000 = word_of_int (n + 31536000000)" by simp
  then show ?thesis using assms by (simp only: uint_word_of_int) (simp add: take_bit_int_eq_self)
qed

text \<open>A certificate is signed for exactly 365 days from the current second on, for any clock
  value from 1970 to the year 2116 and far beyond.\<close>

theorem certificate_valid_365_days:
  assumes "0 \<le> sint now" "sint now < 2 ^ 62"
  shows "\<exists>nb na. signCertyficate ca now req = (case ca req nb na of Some pem \<Rightarrow> pem | None \<Rightarrow> '''') \<and>
    sint nb = sint now div 1000 \<and> sint na = sint nb + 365 * 24 * 60 * 60"
proof -
  define n where "n = sint now"
  have n: "0 \<le> n" "n < 2 ^ 62" "now = word_of_int n" using assms by (simp_all add: n_def)
  have nb: "sint (word_of_int (n sdiv 1000) :: int64) = n div 1000"
    using n(1,2) by (rule sint_of_seconds)
  have "uint ((now + CERT_TTL) div 1000) = n div 1000 + 31536000"
    using uint_year_later [OF n(1,2)] by (simp add: n(3) CERT_TTL_def uint_div)
  then have na: "sint ((now + CERT_TTL) div 1000) = n div 1000 + 31536000"
    using n(1,2) by (simp add: sint_uint signed_take_bit_int_eq_self)
  show ?thesis
    unfolding signCertyficate_def Let_def using nb na
    by (intro exI [of _ "word_of_int (sint now sdiv 1000)"] exI [of _ "(now + CERT_TTL) div 1000"])
      (simp add: n_def)
qed

theorem certificate_valid_365_days_witness:
  "\<exists>(nb :: int64) (na :: int64). sint nb = 1 \<and> sint na = sint nb + 365 * 24 * 60 * 60"
proof -
  have "0 \<le> sint (1500 :: int64)" "sint (1500 :: int64) < 2 ^ 62" and q: "sint (1500 :: int64) div 1000 = 1"
    by simp_all
  then obtain nb na :: int64 where "sint nb = sint (1500 :: int64) div 1000" "sint na = sint nb + 365 * 24 * 60 * 60"
    using certificate_valid_365_days [of 1500 "\<lambda>req nb na. None" "''req''"] by blast
  with q show ?thesis by (intro exI [of _ nb] exI [of _ na]) simp
qed

text \<open>The deadline stored with a server is the time in milliseconds thirty minutes ahead, cut to
  32 bits: it agrees with that time only modulo $2^{32}$, in the signed range.\<close>

theorem server_deadline_wraps:
  "sint (server_deadline now) = (sint now + 1800000 + 2 ^ 31) mod 2 ^ 32 - 2 ^ 31"
proof -
  have s: "signed_take_bit 31 (take_bit m k) = signed_take_bit 31 k" if "31 < m" for m and k :: int
    using that by (simp add: signed_take_bit_take_bit)
  have "server_deadline now = ucast (now + 1800000)"
    by (simp add: server_deadline_def SERVER_TTL_def)
  then have "sint (server_deadline now) = signed_take_bit 31 (uint (now + 1800000))"
    by (simp add: sint_uint unsigned_ucast_eq s)
  also have "uint (now + 1800000) = take_bit 64 (sint now + 1800000)"
  proof -
    have "now + 1800000 = word_of_int (sint now + 1800000)" by simp
    then show ?thesis by (simp only: uint_word_of_int) (simp add: take_bit_eq_mod)
  qed
  also have "signed_take_bit 31 (take_bit 64 (sint now + 1800000)) = signed_take_bit 31 (sint now + 1800000)"
    by (rule s) simp
  finally show ?thesis
    by (simp add: signed_take_bit_eq_take_bit_shift take_bit_eq_mod)
qed

lemma link_of_filter:
  fixes ls :: "'a link_row_scheme list"
  assumes "distinct (map (\<lambda>l. (l_user l, l_network l)) ls)"
  shows "link_of l n t (filter Q ls) =
    (case link_of l n t ls of Some x \<Rightarrow> if Q x then Some x else None | None \<Rightarrow> None)"
proof (cases "\<exists>u i. user_id_of l t = Some u \<and> network_id_of n t = Some i")
  case True
  then obtain u i where "user_id_of l t = Some u" "network_id_of n t = Some i" by blast
  then have m: "link_matches l n t = (\<lambda>x :: 'a link_row_scheme. (l_user x, l_network x) = (u, i))"
    by (auto simp: link_matches_def fun_eq_iff)
  show ?thesis unfolding link_of_def m by (rule find_key_filter [OF assms])
next
  case False
  then have "user_id_of l t = None \<or> network_id_of n t = None" by auto
  then show ?thesis by auto
qed

text \<open>Cleaning removes exactly the servers whose stored deadline lies before the given number of
  seconds ago, and touches nothing else of the registry.\<close>

theorem cleanServers_exact:
  assumes "db_ok d" "faults d = []"
    and range: "- (2 ^ 31) \<le> sint epoch - sint T" "sint epoch - sint T < 2 ^ 31"
  shows "reg (cleanServers epoch T d) = (reg d)\<lparr>r_server := (\<lambda>l n.
    case r_server (reg d) l n of
      None \<Rightarrow> None
    | Some (ip, port, ttl) \<Rightarrow> if sint ttl < sint epoch - sint T then None else Some (ip, port, ttl))\<rparr>"
proof -
  let ?keep = "\<lambda>x. \<not> sint (s_ttl x) < sint epoch - sint T"
  let ?t = "store d"
  let ?t' = "?t\<lparr>servers := filter ?keep (servers ?t)\<rparr>"
  have store: "store (cleanServers epoch T d) = ?t'"
    using assms(2) range by (simp add: cleanServers_def work_faultless clean_stmt_def delete_servers_def Let_def)
  have ids: "user_id_of l ?t' = user_id_of l ?t" "network_id_of n ?t' = network_id_of n ?t"
      "user_by_login l ?t' = user_by_login l ?t" "network_by_name n ?t' = network_by_name n ?t"
      "network_info_of ?t' = network_info_of ?t" for l n
    by (auto simp: user_id_of_def network_id_of_def user_by_login_def network_by_name_def
        network_info_of_def owner_login_def fun_eq_iff)
  have lnk: "link_of l n ?t' ls = link_of l n ?t ls" for l n and ls :: "'z link_row_scheme list"
    by (rule link_of_cong [OF ids(1,2)])
  have d: "distinct (map (\<lambda>l. (l_user l, l_network l)) (servers ?t))"
    using assms(1) by (simp add: db_ok_def tables_ok_def links_ok_def)
  show ?thesis
    unfolding reg_def store
    by (intro registry_eqI) (simp_all add: ids lnk link_of_filter [OF d] split: option.split)
qed

theorem cleanServers_exact_witness:
  "r_server (reg (cleanServers 100 50 (t_db ex_tracker))) ''bob'' ''net'' = None \<and>
   r_server (reg (cleanServers 100 95 (t_db ex_tracker))) ''bob'' ''net'' = Some (''10.0.0.2'', 80, 7)"
proof -
  have db: "db_ok (t_db ex_tracker)" "faults (t_db ex_tracker) = []"
    using working_ex by (auto simp: working_def tracker_ok_def)
  have v: "r_server (reg (t_db ex_tracker)) ''bob'' ''net'' = Some (''10.0.0.2'', 80, 7)"
    by code_simp
  show ?thesis
    using cleanServers_exact [OF db, of 100 50] cleanServers_exact [OF db, of 100 95] by (simp add: v)
qed

text \<open>A wake-up of the session daemon either leaves every session as it is or runs into undefined
  behaviour, and it does the latter exactly when some session was opened after the given time: an
  expired session is never removed.\<close>

theorem daemon_never_removes_a_session:
  "daemon_tick now ttl s =
     (if \<exists>x \<in> set (cookieToTime s). sint (now - ttl) < sint (snd x) then Inl Undefined_Behaviour else Inr s)"
  by (simp add: daemon_tick_def cleanSome_def cleanSome_loop_cases)

end
