(* ===== verification/System.thy ===== *)
theory System
  imports Client_Service Tracker_Channel
begin

text \<open>
  The client and the tracker put together: the world of the client's link is a tracker with the
  connection it has accepted last. The bytes of a request arrive in chunks of the tracker's buffer,
  the bytes of an answer in chunks of the client's. Time, randomness and the answers of bcrypt and
  the certificate authority at the tracker are a sequence of environments, one per event.
\<close>

record codec =
  enc_request :: "ClientMessage \<Rightarrow> byte list"
  dec_request :: "byte list \<Rightarrow> ClientMessage option"
  enc_answer :: "NodeMessage \<Rightarrow> byte list"
  dec_answer :: "byte list \<Rightarrow> NodeMessage option"

record tracker_world =
  tw_tracker :: tracker
  tw_conn :: connection
  tw_address :: string
  tw_envs :: "nat \<Rightarrow> env"
  tw_now :: nat

definition tw_env :: "tracker_world \<Rightarrow> env" where
  "tw_env w = tw_envs w (tw_now w)"

fun cut :: "nat \<Rightarrow> byte list \<Rightarrow> byte list list" where
  "cut n bs = (if n = 0 \<or> length bs \<le> n then [bs] else take n bs # cut n (drop n bs))"

declare cut.simps [simp del]

lemma concat_cut [simp]: "concat (cut n bs) = bs"
proof (induction n bs rule: cut.induct)
  case (1 n bs)
  then show ?case by (subst cut.simps) auto
qed

lemma cut_short: "length bs \<le> n \<Longrightarrow> cut n bs = [bs]"
  by (simp add: cut.simps)

text \<open>Accepting a connection, and a request on it.\<close>

definition tracker_dial :: "codec \<Rightarrow> NodeDescription \<Rightarrow> tracker_world \<Rightarrow> bool \<times> tracker_world" where
  "tracker_dial cd d w =
     (case conn_step (dec_request cd) (enc_answer cd) (tw_env w) (Handshake_Done False)
             (new_connection (tw_address w)) (tw_tracker w) of
        Inl x \<Rightarrow> (False, w)
      | Inr (c, s) \<Rightarrow> (True, w\<lparr>tw_tracker := s, tw_conn := c, tw_now := Suc (tw_now w)\<rparr>))"

definition tracker_answer :: "codec \<Rightarrow> byte list \<Rightarrow> tracker_world \<Rightarrow> transmission \<times> tracker_world" where
  "tracker_answer cd bs w =
     (case conn_run (dec_request cd) (enc_answer cd) (map (\<lambda>data. (tw_env w, Chunk data)) (cut BUFFER_SIZE bs))
             (tw_conn w) (tw_tracker w) of
        Inl x \<Rightarrow> (Not_Sent, w)
      | Inr (c, s) \<Rightarrow>
          (case c_phase c of
             Writing \<Rightarrow> (Received (cut BUFFER_SIZE (c_written c)) Read_Fails,
               w\<lparr>tw_tracker := s, tw_conn := handle_write False c, tw_now := Suc (tw_now w)\<rparr>)
           | Reading \<Rightarrow> (Received [] Silence, w\<lparr>tw_tracker := s, tw_conn := c, tw_now := Suc (tw_now w)\<rparr>)
           | _ \<Rightarrow> (Received [] Read_Fails, w\<lparr>tw_tracker := s, tw_conn := c, tw_now := Suc (tw_now w)\<rparr>)))"

definition on_tracker :: "codec \<Rightarrow> tracker_world client_env \<Rightarrow> tracker_world client_env" where
  "on_tracker cd e =
     e\<lparr>ce_link := \<lparr>lk_connect = tracker_dial cd, lk_send = tracker_answer cd\<rparr>,
       ce_ser := enc_request cd, ce_parse := dec_answer cd\<rparr>"

subsection \<open>What a connection does in one piece\<close>

definition dialled :: "tracker_world \<Rightarrow> tracker_world" where
  "dialled w = w\<lparr>tw_conn := (new_connection (tw_address w))\<lparr>c_phase := Reading\<rparr>, tw_now := Suc (tw_now w)\<rparr>"

definition listening :: "tracker_world \<Rightarrow> bool" where
  "listening w \<longleftrightarrow> tw_conn w = (new_connection (tw_address w))\<lparr>c_phase := Reading\<rparr>"

definition handled :: "ClientMessage \<Rightarrow> tracker_world \<Rightarrow> reply" where
  "handled m w = handleRequest ((tw_env w)\<lparr>env_addr := tw_address w\<rparr>) m (tw_tracker w)"

definition served :: "codec \<Rightarrow> ClientMessage \<Rightarrow> tracker_world \<Rightarrow> NodeMessage \<times> tracker_world" where
  "served cd m w =
     (case handled m w of
        Inl x \<Rightarrow> (badRequestResponse, w)
      | Inr (reply, s) \<Rightarrow>
          (reply, w\<lparr>tw_tracker := s,
             tw_conn := (tw_conn w)\<lparr>c_phase := Closed, c_len := word_of_nat (length (enc_request cd m)),
                          c_written := framed (enc_answer cd reply)\<rparr>,
             tw_now := Suc (tw_now w)\<rparr>))"

text \<open>A request fits when it is read in one piece, and both messages survive their encoding.\<close>

definition carried :: "codec \<Rightarrow> ClientMessage \<Rightarrow> tracker_world \<Rightarrow> bool" where
  "carried cd m w \<longleftrightarrow>
     length (enc_request cd m) + 4 \<le> BUFFER_SIZE \<and> dec_request cd (enc_request cd m) = Some m \<and>
     (let reply = fst (served cd m w)
      in length (enc_answer cd reply) < 2 ^ 31 \<and> dec_answer cd (enc_answer cd reply) = Some reply)"

definition world_ok :: "tracker_world \<Rightarrow> bool" where
  "world_ok w \<longleftrightarrow> tracker_ok (tw_tracker w)"

lemma dialled_simps [simp]:
  "tw_tracker (dialled w) = tw_tracker w" "tw_address (dialled w) = tw_address w"
  "tw_env (dialled w) = tw_envs w (Suc (tw_now w))" "listening (dialled w)"
  "tw_now (dialled w) = Suc (tw_now w)" "tw_envs (dialled w) = tw_envs w"
  by (simp_all add: dialled_def listening_def tw_env_def)

lemma tracker_dial_dialled: "tracker_dial cd d w = (True, dialled w)"
  by (simp add: tracker_dial_def conn_step_def handle_read_def new_connection_def RequestParser_init_def
      Let_def dialled_def)

lemma handled_returns: "world_ok w \<Longrightarrow> \<exists>reply s. handled m w = Inr (reply, s) \<and> tracker_ok s"
  using handleRequest_keeps_ok [of "tw_tracker w" "(tw_env w)\<lparr>env_addr := tw_address w\<rparr>" m]
  by (auto simp: handled_def world_ok_def yields_iff keeps_ok_def)

lemma tracker_answer_served:
  assumes "world_ok w" "listening w" "carried cd m w"
  shows "tracker_answer cd (framed (enc_request cd m)) w =
    (Received (cut BUFFER_SIZE (framed (enc_answer cd (fst (served cd m w))))) Read_Fails, snd (served cd m w))"
proof -
  obtain reply s where reply: "handled m w = Inr (reply, s)"
    using handled_returns [OF assms(1)] by blast
  have fit: "length (enc_request cd m) + 4 \<le> 8192" and dec: "dec_request cd (enc_request cd m) = Some m"
    using assms(3) by (simp_all add: carried_def BUFFER_SIZE_def)
  have "cut BUFFER_SIZE (framed (enc_request cd m)) = [framed (enc_request cd m)]"
    using fit by (intro cut_short) (simp add: BUFFER_SIZE_def)
  moreover have "framed (enc_request cd m) \<noteq> []" by (simp flip: length_0_conv)
  ultimately show ?thesis
    using assms(2) reply fit dec request_parse_framed [of "enc_request cd m" "dec_request cd"]
    by (simp add: tracker_answer_def conn_step_def handle_read_def handle_write_def BUFFER_SIZE_def listening_def
        new_connection_def RequestParser_init_def served_def handled_def parseIntoOstream_framed Let_def)
qed

interpretation tracker_service: node_service "on_tracker cd e" dialled "served cd" listening world_ok "carried cd"
  for cd e
proof
  fix w :: tracker_world and d
  assume "world_ok w"
  then show "lk_connect (ce_link (on_tracker cd e)) d w = (True, dialled w) \<and> world_ok (dialled w) \<and> listening (dialled w)"
    by (simp add: on_tracker_def tracker_dial_dialled world_ok_def)
next
  fix w :: tracker_world and m
  assume w: "world_ok w" "listening w" "carried cd m w"
  let ?reply = "fst (served cd m w)"
  have "world_ok (snd (served cd m w))"
    using handled_returns [OF w(1), of m] by (auto simp: served_def world_ok_def)
  with w show "\<exists>chunks body.
      lk_send (ce_link (on_tracker cd e)) (framed (ce_ser (on_tracker cd e) m)) w =
        (Received chunks Read_Fails, snd (served cd m w)) \<and>
      concat chunks = framed body \<and> length body < 2 ^ 31 \<and>
      ce_parse (on_tracker cd e) body = Some ?reply \<and> world_ok (snd (served cd m w))"
    by (intro exI [of _ "cut BUFFER_SIZE (framed (enc_answer cd ?reply))"] exI [of _ "enc_answer cd ?reply"])
      (simp add: on_tracker_def tracker_answer_served carried_def Let_def)
qed

subsection \<open>The connection after an answer\<close>

lemma served_closed: "world_ok w \<Longrightarrow> c_phase (tw_conn (snd (served cd m w))) = Closed"
  using handled_returns [of w m] by (auto simp: served_def)

lemma conn_run_closed: "c_phase c = Closed \<Longrightarrow> conn_run p q evs c s = Inr (c, s)"
  by (induction evs) (auto simp: conn_step_def)

lemma tracker_answer_closed:
  "c_phase (tw_conn w) = Closed \<Longrightarrow>
   tracker_answer cd bs w = (Received [] Read_Fails, w\<lparr>tw_now := Suc (tw_now w)\<rparr>)"
  by (simp add: tracker_answer_def conn_run_closed)

text \<open>A request in a session over a connection that the tracker has closed.\<close>

lemma command_on_closed:
  assumes "node_isLogged n" "nc_connection (nd_connection n) = Some c" "is_active c" "c_phase (tw_conn w) = Closed"
  shows "command (on_tracker cd e) m n w =
    (Returned NE_SEND_ERROR,
     n\<lparr>nd_connection := (nd_connection n)\<lparr>nc_connection := Some (stop_connection c)\<rparr>\<rparr>, w\<lparr>tw_now := Suc (tw_now w)\<rparr>)"
  using assms
  by (simp add: command_def with_session_def beforeMessage_def connect_node_def nc_connect_def nc_isActive_def
      exchange_def sendRequest_def on_tracker_def tracker_answer_closed any_def)

text \<open>What the tracker hears: the environment \<open>k\<close> events later, with the client's address.\<close>

definition hears :: "tracker_world \<Rightarrow> nat \<Rightarrow> env" where
  "hears w k = (tw_envs w (tw_now w + k))\<lparr>env_addr := tw_address w\<rparr>"

lemma handled_dialled: "handled m (dialled w) = handleRequest (hears w 1) m (tw_tracker w)"
  by (simp add: handled_def hears_def)

lemma served_simps:
  assumes "handled m w = Inr (reply, s)"
  shows "fst (served cd m w) = reply" "tw_tracker (snd (served cd m w)) = s"
    "hears (snd (served cd m w)) k = hears w (Suc k)"
  using assms by (simp_all add: served_def hears_def)

lemma hears_dialled: "hears (dialled w) k = hears w (Suc k)"
  by (simp add: hears_def dialled_def)

lemma served_world_ok: "world_ok w \<Longrightarrow> world_ok (snd (served cd m w))"
  using handled_returns [of w m] by (auto simp: served_def world_ok_def)

lemma world_ok_dialled [simp]: "world_ok (dialled w) = world_ok w"
  by (simp add: world_ok_def)

lemma first_key_on_tracker [simp]: "first_key (on_tracker cd e) n = first_key e n"
  by (simp add: first_key_def on_tracker_def split: list.split prod.split)

lemma op_message_on_tracker [simp]: "op_message (on_tracker cd e) op n = op_message e op n"
  by (cases op) (simp_all add: on_tracker_def first_key_on_tracker [unfolded on_tracker_def] split: option.split call.split)

lemma on_tracker_simps [simp]:
  "ce_resolves (on_tracker cd e) = ce_resolves e" "ce_botan (on_tracker cd e) = ce_botan e" "ce_files (on_tracker cd e) = ce_files e"
  "ce_pkcs10 (on_tracker cd e) = ce_pkcs10 e"
  by (simp_all add: on_tracker_def)

text \<open>The cookie a request of an operation carries.\<close>

definition session_cookie :: "client_op \<Rightarrow> node \<Rightarrow> string" where
  "session_cookie op n = (if op = Op_logIn \<or> op = Op_registerUser then [] else cookie n)"

lemma cookie_of_op: "op_message e op n = Some m \<Longrightarrow> cookie_of m = session_cookie op n"
  by (cases op) (auto simp: session_cookie_def cookie_of_def message_defs request_def new_request_def split: if_splits call.splits option.splits)

text \<open>What the tracker makes of the messages of a registration and of the login that follows it.\<close>

lemma account_messages_run:
  assumes work: "working (tw_tracker w)"
    and m: "m = getRegisterUserMessage u key" and m': "m' = getLoginMessage (us_username u) (mu_password u)"
    and fresh: "stored_password (t_db (tw_tracker w)) (us_username u) = None" "us_username u \<noteq> ''''"
      "length (us_username u) \<le> 30" "word_like (us_username u)"
    and hash: "word_like (env_hash (hears w 1) (mu_password u))" "length (env_hash (hears w 1) (mu_password u)) \<le> 70"
      "env_check (hears w 3) (mu_password u) (env_hash (hears w 1) (mu_password u))"
    and cert: "x = signCertyficate (env_ca (hears w 1)) (env_now (hears w 1)) key" "x \<noteq> ''''"
  obtains s1 s2 where
    "handleRequest (hears w 1) m (tw_tracker w) = Inr (registerResponse x (env_cert (hears w 1)), s1)"
    "handleRequest (hears w 3) m' s1 =
       Inr (loginResponse (getRandomString (env_rand (hears w 3)) COOKIE_LEN) ''notimplementedyet'', s2)"
    "caller s2 (getRandomString (env_rand (hears w 3)) COOKIE_LEN) = us_username u"
proof -
  have "request m = REGISTER" "register_message m = Some \<lparr>reg_username = Some (us_username u),
      reg_password = Some (mu_password u), reg_public_key = Some key\<rparr>"
    "request m' = LOGIN" "login_message m' = Some \<lparr>lg_username = Some (us_username u), lg_password = Some (mu_password u)\<rparr>"
    by (simp_all add: m m' getRegisterUserMessage_def getLoginMessage_def request_def new_request_def)
  from register_login_runs [OF work this fresh hash cert(2) [unfolded cert(1)]]
  show thesis using that unfolding cert(1) by blast
qed

text \<open>The worlds after them.\<close>

lemma second_exchange:
  assumes "handleRequest (hears w 1) m (tw_tracker w) = Inr (r, s1)" "handleRequest (hears w 3) m' s1 = Inr (r', s2)"
    and "served cd m (dialled w) = (a, w1)" "served cd m' (dialled w1) = (a', w2)"
  shows "a = r" "a' = r'" "tw_tracker w2 = s2"
proof -
  note one = assms(1) [folded handled_dialled]
  have w1: "w1 = snd (served cd m (dialled w))" using assms(3) by simp
  have "hears w1 1 = hears (dialled w) (Suc 1)"
    using served_simps(3) [OF one] by (simp add: w1)
  then have "handled m' (dialled w1) = Inr (r', s2)"
    using assms(2) served_simps(2) [OF one] by (simp add: w1 handled_dialled hears_dialled flip: numeral_3_eq_3)
  from served_simps(1,2) [OF this, of cd] served_simps(1) [OF one, of cd] assms(3,4)
  show "a = r" "a' = r'" "tw_tracker w2 = s2" by simp_all
qed

end
