(* ===== verification/Tracker_Startup.thy ===== *)
theory Tracker_Startup
  imports Tracker_Wire Std_Text
begin

text \<open>
  How the tracker starts (\<^verbatim>\<open>main.cpp\<close>, the constructor of \<^verbatim>\<open>PsqlConnector\<close>, \<^verbatim>\<open>utils::init_ca\<close>, the constructor and
  \<^verbatim>\<open>run\<close> of \<^verbatim>\<open>Server\<close>), and the thread that should end old sessions (\<^verbatim>\<open>SessionControler::startDaemon\<close>,
  \<^verbatim>\<open>stopDaemon\<close>, \<^verbatim>\<open>daemonFunction\<close>). Files, Botan, the database, the resolver, the sockets and the number of
  threads the operating system grants are the parameter \<open>host\<close>.
\<close>

subsection \<open>Numbers in columns\<close>

definition toInt :: "string \<Rightarrow> int option" where
  "toInt ref = stoi (toString ref)"

text \<open>So the port of a server comes back from the text in which the database hands it over.\<close>

lemma word_like_digits: "c \<in> set (digits n) \<Longrightarrow> \<not> is_space c"
  using set_digits [of c n] by (auto simp: is_digit_def is_space_def)

lemma toInt_column: "toInt (int_text (sint (p :: int32))) = Some (sint p)"
proof -
  have "word_like (int_text (sint p))"
    using word_like_digits by (auto simp: word_like_def int_text_def) (simp add: is_space_def)
  moreover have "- (2 ^ 31) \<le> sint p" "sint p < 2 ^ 31"
    using sint_greater_eq [of p] sint_less [of p] by simp_all
  ultimately show ?thesis by (simp add: toInt_def stoi_int_text)
qed

subsection \<open>Configuration\<close>

definition CERT_PATH :: string where "CERT_PATH = ''server.crt''"
definition PRIV_KEY_PATH :: string where "PRIV_KEY_PATH = ''server.prv''"
definition DH_FILE_PATH :: string where "DH_FILE_PATH = ''dh512.pem''"

definition ADDRESS :: string where "ADDRESS = ''127.0.0.1''"
definition PORT :: string where "PORT = ''5432''"
definition USER :: string where "USER = ''ciemny''"
definition PASSWORD :: string where "PASSWORD = ''''"
definition DATABASE :: string where "DATABASE = ''sp2p''"

text \<open>What \<^verbatim>\<open>PsqlConnector\<close> hands to the database's library.\<close>

definition connection_config :: "string \<Rightarrow> string \<Rightarrow> string \<Rightarrow> string \<Rightarrow> string \<Rightarrow> string" where
  "connection_config dbName dbUser dbPassword dbAdress dbPort =
     ''dbname='' @ dbName @ '' '' @ ''user='' @ dbUser @ '' '' @ ''password='' @ dbPassword @ '' '' @
     ''hostaddr='' @ dbAdress @ '' '' @ ''port='' @ dbPort"

record 'ep host =
  hs_password :: string
  hs_ca :: "string \<Rightarrow> string \<Rightarrow> string \<Rightarrow> (string \<times> authority) option"
  hs_database :: "string \<Rightarrow> db option"
  hs_tls :: "string \<Rightarrow> string \<Rightarrow> string \<Rightarrow> bool"
  hs_resolve :: "string \<Rightarrow> string \<Rightarrow> 'ep option"
  hs_listen :: "'ep \<Rightarrow> bool"
  hs_threads :: nat

text \<open>\<open>init_ca\<close> reads the key's password, the certificate and the key, and yields the text of the
  certificate and the authority.\<close>

definition init_ca :: "'ep host \<Rightarrow> string \<Rightarrow> string \<Rightarrow> (string \<times> authority) option" where
  "init_ca h certPath privateKeyPath = hs_ca h certPath privateKeyPath (toString (hs_password h))"

definition new_PsqlConnector :: "'ep host \<Rightarrow> string \<Rightarrow> string \<Rightarrow> string \<Rightarrow> string \<Rightarrow> string \<Rightarrow> db option" where
  "new_PsqlConnector h dbName dbUser dbPassword dbAdress dbPort =
     hs_database h (connection_config dbName dbUser dbPassword dbAdress dbPort)"

subsection \<open>The server\<close>

record 'ep listener =
  ls_thread_pool_size :: "64 word"
  ls_endpoint :: 'ep
  ls_accepting :: bool

definition start_accept :: "'ep listener \<Rightarrow> 'ep listener" where
  "start_accept sv = sv\<lparr>ls_accepting := True\<rparr>"

definition new_Server :: "'ep host \<Rightarrow> string \<Rightarrow> string \<Rightarrow> 64 word \<Rightarrow> 'ep listener option" where
  "new_Server h address port thread_pool_size =
     (if \<not> hs_tls h CERT_PATH PRIV_KEY_PATH DH_FILE_PATH then None
      else case hs_resolve h address port of
             None \<Rightarrow> None
           | Some ep \<Rightarrow>
               if hs_listen h ep
               then Some (start_accept \<lparr>ls_thread_pool_size = thread_pool_size, ls_endpoint = ep, ls_accepting = False\<rparr>)
               else None)"

text \<open>The end of an accept: the waiting connection starts when there was no error, and the next one is
  awaited, unless the start throws.\<close>

definition handle_accept ::
  "bool \<Rightarrow> nat \<Rightarrow> string option \<Rightarrow> 'ep listener \<Rightarrow> (nat \<Rightarrow> connection option) \<Rightarrow>
   cpp_error + 'ep listener \<times> (nat \<Rightarrow> connection option)" where
  "handle_accept e i peer sv cs =
     (let sv' = sv\<lparr>ls_accepting := False\<rparr>
      in if e then Inr (start_accept sv', cs)
         else case connection_start peer of
                Inl x \<Rightarrow> Inl x
              | Inr c \<Rightarrow> Inr (start_accept sv', cs(i \<mapsto> c)))"

text \<open>The end of an accept is the server's event, and unless it throws the server goes on accepting.\<close>

lemma handle_accept_step:
  assumes "cs i = None"
  shows "(case handle_accept e i peer sv cs of
      Inl x \<Rightarrow> server_do p q (Accept_Done e i peer) (cs, s) = Inl x
    | Inr (sv', cs') \<Rightarrow> ls_accepting sv' \<and> server_do p q (Accept_Done e i peer) (cs, s) = Inr (cs', s))"
  using assms by (auto simp: handle_accept_def start_accept_def split: sum.split)

text \<open>\<open>run\<close> makes the threads, one of which may be refused, and waits for them. A thread leaves \<^verbatim>\<open>io_service::run\<close>
  when nothing is awaited, so at once unless an accept is; \<open>handle_accept\<close> then always awaits the next one.\<close>

datatype run_result = Run_Throws | Run_Returns | Run_Serves

definition run_server :: "'ep host \<Rightarrow> 'ep listener \<Rightarrow> run_result" where
  "run_server h sv =
     (if hs_threads h < unat (ls_thread_pool_size sv) then Run_Throws
      else if unat (ls_thread_pool_size sv) = 0 \<or> \<not> ls_accepting sv then Run_Returns
      else Run_Serves)"

subsection \<open>The program\<close>

datatype 'ep program =
    Usage
  | Failed
  | Finished
  | Serving 'ep "64 word" tracker string authority

text \<open>\<open>argv\<close> starts with the name of the program. Every exception ends in the one handler of \<^verbatim>\<open>main\<close>.\<close>

definition tracker_main :: "'ep host \<Rightarrow> string list \<Rightarrow> 'ep program" where
  "tracker_main h argv =
     (if length argv \<noteq> 4 then Usage
      else case init_ca h CERT_PATH PRIV_KEY_PATH of
             None \<Rightarrow> Failed
           | Some (nodeCert, ca) \<Rightarrow>
               (case new_PsqlConnector h DATABASE USER PASSWORD ADDRESS PORT of
                  None \<Rightarrow> Failed
                | Some d \<Rightarrow>
                    (case stoi (argv ! 3) of
                       None \<Rightarrow> Failed
                     | Some threads \<Rightarrow>
                         (case new_Server h (argv ! 1) (argv ! 2) (word_of_int threads) of
                            None \<Rightarrow> Failed
                          | Some sv \<Rightarrow>
                              (case run_server h sv of
                                 Run_Throws \<Rightarrow> Failed
                               | Run_Returns \<Rightarrow> Finished
                               | Run_Serves \<Rightarrow>
                                   Serving (ls_endpoint sv) (ls_thread_pool_size sv) \<lparr>t_db = d, t_sess = new_session\<rparr>
                                     nodeCert ca)))))"

text \<open>The status the program returns with, if it returns.\<close>

fun exit_status :: "'ep program \<Rightarrow> int option" where
  "exit_status Usage = Some 1"
| "exit_status Failed = Some 0"
| "exit_status Finished = Some 0"
| "exit_status (Serving _ _ _ _ _) = None"

text \<open>A number of threads as the server sees it: a negative one becomes huge.\<close>

lemma pool_size: "0 \<le> n \<Longrightarrow> n < 2 ^ 31 \<Longrightarrow> unat (word_of_int n :: 64 word) = nat n"
  by (simp add: unsigned_of_int take_bit_int_eq_self)

lemma pool_size_negative: "- (2 ^ 31) \<le> n \<Longrightarrow> n < 0 \<Longrightarrow> 2 ^ 63 < unat (word_of_int n :: 64 word)"
proof -
  assume n: "- (2 ^ 31) \<le> n" "n < 0"
  have "n mod 2 ^ 64 = n + 2 ^ 64"
    using n mod_pos_pos_trivial [of "n + 2 ^ 64" "2 ^ 64"] by simp
  then show ?thesis using n by (simp add: unsigned_of_int take_bit_eq_mod)
qed

subsection \<open>The daemon of the sessions\<close>

text \<open>The threads that \<open>startDaemon\<close> makes are temporary objects that let go of them; the member \<^verbatim>\<open>daemon\<close>, which
  \<open>stopDaemon\<close> interrupts, stays without a thread. \<open>dm_running\<close> is uninitialised at first.\<close>

record daemon_thread =
  dt_refresheRate :: int64
  dt_ttl :: int64
  dt_interrupted :: bool

record daemons =
  dm_threads :: "daemon_thread list"
  dm_daemon :: "nat option"
  dm_running :: bool

definition no_daemons :: "bool \<Rightarrow> daemons" where
  "no_daemons indet = \<lparr>dm_threads = [], dm_daemon = None, dm_running = indet\<rparr>"

definition startDaemon :: "int64 \<Rightarrow> int64 \<Rightarrow> daemons \<Rightarrow> bool \<times> daemons" where
  "startDaemon refresheRate ttl d =
     (True, d\<lparr>dm_threads := dm_threads d @ [\<lparr>dt_refresheRate = refresheRate, dt_ttl = ttl, dt_interrupted = False\<rparr>],
              dm_running := True\<rparr>)"

definition interrupt :: "nat option \<Rightarrow> daemon_thread list \<Rightarrow> daemon_thread list" where
  "interrupt th ts = (case th of None \<Rightarrow> ts | Some i \<Rightarrow> ts[i := (ts ! i)\<lparr>dt_interrupted := True\<rparr>])"

definition stopDaemon :: "daemons \<Rightarrow> bool \<times> daemons" where
  "stopDaemon d = (True, d\<lparr>dm_threads := interrupt (dm_daemon d) (dm_threads d), dm_running := False\<rparr>)"

definition daemonRunning :: "daemons \<Rightarrow> bool" where
  "daemonRunning d = dm_running d"

text \<open>The loop of a daemon over what ends its sleeps: the time at which it wakes up, by itself or
  interrupted. The first component says whether the function has returned.\<close>

datatype wake_up = Slept int64 | Interrupted int64

fun daemonFunction :: "int64 \<Rightarrow> wake_up list \<Rightarrow> session \<Rightarrow> cpp_error + bool \<times> session" where
  "daemonFunction ttl [] s = Inr (False, s)"
| "daemonFunction ttl (Slept now # es) s =
     (case daemon_tick now ttl s of Inl x \<Rightarrow> Inl x | Inr s' \<Rightarrow> daemonFunction ttl es s')"
| "daemonFunction ttl (Interrupted now # es) s =
     (case daemon_tick now ttl s of Inl x \<Rightarrow> Inl x | Inr s' \<Rightarrow> Inr (True, s'))"

text \<open>Any calls of the two operations.\<close>

datatype daemon_request = Call_Start int64 int64 | Call_Stop

fun daemon_call :: "daemon_request \<Rightarrow> daemons \<Rightarrow> daemons" where
  "daemon_call (Call_Start rate ttl) d = snd (startDaemon rate ttl d)"
| "daemon_call Call_Stop d = snd (stopDaemon d)"

fun is_start :: "daemon_request \<Rightarrow> bool" where
  "is_start (Call_Start _ _) = True"
| "is_start Call_Stop = False"

lemma daemon_calls_threads:
  assumes "dm_daemon d = None" "\<forall>t \<in> set (dm_threads d). \<not> dt_interrupted t"
  shows "dm_daemon (fold daemon_call cs d) = None"
    "\<forall>t \<in> set (dm_threads (fold daemon_call cs d)). \<not> dt_interrupted t"
    "length (dm_threads (fold daemon_call cs d)) = length (dm_threads d) + length (filter is_start cs)"
proof -
  have step: "dm_daemon (daemon_call x d) = None \<and> (\<forall>t \<in> set (dm_threads (daemon_call x d)). \<not> dt_interrupted t) \<and>
      length (dm_threads (daemon_call x d)) = length (dm_threads d) + (if is_start x then 1 else 0)"
    if "dm_daemon d = None" "\<forall>t \<in> set (dm_threads d). \<not> dt_interrupted t" for d x
    using that by (cases x) (auto simp: startDaemon_def stopDaemon_def interrupt_def)
  have "dm_daemon (fold daemon_call cs d) = None \<and>
    (\<forall>t \<in> set (dm_threads (fold daemon_call cs d)). \<not> dt_interrupted t) \<and>
    length (dm_threads (fold daemon_call cs d)) = length (dm_threads d) + length (filter is_start cs)"
    using assms
  proof (induction cs arbitrary: d)
    case (Cons x cs)
    from step [OF Cons.prems, of x] Cons.IH [of "daemon_call x d"] show ?case by auto
  qed simp
  then show "dm_daemon (fold daemon_call cs d) = None"
    "\<forall>t \<in> set (dm_threads (fold daemon_call cs d)). \<not> dt_interrupted t"
    "length (dm_threads (fold daemon_call cs d)) = length (dm_threads d) + length (filter is_start cs)" by simp_all
qed

text \<open>A daemon that nobody interrupts never returns, and changes nothing as long as it does not run into
  undefined behaviour.\<close>

lemma daemonFunction_slept:
  assumes "\<And>now. daemon_tick now ttl s = Inl Undefined_Behaviour \<or> daemon_tick now ttl s = Inr s"
  shows "daemonFunction ttl (map Slept ts) s \<in> {Inl Undefined_Behaviour, Inr (False, s)}"
proof (induction ts)
  case (Cons t ts)
  then show ?case using assms [of t] by auto
qed simp

end
