(* ===== verification/Tracker_Program.thy ===== *)
theory Tracker_Program
  imports Tracker_Startup Tracker_Channel
begin

text \<open>
  The properties of the tracker as a program: when it serves, and what becomes of its session daemon.
\<close>

definition ex_host :: "string host" where
  "ex_host =
     \<lparr>hs_password = ''secret'', hs_ca = (\<lambda>c k pw. if pw = ''secret'' then Some (''cert'', \<lambda>r a b. None) else None),
      hs_database = (\<lambda>config. Some (t_db ex_tracker)), hs_tls = (\<lambda>c k d. True),
      hs_resolve = (\<lambda>a p. Some (a @ CHR '':'' # p)), hs_listen = (\<lambda>ep. True), hs_threads = 1000\<rparr>"

subsection \<open>When the tracker serves\<close>

text \<open>C25. On a host where the certificates, the database, the address and the socket are fine, the tracker
  started with an address, a port and a number serves exactly when the number is positive and not
  more than the threads the system grants. It then starts with that database, in a well-formed state. With 0
  threads it ends at once; a negative number becomes a number of threads above $2^{63}$ and the program
  ends after an exception, which it reports to the system as success.\<close>

theorem tracker_serves_iff:
  assumes "init_ca h CERT_PATH PRIV_KEY_PATH = Some (cert, ca)"
    and "new_PsqlConnector h DATABASE USER PASSWORD ADDRESS PORT = Some d" "db_ok d"
    and "hs_tls h CERT_PATH PRIV_KEY_PATH DH_FILE_PATH" "hs_resolve h ip port = Some ep" "hs_listen h ep"
    and "stoi arg = Some n" "hs_threads h \<le> 2 ^ 63"
  shows "let p = tracker_main h [prog, ip, port, arg]
    in (exit_status p = None \<longleftrightarrow> 0 < n \<and> nat n \<le> hs_threads h) \<and>
       (0 < n \<and> nat n \<le> hs_threads h \<longrightarrow>
          (\<exists>s. p = Serving ep (word_of_int n) s cert ca \<and> t_db s = d \<and> tracker_ok s)) \<and>
       (n = 0 \<longrightarrow> p = Finished) \<and> (n < 0 \<longrightarrow> p = Failed \<and> exit_status p = Some 0)"
proof -
  have n: "- (2 ^ 31) \<le> n" "n < 2 ^ 31" using stoi_bounds [OF assms(7)] by simp_all
  let ?sv = "start_accept \<lparr>ls_thread_pool_size = word_of_int n, ls_endpoint = ep, ls_accepting = False\<rparr>"
  have sv: "new_Server h ip port (word_of_int n) = Some ?sv" using assms(4-6) by (simp add: new_Server_def)
  have ls: "ls_thread_pool_size ?sv = word_of_int n" "ls_endpoint ?sv = ep" "ls_accepting ?sv" by (simp_all add: start_accept_def)
  have ok: "tracker_ok \<lparr>t_db = d, t_sess = new_session\<rparr>"
    using assms(3) by (simp add: tracker_ok_def session_ok_new)
  have main: "tracker_main h [prog, ip, port, arg] =
      (case run_server h ?sv of
         Run_Throws \<Rightarrow> Failed | Run_Returns \<Rightarrow> Finished
       | Run_Serves \<Rightarrow> Serving ep (word_of_int n) \<lparr>t_db = d, t_sess = new_session\<rparr> cert ca)"
    using assms(1,2,7) sv by (simp add: tracker_main_def ls split: run_result.split)
  show ?thesis
  proof (cases "n < 0")
    case True
    then have "run_server h ?sv = Run_Throws"
      using pool_size_negative [OF n(1)] assms(8) by (simp add: run_server_def ls)
    then show ?thesis using True by (simp add: main)
  next
    case False
    then have "run_server h ?sv = (if hs_threads h < nat n then Run_Throws else if n = 0 then Run_Returns else Run_Serves)"
      using pool_size [of n] n(2) by (auto simp: run_server_def ls)
    then show ?thesis using False ok by (auto simp: main)
  qed
qed

theorem tracker_serves_iff_witness:
  "(\<exists>s. tracker_main ex_host [''tracker'', ''10.0.0.1'', ''1234'', ''4''] =
      Serving ''10.0.0.1:1234'' 4 s ''cert'' (\<lambda>r a b. None) \<and> tracker_ok s) \<and>
   exit_status (tracker_main ex_host [''tracker'', ''10.0.0.1'', ''1234'', ''-4'']) = Some 0"
proof -
  have db: "db_ok (t_db ex_tracker)" using working_ex by (simp add: working_def tracker_ok_def)
  have four: "stoi ''4'' = Some 4" "stoi ''-4'' = Some (-4)" by code_simp+
  have ca: "init_ca ex_host CERT_PATH PRIV_KEY_PATH = Some (''cert'', \<lambda>r a b. None)"
    by (simp add: init_ca_def ex_host_def toString_def is_space_def)
  show ?thesis
    using tracker_serves_iff [of ex_host "''cert''" "\<lambda>r a b. None" "t_db ex_tracker" "''10.0.0.1''" "''1234''" "''10.0.0.1:1234''"
        "''4''" 4 "''tracker''", OF ca _ db _ _ _ four(1)]
      tracker_serves_iff [of ex_host "''cert''" "\<lambda>r a b. None" "t_db ex_tracker" "''10.0.0.1''" "''1234''" "''10.0.0.1:1234''"
        "''-4''" "-4" "''tracker''", OF ca _ db _ _ _ four(2)]
    by (auto simp: ex_host_def new_PsqlConnector_def Let_def)
qed

subsection \<open>The daemon of the sessions\<close>

text \<open>C19. Whatever calls of \<^verbatim>\<open>startDaemon\<close> and \<^verbatim>\<open>stopDaemon\<close> are made, there are as many daemons as there were
  starts and none has been interrupted, also after a \<^verbatim>\<open>stopDaemon\<close>, when \<^verbatim>\<open>daemonRunning\<close> says there is
  none. Each goes on for ever, however often it wakes up, and removes no session: it leaves them
  all, or runs into undefined behaviour.\<close>

theorem stopped_daemon_goes_on:
  "let d = snd (stopDaemon (fold daemon_call cs (no_daemons indet)))
   in \<not> daemonRunning d \<and> length (dm_threads d) = length (filter is_start cs) \<and>
      (\<forall>t \<in> set (dm_threads d). \<not> dt_interrupted t) \<and>
      daemonFunction ttl (map Slept ts) s \<in> {Inl Undefined_Behaviour, Inr (False, s)}"
proof -
  let ?d = "fold daemon_call cs (no_daemons indet)"
  have "dm_daemon (no_daemons indet) = None" "\<forall>t \<in> set (dm_threads (no_daemons indet)). \<not> dt_interrupted t"
    by (simp_all add: no_daemons_def)
  note run = daemon_calls_threads [OF this, of cs]
  have "daemon_tick now ttl s = Inl Undefined_Behaviour \<or> daemon_tick now ttl s = Inr s" for now
    by (simp add: daemon_never_removes_a_session)
  from daemonFunction_slept [OF this, of ts]
  show ?thesis
    using run by (auto simp: stopDaemon_def daemonRunning_def interrupt_def no_daemons_def Let_def)
qed

theorem stopped_daemon_goes_on_witness:
  "let d = snd (stopDaemon (fold daemon_call [Call_Start 1000 60000] (no_daemons True)))
   in \<not> daemonRunning d \<and> length (dm_threads d) = 1"
  using stopped_daemon_goes_on [of "[Call_Start 1000 60000]" True 0 "[]" new_session] by (simp add: Let_def)

end
