(* ===== verification/Client_Data.thy ===== *)
theory Client_Data
  imports Client_Stores
begin

text \<open>
  Saving and loading (\<^verbatim>\<open>sercli/src/data.cpp\<close>): the items that sinks write and sources read, plain and
  encrypted files. The text archive of boost and the algorithms of Botan
  are parameters. A file is its text; the file system is a map from names.
\<close>

subsection \<open>Items\<close>

datatype item =
    I_Text string
  | I_Node NodeDescription MyUser
  | I_Network NetworkDescription
  | I_Nodes "NodeDescription list"
  | I_Networks "NetworkDescription list"

text \<open>\<^verbatim>\<open>Node::save\<close> and \<^verbatim>\<open>Network::save\<close> write the descriptions and the user only.\<close>

record archive_format =
  af_text :: "item list \<Rightarrow> string"
  af_items :: "string \<Rightarrow> item list option"

text \<open>An archive that is read: the items still to come. Reading past the end, or reading another kind of
  object, throws (\<^verbatim>\<open>None\<close>).\<close>

fun read_text :: "item list \<Rightarrow> (string \<times> item list) option" where
  "read_text (I_Text s # src) = Some (s, src)"
| "read_text _ = None"

fun read_node :: "item list \<Rightarrow> ((NodeDescription \<times> MyUser) \<times> item list) option" where
  "read_node (I_Node d u # src) = Some ((d, u), src)"
| "read_node _ = None"

fun read_network_item :: "item list \<Rightarrow> (NetworkDescription \<times> item list) option" where
  "read_network_item (I_Network d # src) = Some (d, src)"
| "read_network_item _ = None"

fun read_nodes :: "item list \<Rightarrow> (NodeDescription list \<times> item list) option" where
  "read_nodes (I_Nodes ds # src) = Some (ds, src)"
| "read_nodes _ = None"

fun read_network_vector :: "item list \<Rightarrow> (NetworkDescription list \<times> item list) option" where
  "read_network_vector (I_Networks ds # src) = Some (ds, src)"
| "read_network_vector _ = None"

subsection \<open>Encrypted files\<close>

text \<open>Botan: the key derivation from a length, a passphrase and a salt, the cipher with padding, the
  authentication code and base 64, without line breaks for the salt; \<open>breaks\<close> adds them for the rest.\<close>

record crypto =
  cy_derive :: "nat \<Rightarrow> string \<Rightarrow> string \<Rightarrow> string"
  cy_encrypt :: "string \<Rightarrow> string \<Rightarrow> string \<Rightarrow> string"
  cy_decrypt :: "string \<Rightarrow> string \<Rightarrow> string \<Rightarrow> string option"
  cy_mac :: "string \<Rightarrow> string \<Rightarrow> string"
  cy_base64 :: "string \<Rightarrow> string"
  cy_unbase64 :: "string \<Rightarrow> string option"
  cy_breaks :: "string \<Rightarrow> string"

definition nl :: char where "nl = CHR 0x0A"

definition getline :: "string \<Rightarrow> string \<times> string" where
  "getline s = (takeWhile (\<lambda>c. c \<noteq> nl) s, tl (dropWhile (\<lambda>c. c \<noteq> nl) s))"

lemma getline_line [simp]: "nl \<notin> set l \<Longrightarrow> getline (l @ nl # s) = (l, s)"
proof -
  assume l: "nl \<notin> set l"
  have "takeWhile (\<lambda>c. c \<noteq> nl) (l @ nl # s) = l"
    using l by (induction l) auto
  moreover have "dropWhile (\<lambda>c. c \<noteq> nl) (l @ nl # s) = nl # s"
    using l by (induction l) auto
  ultimately show ?thesis by (simp add: getline_def)
qed

definition FILE_HEADER :: string where "FILE_HEADER = ''-------- ENCRYPTED FILE --------''"

definition ALGORITHM :: string where "ALGORITHM = ''AES-256''"

definition key_len :: nat where "key_len = 32"
definition iv_len :: nat where "iv_len = 16"

text \<open>The destructor of \<^verbatim>\<open>EncryptedSink\<close> writes the file.\<close>

definition encrypted_file :: "crypto \<Rightarrow> string \<Rightarrow> string \<Rightarrow> string \<Rightarrow> string" where
  "encrypted_file cy salt password content =
     (let symKey = cy_derive cy key_len (''BLK'' @ password) salt;
          iv = cy_derive cy iv_len (''IVL'' @ password) salt;
          macKey = cy_derive cy 16 (''MAC'' @ password) salt
      in FILE_HEADER @ [nl] @ ALGORITHM @ [nl] @ cy_base64 cy salt @ [nl] @
         cy_breaks cy (cy_base64 cy (cy_mac cy macKey content)) @ [nl] @
         cy_breaks cy (cy_base64 cy (cy_encrypt cy symKey iv content)))"

text \<open>The constructor of \<^verbatim>\<open>EncryptedSource\<close>: four lines, then the ciphertext. It computes the code of what
  it has read, but compares it with nothing. \<^verbatim>\<open>None\<close>: Botan throws. A salt without a byte is read out
  of its bounds.\<close>

definition read_encrypted :: "crypto \<Rightarrow> string \<Rightarrow> string \<Rightarrow> string option" where
  "read_encrypted cy password file =
     (let (header, r1) = getline file; (algo, r2) = getline r1; (salt_str, r3) = getline r2;
          (mac_str, r4) = getline r3
      in case cy_unbase64 cy salt_str of
           None \<Rightarrow> None
         | Some salt \<Rightarrow>
             (let symKey = cy_derive cy key_len (''BLK'' @ password) salt;
                  iv = cy_derive cy iv_len (''IVL'' @ password) salt
              in case cy_unbase64 cy r4 of
                   None \<Rightarrow> None
                 | Some c \<Rightarrow> cy_decrypt cy symKey iv c))"

text \<open>What Botan's algorithms do: decoding skips line breaks, and the code of 20 bytes makes one line of
  base 64, which is ended by a line break.\<close>

definition crypto_ok :: "crypto \<Rightarrow> bool" where
  "crypto_ok cy \<longleftrightarrow>
     (\<forall>k iv s. cy_decrypt cy k iv (cy_encrypt cy k iv s) = Some s) \<and>
     (\<forall>s. cy_unbase64 cy (cy_base64 cy s) = Some s) \<and>
     (\<forall>s. cy_unbase64 cy (cy_breaks cy s) = cy_unbase64 cy s) \<and>
     (\<forall>s. cy_unbase64 cy (nl # s) = cy_unbase64 cy s) \<and>
     (\<forall>s. nl \<notin> set (cy_base64 cy s)) \<and>
     (\<forall>k s. cy_breaks cy (cy_base64 cy (cy_mac cy k s)) = cy_base64 cy (cy_mac cy k s) @ [nl])"

definition with_mac_line :: "crypto \<Rightarrow> string \<Rightarrow> string \<Rightarrow> string \<Rightarrow> string \<Rightarrow> string" where
  "with_mac_line cy salt password mac_line content =
     (let symKey = cy_derive cy key_len (''BLK'' @ password) salt;
          iv = cy_derive cy iv_len (''IVL'' @ password) salt
      in FILE_HEADER @ [nl] @ ALGORITHM @ [nl] @ cy_base64 cy salt @ [nl] @
         mac_line @ [nl, nl] @ cy_breaks cy (cy_base64 cy (cy_encrypt cy symKey iv content)))"

lemma encrypted_file_mac_line:
  "crypto_ok cy \<Longrightarrow> encrypted_file cy salt password content =
     with_mac_line cy salt password
       (cy_base64 cy (cy_mac cy (cy_derive cy 16 (''MAC'' @ password) salt) content)) content"
  by (simp add: encrypted_file_def with_mac_line_def crypto_ok_def Let_def)

lemma read_with_mac_line:
  assumes "crypto_ok cy" "nl \<notin> set mac_line"
  shows "read_encrypted cy password (with_mac_line cy salt password mac_line content) = Some content"
proof -
  have "nl \<notin> set FILE_HEADER" "nl \<notin> set ALGORITHM"
    by (simp_all add: nl_def FILE_HEADER_def ALGORITHM_def)
  moreover have "nl \<notin> set (cy_base64 cy salt)" using assms(1) by (simp add: crypto_ok_def)
  ultimately show ?thesis
    using assms by (simp add: read_encrypted_def with_mac_line_def Let_def crypto_ok_def)
qed

lemma read_encrypted_file:
  "crypto_ok cy \<Longrightarrow> read_encrypted cy password (encrypted_file cy salt password content) = Some content"
  by (subst encrypted_file_mac_line) (simp_all add: read_with_mac_line crypto_ok_def)

subsection \<open>Sinks\<close>

text \<open>An archive that is written keeps what has been put into it. The stream of a plain sink empties the
  file when it is opened; so does the stream \<^verbatim>\<open>ofs\<close> of an encrypted sink, which nothing is written to: the
  destructor opens the file again. A plain archive ends with its sink.\<close>

record BasicSink =
  bs_file :: string
  bs_oa :: "item list"

definition new_BasicSink :: "string \<Rightarrow> files \<Rightarrow> BasicSink \<times> files" where
  "new_BasicSink file fs = (\<lparr>bs_file = file, bs_oa = []\<rparr>, fs(file \<mapsto> ''''))"

definition basic_put_node :: "NodeDescription \<Rightarrow> MyUser \<Rightarrow> BasicSink \<Rightarrow> BasicSink" where
  "basic_put_node d u s = s\<lparr>bs_oa := bs_oa s @ [I_Node d u]\<rparr>"

definition basic_put_network :: "NetworkDescription \<Rightarrow> BasicSink \<Rightarrow> BasicSink" where
  "basic_put_network d s = s\<lparr>bs_oa := bs_oa s @ [I_Network d]\<rparr>"

definition basic_put_nodes :: "NodeDescription list \<Rightarrow> BasicSink \<Rightarrow> BasicSink" where
  "basic_put_nodes ds s = s\<lparr>bs_oa := bs_oa s @ [I_Nodes ds]\<rparr>"

definition basic_put_networks :: "NetworkDescription list \<Rightarrow> BasicSink \<Rightarrow> BasicSink" where
  "basic_put_networks ds s = s\<lparr>bs_oa := bs_oa s @ [I_Networks ds]\<rparr>"

definition basic_put_text :: "string \<Rightarrow> BasicSink \<Rightarrow> BasicSink" where
  "basic_put_text x s = s\<lparr>bs_oa := bs_oa s @ [I_Text x]\<rparr>"

definition end_BasicSink :: "archive_format \<Rightarrow> BasicSink \<Rightarrow> files \<Rightarrow> files" where
  "end_BasicSink af s fs = fs(bs_file s \<mapsto> af_text af (bs_oa s))"

record EncryptedSink =
  es_dataFile :: string
  es_password :: string
  es_oa :: "item list"

definition new_EncryptedSink :: "string \<Rightarrow> string \<Rightarrow> files \<Rightarrow> EncryptedSink \<times> files" where
  "new_EncryptedSink file password fs =
     (\<lparr>es_dataFile = file, es_password = password, es_oa = []\<rparr>, fs(file \<mapsto> ''''))"

definition encrypted_put_node :: "NodeDescription \<Rightarrow> MyUser \<Rightarrow> EncryptedSink \<Rightarrow> EncryptedSink" where
  "encrypted_put_node d u s = s\<lparr>es_oa := es_oa s @ [I_Node d u]\<rparr>"

definition encrypted_put_network :: "NetworkDescription \<Rightarrow> EncryptedSink \<Rightarrow> EncryptedSink" where
  "encrypted_put_network d s = s\<lparr>es_oa := es_oa s @ [I_Network d]\<rparr>"

definition encrypted_put_nodes :: "NodeDescription list \<Rightarrow> EncryptedSink \<Rightarrow> EncryptedSink" where
  "encrypted_put_nodes ds s = s\<lparr>es_oa := es_oa s @ [I_Nodes ds]\<rparr>"

definition encrypted_put_networks :: "NetworkDescription list \<Rightarrow> EncryptedSink \<Rightarrow> EncryptedSink" where
  "encrypted_put_networks ds s = s\<lparr>es_oa := es_oa s @ [I_Networks ds]\<rparr>"

definition encrypted_put_text :: "string \<Rightarrow> EncryptedSink \<Rightarrow> EncryptedSink" where
  "encrypted_put_text x s = s\<lparr>es_oa := es_oa s @ [I_Text x]\<rparr>"

definition end_EncryptedSink :: "archive_format \<Rightarrow> crypto \<Rightarrow> string \<Rightarrow> EncryptedSink \<Rightarrow> files \<Rightarrow> files" where
  "end_EncryptedSink af cy salt s fs =
     fs(es_dataFile s \<mapsto> encrypted_file cy salt (es_password s) (af_text af (es_oa s)))"

text \<open>A pointer to an \<^verbatim>\<open>AbstractSink\<close> calls the operators of the class it points to.\<close>

datatype sink = Basic_Sink BasicSink | Encrypted_Sink EncryptedSink

fun put_node :: "NodeDescription \<Rightarrow> MyUser \<Rightarrow> sink \<Rightarrow> sink" where
  "put_node d u (Basic_Sink s) = Basic_Sink (basic_put_node d u s)"
| "put_node d u (Encrypted_Sink s) = Encrypted_Sink (encrypted_put_node d u s)"

fun put_network :: "NetworkDescription \<Rightarrow> sink \<Rightarrow> sink" where
  "put_network d (Basic_Sink s) = Basic_Sink (basic_put_network d s)"
| "put_network d (Encrypted_Sink s) = Encrypted_Sink (encrypted_put_network d s)"

fun put_nodes :: "NodeDescription list \<Rightarrow> sink \<Rightarrow> sink" where
  "put_nodes ds (Basic_Sink s) = Basic_Sink (basic_put_nodes ds s)"
| "put_nodes ds (Encrypted_Sink s) = Encrypted_Sink (encrypted_put_nodes ds s)"

fun put_networks :: "NetworkDescription list \<Rightarrow> sink \<Rightarrow> sink" where
  "put_networks ds (Basic_Sink s) = Basic_Sink (basic_put_networks ds s)"
| "put_networks ds (Encrypted_Sink s) = Encrypted_Sink (encrypted_put_networks ds s)"

fun put_text :: "string \<Rightarrow> sink \<Rightarrow> sink" where
  "put_text x (Basic_Sink s) = Basic_Sink (basic_put_text x s)"
| "put_text x (Encrypted_Sink s) = Encrypted_Sink (encrypted_put_text x s)"

text \<open>The last pointer goes: the destructor. \<open>salt\<close> is the random salt of an encrypted sink.\<close>

fun end_sink :: "archive_format \<Rightarrow> crypto \<Rightarrow> string \<Rightarrow> sink \<Rightarrow> files \<Rightarrow> files" where
  "end_sink af cy salt (Basic_Sink s) fs = end_BasicSink af s fs"
| "end_sink af cy salt (Encrypted_Sink s) fs = end_EncryptedSink af cy salt s fs"

subsection \<open>What every sink promises\<close>

locale abstract_sink =
  fixes p_node :: "NodeDescription \<Rightarrow> MyUser \<Rightarrow> 's \<Rightarrow> 's"
    and p_network :: "NetworkDescription \<Rightarrow> 's \<Rightarrow> 's"
    and p_nodes :: "NodeDescription list \<Rightarrow> 's \<Rightarrow> 's"
    and p_networks :: "NetworkDescription list \<Rightarrow> 's \<Rightarrow> 's"
    and p_text :: "string \<Rightarrow> 's \<Rightarrow> 's"
    and content :: "'s \<Rightarrow> item list"
    and target :: "'s \<Rightarrow> 'k"
  assumes content_put [simp]:
    "content (p_node d u s) = content s @ [I_Node d u]" "content (p_network nd s) = content s @ [I_Network nd]"
    "content (p_nodes ds s) = content s @ [I_Nodes ds]" "content (p_networks nds s) = content s @ [I_Networks nds]"
    "content (p_text x s) = content s @ [I_Text x]"
    and target_put [simp]:
    "target (p_node d u s) = target s" "target (p_network nd s) = target s" "target (p_nodes ds s) = target s"
    "target (p_networks nds s) = target s" "target (p_text x s) = target s"
begin

text \<open>A loop over a map that puts something for each of its elements.\<close>

lemma content_loop:
  assumes "\<And>p s. content (f p s) = content s @ g p" "\<And>p s. target (f p s) = target s"
  shows "content (fold f ps s) = content s @ concat (map g ps)" "target (fold f ps s) = target s"
  using assms by (induction ps arbitrary: s) simp_all

end

definition sink_items :: "sink \<Rightarrow> item list" where
  "sink_items s = (case s of Basic_Sink b \<Rightarrow> bs_oa b | Encrypted_Sink e \<Rightarrow> es_oa e)"

definition sink_target :: "sink \<Rightarrow> string \<times> string option" where
  "sink_target s =
     (case s of Basic_Sink b \<Rightarrow> (bs_file b, None) | Encrypted_Sink e \<Rightarrow> (es_dataFile e, Some (es_password e)))"

lemmas sink_defs = basic_put_node_def basic_put_network_def basic_put_nodes_def basic_put_networks_def
  basic_put_text_def encrypted_put_node_def encrypted_put_network_def encrypted_put_nodes_def
  encrypted_put_networks_def encrypted_put_text_def

interpretation basic_sink: abstract_sink basic_put_node basic_put_network basic_put_nodes basic_put_networks
  basic_put_text bs_oa bs_file
  by unfold_locales (simp_all add: sink_defs)

interpretation encrypted_sink: abstract_sink encrypted_put_node encrypted_put_network encrypted_put_nodes
  encrypted_put_networks encrypted_put_text es_oa "\<lambda>s. (es_dataFile s, es_password s)"
  by unfold_locales (simp_all add: sink_defs)

lemma put_items:
  "sink_items (put_node d u s) = sink_items s @ [I_Node d u]" "sink_items (put_network nd s) = sink_items s @ [I_Network nd]"
  "sink_items (put_nodes ds s) = sink_items s @ [I_Nodes ds]" "sink_items (put_networks nds s) = sink_items s @ [I_Networks nds]"
  "sink_items (put_text x s) = sink_items s @ [I_Text x]"
  by (cases s; simp add: sink_items_def sink_defs)+

lemma put_target:
  "sink_target (put_node d u s) = sink_target s" "sink_target (put_network nd s) = sink_target s"
  "sink_target (put_nodes ds s) = sink_target s" "sink_target (put_networks nds s) = sink_target s"
  "sink_target (put_text x s) = sink_target s"
  by (cases s; simp add: sink_target_def sink_defs)+

interpretation any_sink: abstract_sink put_node put_network put_nodes put_networks put_text sink_items sink_target
  by unfold_locales (simp_all add: put_items put_target)

subsection \<open>Sources\<close>

text \<open>What keeps a source from being opened: no name of a file, or an exception of boost or Botan.\<close>

datatype source_error = No_File_Given | Unreadable

definition new_BasicSource :: "archive_format \<Rightarrow> string \<Rightarrow> files \<Rightarrow> item list option" where
  "new_BasicSource af file fs = (case fs file of None \<Rightarrow> None | Some content \<Rightarrow> af_items af content)"

definition new_EncryptedSource :: "archive_format \<Rightarrow> crypto \<Rightarrow> string \<Rightarrow> string \<Rightarrow> files \<Rightarrow> item list option" where
  "new_EncryptedSource af cy file password fs =
     (case fs file of
        None \<Rightarrow> None
      | Some content \<Rightarrow>
          (case read_encrypted cy password content of None \<Rightarrow> None | Some data \<Rightarrow> af_items af data))"

datatype source = Basic_Source "item list" | Encrypted_Source "item list"

definition with_archive :: "(item list \<Rightarrow> source) \<Rightarrow> ('a \<times> item list) option \<Rightarrow> ('a \<times> source) option" where
  "with_archive src r = map_option (\<lambda>(x, ia). (x, src ia)) r"

fun get_node :: "source \<Rightarrow> ((NodeDescription \<times> MyUser) \<times> source) option" where
  "get_node (Basic_Source ia) = with_archive Basic_Source (read_node ia)"
| "get_node (Encrypted_Source ia) = with_archive Encrypted_Source (read_node ia)"

fun get_network :: "source \<Rightarrow> (NetworkDescription \<times> source) option" where
  "get_network (Basic_Source ia) = with_archive Basic_Source (read_network_item ia)"
| "get_network (Encrypted_Source ia) = with_archive Encrypted_Source (read_network_item ia)"

fun get_nodes :: "source \<Rightarrow> (NodeDescription list \<times> source) option" where
  "get_nodes (Basic_Source ia) = with_archive Basic_Source (read_nodes ia)"
| "get_nodes (Encrypted_Source ia) = with_archive Encrypted_Source (read_nodes ia)"

fun get_networks :: "source \<Rightarrow> (NetworkDescription list \<times> source) option" where
  "get_networks (Basic_Source ia) = with_archive Basic_Source (read_network_vector ia)"
| "get_networks (Encrypted_Source ia) = with_archive Encrypted_Source (read_network_vector ia)"

fun get_text :: "source \<Rightarrow> (string \<times> source) option" where
  "get_text (Basic_Source ia) = with_archive Basic_Source (read_text ia)"
| "get_text (Encrypted_Source ia) = with_archive Encrypted_Source (read_text ia)"

subsection \<open>Data managers\<close>

text \<open>A \<^verbatim>\<open>DataManager\<close>, or a \<^verbatim>\<open>CryptDataManager\<close> with its password.\<close>

datatype protection = Plain | Encrypted string

record data_manager =
  dm_dataFile :: string
  dm_protection :: protection

definition basic_getSink :: "string \<Rightarrow> files \<Rightarrow> (sink \<times> files) option" where
  "basic_getSink file fs =
     (if file = '''' then None else Some (case new_BasicSink file fs of (s, fs') \<Rightarrow> (Basic_Sink s, fs')))"

definition crypt_getSink :: "string \<Rightarrow> string \<Rightarrow> files \<Rightarrow> (sink \<times> files) option" where
  "crypt_getSink password file fs =
     (if file = '''' then None
      else Some (case new_EncryptedSink file password fs of (s, fs') \<Rightarrow> (Encrypted_Sink s, fs')))"

definition getSink :: "data_manager \<Rightarrow> files \<Rightarrow> (sink \<times> files) option" where
  "getSink dm fs =
     (case dm_protection dm of
        Plain \<Rightarrow> basic_getSink (dm_dataFile dm) fs
      | Encrypted password \<Rightarrow> crypt_getSink password (dm_dataFile dm) fs)"

definition opened_source :: "(item list \<Rightarrow> source) \<Rightarrow> item list option \<Rightarrow> source_error + source" where
  "opened_source src r = (case r of None \<Rightarrow> Inl Unreadable | Some ia \<Rightarrow> Inr (src ia))"

definition basic_getSource :: "archive_format \<Rightarrow> string \<Rightarrow> files \<Rightarrow> source_error + source" where
  "basic_getSource af file fs =
     (if file = '''' then Inl No_File_Given else opened_source Basic_Source (new_BasicSource af file fs))"

definition crypt_getSource ::
  "archive_format \<Rightarrow> crypto \<Rightarrow> string \<Rightarrow> string \<Rightarrow> files \<Rightarrow> source_error + source" where
  "crypt_getSource af cy password file fs =
     (if file = '''' then Inl No_File_Given
      else opened_source Encrypted_Source (new_EncryptedSource af cy file password fs))"

definition getSource :: "archive_format \<Rightarrow> crypto \<Rightarrow> data_manager \<Rightarrow> files \<Rightarrow> source_error + source" where
  "getSource af cy dm fs =
     (case dm_protection dm of
        Plain \<Rightarrow> basic_getSource af (dm_dataFile dm) fs
      | Encrypted password \<Rightarrow> crypt_getSource af cy password (dm_dataFile dm) fs)"

definition setDataFile :: "string \<Rightarrow> data_manager \<Rightarrow> data_manager" where
  "setDataFile file dm = dm\<lparr>dm_dataFile := file\<rparr>"

definition setPassword :: "string \<Rightarrow> data_manager \<Rightarrow> data_manager" where
  "setPassword password dm = dm\<lparr>dm_protection := Encrypted password\<rparr>"

subsection \<open>Files that are written and read\<close>

definition written_file :: "archive_format \<Rightarrow> crypto \<Rightarrow> string \<Rightarrow> protection \<Rightarrow> item list \<Rightarrow> string" where
  "written_file af cy salt p items =
     (case p of
        Plain \<Rightarrow> af_text af items
      | Encrypted password \<Rightarrow> encrypted_file cy salt password (af_text af items))"

definition source_of :: "protection \<Rightarrow> item list \<Rightarrow> source" where
  "source_of p = (case p of Plain \<Rightarrow> Basic_Source | Encrypted _ \<Rightarrow> Encrypted_Source)"

lemma get_source_of [simp]:
  "get_node (source_of p (I_Node d u # ia)) = Some ((d, u), source_of p ia)"
  "get_network (source_of p (I_Network nd # ia)) = Some (nd, source_of p ia)"
  "get_nodes (source_of p (I_Nodes ds # ia)) = Some (ds, source_of p ia)"
  "get_networks (source_of p (I_Networks nds # ia)) = Some (nds, source_of p ia)"
  "get_text (source_of p (I_Text x # ia)) = Some (x, source_of p ia)"
  by (simp_all add: source_of_def with_archive_def split: protection.split)

text \<open>A new sink has nothing in it, and what it has at its end is what its file holds.\<close>

lemma getSink_Some:
  "getSink dm fs = (if dm_dataFile dm = '''' then None else
     Some (case dm_protection dm of
        Plain \<Rightarrow> Basic_Sink \<lparr>bs_file = dm_dataFile dm, bs_oa = []\<rparr>
      | Encrypted password \<Rightarrow> Encrypted_Sink \<lparr>es_dataFile = dm_dataFile dm, es_password = password, es_oa = []\<rparr>,
      fs(dm_dataFile dm \<mapsto> '''')))"
  by (simp add: getSink_def basic_getSink_def crypt_getSink_def new_BasicSink_def new_EncryptedSink_def split: protection.split)

lemma getSink_new:
  "getSink dm fs = Some (s, fs') \<Longrightarrow>
     sink_items s = [] \<and> sink_target s = (dm_dataFile dm, case dm_protection dm of Plain \<Rightarrow> None | Encrypted x \<Rightarrow> Some x) \<and>
     fs' = fs(dm_dataFile dm \<mapsto> '''')"
  by (auto simp: getSink_Some sink_items_def sink_target_def split: if_splits protection.splits)

lemma end_sink_written:
  "sink_target s = (file, case p of Plain \<Rightarrow> None | Encrypted x \<Rightarrow> Some x) \<Longrightarrow>
     end_sink af cy salt s (fs(file \<mapsto> '''')) = fs(file \<mapsto> written_file af cy salt p (sink_items s))"
  by (cases s) (auto simp: sink_target_def sink_items_def written_file_def end_BasicSink_def end_EncryptedSink_def
      split: protection.splits)

lemma getSource_written:
  assumes "crypto_ok cy" "af_items af (af_text af items) = Some items" "dm_dataFile dm \<noteq> ''''"
    and "fs (dm_dataFile dm) = Some (written_file af cy salt (dm_protection dm) items)"
  shows "getSource af cy dm fs = Inr (source_of (dm_protection dm) items)"
  using assms
  by (simp add: getSource_def basic_getSource_def crypt_getSource_def opened_source_def new_BasicSource_def
      new_EncryptedSource_def written_file_def read_encrypted_file source_of_def split: protection.splits)

end
