(* ===== verification/Client_Manager.thy ===== *)
theory Client_Manager
  imports Client_Account Client_Data
begin

text \<open>
  \<^verbatim>\<open>Network\<close> (\<^verbatim>\<open>sercli/src/network.cpp\<close>) and \<^verbatim>\<open>Manager\<close> (\<^verbatim>\<open>manager.cpp\<close>): the nodes and networks that a client
  knows. The objects live in a store and are addressed by numbers, since the maps of the manager and
  the application share them (\<^verbatim>\<open>shared_ptr\<close>) and the networks refer to nodes weakly (\<^verbatim>\<open>weak_ptr\<close>). A node is
  alive while the manager's map or the application holds it; \<open>mg_held\<close> are the nodes that the
  application holds.
\<close>

datatype manager_error =
    NodeException | NetworkException | DataException | System_Error | Other_Exception | Null_Pointer

record network =
  nt_desc :: NetworkDescription
  nt_nodes :: "(NodeDescription \<times> nat) list"

record manager =
  mg_nodes :: "(NodeDescription \<times> nat) list"
  mg_networks :: "(NetworkDescription \<times> nat) list"
  mg_node :: "nat \<Rightarrow> node"
  mg_network :: "nat \<Rightarrow> network"
  mg_next :: nat
  mg_held :: "nat list"
  mg_data :: data_manager

definition new_network :: "NetworkDescription \<Rightarrow> network" where
  "new_network network_desc = \<lparr>nt_desc = network_desc, nt_nodes = []\<rparr>"

definition new_manager :: "data_manager \<Rightarrow> manager" where
  "new_manager dm =
     \<lparr>mg_nodes = [], mg_networks = [],
      mg_node = (\<lambda>_. new_node \<lparr>no_ip_address = '''', no_node_name = '''', no_port = 0\<rparr>),
      mg_network = (\<lambda>_. new_network
        \<lparr>nw_access_rights = PUBLIC, nw_visability = LISTED, nw_participation_rights = CLIENT_ONLY,
         nw_protocol_name = '''', nw_network_name = '''', nw_creator = \<lparr>us_username = '''', us_email = ''''\<rparr>\<rparr>),
      mg_next = 0, mg_held = [], mg_data = dm\<rparr>"

subsection \<open>Nodes\<close>

definition add_node :: "NodeDescription \<Rightarrow> node \<Rightarrow> manager \<Rightarrow> manager" where
  "add_node node_desc n m =
     m\<lparr>mg_nodes := smap_set node_lt node_desc (mg_next m) (mg_nodes m),
       mg_node := (mg_node m)(mg_next m := n), mg_next := Suc (mg_next m)\<rparr>"

definition hold :: "nat \<Rightarrow> manager \<Rightarrow> manager" where
  "hold i m = m\<lparr>mg_held := i # mg_held m\<rparr>"

definition createNode :: "NodeDescription \<Rightarrow> manager \<Rightarrow> (manager_error + nat) \<times> manager" where
  "createNode node_desc m =
     (if smap_find node_lt node_desc (mg_nodes m) \<noteq> None then (Inl NodeException, m)
      else (Inr (mg_next m), hold (mg_next m) (add_node node_desc (new_node node_desc) m)))"

definition createNode_for :: "NodeDescription \<Rightarrow> MyUser \<Rightarrow> manager \<Rightarrow> (manager_error + nat) \<times> manager" where
  "createNode_for node_desc user m =
     (if smap_find node_lt node_desc (mg_nodes m) \<noteq> None then (Inl NodeException, m)
      else (Inr (mg_next m), hold (mg_next m) (add_node node_desc (new_node_with node_desc user) m)))"

definition getNode :: "NodeDescription \<Rightarrow> manager \<Rightarrow> manager_error + nat" where
  "getNode node_desc m =
     (case smap_find node_lt node_desc (mg_nodes m) of None \<Rightarrow> Inl NodeException | Some (d, i) \<Rightarrow> Inr i)"

definition getNode_named :: "string \<Rightarrow> manager \<Rightarrow> manager_error + nat" where
  "getNode_named node_name m =
     (case find (\<lambda>p. no_node_name (fst p) = node_name) (mg_nodes m) of
        None \<Rightarrow> Inl NodeException | Some (d, i) \<Rightarrow> Inr i)"

definition getAllNodes :: "manager \<Rightarrow> nat list" where
  "getAllNodes m = map snd (mg_nodes m)"

definition removeNode :: "NodeDescription \<Rightarrow> manager \<Rightarrow> (manager_error + unit) \<times> manager" where
  "removeNode node_desc m =
     (case smap_find node_lt node_desc (mg_nodes m) of
        None \<Rightarrow> (Inl NodeException, m)
      | Some _ \<Rightarrow> (Inr (), m\<lparr>mg_nodes := smap_erase node_lt node_desc (mg_nodes m)\<rparr>))"

definition removeNode_named :: "string \<Rightarrow> manager \<Rightarrow> (manager_error + unit) \<times> manager" where
  "removeNode_named node_name m =
     (case find (\<lambda>p. no_node_name (fst p) = node_name) (mg_nodes m) of
        None \<Rightarrow> (Inl NodeException, m)
      | Some (d, _) \<Rightarrow> (Inr (), m\<lparr>mg_nodes := smap_erase node_lt d (mg_nodes m)\<rparr>))"

subsection \<open>Networks\<close>

definition add_network :: "NetworkDescription \<Rightarrow> manager \<Rightarrow> manager" where
  "add_network network_desc m =
     m\<lparr>mg_networks := smap_set network_lt network_desc (mg_next m) (mg_networks m),
       mg_network := (mg_network m)(mg_next m := new_network network_desc), mg_next := Suc (mg_next m)\<rparr>"

definition createNetwork_of :: "NetworkDescription \<Rightarrow> manager \<Rightarrow> (manager_error + nat) \<times> manager" where
  "createNetwork_of network_desc m =
     (if smap_find network_lt network_desc (mg_networks m) \<noteq> None then (Inl NetworkException, m)
      else (Inr (mg_next m), add_network network_desc m))"

definition getNetwork :: "NetworkDescription \<Rightarrow> manager \<Rightarrow> manager_error + nat" where
  "getNetwork network_desc m =
     (case smap_find network_lt network_desc (mg_networks m) of None \<Rightarrow> Inl NetworkException | Some (d, i) \<Rightarrow> Inr i)"

text \<open>By name the exception is the one of nodes.\<close>

definition getNetwork_named :: "string \<Rightarrow> manager \<Rightarrow> manager_error + nat" where
  "getNetwork_named network_name m =
     (case find (\<lambda>p. nw_network_name (fst p) = network_name) (mg_networks m) of
        None \<Rightarrow> Inl NodeException | Some (d, i) \<Rightarrow> Inr i)"

definition getAllNetworks_of :: "manager \<Rightarrow> nat list" where
  "getAllNetworks_of m = map snd (mg_networks m)"

definition removeNetwork :: "NetworkDescription \<Rightarrow> manager \<Rightarrow> (manager_error + unit) \<times> manager" where
  "removeNetwork network_desc m =
     (case smap_find network_lt network_desc (mg_networks m) of
        None \<Rightarrow> (Inl NetworkException, m)
      | Some _ \<Rightarrow> (Inr (), m\<lparr>mg_networks := smap_erase network_lt network_desc (mg_networks m)\<rparr>))"

definition removeNetwork_named :: "string \<Rightarrow> manager \<Rightarrow> (manager_error + unit) \<times> manager" where
  "removeNetwork_named network_name m =
     (case find (\<lambda>p. nw_network_name (fst p) = network_name) (mg_networks m) of
        None \<Rightarrow> (Inl NetworkException, m)
      | Some (d, _) \<Rightarrow> (Inr (), m\<lparr>mg_networks := smap_erase network_lt d (mg_networks m)\<rparr>))"

subsection \<open>A network and its nodes\<close>

definition alive :: "manager \<Rightarrow> nat \<Rightarrow> bool" where
  "alive m i \<longleftrightarrow> i \<in> snd ` set (mg_nodes m) \<or> i \<in> set (mg_held m)"

definition release :: "nat \<Rightarrow> manager \<Rightarrow> manager" where
  "release i m = m\<lparr>mg_held := remove1 i (mg_held m)\<rparr>"

definition set_network :: "nat \<Rightarrow> network \<Rightarrow> manager \<Rightarrow> manager" where
  "set_network k w m = m\<lparr>mg_network := (mg_network m)(k := w)\<rparr>"

text \<open>\<^verbatim>\<open>associateNode\<close> reads the description through the locked pointer, without a check.\<close>

definition associateNode :: "nat \<Rightarrow> nat \<Rightarrow> manager \<Rightarrow> (manager_error + unit) \<times> manager" where
  "associateNode k i m =
     (if \<not> alive m i then (Inl Null_Pointer, m)
      else let w = mg_network m k
           in (Inr (), set_network k
                 (w\<lparr>nt_nodes := smap_insert node_lt (nd_desc (mg_node m i)) i (nt_nodes w)\<rparr>) m))"

definition detachNode :: "nat \<Rightarrow> NodeDescription \<Rightarrow> manager \<Rightarrow> manager" where
  "detachNode k node_desc m =
     (let w = mg_network m k in set_network k (w\<lparr>nt_nodes := smap_erase node_lt node_desc (nt_nodes w)\<rparr>) m)"

definition clearExpiredNodes :: "nat \<Rightarrow> manager \<Rightarrow> manager" where
  "clearExpiredNodes k m =
     (let w = mg_network m k in set_network k (w\<lparr>nt_nodes := filter (\<lambda>p. alive m (snd p)) (nt_nodes w)\<rparr>) m)"

definition network_isActive :: "nat \<Rightarrow> manager \<Rightarrow> bool \<times> manager" where
  "network_isActive k m =
     (let m' = clearExpiredNodes k m
      in (\<exists>p \<in> set (nt_nodes (mg_network m' k)). isActive (mg_node m (snd p)), m'))"

definition set_node :: "nat \<Rightarrow> node \<Rightarrow> manager \<Rightarrow> manager" where
  "set_node i n m = m\<lparr>mg_node := (mg_node m)(i := n)\<rparr>"

text \<open>\<^verbatim>\<open>getAvailableServers\<close>: the nodes are asked one after the other; the answers of those that fail are left
  out. An expired node is a null pointer.\<close>

fun ask_nodes ::
  "'w client_env \<Rightarrow> NetworkDescription \<Rightarrow> (NodeDescription \<times> nat) list \<Rightarrow> manager \<Rightarrow> 'w \<Rightarrow>
   ServerDescription list call \<times> manager \<times> 'w" where
  "ask_nodes e d [] m w = (Returned [], m, w)"
| "ask_nodes e d ((_, i) # ps) m w =
     (if \<not> alive m i then (Undefined, m, w)
      else case getServersList e d (mg_node m i) w of
             (c, n, w') \<Rightarrow>
               (let m' = set_node i n m
                in case c of
                     Returned (err, servers) \<Rightarrow>
                       (case ask_nodes e d ps m' w' of
                          (Returned rest, m'', w'') \<Rightarrow>
                            (Returned (if err = NE_OK then servers @ rest else rest), m'', w'')
                        | r \<Rightarrow> r)
                   | Thrown \<Rightarrow> (Thrown, m', w')
                   | Blocked \<Rightarrow> (Blocked, m', w')
                   | Undefined \<Rightarrow> (Undefined, m', w')))"

definition getAvailableServers ::
  "'w client_env \<Rightarrow> nat \<Rightarrow> manager \<Rightarrow> 'w \<Rightarrow> ServerDescription list call \<times> manager \<times> 'w" where
  "getAvailableServers e k m w = ask_nodes e (nt_desc (mg_network m k)) (nt_nodes (mg_network m k)) m w"

subsection \<open>Stopping\<close>

fun stop_nodes :: "nat list \<Rightarrow> manager \<Rightarrow> (manager_error + unit) \<times> manager" where
  "stop_nodes [] m = (Inr (), m)"
| "stop_nodes (i # is) m =
     (case stopConnections (mg_node m i) of
        None \<Rightarrow> (Inl System_Error, m)
      | Some n \<Rightarrow> stop_nodes is (set_node i n m))"

definition stopAll :: "manager \<Rightarrow> (manager_error + unit) \<times> manager" where
  "stopAll m = stop_nodes (getAllNodes m) m"

definition clear :: "manager \<Rightarrow> (manager_error + unit) \<times> manager" where
  "clear m =
     (case stopAll m of
        (Inl x, m') \<Rightarrow> (Inl x, m')
      | (Inr _, m') \<Rightarrow> (Inr (), m'\<lparr>mg_nodes := [], mg_networks := []\<rparr>))"

subsection \<open>Saving\<close>

definition save_node :: "manager \<Rightarrow> NodeDescription \<times> nat \<Rightarrow> sink \<Rightarrow> sink" where
  "save_node m p = put_node (nd_desc (mg_node m (snd p))) (nd_user (mg_node m (snd p)))"

definition save_network :: "manager \<Rightarrow> NetworkDescription \<times> nat \<Rightarrow> sink \<Rightarrow> sink" where
  "save_network m p s =
     put_nodes (map fst (nt_nodes (mg_network m (snd p)))) (put_network (nt_desc (mg_network m (snd p))) s)"

definition saveState ::
  "archive_format \<Rightarrow> crypto \<Rightarrow> string \<Rightarrow> manager \<Rightarrow> files \<Rightarrow> (manager_error + unit) \<times> files" where
  "saveState af cy salt m fs =
     (case getSink (mg_data m) fs of
        None \<Rightarrow> (Inl DataException, fs)
      | Some (s, fs') \<Rightarrow>
          (let s1 = put_text (digits (length (mg_nodes m))) s;
               s2 = fold (save_node m) (mg_nodes m) s1;
               s3 = put_text (digits (length (mg_networks m))) s2;
               s4 = fold (save_network m) (mg_networks m) s3
           in (Inr (), end_sink af cy salt s4 fs')))"

text \<open>All that is put into the sink, and what becomes of the file.\<close>

definition saved_items :: "manager \<Rightarrow> item list" where
  "saved_items m =
     I_Text (digits (length (mg_nodes m))) #
     map (\<lambda>p. I_Node (nd_desc (mg_node m (snd p))) (nd_user (mg_node m (snd p)))) (mg_nodes m) @
     I_Text (digits (length (mg_networks m))) #
     concat (map (\<lambda>p. [I_Network (nt_desc (mg_network m (snd p))),
                       I_Nodes (map fst (nt_nodes (mg_network m (snd p))))]) (mg_networks m))"

lemma save_node_put:
  "sink_items (save_node m p s) = sink_items s @ [I_Node (nd_desc (mg_node m (snd p))) (nd_user (mg_node m (snd p)))]"
  "sink_target (save_node m p s) = sink_target s"
  by (simp_all add: save_node_def)

lemma save_network_put:
  "sink_items (save_network m p s) =
     sink_items s @ [I_Network (nt_desc (mg_network m (snd p))), I_Nodes (map fst (nt_nodes (mg_network m (snd p))))]"
  "sink_target (save_network m p s) = sink_target s"
  by (simp_all add: save_network_def)

lemma saveState_written:
  "saveState af cy salt m fs =
     (let file = dm_dataFile (mg_data m)
      in if file = '''' then (Inl DataException, fs)
         else (Inr (), fs(file \<mapsto> written_file af cy salt (dm_protection (mg_data m)) (saved_items m))))"
proof (cases "getSink (mg_data m) fs")
  case None
  then show ?thesis by (simp add: saveState_def getSink_Some split: if_splits)
next
  case (Some r)
  then obtain s fs' where r: "getSink (mg_data m) fs = Some (s, fs')" by (cases r) simp
  from r have named: "dm_dataFile (mg_data m) \<noteq> ''''" by (simp add: getSink_Some split: if_splits)
  let ?s4 = "fold (save_network m) (mg_networks m) (put_text (digits (length (mg_networks m)))
    (fold (save_node m) (mg_nodes m) (put_text (digits (length (mg_nodes m))) s)))"
  note nodes = any_sink.content_loop [of "save_node m", OF save_node_put]
  note networks = any_sink.content_loop [of "save_network m", OF save_network_put]
  have items: "sink_items ?s4 = saved_items m"
    using getSink_new [OF r] by (simp add: nodes networks saved_items_def concat_map_singleton)
  have "sink_target ?s4 = sink_target s" by (simp add: nodes networks)
  then have "end_sink af cy salt ?s4 fs' =
      fs(dm_dataFile (mg_data m) \<mapsto> written_file af cy salt (dm_protection (mg_data m)) (sink_items ?s4))"
    using getSink_new [OF r] by (simp add: end_sink_written)
  then show ?thesis using named r unfolding items by (simp add: saveState_def Let_def)
qed

definition saveState_to ::
  "archive_format \<Rightarrow> crypto \<Rightarrow> string \<Rightarrow> string \<Rightarrow> manager \<Rightarrow> files \<Rightarrow>
   (manager_error + unit) \<times> manager \<times> files" where
  "saveState_to af cy salt dest_file m fs =
     (let m' = m\<lparr>mg_data := setDataFile dest_file (mg_data m)\<rparr>
      in case saveState af cy salt m' fs of (r, fs') \<Rightarrow> (r, m', fs'))"

subsection \<open>Loading\<close>

text \<open>Every exception after the source is open becomes a \<^verbatim>\<open>DataException\<close>, and the manager keeps what was
  loaded before.\<close>

fun load_nodes :: "nat \<Rightarrow> source \<Rightarrow> manager \<Rightarrow> (manager_error + source) \<times> manager" where
  "load_nodes 0 src m = (Inr src, m)"
| "load_nodes (Suc i) src m =
     (case get_node src of
        None \<Rightarrow> (Inl DataException, m)
      | Some ((d, u), src') \<Rightarrow> load_nodes i src' (add_node d (new_node_with d u) m))"

fun associate_all :: "nat \<Rightarrow> NodeDescription list \<Rightarrow> manager \<Rightarrow> (manager_error + unit) \<times> manager" where
  "associate_all k [] m = (Inr (), m)"
| "associate_all k (d # ds) m =
     (case smap_find node_lt d (mg_nodes m) of
        None \<Rightarrow> (Inl DataException, m)
      | Some (_, i) \<Rightarrow>
          (case associateNode k i m of
             (Inl x, m') \<Rightarrow> (Inl x, m')
           | (Inr _, m') \<Rightarrow> associate_all k ds m'))"

fun load_networks :: "nat \<Rightarrow> source \<Rightarrow> manager \<Rightarrow> (manager_error + source) \<times> manager" where
  "load_networks 0 src m = (Inr src, m)"
| "load_networks (Suc i) src m =
     (case get_network src of
        None \<Rightarrow> (Inl DataException, m)
      | Some (d, src') \<Rightarrow>
          (let k = mg_next m; m' = add_network d m
           in case get_nodes src' of
                None \<Rightarrow> (Inl DataException, m')
              | Some (ds, src'') \<Rightarrow>
                  (case associate_all k ds m' of
                     (Inl x, m'') \<Rightarrow> (Inl x, m'')
                   | (Inr _, m'') \<Rightarrow> load_networks i src'' m'')))"

definition load_count :: "source \<Rightarrow> (nat \<times> source) option" where
  "load_count src =
     (case get_text src of
        None \<Rightarrow> None
      | Some (count, src') \<Rightarrow> map_option (\<lambda>nc. (nat nc, src')) (stoi count))"

definition load_items :: "source \<Rightarrow> manager \<Rightarrow> (manager_error + unit) \<times> manager" where
  "load_items src m =
     (case load_count src of
        None \<Rightarrow> (Inl DataException, m)
      | Some (nc, src1) \<Rightarrow>
          (case load_nodes nc src1 m of
             (Inl x, m') \<Rightarrow> (Inl x, m')
           | (Inr src2, m') \<Rightarrow>
               (case load_count src2 of
                  None \<Rightarrow> (Inl DataException, m')
                | Some (nc', src3) \<Rightarrow>
                    (case load_networks nc' src3 m' of
                       (Inl x, m'') \<Rightarrow> (Inl x, m'')
                     | (Inr _, m'') \<Rightarrow> (Inr (), m'')))))"

definition loadState ::
  "archive_format \<Rightarrow> crypto \<Rightarrow> files \<Rightarrow> manager \<Rightarrow> (manager_error + unit) \<times> manager" where
  "loadState af cy fs m =
     (case clear m of
        (Inl x, m') \<Rightarrow> (Inl x, m')
      | (Inr _, m') \<Rightarrow>
          (case getSource af cy (mg_data m') fs of
             Inl No_File_Given \<Rightarrow> (Inl DataException, m')
           | Inl Unreadable \<Rightarrow> (Inl Other_Exception, m')
           | Inr src \<Rightarrow> load_items src m'))"

definition loadState_from ::
  "archive_format \<Rightarrow> crypto \<Rightarrow> string \<Rightarrow> files \<Rightarrow> manager \<Rightarrow> (manager_error + unit) \<times> manager" where
  "loadState_from af cy source_file fs m =
     loadState af cy fs (m\<lparr>mg_data := setDataFile source_file (mg_data m)\<rparr>)"

text \<open>\<^verbatim>\<open>setDataManager\<close> assigns through a reference: the new data manager's values replace the old ones.
  The class has no virtual part that is assigned, so only the name of the file moves.\<close>

definition setDataManager :: "data_manager \<Rightarrow> manager \<Rightarrow> manager" where
  "setDataManager dm m = m\<lparr>mg_data := (mg_data m)\<lparr>dm_dataFile := dm_dataFile dm\<rparr>\<rparr>"

end
