(* ===== verification/Client_Store.thy ===== *)
theory Client_Store
  imports Client_Manager
begin

text \<open>
  The invariant of the manager, what its operations do to the lookup of nodes and networks, and the
  saving and loading of its state.
\<close>

subsection \<open>Invariant\<close>

definition mg_ok :: "manager \<Rightarrow> bool" where
  "mg_ok m \<longleftrightarrow>
     smap_ok node_lt (mg_nodes m) \<and> smap_ok network_lt (mg_networks m) \<and>
     (\<forall>p \<in> set (mg_nodes m). snd p < mg_next m) \<and>
     (\<forall>p \<in> set (mg_networks m). snd p < mg_next m \<and> network_eq (nt_desc (mg_network m (snd p))) (fst p) \<and>
        smap_ok node_lt (nt_nodes (mg_network m (snd p))))"

text \<open>The nodes and networks are still described as they were when they entered the maps.\<close>

definition in_step :: "manager \<Rightarrow> bool" where
  "in_step m \<longleftrightarrow>
     (\<forall>p \<in> set (mg_nodes m). nd_desc (mg_node m (snd p)) = fst p) \<and>
     (\<forall>p \<in> set (mg_networks m). nt_desc (mg_network m (snd p)) = fst p)"

lemma set_smap_set_ids: "p \<in> set (smap_set lt k v m) \<Longrightarrow> snd p = v \<or> p \<in> set m"
  by (induction lt k v m rule: smap_set.induct) (auto split: if_splits)

lemma set_smap_set_key:
  "p \<in> set (smap_set lt k v m) \<Longrightarrow> p \<in> set m \<or> snd p = v \<and> (fst p = k \<or> key_equiv lt (fst p) k)"
  by (induction lt k v m rule: smap_set.induct) (auto simp: key_equiv_def split: if_splits)

lemma mg_ok_add_node: "mg_ok m \<Longrightarrow> mg_ok (add_node d n m)"
  using set_smap_set_ids [of _ node_lt d "mg_next m" "mg_nodes m"]
  by (fastforce simp: mg_ok_def add_node_def nodes.ok_set)

lemma mg_ok_add_network:
  assumes "mg_ok m"
  shows "mg_ok (add_network d m)"
proof -
  have "smap_ok network_lt (mg_networks (add_network d m))"
    using assms by (simp add: mg_ok_def add_network_def nets.ok_set)
  moreover have "snd p < mg_next (add_network d m) \<and> network_eq (nt_desc (mg_network (add_network d m) (snd p))) (fst p) \<and>
      smap_ok node_lt (nt_nodes (mg_network (add_network d m) (snd p)))"
    if "p \<in> set (mg_networks (add_network d m))" for p
  proof -
    have "p \<in> set (mg_networks m) \<or> snd p = mg_next m \<and> network_eq (fst p) d"
      using that set_smap_set_key [of p network_lt d] by (auto simp: add_network_def network_eq_def)
    then show ?thesis
      using assms by (auto simp: mg_ok_def add_network_def new_network_def network_eq_def)
  qed
  ultimately show ?thesis using assms by (auto simp: mg_ok_def add_network_def)
qed

lemma mg_ok_set_network:
  assumes "mg_ok m" "nt_desc w = nt_desc (mg_network m k)"
    and "smap_ok node_lt (nt_nodes (mg_network m k)) \<Longrightarrow> smap_ok node_lt (nt_nodes w)"
  shows "mg_ok (set_network k w m)"
  using assms by (auto simp: mg_ok_def set_network_def)

lemma mg_ok_simps [simp]:
  "mg_ok (hold i m) = mg_ok m" "mg_ok (release i m) = mg_ok m" "mg_ok (set_node i n m) = mg_ok m"
  "mg_ok (m\<lparr>mg_data := dm\<rparr>) = mg_ok m" "mg_ok (m\<lparr>mg_node := f\<rparr>) = mg_ok m"
  by (simp_all add: mg_ok_def hold_def release_def set_node_def)

lemma mg_ok_erase:
  "mg_ok m \<Longrightarrow> mg_ok (m\<lparr>mg_nodes := smap_erase node_lt d (mg_nodes m)\<rparr>)"
  "mg_ok m \<Longrightarrow> mg_ok (m\<lparr>mg_networks := smap_erase network_lt nd (mg_networks m)\<rparr>)"
  using set_smap_erase [of node_lt d "mg_nodes m"] set_smap_erase [of network_lt nd "mg_networks m"]
  by (auto simp: mg_ok_def nodes.ok_erase nets.ok_erase)

lemma mg_ok_new: "mg_ok (new_manager dm)"
  by (simp add: mg_ok_def new_manager_def smap_ok_def)

lemma smap_ok_filter: "smap_ok lt xs \<Longrightarrow> smap_ok lt (filter P xs)"
  unfolding smap_ok_def by (induction xs) auto

lemma nodes_ok_insert: "smap_ok node_lt xs \<Longrightarrow> smap_ok node_lt (smap_insert node_lt d i xs)"
  by (rule nodes.ok_insert)

lemma mg_ok_associate: "mg_ok m \<Longrightarrow> associateNode k i m = (r, m') \<Longrightarrow> mg_ok m'"
  by (auto simp: associateNode_def Let_def nodes_ok_insert intro: mg_ok_set_network split: if_splits)

lemma mg_ok_detach: "mg_ok m \<Longrightarrow> mg_ok (detachNode k d m)" "mg_ok m \<Longrightarrow> mg_ok (clearExpiredNodes k m)"
  by (auto simp: detachNode_def clearExpiredNodes_def Let_def nodes.ok_erase smap_ok_filter intro: mg_ok_set_network)

text \<open>Asking the nodes for servers changes the nodes only.\<close>

definition only_nodes :: "manager \<Rightarrow> manager \<Rightarrow> bool" where
  "only_nodes m m' \<longleftrightarrow> (\<exists>f. m' = m\<lparr>mg_node := f\<rparr>)"

lemma only_nodes_refl [simp]: "only_nodes m m"
  unfolding only_nodes_def by (rule exI [of _ "mg_node m"]) simp

lemma ask_nodes_frame: "ask_nodes e d ps m w = (r, m', w') \<Longrightarrow> only_nodes m m'"
proof (induction ps arbitrary: r m m' w w')
  case Nil
  then show ?case by simp
next
  case (Cons p ps)
  obtain x i where p: "p = (x, i)" by (cases p)
  obtain c n w1 where s: "getServersList e d (mg_node m i) w = (c, n, w1)" by (metis prod_cases3)
  obtain c2 m2 w2 where rest: "ask_nodes e d ps (set_node i n m) w1 = (c2, m2, w2)" by (metis prod_cases3)
  have "only_nodes m m2" "only_nodes m (set_node i n m)"
    using Cons.IH [OF rest] by (auto simp: only_nodes_def set_node_def)
  then show ?case
    using Cons.prems s rest by (auto simp: p Let_def split: if_splits call.splits)
qed

lemma getAvailableServers_frame: "getAvailableServers e k m w = (c, m', w') \<Longrightarrow> only_nodes m m'"
  by (simp add: getAvailableServers_def ask_nodes_frame)

lemma mg_ok_stop_nodes: "mg_ok m \<Longrightarrow> stop_nodes is m = (r, m') \<Longrightarrow> mg_ok m'"
proof (induction "is" arbitrary: m)
  case (Cons i "is")
  then show ?case using Cons.IH [of "set_node i n m" for n] by (auto split: option.splits)
qed simp

lemma mg_ok_clear: "mg_ok m \<Longrightarrow> clear m = (r, m') \<Longrightarrow> mg_ok m'"
proof -
  assume m: "mg_ok m" and c: "clear m = (r, m')"
  obtain r1 m1 where s: "stop_nodes (getAllNodes m) m = (r1, m1)" by (metis prod.exhaust)
  have "mg_ok m1" using mg_ok_stop_nodes [OF m s] .
  then show ?thesis
    using c s by (auto simp: clear_def stopAll_def mg_ok_def smap_ok_def split: sum.splits)
qed

lemma mg_ok_load_nodes: "mg_ok m \<Longrightarrow> load_nodes i src m = (r, m') \<Longrightarrow> mg_ok m'"
  by (induction i src m rule: load_nodes.induct) (auto simp: mg_ok_add_node split: option.splits)

lemma mg_ok_associate_all: "mg_ok m \<Longrightarrow> associate_all k ds m = (r, m') \<Longrightarrow> mg_ok m'"
  by (induction ds arbitrary: m)
    (auto split: option.splits prod.splits sum.splits dest: mg_ok_associate)

lemma mg_ok_load_networks: "mg_ok m \<Longrightarrow> load_networks i src m = (r, m') \<Longrightarrow> mg_ok m'"
proof (induction i arbitrary: src m)
  case (Suc i)
  show ?case
  proof (cases "\<exists>d src'. get_network src = Some (d, src') \<and> (\<exists>ds src''. get_nodes src' = Some (ds, src''))")
    case True
    then obtain d src' ds src'' where rd: "get_network src = Some (d, src')" "get_nodes src' = Some (ds, src'')"
      by blast
    obtain r1 m1 where all: "associate_all (mg_next m) ds (add_network d m) = (r1, m1)" by (metis prod.exhaust)
    have "mg_ok m1" using mg_ok_associate_all [OF mg_ok_add_network [OF Suc.prems(1)] all] .
    then show ?thesis using Suc rd all by (auto simp: Let_def split: sum.splits)
  next
    case False
    then show ?thesis
      using Suc.prems by (auto simp: Let_def mg_ok_add_network split: option.splits)
  qed
qed simp

lemma mg_ok_load_items: "mg_ok m \<Longrightarrow> load_items src m = (r, m') \<Longrightarrow> mg_ok m'"
  by (auto simp: load_items_def split: option.splits prod.splits sum.splits
      dest: mg_ok_load_nodes mg_ok_load_networks)

lemma mg_ok_loadState: "mg_ok m \<Longrightarrow> loadState af cy fs m = (r, m') \<Longrightarrow> mg_ok m'"
proof -
  assume m: "mg_ok m" and l: "loadState af cy fs m = (r, m')"
  obtain r1 m1 where c: "clear m = (r1, m1)" by (metis prod.exhaust)
  have "mg_ok m1" using mg_ok_clear [OF m c] .
  then show ?thesis
    using l c by (auto simp: loadState_def Let_def split: sum.splits if_splits option.splits source_error.splits dest: mg_ok_load_items)
qed

subsection \<open>Looking nodes and networks up\<close>

subsection \<open>Reachable managers\<close>

text \<open>The operations of the manager, and what the application does with the objects it got: it runs
  operations of nodes (which may change their description), asks a network for its servers and drops
  its pointers.\<close>

inductive manager_step :: "archive_format \<Rightarrow> crypto \<Rightarrow> manager \<Rightarrow> manager \<Rightarrow> bool" for af cy where
  ms_createNode: "createNode d m = (r, m') \<Longrightarrow> manager_step af cy m m'"
| ms_createNode_for: "createNode_for d u m = (r, m') \<Longrightarrow> manager_step af cy m m'"
| ms_removeNode: "removeNode d m = (r', m') \<Longrightarrow> manager_step af cy m m'"
| ms_removeNode_named: "removeNode_named s m = (r', m') \<Longrightarrow> manager_step af cy m m'"
| ms_createNetwork: "createNetwork_of nd m = (r, m') \<Longrightarrow> manager_step af cy m m'"
| ms_removeNetwork: "removeNetwork nd m = (r', m') \<Longrightarrow> manager_step af cy m m'"
| ms_removeNetwork_named: "removeNetwork_named s m = (r', m') \<Longrightarrow> manager_step af cy m m'"
| ms_associate: "associateNode k i m = (r', m') \<Longrightarrow> manager_step af cy m m'"
| ms_detach: "manager_step af cy m (detachNode k d m)"
| ms_active: "network_isActive k m = (b, m') \<Longrightarrow> manager_step af cy m m'"
| ms_clear: "clear m = (r', m') \<Longrightarrow> manager_step af cy m m'"
| ms_save: "saveState_to af cy salt file m fs = (r', m', fs') \<Longrightarrow> manager_step af cy m m'"
| ms_load: "loadState af cy fs m = (r', m') \<Longrightarrow> manager_step af cy m m'"
| ms_load_from: "loadState_from af cy file fs m = (r', m') \<Longrightarrow> manager_step af cy m m'"
| ms_setDataManager: "manager_step af cy m (setDataManager dm m)"
| ms_nodes: "only_nodes m m' \<Longrightarrow> manager_step af cy m m'"
| ms_release: "manager_step af cy m (release i m)"

inductive manager_reach :: "archive_format \<Rightarrow> crypto \<Rightarrow> manager \<Rightarrow> bool" for af cy where
  mr_new: "manager_reach af cy (new_manager dm)"
| mr_step: "manager_reach af cy m \<Longrightarrow> manager_step af cy m m' \<Longrightarrow> manager_reach af cy m'"

lemma mg_ok_step: "manager_step af cy m m' \<Longrightarrow> mg_ok m \<Longrightarrow> mg_ok m'"
proof (induction rule: manager_step.induct)
  case (ms_nodes m m')
  then show ?case by (auto simp: only_nodes_def)
next
  case (ms_load_from src fs m r' m')
  then show ?case using mg_ok_loadState [OF _ ms_load_from(1) [unfolded loadState_from_def]] by simp
qed (auto simp: createNode_def createNode_for_def createNetwork_of_def removeNode_def removeNode_named_def
    removeNetwork_def removeNetwork_named_def network_isActive_def Let_def saveState_to_def setDataManager_def
    loadState_from_def
    split: if_splits option.splits prod.splits
    intro: mg_ok_add_node mg_ok_add_network mg_ok_erase mg_ok_detach
    dest: mg_ok_associate mg_ok_clear mg_ok_loadState)

lemma mg_ok_reach: "manager_reach af cy m \<Longrightarrow> mg_ok m"
  by (induction rule: manager_reach.induct) (auto simp: mg_ok_new intro: mg_ok_step)

subsection \<open>Lookups\<close>

lemma getNode_get: "getNode d m = (case smap_get node_lt d (mg_nodes m) of None \<Rightarrow> Inl NodeException | Some i \<Rightarrow> Inr i)"
  by (auto simp: getNode_def smap_get_def split: option.splits)

lemma getNode_named_get:
  "mg_ok m \<Longrightarrow> getNode_named (no_node_name d) m = getNode d m"
  using nodes.find_named [of "mg_nodes m" no_node_name d]
  by (simp add: getNode_named_def getNode_def mg_ok_def)

lemma removeNode_named_eq:
  assumes "mg_ok m"
  shows "removeNode_named (no_node_name d) m = removeNode d m"
proof (cases "smap_find node_lt d (mg_nodes m)")
  case None
  then show ?thesis
    using nodes.find_named [of "mg_nodes m" no_node_name d] assms
    by (simp add: removeNode_named_def removeNode_def mg_ok_def)
next
  case (Some p)
  obtain k i where p: "p = (k, i)" by (cases p)
  then have "smap_erase node_lt k (mg_nodes m) = smap_erase node_lt d (mg_nodes m)"
    using Some smap_find_in_set [of node_lt d "mg_nodes m" k i] by (intro nodes.erase_equiv) simp
  then show ?thesis
    using Some p nodes.find_named [of "mg_nodes m" no_node_name d] assms
    by (simp add: removeNode_named_def removeNode_def mg_ok_def)
qed

lemma getNetwork_named_get:
  "mg_ok m \<Longrightarrow> getNetwork_named (nw_network_name d) m =
     (case getNetwork d m of Inl _ \<Rightarrow> Inl NodeException | Inr k \<Rightarrow> Inr k)"
  using nets.find_named [of "mg_networks m" nw_network_name d]
  by (auto simp: getNetwork_named_def getNetwork_def mg_ok_def network_eq_def split: option.split)

lemma removeNetwork_named_eq:
  assumes "mg_ok m"
  shows "removeNetwork_named (nw_network_name d) m = removeNetwork d m"
proof (cases "smap_find network_lt d (mg_networks m)")
  case None
  then show ?thesis
    using nets.find_named [of "mg_networks m" nw_network_name d] assms
    by (simp add: removeNetwork_named_def removeNetwork_def mg_ok_def network_eq_def)
next
  case (Some p)
  obtain k i where p: "p = (k, i)" by (cases p)
  then have "smap_erase network_lt k (mg_networks m) = smap_erase network_lt d (mg_networks m)"
    using Some smap_find_in_set [of network_lt d "mg_networks m" k i]
    by (intro nets.erase_equiv) (simp add: network_eq_def)
  then show ?thesis
    using Some p nets.find_named [of "mg_networks m" nw_network_name d] assms
    by (simp add: removeNetwork_named_def removeNetwork_def mg_ok_def network_eq_def)
qed

lemma getNode_add_node:
  assumes "mg_ok m"
  shows "getNode d' (add_node d n m) = (if no_node_name d' = no_node_name d then Inr (mg_next m) else getNode d' m)"
  using assms by (simp add: getNode_get add_node_def mg_ok_def nodes.get_set)

lemma getNode_hold [simp]: "getNode d (hold i m) = getNode d m" "mg_node (hold i m) = mg_node m"
  by (simp_all add: getNode_def hold_def)

lemma mg_node_add_node [simp]: "mg_node (add_node d n m) (mg_next m) = n"
  by (simp add: add_node_def)

lemma getNode_erase:
  assumes "mg_ok m"
  shows "getNode d' (m\<lparr>mg_nodes := smap_erase node_lt d (mg_nodes m)\<rparr>) =
    (if no_node_name d' = no_node_name d then Inl NodeException else getNode d' m)"
  using assms by (simp add: getNode_get mg_ok_def nodes.get_erase)

end
