(* ===== verification/Client_Restore.thy ===== *)
theory Client_Restore
  imports Client_Store
begin

text \<open>
  Saving a manager and loading it again: what the reader does with the items that the writer wrote.
  What a user sees of a manager are the nodes with their accounts and the networks with the nodes
  they are associated with.
\<close>

definition node_view :: "manager \<Rightarrow> (NodeDescription \<times> NodeDescription \<times> MyUser) list" where
  "node_view m = map (\<lambda>p. (fst p, nd_desc (mg_node m (snd p)), nd_user (mg_node m (snd p)))) (mg_nodes m)"

definition network_view :: "manager \<Rightarrow> (NetworkDescription \<times> NodeDescription list) list" where
  "network_view m = map (\<lambda>p. (nt_desc (mg_network m (snd p)), map fst (nt_nodes (mg_network m (snd p))))) (mg_networks m)"

subsection \<open>Nodes\<close>

text \<open>\<^verbatim>\<open>with_nodes\<close> is the loop of the nodes without its checks.\<close>

definition with_nodes :: "(NodeDescription \<times> MyUser) list \<Rightarrow> manager \<Rightarrow> manager" where
  "with_nodes xs m = fold (\<lambda>(d, u). add_node d (new_node_with d u)) xs m"

lemma load_nodes_written:
  "load_nodes (length xs) (source_of p (map (\<lambda>(d, u). I_Node d u) xs @ src)) m = (Inr (source_of p src), with_nodes xs m)"
  by (induction xs arbitrary: m) (auto simp: with_nodes_def)

definition same_networks :: "manager \<Rightarrow> manager \<Rightarrow> bool" where
  "same_networks m m' \<longleftrightarrow> mg_networks m' = mg_networks m \<and> mg_network m' = mg_network m \<and> mg_data m' = mg_data m"

lemma same_networks_with_nodes: "same_networks m (with_nodes xs m)"
  by (induction xs arbitrary: m) (auto simp: with_nodes_def same_networks_def add_node_def)

lemma mg_ok_with_nodes: "mg_ok m \<Longrightarrow> mg_ok (with_nodes xs m)"
  by (induction xs arbitrary: m) (auto simp: with_nodes_def mg_ok_add_node)

lemma node_view_add_last:
  assumes "mg_ok m" "\<And>k. k \<in> fst ` set (mg_nodes m) \<Longrightarrow> node_lt k d"
  shows "node_view (add_node d n m) = node_view m @ [(d, nd_desc n, nd_user n)]"
proof -
  have "smap_set node_lt d (mg_next m) (mg_nodes m) = mg_nodes m @ [(d, mg_next m)]"
    using assms(2) by (intro nodes.set_append_last) auto
  moreover have "snd p \<noteq> mg_next m" if "p \<in> set (mg_nodes m)" for p
    using assms(1) that by (auto simp: mg_ok_def)
  ultimately show ?thesis by (simp add: node_view_def add_node_def)
qed

lemma map_fst_node_view: "map fst (node_view m) = map fst (mg_nodes m)"
  by (simp add: node_view_def)

lemma node_view_with_nodes:
  assumes "mg_ok m" "sorted_wrt node_lt (map fst (mg_nodes m) @ map fst xs)"
  shows "node_view (with_nodes xs m) = node_view m @ map (\<lambda>(d, u). (d, d, u)) xs"
  using assms
proof (induction xs arbitrary: m)
  case (Cons x xs)
  obtain d u where x: "x = (d, u)" by (cases x)
  let ?m = "add_node d (new_node_with d u) m"
  have view: "node_view ?m = node_view m @ [(d, d, u)]"
    using Cons.prems by (subst node_view_add_last) (auto simp: x sorted_wrt_append new_node_with_def)
  then have "map fst (mg_nodes ?m) = map fst (mg_nodes m) @ [d]"
    using map_fst_node_view [of ?m] map_fst_node_view [of m] by simp
  then have "node_view (with_nodes xs ?m) = node_view ?m @ map (\<lambda>(d, u). (d, d, u)) xs"
    using Cons.prems by (intro Cons.IH) (simp_all add: mg_ok_add_node x)
  then show ?case using view by (simp add: x with_nodes_def)
qed (simp add: with_nodes_def)

subsection \<open>Networks\<close>

lemma insert_last:
  assumes "\<And>x. x \<in> set m \<Longrightarrow> node_lt (fst x) d"
  shows "smap_insert node_lt d i m = m @ [(d, i)]"
proof -
  have "smap_find node_lt d m = None"
    using assms
  proof (induction m)
    case (Cons x m)
    then show ?case using Cons.prems [of x] by (cases x) simp
  qed simp
  then show ?thesis using nodes.set_append_last [OF assms] by (simp add: smap_insert_def)
qed

lemma associate_all_written:
  assumes "mg_ok m" "in_step m" "\<And>d. d \<in> set ds \<Longrightarrow> d \<in> fst ` set (mg_nodes m)"
    and "sorted_wrt node_lt (map fst (nt_nodes (mg_network m k)) @ ds)"
  shows "\<exists>w. associate_all k ds m = (Inr (), set_network k w m) \<and>
    nt_desc w = nt_desc (mg_network m k) \<and> map fst (nt_nodes w) = map fst (nt_nodes (mg_network m k)) @ ds"
  using assms
proof (induction ds arbitrary: m)
  case Nil
  then show ?case by (auto simp: set_network_def intro: exI [of _ "mg_network m k"])
next
  case (Cons d ds)
  obtain i where i: "(d, i) \<in> set (mg_nodes m)" using Cons.prems(3) [of d] by auto
  have found: "smap_find node_lt d (mg_nodes m) = Some (d, i)"
    using Cons.prems(1) i by (simp add: mg_ok_def nodes.find_in_set)
  have desc: "nd_desc (mg_node m i) = d"
    using Cons.prems(2) i by (auto simp: in_step_def)
  let ?w = "mg_network m k"
  define v where "v = ?w\<lparr>nt_nodes := nt_nodes ?w @ [(d, i)]\<rparr>"
  have "alive m i" using i by (force simp: alive_def)
  moreover have "smap_insert node_lt d i (nt_nodes ?w) = nt_nodes ?w @ [(d, i)]"
    using Cons.prems(4) by (intro insert_last) (auto simp: sorted_wrt_append)
  ultimately have assoc: "associateNode k i m = (Inr (), set_network k v m)"
    by (simp add: associateNode_def Let_def desc v_def)
  have "mg_ok (set_network k v m)" using mg_ok_associate [OF Cons.prems(1) assoc] .
  moreover have "in_step (set_network k v m)"
    using Cons.prems(2) by (auto simp: in_step_def set_network_def v_def)
  ultimately obtain w where w: "associate_all k ds (set_network k v m) = (Inr (), set_network k w (set_network k v m))"
      "nt_desc w = nt_desc v" "map fst (nt_nodes w) = map fst (nt_nodes v) @ ds"
    using Cons.IH [of "set_network k v m"] Cons.prems(3,4) by (auto simp: set_network_def v_def)
  show ?case
    by (rule exI [of _ w]) (use w found assoc in \<open>simp add: v_def set_network_def\<close>)
qed

text \<open>\<^verbatim>\<open>written_networks\<close> are the items of a list of networks with their nodes.\<close>

definition written_networks :: "(NetworkDescription \<times> NodeDescription list) list \<Rightarrow> item list" where
  "written_networks xs = concat (map (\<lambda>(d, ds). [I_Network d, I_Nodes ds]) xs)"

lemma network_view_add:
  assumes "mg_ok m" "\<And>k. k \<in> fst ` set (mg_networks m) \<Longrightarrow> network_lt k d" "nt_desc w = d"
  shows "network_view (set_network (mg_next m) w (add_network d m)) =
    network_view m @ [(d, map fst (nt_nodes w))]"
proof -
  have "smap_set network_lt d (mg_next m) (mg_networks m) = mg_networks m @ [(d, mg_next m)]"
    using assms(2) by (intro nets.set_append_last) auto
  moreover have "snd p \<noteq> mg_next m" if "p \<in> set (mg_networks m)" for p
    using assms(1) that by (auto simp: mg_ok_def)
  ultimately show ?thesis
    using assms(3) by (auto simp: network_view_def add_network_def set_network_def)
qed

text \<open>The networks as they are keyed; loading keeps the keys equal to the descriptions.\<close>

lemma load_networks_written:
  assumes "mg_ok m" "in_step m" "sorted_wrt network_lt (map fst (mg_networks m) @ map fst xs)"
    and "\<And>d ds. (d, ds) \<in> set xs \<Longrightarrow> set ds \<subseteq> fst ` set (mg_nodes m) \<and> sorted_wrt node_lt ds"
  shows "\<exists>m'. load_networks (length xs) (source_of p (written_networks xs @ src)) m = (Inr (source_of p src), m') \<and>
    network_view m' = network_view m @ xs \<and> node_view m' = node_view m"
  using assms
proof (induction xs arbitrary: m)
  case (Cons x xs)
  obtain d ds where x: "x = (d, ds)" by (cases x)
  let ?m = "add_network d m"
  have last: "k \<in> fst ` set (mg_networks m) \<Longrightarrow> network_lt k d" for k
    using Cons.prems(3) by (auto simp: x sorted_wrt_append)
  have keys: "mg_networks ?m = mg_networks m @ [(d, mg_next m)]"
    unfolding add_network_def using last by (simp add: nets.set_append_last)
  have fresh: "snd p \<noteq> mg_next m" if "p \<in> set (mg_networks m)" for p
    using Cons.prems(1) that by (auto simp: mg_ok_def)
  have ok: "mg_ok ?m" using Cons.prems(1) by (rule mg_ok_add_network)
  have step: "in_step ?m"
    using Cons.prems(2) fresh by (auto simp: in_step_def keys) (auto simp: add_network_def new_network_def)
  have empty: "mg_network ?m (mg_next m) = new_network d" by (simp add: add_network_def)
  have known: "d' \<in> set ds \<Longrightarrow> d' \<in> fst ` set (mg_nodes ?m)" for d'
    using Cons.prems(4) [of d ds] by (auto simp: x add_network_def)
  have "sorted_wrt node_lt (map fst (nt_nodes (mg_network ?m (mg_next m))) @ ds)"
    using Cons.prems(4) [of d ds] by (simp add: empty x new_network_def)
  from associate_all_written [OF ok step known this]
  obtain w where w: "associate_all (mg_next m) ds ?m = (Inr (), set_network (mg_next m) w ?m)"
      "nt_desc w = d" "map fst (nt_nodes w) = ds"
    by (auto simp: empty new_network_def)
  let ?m' = "set_network (mg_next m) w ?m"
  have nodes: "mg_nodes ?m' = mg_nodes m" "node_view ?m' = node_view m"
    by (simp_all add: set_network_def add_network_def node_view_def)
  have "mg_ok ?m'" using mg_ok_associate_all [OF ok w(1)] .
  moreover have "in_step ?m'"
    using step w(2) fresh Cons.prems(2) by (auto simp: in_step_def set_network_def keys)
  moreover have "sorted_wrt network_lt (map fst (mg_networks ?m') @ map fst xs)"
    using Cons.prems(3) by (simp add: set_network_def keys x)
  moreover have "\<And>d ds. (d, ds) \<in> set xs \<Longrightarrow> set ds \<subseteq> fst ` set (mg_nodes ?m') \<and> sorted_wrt node_lt ds"
    using Cons.prems(4) nodes(1) by (metis list.set_intros(2))
  ultimately obtain m' where m': "load_networks (length xs) (source_of p (written_networks xs @ src)) ?m' = (Inr (source_of p src), m')"
      "network_view m' = network_view ?m' @ xs" "node_view m' = node_view ?m'"
    using Cons.IH [of ?m'] by blast
  have "network_view ?m' = network_view m @ [(d, ds)]"
    using network_view_add [OF Cons.prems(1) last w(2)] w(3) by simp
  with m' w(1) nodes(2) show ?case
    by (auto simp: x written_networks_def Let_def)
qed (simp add: written_networks_def)

subsection \<open>A network with a node that is gone\<close>

lemma associate_all_result: "fst (associate_all k ds m) \<in> {Inr (), Inl DataException} \<and>
    mg_nodes (snd (associate_all k ds m)) = mg_nodes m"
proof (induction ds arbitrary: m)
  case (Cons d ds)
  show ?case
  proof (cases "smap_find node_lt d (mg_nodes m)")
    case (Some p)
    then have "alive m (snd p)"
      using smap_find_in_set [of node_lt d "mg_nodes m" "fst p" "snd p"] by (force simp: alive_def)
    then show ?thesis
      using Some Cons.IH by (auto simp: associateNode_def Let_def set_network_def split: prod.split)
  qed simp
qed simp

lemma associate_all_missing:
  assumes "d \<in> set ds" "smap_find node_lt d (mg_nodes m) = None"
  shows "fst (associate_all k ds m) = Inl DataException"
  using assms
proof (induction ds arbitrary: m)
  case (Cons d' ds)
  show ?case
  proof (cases "smap_find node_lt d' (mg_nodes m)")
    case (Some p)
    then have "alive m (snd p)"
      using smap_find_in_set [of node_lt d' "mg_nodes m" "fst p" "snd p"] by (force simp: alive_def)
    moreover have "d \<in> set ds" using Cons.prems Some by auto
    ultimately show ?thesis
      using Some Cons.IH Cons.prems(2) by (auto simp: associateNode_def Let_def set_network_def split: prod.split)
  qed simp
qed simp

lemma load_networks_missing:
  assumes "(nd, ds) \<in> set xs" "d \<in> set ds" "smap_find node_lt d (mg_nodes m) = None"
  shows "fst (load_networks (length xs) (source_of p (written_networks xs @ src)) m) = Inl DataException"
  using assms
proof (induction xs arbitrary: m)
  case (Cons x xs)
  obtain nd' ds' where x: "x = (nd', ds')" by (cases x)
  let ?m = "add_network nd' m"
  have nodes: "mg_nodes ?m = mg_nodes m" by (simp add: add_network_def)
  obtain r m' where all: "associate_all (mg_next m) ds' ?m = (r, m')" by (metis prod.exhaust)
  have r: "r = Inr () \<or> r = Inl DataException" and m': "mg_nodes m' = mg_nodes m"
    using associate_all_result [of "mg_next m" ds' ?m] by (auto simp: all nodes)
  show ?case
  proof (cases "r = Inl DataException")
    case True
    then show ?thesis by (simp add: x written_networks_def Let_def all)
  next
    case False
    then have "d \<notin> set ds'"
      using associate_all_missing [of d ds' ?m "mg_next m"] Cons.prems(3) by (auto simp: all nodes)
    then have "(nd, ds) \<in> set xs" using Cons.prems(1,2) by (auto simp: x)
    then show ?thesis
      using False r Cons.IH [of m'] Cons.prems(2,3) m' by (simp add: x written_networks_def Let_def all)
  qed
qed simp

subsection \<open>The whole file\<close>

lemma set_node_same [simp]: "set_node i (mg_node m i) m = m"
  by (simp add: set_node_def)

lemma stop_nodes_idle: "(\<And>i. i \<in> set is \<Longrightarrow> \<not> isActive (mg_node m i)) \<Longrightarrow> stop_nodes is m = (Inr (), m)"
  by (induction "is") (auto simp: stopConnections_def)

definition idle :: "manager \<Rightarrow> bool" where
  "idle m \<longleftrightarrow> (\<forall>p \<in> set (mg_nodes m). \<not> isActive (mg_node m (snd p)))"

lemma clear_idle: "idle m \<Longrightarrow> clear m = (Inr (), m\<lparr>mg_nodes := [], mg_networks := []\<rparr>)"
proof -
  assume "idle m"
  then have "stop_nodes (map snd (mg_nodes m)) m = (Inr (), m)"
    by (intro stop_nodes_idle) (auto simp: idle_def)
  then show ?thesis by (simp add: clear_def stopAll_def getAllNodes_def)
qed

definition saved_accounts :: "manager \<Rightarrow> (NodeDescription \<times> MyUser) list" where
  "saved_accounts m = map (\<lambda>p. (nd_desc (mg_node m (snd p)), nd_user (mg_node m (snd p)))) (mg_nodes m)"

lemma saved_items_written:
  "saved_items m =
     I_Text (digits (length (saved_accounts m))) # map (\<lambda>(d, u). I_Node d u) (saved_accounts m) @
     I_Text (digits (length (network_view m))) # written_networks (network_view m)"
  by (simp add: saved_items_def saved_accounts_def network_view_def
      written_networks_def comp_def)

lemma load_count_digits: "n < 2 ^ 31 \<Longrightarrow> load_count (source_of p (I_Text (digits n) # src)) = Some (n, source_of p src)"
  by (simp add: load_count_def stoi_digits)

lemma load_items_saved:
  assumes "length (mg_nodes m) < 2 ^ 31" "length (mg_networks m) < 2 ^ 31"
  shows "load_items (source_of p (saved_items m)) m0 =
    (case load_networks (length (network_view m)) (source_of p (written_networks (network_view m) @ []))
            (with_nodes (saved_accounts m) m0) of
       (Inl x, m') \<Rightarrow> (Inl x, m') | (Inr _, m') \<Rightarrow> (Inr (), m'))"
  using assms load_nodes_written [of "saved_accounts m"]
  by (simp add: load_items_def saved_items_written load_count_digits saved_accounts_def network_view_def)

lemma node_view_restored:
  assumes "mg_ok m" "in_step m" "mg_ok m0" "mg_nodes m0 = []"
  shows "node_view (with_nodes (saved_accounts m) m0) = node_view m"
proof -
  have keys: "map fst (saved_accounts m) = map fst (mg_nodes m)"
    using assms(2) by (simp add: saved_accounts_def in_step_def)
  have "sorted_wrt node_lt (map fst (mg_nodes m))"
    using assms(1) by (simp add: mg_ok_def smap_ok_def)
  then have "node_view (with_nodes (saved_accounts m) m0) = node_view m0 @ map (\<lambda>(d, u). (d, d, u)) (saved_accounts m)"
    by (intro node_view_with_nodes assms(3)) (simp add: assms(4) keys)
  then show ?thesis
    using assms(2) by (simp add: assms(4) node_view_def saved_accounts_def in_step_def)
qed

lemma find_None_keys: "map fst m = map fst m' \<Longrightarrow> smap_find lt k m = None \<longleftrightarrow> smap_find lt k m' = None"
proof (induction m arbitrary: m')
  case (Cons x m)
  then obtain y ys where "m' = y # ys" "fst y = fst x" "map fst m = map fst ys" by (cases m') auto
  then show ?case using Cons.IH [of ys] by (cases x; cases y) auto
qed simp

lemma load_items_restores:
  assumes m: "mg_ok m" "in_step m" "length (mg_nodes m) < 2 ^ 31" "length (mg_networks m) < 2 ^ 31"
    and known: "\<And>d ds x. (d, ds) \<in> set (network_view m) \<Longrightarrow> x \<in> set ds \<Longrightarrow> x \<in> fst ` set (mg_nodes m)"
    and m0: "mg_ok m0" "mg_nodes m0 = []" "mg_networks m0 = []"
  shows "\<exists>m'. load_items (source_of p (saved_items m)) m0 = (Inr (), m') \<and>
    node_view m' = node_view m \<and> network_view m' = network_view m"
proof -
  let ?m1 = "with_nodes (saved_accounts m) m0"
  have view: "node_view ?m1 = node_view m" using node_view_restored [OF m(1,2) m0(1,2)] .
  have nodes: "fst ` set (mg_nodes ?m1) = fst ` set (mg_nodes m)"
    using map_fst_node_view [of ?m1] map_fst_node_view [of m] view by (metis list.set_map)
  have "fst p = nd_desc (mg_node ?m1 (snd p))" if "p \<in> set (mg_nodes ?m1)" for p
  proof -
    have "(fst p, nd_desc (mg_node ?m1 (snd p)), nd_user (mg_node ?m1 (snd p))) \<in> set (node_view m)"
      unfolding view [symmetric] using that by (force simp: node_view_def)
    then show ?thesis using m(2) by (auto simp: node_view_def in_step_def)
  qed
  then have step: "in_step ?m1"
    using same_networks_with_nodes [of m0 "saved_accounts m"] by (simp add: in_step_def same_networks_def m0(3))
  have nets: "map fst (network_view m) = map fst (mg_networks m)"
    using m(2) by (simp add: network_view_def in_step_def)
  have none: "mg_networks ?m1 = []"
    using same_networks_with_nodes [of m0 "saved_accounts m"] by (simp add: same_networks_def m0(3))
  then have empty: "network_view ?m1 = []" by (simp add: network_view_def)
  have "sorted_wrt node_lt ds" if "(d, ds) \<in> set (network_view m)" for d ds
    using that m(1) by (auto simp: network_view_def mg_ok_def smap_ok_def)
  then have sub: "set ds \<subseteq> fst ` set (mg_nodes ?m1) \<and> sorted_wrt node_lt ds"
    if "(d, ds) \<in> set (network_view m)" for d ds
    using that known nodes by blast
  have "sorted_wrt network_lt (map fst (mg_networks ?m1) @ map fst (network_view m))"
    using m(1) by (simp add: none nets mg_ok_def smap_ok_def)
  from load_networks_written [where src = "[]", OF mg_ok_with_nodes [OF m0(1)] step this]
  obtain m' where "load_networks (length (network_view m)) (source_of p (written_networks (network_view m) @ [])) ?m1 = (Inr (source_of p []), m')"
      "network_view m' = network_view ?m1 @ network_view m" "node_view m' = node_view ?m1"
    using sub by blast
  then show ?thesis
    using view empty by (simp add: load_items_saved [OF m(3,4)])
qed

lemma load_items_missing:
  assumes m: "mg_ok m" "in_step m" "length (mg_nodes m) < 2 ^ 31" "length (mg_networks m) < 2 ^ 31"
    and gone: "(nd, ds) \<in> set (network_view m)" "d \<in> set ds" "getNode d m = Inl NodeException"
    and m0: "mg_ok m0" "mg_nodes m0 = []"
  shows "fst (load_items (source_of p (saved_items m)) m0) = Inl DataException"
proof -
  let ?m1 = "with_nodes (saved_accounts m) m0"
  have "map fst (mg_nodes ?m1) = map fst (mg_nodes m)"
    using node_view_restored [OF m(1,2) m0] map_fst_node_view [of ?m1] map_fst_node_view [of m] by simp
  moreover have "smap_find node_lt d (mg_nodes m) = None"
    using gone(3) by (auto simp: getNode_def split: option.splits)
  ultimately have "smap_find node_lt d (mg_nodes ?m1) = None"
    using find_None_keys [of "mg_nodes ?m1" "mg_nodes m" node_lt d] by simp
  then have "fst (load_networks (length (network_view m)) (source_of p (written_networks (network_view m) @ [])) ?m1) = Inl DataException"
    by (rule load_networks_missing [OF gone(1,2)])
  then obtain m' where
      "load_networks (length (network_view m)) (source_of p (written_networks (network_view m) @ [])) ?m1 = (Inl DataException, m')"
    by (metis prod.collapse)
  then show ?thesis unfolding load_items_saved [OF m(3,4)] by simp
qed

text \<open>What loading makes of a file that the same kind of data manager has written.\<close>

lemma loadState_saved:
  assumes "dm_dataFile (mg_data m) \<noteq> []" "crypto_ok cy"
    and "af_items af (af_text af (saved_items m)) = Some (saved_items m)" "idle m0" "mg_data m0 = mg_data m"
  shows "\<exists>fs'. saveState af cy salt m fs = (Inr (), fs') \<and>
    loadState af cy fs' m0 = load_items (source_of (dm_protection (mg_data m)) (saved_items m)) (m0\<lparr>mg_nodes := [], mg_networks := []\<rparr>)"
  using assms getSource_written [OF assms(2,3)] by (simp add: saveState_written loadState_def clear_idle Let_def)

lemma mg_ok_emptied: "mg_ok m \<Longrightarrow> mg_ok (m\<lparr>mg_nodes := [], mg_networks := []\<rparr>)"
  by (simp add: mg_ok_def smap_ok_def)

lemma stop_nodes_active:
  assumes "i \<in> set is" "isActive (mg_node m i)" "\<And>j. \<not> nc_socket_open (nd_connection (mg_node m j))"
  shows "stop_nodes is m = (Inl System_Error, m)"
  using assms(1)
proof (induction "is")
  case (Cons j js)
  then show ?case
    using assms(2,3) by (cases "isActive (mg_node m j)") (auto simp: stopConnections_def nc_disconnect_def)
qed simp

end
