(* ===== verification/Client_Properties.thy ===== *)
theory Client_Properties
  imports Client_Restore
begin

text \<open>The properties of the client library, with the concrete data of their witnesses.\<close>

subsection \<open>Concrete data\<close>

definition ex_desc :: "string \<Rightarrow> NodeDescription" where
  "ex_desc name = \<lparr>no_ip_address = ''127.0.0.1'', no_node_name = name, no_port = 1234\<rparr>"

definition ex_net :: NetworkDescription where
  "ex_net = \<lparr>nw_access_rights = PUBLIC, nw_visability = LISTED, nw_participation_rights = CLIENT_SERVER,
     nw_protocol_name = ''chat'', nw_network_name = ''friends'',
     nw_creator = \<lparr>us_username = ''eve'', us_email = ''eve@x''\<rparr>\<rparr>"

definition ex_body :: "byte list" where "ex_body = [7, 8]"

definition ex_dec :: "byte list \<Rightarrow> NodeMessage option" where
  "ex_dec bs = (if bs = ex_body then Some new_NodeMessage else None)"

definition fresh_connection :: client_connection where
  "fresh_connection = \<lparr>is_active = True, cc_parser = new_parser\<rparr>"

text \<open>A Botan whose files hold a mark for the kind of element, and the password of a private key.\<close>

definition ex_botan :: botan where
  "ex_botan =
     \<lparr>bt_generate = (\<lambda>bits. ''key''), bt_private_pem = (\<lambda>k. ''0'' @ k),
      bt_encrypted_pem = (\<lambda>k p. ''1'' @ p @ ''/'' @ k),
      bt_private_key = (\<lambda>t p. if take 1 t = ''0'' then Some (drop 1 t)
        else if take (length p + 2) t = ''1'' @ p @ ''/'' then Some (drop (length p + 2) t) else None),
      bt_public_pem = (\<lambda>k. ''2'' @ k), bt_public_key = (\<lambda>t. if take 1 t = ''2'' then Some (drop 1 t) else None),
      bt_certificate_pem = (\<lambda>c. c), bt_certificate = Some\<rparr>"

text \<open>A link on which nothing can be sent.\<close>

definition dead_env :: "nat client_env" where
  "dead_env =
     \<lparr>ce_link = \<lparr>lk_connect = (\<lambda>d w. (False, w)), lk_send = (\<lambda>bs w. (Not_Sent, Suc w))\<rparr>,
      ce_resolves = (\<lambda>_. True), ce_ser = (\<lambda>_. [1]), ce_parse = ex_dec, ce_pkcs10 = (\<lambda>a b c d k. k),
      ce_botan = ex_botan, ce_files = (\<lambda>_. None), ce_from_string = (\<lambda>s. Some s), ce_indet = (\<lambda>_. LISTED)\<rparr>"

text \<open>A manager of two nodes, with a network that is associated with both.\<close>

definition ex_data :: data_manager where
  "ex_data = \<lparr>dm_dataFile = ''state'', dm_protection = Encrypted ''pw''\<rparr>"

definition ex_manager :: manager where
  "ex_manager =
     snd (associateNode 2 1 (snd (associateNode 2 0 (snd (createNetwork_of ex_net
       (snd (createNode (ex_desc ''b'') (snd (createNode (ex_desc ''a'') (new_manager ex_data))))))))))"

text \<open>A cipher and an encoding for the witnesses: letters stand for half bytes.\<close>

definition ex_half :: "nat \<Rightarrow> char" where "ex_half k = char_of (65 + k)"

definition ex_hex :: "string \<Rightarrow> string" where
  "ex_hex s = concat (map (\<lambda>c. [ex_half (of_char c div 16), ex_half (of_char c mod 16)]) s)"

fun ex_unhex :: "string \<Rightarrow> string option" where
  "ex_unhex [] = Some []"
| "ex_unhex [a] = None"
| "ex_unhex (a # b # s) =
     map_option (\<lambda>r. char_of ((of_char a - 65) * 16 + (of_char b - 65 :: nat)) # r) (ex_unhex s)"

definition ex_crypto :: crypto where
  "ex_crypto =
     \<lparr>cy_derive = (\<lambda>n p s. p), cy_encrypt = (\<lambda>k iv s. rev s), cy_decrypt = (\<lambda>k iv s. Some (rev s)),
      cy_mac = (\<lambda>k s. k), cy_base64 = ex_hex, cy_unbase64 = (\<lambda>s. ex_unhex (filter (\<lambda>c. c \<noteq> nl) s)),
      cy_breaks = (\<lambda>s. s @ [nl])\<rparr>"

lemma of_char_less: "of_char c < (256 :: nat)"
  using of_char_mod_256 [of c] by (metis mod_less_divisor zero_less_numeral)

lemma ex_unhex_hex: "ex_unhex (ex_hex s) = Some s"
proof (induction s)
  case (Cons c s)
  have "of_char c div 16 < (16 :: nat)" using of_char_less [of c] by linarith
  then show ?case
    using Cons by (simp add: ex_hex_def ex_half_def)
qed (simp add: ex_hex_def)

lemma ex_crypto_ok: "crypto_ok ex_crypto"
proof -
  have "nl \<notin> set (ex_hex s)" for s
  proof -
    have "ex_half k \<noteq> nl" if "k < 16" for k
      using that by (simp add: ex_half_def nl_def char_of_eq_iff take_bit_nat_eq_self)
    moreover have "of_char c div 16 < (16 :: nat)" for c :: char
      using of_char_less [of c] by linarith
    ultimately have "nl \<noteq> ex_half (of_char c div 16)" "nl \<noteq> ex_half (of_char c mod 16)" for c :: char
      by (metis mod_less_divisor zero_less_numeral)+
    then show ?thesis by (auto simp: ex_hex_def)
  qed
  moreover from this have "filter (\<lambda>c. c \<noteq> nl) (ex_hex s) = ex_hex s" for s
    by (simp add: filter_id_conv) metis
  ultimately show ?thesis by (simp add: crypto_ok_def ex_crypto_def ex_unhex_hex)
qed

definition ex_broken :: manager where
  "ex_broken = snd (removeNode (ex_desc ''a'') ex_manager)"

text \<open>An archive that knows one state.\<close>

definition ex_archive :: "manager \<Rightarrow> archive_format" where
  "ex_archive m = \<lparr>af_text = (\<lambda>_. ''archive''), af_items = (\<lambda>s. Some (saved_items m))\<rparr>"

lemma reach_snd:
  "manager_reach af cy m \<Longrightarrow> manager_reach af cy (snd (createNode d m))"
  "manager_reach af cy m \<Longrightarrow> manager_reach af cy (snd (createNetwork_of nd m))"
  "manager_reach af cy m \<Longrightarrow> manager_reach af cy (snd (associateNode k i m))"
  "manager_reach af cy m \<Longrightarrow> manager_reach af cy (snd (removeNode d m))"
  by (metis mr_step ms_createNode prod.collapse, metis mr_step ms_createNetwork prod.collapse,
      metis mr_step ms_associate prod.collapse, metis mr_step ms_removeNode prod.collapse)

lemma ex_reach: "manager_reach af cy ex_manager" "manager_reach af cy ex_broken"
  unfolding ex_broken_def ex_manager_def by (intro reach_snd mr_new)+

lemma ex_manager_values:
  "mg_nodes ex_manager = [(ex_desc ''a'', 0), (ex_desc ''b'', 1)]"
  "network_view ex_manager = [(ex_net, [ex_desc ''a'', ex_desc ''b''])]"
  "length (mg_networks ex_manager) = 1" "mg_data ex_manager = ex_data" "in_step ex_manager"
  "mg_nodes ex_broken = [(ex_desc ''b'', 1)]" "length (mg_networks ex_broken) = 1"
  "network_view ex_broken = [(ex_net, [ex_desc ''a'', ex_desc ''b''])]"
  "mg_data ex_broken = ex_data" "in_step ex_broken" "getNode (ex_desc ''a'') ex_broken = Inl NodeException"
  by code_simp+

subsection \<open>Reading answers\<close>

text \<open>C28. However the bytes of a framed answer are cut into reads, the client delivers exactly this
  answer, and its parser is ready for the next one.\<close>

theorem answer_in_any_chunks:
  assumes "concat chunks = framed body" "length body < 2 ^ 31" "parse_pb body = Some m"
    and "cc_parser c = new_parser"
  shows "readMessage parse_pb chunks e c = (Answer m, c)"
proof -
  have "framed body \<noteq> []" by (simp flip: length_0_conv)
  moreover obtain a where "c = \<lparr>is_active = a, cc_parser = new_parser\<rparr>" using assms(4) by (cases c) simp
  ultimately show ?thesis
    using assms readMessage_at [of body "[]" chunks parse_pb e c] by simp
qed

theorem answer_in_any_chunks_witness:
  "readMessage ex_dec [[2], [0, 0], [0, 7], [8]] Silence fresh_connection = (Answer new_NodeMessage, fresh_connection)"
  by (rule answer_in_any_chunks [where body = ex_body])
    (simp_all add: ex_body_def ex_dec_def framed_def le32_bytes_def fresh_connection_def)

text \<open>Of an answer that breaks off nothing is delivered: the request ends with \<^verbatim>\<open>SendException\<close> when
  the connection fails, and waits when it stays silent, whatever the bytes that came.\<close>

theorem cut_answer_never_delivered:
  assumes "concat chunks @ missing = framed body" "missing \<noteq> []" "length body < 2 ^ 31"
    and "cc_parser c = new_parser"
  shows "fst (readMessage parse_pb chunks e c) =
    (case e of Read_Fails \<Rightarrow> SendException | Silence \<Rightarrow> No_Answer)"
proof -
  obtain a where "c = \<lparr>is_active = a, cc_parser = new_parser\<rparr>" using assms(4) by (cases c) simp
  then show ?thesis
    using assms readMessage_cut_at [of body "[]" chunks missing parse_pb e c] by simp
qed

theorem cut_answer_never_delivered_witness:
  "fst (readMessage ex_dec [[2, 0], [0, 0, 7]] Read_Fails fresh_connection) = SendException"
  using cut_answer_never_delivered [of "[[2, 0], [0, 0, 7]]" "[8]" ex_body fresh_connection ex_dec Read_Fails]
  by (simp add: ex_body_def framed_def le32_bytes_def fresh_connection_def)

subsection \<open>The account\<close>

text \<open>C30. Without a session no operation sends or changes anything but logging in and registering: it
  answers \<^verbatim>\<open>NOT_LOGGED\<close> and leaves the node and the world as they are, for every operation that needs
  a session.\<close>

theorem no_session_sends_nothing:
  assumes "\<not> node_isLogged n"
  shows "logOut e n w = (Returned NE_NOT_LOGGED, n, w) \<and>
    changePassword e p n w = (Returned NE_NOT_LOGGED, n, w) \<and>
    getUserInfo_node e d s n w = (Returned (NE_NOT_LOGGED, \<lparr>us_username = '''', us_email = ''''\<rparr>), n, w) \<and>
    inviteUser e d u n w = (Returned NE_NOT_LOGGED, n, w) \<and>
    getNetworksList e n w = (Returned (NE_NOT_LOGGED, []), n, w) \<and>
    getMyNetworks e n w = (Returned (NE_NOT_LOGGED, []), n, w) \<and>
    getServersList e d n w = (Returned (NE_NOT_LOGGED, []), n, w) \<and>
    registerNetwork e d n w = (Returned NE_NOT_LOGGED, n, w) \<and>
    deleteNetwork_node e d n w = (Returned NE_NOT_LOGGED, n, w) \<and>
    updateServer_node e d port n w = (Returned (NE_NOT_LOGGED, 0), n, w) \<and>
    stopServer e d n w = (Returned NE_NOT_LOGGED, n, w) \<and>
    signKey e k nd n w = (Returned (NE_NOT_LOGGED, None), n, w)"
  using assms
  by (simp add: logOut_def changePassword_def getUserInfo_node_def networks_query_def getServersList_def
      updateServer_node_def signKey_def command_def op_defs Let_def with_session_not_logged)

theorem no_session_sends_nothing_witness:
  "deleteNetwork_node dead_env ex_net (new_node (ex_desc ''a'')) 0 =
     (Returned NE_NOT_LOGGED, new_node (ex_desc ''a''), 0)"
  using no_session_sends_nothing [of "new_node (ex_desc ''a'')" dead_env 0]
  by (simp add: new_node_def new_node_with_def node_isLogged_def new_node_connection_def)

text \<open>C31. Whatever the application, the network and the timer do, also when the application writes into the
  stores of the node, a node with a session knows its user as registered, and the socket that
  \<^verbatim>\<open>disconnect\<close> asks for its peer is never open. A new user starts without certificates and without a
  session, and no operation gives certificates to a user who is not registered: if the user is not
  registered after it, the certificates are those from before.\<close>

theorem account_stays_consistent:
  assumes "client_reach e (n, w)"
  shows "(node_isLogged n \<longrightarrow> isRegistered n) \<and> \<not> nc_socket_open (nd_connection n) \<and>
    (\<forall>u n'. setUser u n = Some n' \<longrightarrow> nd_free_certs n' = [] \<and> nd_net_certs n' = [] \<and> \<not> node_isLogged n') \<and>
    (\<forall>op w0 c n' w'. run_op e op n w0 = (c, n', w') \<and> \<not> isRegistered n' \<longrightarrow>
       nd_free_certs n' = nd_free_certs n \<and> nd_net_certs n' = nd_net_certs n)"
proof -
  have ok: "account_ok n" using client_reach_ok [OF assms] by simp
  have "nd_free_certs n' = nd_free_certs n \<and> nd_net_certs n' = nd_net_certs n"
    if "run_op e op n w0 = (c, n', w')" "\<not> isRegistered n'" for op w0 c n' w'
    using run_op_ok [OF that(1) ok [unfolded account_ok_iff]] that(2) by (simp add: node_ok_def)
  then show ?thesis using ok setUser_empties by (auto simp: account_ok_def)
qed

theorem account_stays_consistent_witness:
  "let n = fst (snd (run_op dead_env Op_logIn (new_node (ex_desc ''a'')) 0))
   in node_isLogged n \<longrightarrow> isRegistered n"
proof -
  let ?n = "new_node (ex_desc ''a'')"
  have "client_step dead_env (?n, 0) (snd (run_op dead_env Op_logIn ?n 0))"
    by (metis cl_op prod.collapse)
  then have "client_reach dead_env (snd (run_op dead_env Op_logIn ?n 0))"
    by (rule cr_step [OF cr_new])
  then show ?thesis
    using account_stays_consistent [of dead_env "fst (snd (run_op dead_env Op_logIn ?n 0))"
        "snd (snd (run_op dead_env Op_logIn ?n 0))"] by (simp add: Let_def)
qed

subsection \<open>The manager\<close>

text \<open>C32. The lookup of nodes follows the operations, in every manager the application can reach: a node
  is created exactly when no node of that name is known, it is found afterwards, a removed node is not,
  and no lookup of another name changes.\<close>

theorem lookup_follows_operations:
  assumes "manager_reach af cy m"
  shows "(if \<exists>i. getNode d m = Inr i then createNode d m = (Inl NodeException, m)
      else \<exists>m'. createNode d m = (Inr (mg_next m), m') \<and> mg_node m' (mg_next m) = new_node d \<and>
        (\<forall>d'. getNode d' m' = (if no_node_name d' = no_node_name d then Inr (mg_next m) else getNode d' m))) \<and>
    (if \<exists>i. getNode d m = Inr i
     then \<exists>m'. removeNode d m = (Inr (), m') \<and>
        (\<forall>d'. getNode d' m' = (if no_node_name d' = no_node_name d then Inl NodeException else getNode d' m))
     else removeNode d m = (Inl NodeException, m))"
proof -
  have ok: "mg_ok m" using mg_ok_reach [OF assms] .
  have "(\<exists>i. getNode d m = Inr i) \<longleftrightarrow> smap_find node_lt d (mg_nodes m) \<noteq> None"
    by (auto simp: getNode_def split: option.splits)
  then show ?thesis
    using getNode_add_node [OF ok, of _ d "new_node d"] getNode_erase [OF ok, of _ d]
    by (auto simp: createNode_def removeNode_def split: option.splits)
qed

theorem lookup_follows_operations_witness:
  "\<exists>m'. createNode (ex_desc ''a'') (new_manager ex_data) = (Inr 0, m') \<and> getNode (ex_desc ''a'') m' = Inr 0"
proof -
  have "getNode d (new_manager ex_data) = Inl NodeException" for d
    by (simp add: getNode_def new_manager_def)
  then show ?thesis
    using lookup_follows_operations [OF mr_new [of _ _ ex_data], of "ex_desc ''a''"]
    by (auto simp: new_manager_def)
qed

text \<open>C33. The overloads that take a name do what the overloads that take a description do, although they
  walk over the map and compare names; only the exception of \<^verbatim>\<open>getNetwork\<close> differs.\<close>

theorem lookup_by_name_equivalent:
  assumes "manager_reach af cy m"
  shows "getNode_named (no_node_name d) m = getNode d m \<and>
    removeNode_named (no_node_name d) m = removeNode d m \<and>
    removeNetwork_named (nw_network_name nd) m = removeNetwork nd m \<and>
    getNetwork_named (nw_network_name nd) m =
      (case getNetwork nd m of Inl _ \<Rightarrow> Inl NodeException | Inr k \<Rightarrow> Inr k)"
  using mg_ok_reach [OF assms] getNetwork_named_get
  by (simp add: getNode_named_get removeNode_named_eq removeNetwork_named_eq)

theorem lookup_by_name_equivalent_witness:
  "getNode_named ''a'' (new_manager ex_data) = getNode (ex_desc ''a'') (new_manager ex_data)"
  using lookup_by_name_equivalent [OF mr_new [of _ _ ex_data], of "ex_desc ''a''"] by (simp add: ex_desc_def)

text \<open>C34. While a node is connected, a manager can be neither cleared nor loaded: \<^verbatim>\<open>disconnect\<close> asks a socket
  that was never opened for its peer, and the exception leaves both calls before anything has changed.\<close>

theorem active_manager_cannot_be_cleared:
  assumes "(d, i) \<in> set (mg_nodes m)" "isActive (mg_node m i)"
    and "\<And>j. \<not> nc_socket_open (nd_connection (mg_node m j))"
  shows "clear m = (Inl System_Error, m) \<and> loadState af cy fs m = (Inl System_Error, m)"
proof -
  have "i \<in> set (map snd (mg_nodes m))" using assms(1) by force
  then have "stop_nodes (map snd (mg_nodes m)) m = (Inl System_Error, m)"
    using assms(2,3) by (rule stop_nodes_active)
  then show ?thesis by (simp add: clear_def loadState_def stopAll_def getAllNodes_def)
qed

definition ex_connected :: node where
  "ex_connected = (new_node (ex_desc ''a''))
     \<lparr>nd_connection := new_node_connection\<lparr>nc_connection := Some fresh_connection\<rparr>\<rparr>"

theorem active_manager_cannot_be_cleared_witness:
  "fst (clear (add_node (ex_desc ''a'') ex_connected (new_manager ex_data))) = Inl System_Error"
  by (rule active_manager_cannot_be_cleared [THEN conjunct1, THEN arg_cong [where f = fst], simplified,
        of "ex_desc ''a''" 0])
    (simp_all add: add_node_def new_manager_def ex_connected_def isActive_def fresh_connection_def
      new_node_def new_node_with_def new_node_connection_def nc_isActive_def)

text \<open>C35. What is saved is loaded: after \<^verbatim>\<open>saveState\<close>, an idle manager that loads the file has the same nodes
  with the same accounts and the same networks with the same associated nodes, when every associated
  node is known to the saved manager.\<close>

theorem saved_state_restored:
  assumes "manager_reach af cy m" "in_step m" "length (mg_nodes m) < 2 ^ 31" "length (mg_networks m) < 2 ^ 31"
    and "\<And>nd ds d. (nd, ds) \<in> set (network_view m) \<Longrightarrow> d \<in> set ds \<Longrightarrow> d \<in> fst ` set (mg_nodes m)"
    and "dm_dataFile (mg_data m) \<noteq> []" "crypto_ok cy"
    and "af_items af (af_text af (saved_items m)) = Some (saved_items m)"
    and "manager_reach af cy m0" "idle m0" "mg_data m0 = mg_data m"
  shows "\<exists>fs' m'. saveState af cy salt m fs = (Inr (), fs') \<and> loadState af cy fs' m0 = (Inr (), m') \<and>
    node_view m' = node_view m \<and> network_view m' = network_view m"
proof -
  let ?m0 = "m0\<lparr>mg_nodes := [], mg_networks := []\<rparr>"
  have "mg_ok ?m0" using mg_ok_reach [OF assms(9)] by (rule mg_ok_emptied)
  then obtain m' where "load_items (source_of (dm_protection (mg_data m)) (saved_items m)) ?m0 = (Inr (), m')"
      "node_view m' = node_view m" "network_view m' = network_view m"
    using load_items_restores [OF mg_ok_reach [OF assms(1)] assms(2-4)] assms(5) by force
  then show ?thesis using loadState_saved [OF assms(6-8,10,11), of salt fs] by auto
qed

theorem saved_state_restored_witness:
  "\<exists>fs' m'. saveState (ex_archive ex_manager) ex_crypto ''salt'' ex_manager (\<lambda>_. None) = (Inr (), fs') \<and>
    loadState (ex_archive ex_manager) ex_crypto fs' (new_manager ex_data) = (Inr (), m') \<and>
    node_view m' = node_view ex_manager \<and> network_view m' = network_view ex_manager"
  by (rule saved_state_restored [OF ex_reach(1) _ _ _ _ _ ex_crypto_ok _ mr_new])
    (auto simp: ex_manager_values ex_archive_def ex_data_def idle_def new_manager_def)

text \<open>C36. A saved manager with a network whose associated node was removed from it cannot be loaded:
  removing a node leaves it in the networks, their names are written, and the reader gives up with
  a \<^verbatim>\<open>DataException\<close>.\<close>

theorem removed_node_breaks_saved_state:
  assumes "manager_reach af cy m" "in_step m" "length (mg_nodes m) < 2 ^ 31" "length (mg_networks m) < 2 ^ 31"
    and "(nd, ds) \<in> set (network_view m)" "d \<in> set ds" "getNode d m = Inl NodeException"
    and "dm_dataFile (mg_data m) \<noteq> []" "crypto_ok cy"
    and "af_items af (af_text af (saved_items m)) = Some (saved_items m)"
    and "manager_reach af cy m0" "idle m0" "mg_data m0 = mg_data m"
  shows "\<exists>fs'. saveState af cy salt m fs = (Inr (), fs') \<and> fst (loadState af cy fs' m0) = Inl DataException"
proof -
  let ?m0 = "m0\<lparr>mg_nodes := [], mg_networks := []\<rparr>"
  have "fst (load_items (source_of (dm_protection (mg_data m)) (saved_items m)) ?m0) = Inl DataException"
    using load_items_missing [OF mg_ok_reach [OF assms(1)] assms(2-7), of ?m0]
      mg_ok_emptied [OF mg_ok_reach [OF assms(11)]] by simp
  then show ?thesis using loadState_saved [OF assms(8-10,12,13), of salt fs] by auto
qed

theorem removed_node_breaks_saved_state_witness:
  "\<exists>fs'. saveState (ex_archive ex_broken) ex_crypto ''salt'' ex_broken (\<lambda>_. None) = (Inr (), fs') \<and>
    fst (loadState (ex_archive ex_broken) ex_crypto fs' (new_manager ex_data)) = Inl DataException"
  by (rule removed_node_breaks_saved_state [where d = "ex_desc ''a''" and nd = ex_net
        and ds = "[ex_desc ''a'', ex_desc ''b'']", OF ex_reach(2) _ _ _ _ _ _ _ ex_crypto_ok _ mr_new])
    (auto simp: ex_manager_values ex_archive_def ex_data_def idle_def new_manager_def)

text \<open>C37. The authentication code of an encrypted file is never checked: whatever stands in its line, the
  file is read as if it were the code that was written.\<close>

theorem mac_never_checked:
  assumes "crypto_ok cy" "nl \<notin> set forged"
  shows "read_encrypted cy password (encrypted_file cy salt password content) = Some content \<and>
    encrypted_file cy salt password content = with_mac_line cy salt password
      (cy_base64 cy (cy_mac cy (cy_derive cy 16 (''MAC'' @ password) salt) content)) content \<and>
    read_encrypted cy password (with_mac_line cy salt password forged content) = Some content"
  using assms read_encrypted_file read_with_mac_line encrypted_file_mac_line by blast

theorem mac_never_checked_witness:
  "read_encrypted ex_crypto ''pw'' (with_mac_line ex_crypto ''salt'' ''pw'' ''forged'' ''text'') = Some ''text''"
  using mac_never_checked [OF ex_crypto_ok, of "''forged''" "''pw''" "''salt''" "''text''"]
  by (simp add: nl_def)

end
