(* ===== verification/Client_Async.thy ===== *)
theory Client_Async
  imports Client_Connection
begin

text \<open>
  A connection of the client as it runs (\<^verbatim>\<open>sercli/src/connection.cpp\<close>, \<^verbatim>\<open>handler.cpp\<close>,
  \<^verbatim>\<open>connection_manager.cpp\<close>): tasks posted to its strand, asynchronous writes and reads that the operating
  system ends at some time, the promises that callers wait for, and the pointers that keep the object
  alive. \<open>Client_Connection\<close> is the same seen by a caller who waits for each answer.
\<close>

subsection \<open>State\<close>

text \<open>A posted request carries a shared pointer to the connection in the handler of its promise; the tasks
  of \<^verbatim>\<open>stop\<close> and \<^verbatim>\<open>gracefulStop\<close> carry only \<^verbatim>\<open>this\<close>.\<close>

datatype task = T_Send "byte list" nat | T_Stop | T_Graceful

datatype future = Pending | Value NodeMessage | Exception

record async_connection =
  ac_open :: bool
  ac_active :: bool
  ac_parser :: response_parser
  ac_strand :: "task list"
  ac_send_buf :: "byte list"
  ac_sent :: "byte list"
  ac_writing :: "nat list"
  ac_reading :: "nat list"
  ac_future :: "nat \<Rightarrow> future"
  ac_next :: nat
  ac_owner :: bool
  ac_managed :: bool

definition new_async :: async_connection where
  "new_async =
     \<lparr>ac_open = False, ac_active = True, ac_parser = new_parser, ac_strand = [], ac_send_buf = [], ac_sent = [],
      ac_writing = [], ac_reading = [], ac_future = (\<lambda>_. Pending), ac_next = 0, ac_owner = True, ac_managed = False\<rparr>"

text \<open>What a step can end in besides a state: a promise that is set twice throws, and a task may run on a
  connection that has been destroyed.\<close>

datatype 'a outcome = Fine 'a | Promise_Set_Twice | Use_After_Free

subsection \<open>Connecting\<close>

definition TLS_CLIENT :: "32 word" where "TLS_CLIENT = 4"
definition TLS_SERVER :: "32 word" where "TLS_SERVER = 8"

text \<open>\<open>tcp\<close> and \<open>handshake\<close> say whether the operating system and OpenSSL succeed. The result is the absence
  of an error.\<close>

definition con_connect :: "32 word \<Rightarrow> bool \<Rightarrow> bool \<Rightarrow> async_connection \<Rightarrow> bool \<times> async_connection" where
  "con_connect con_type tcp handshake c =
     (if \<not> tcp then (False, c)
      else (if and con_type TLS_CLIENT \<noteq> 0 \<or> and con_type TLS_SERVER \<noteq> 0 then handshake else False, c\<lparr>ac_open := True\<rparr>))"

text \<open>\<open>asyncConnect\<close> hands its handler to the handshake: without a connection or a role the handler is never
  called, which is \<open>None\<close>.\<close>

definition con_asyncConnect :: "32 word \<Rightarrow> bool \<Rightarrow> bool \<Rightarrow> async_connection \<Rightarrow> bool option \<times> async_connection" where
  "con_asyncConnect con_type tcp handshake c =
     (if \<not> tcp then (None, c)
      else (if and con_type TLS_CLIENT \<noteq> 0 \<or> and con_type TLS_SERVER \<noteq> 0 then Some handshake else None,
            c\<lparr>ac_open := True\<rparr>))"

text \<open>Where the handler is called at all it is told what \<open>connect\<close> returns; otherwise \<open>connect\<close> fails.\<close>

lemma asyncConnect_connect:
  "con_connect con_type tcp handshake c =
     (case con_asyncConnect con_type tcp handshake c of (r, c') \<Rightarrow> (r = Some True, c'))"
  by (simp add: con_connect_def con_asyncConnect_def)

definition verifyCertificate :: "bool \<Rightarrow> bool" where
  "verifyCertificate preverified = preverified"

subsection \<open>Calls\<close>

definition post :: "task \<Rightarrow> async_connection \<Rightarrow> async_connection" where
  "post t c = c\<lparr>ac_strand := ac_strand c @ [t]\<rparr>"

definition con_stop :: "async_connection \<Rightarrow> async_connection" where
  "con_stop c = post T_Stop c"

definition con_gracefulStop :: "async_connection \<Rightarrow> async_connection" where
  "con_gracefulStop c = post T_Graceful c"

definition sendMessage :: "byte list \<Rightarrow> nat \<Rightarrow> async_connection \<Rightarrow> async_connection" where
  "sendMessage body p c = post (T_Send body p) c"

definition con_sendRequest :: "(ClientMessage \<Rightarrow> byte list) \<Rightarrow> ClientMessage \<Rightarrow> async_connection \<Rightarrow> nat \<times> async_connection" where
  "con_sendRequest ser_pb m c =
     (let p = ac_next c
      in (p, sendMessage (ser_pb m) p (c\<lparr>ac_future := (ac_future c)(p := Pending), ac_next := Suc p\<rparr>)))"

subsection \<open>The error handlers\<close>

definition handleResponse :: "async_connection \<Rightarrow> async_connection" where
  "handleResponse c = c"

definition handleSendError :: "async_connection \<Rightarrow> async_connection" where
  "handleSendError c = con_stop c"

definition handleReadError :: "async_connection \<Rightarrow> async_connection" where
  "handleReadError c = con_stop c"

definition handleParseError :: "async_connection \<Rightarrow> async_connection" where
  "handleParseError c = con_stop c"

subsection \<open>Completions\<close>

definition set_promise :: "nat \<Rightarrow> future \<Rightarrow> async_connection \<Rightarrow> async_connection outcome" where
  "set_promise p f c =
     (if ac_future c p = Pending then Fine (c\<lparr>ac_future := (ac_future c)(p := f)\<rparr>) else Promise_Set_Twice)"

definition con_send :: "byte list \<Rightarrow> nat \<Rightarrow> async_connection \<Rightarrow> async_connection" where
  "con_send body p c =
     c\<lparr>ac_send_buf := ac_send_buf c @ le32_bytes (word_of_nat (length body)) @ body,
       ac_writing := ac_writing c @ [p]\<rparr>"

definition start_read :: "nat \<Rightarrow> async_connection \<Rightarrow> async_connection" where
  "start_read p c = c\<lparr>ac_reading := ac_reading c @ [p]\<rparr>"

definition con_sendHandler :: "bool \<Rightarrow> nat \<Rightarrow> async_connection \<Rightarrow> async_connection outcome" where
  "con_sendHandler ec p c = (if ec then set_promise p Exception c else Fine (start_read p c))"

definition con_readHandler :: "NodeMessage option \<Rightarrow> bool \<Rightarrow> nat \<Rightarrow> async_connection \<Rightarrow> async_connection outcome" where
  "con_readHandler resp ec p c = set_promise p (if ec then Exception else Value (the resp)) c"

text \<open>The end of \<^verbatim>\<open>async_write\<close>: it has sent the whole buffer, or failed after \<open>k\<close> bytes of it. Of two
  writes that run at once, as two callers of one connection can start them, the first to end is taken to
  have sent what is in the buffer.\<close>

definition written :: "nat \<Rightarrow> async_connection \<Rightarrow> async_connection outcome" where
  "written p c =
     con_sendHandler False p
       (c\<lparr>ac_writing := remove1 p (ac_writing c), ac_sent := ac_sent c @ ac_send_buf c, ac_send_buf := []\<rparr>)"

definition write_failed :: "nat \<Rightarrow> nat \<Rightarrow> async_connection \<Rightarrow> async_connection outcome" where
  "write_failed p k c =
     (case con_sendHandler True p
             (c\<lparr>ac_writing := remove1 p (ac_writing c), ac_sent := ac_sent c @ take k (ac_send_buf c),
                ac_send_buf := drop k (ac_send_buf c)\<rparr>) of
        Fine c' \<Rightarrow> Fine (handleSendError c')
      | x \<Rightarrow> x)"

definition read_some ::
  "(byte list \<Rightarrow> NodeMessage option) \<Rightarrow> nat \<Rightarrow> byte list \<Rightarrow> async_connection \<Rightarrow> async_connection outcome" where
  "read_some parse_pb p data c =
     (let c = c\<lparr>ac_reading := remove1 p (ac_reading c)\<rparr>
      in case response_parse parse_pb data (ac_parser c) of
           (GOOD, m, pr) \<Rightarrow> con_readHandler m False p (handleResponse (c\<lparr>ac_parser := pr\<rparr>))
         | (BAD, m, pr) \<Rightarrow> con_readHandler m True p (handleParseError (c\<lparr>ac_parser := pr\<rparr>))
         | (INDETERMINATE, _, pr) \<Rightarrow> Fine (start_read p (c\<lparr>ac_parser := pr\<rparr>)))"

definition read_failed :: "nat \<Rightarrow> async_connection \<Rightarrow> async_connection outcome" where
  "read_failed p c =
     con_readHandler None True p (handleReadError (c\<lparr>ac_reading := remove1 p (ac_reading c)\<rparr>))"

subsection \<open>The strand\<close>

fun is_send :: "task \<Rightarrow> bool" where
  "is_send (T_Send _ _) = True"
| "is_send _ = False"

text \<open>The connection lives as long as the connection of the node, the manager, a posted request or a handler
  of a running operation holds it.\<close>

definition held :: "async_connection \<Rightarrow> bool" where
  "held c \<longleftrightarrow> ac_owner c \<or> ac_managed c \<or> (\<exists>t \<in> set (ac_strand c). is_send t) \<or> ac_writing c \<noteq> [] \<or> ac_reading c \<noteq> []"

definition run_stop :: "async_connection \<Rightarrow> async_connection" where
  "run_stop c = (if ac_open c then c\<lparr>ac_open := False, ac_active := False\<rparr> else c)"

text \<open>\<^verbatim>\<open>shutdown\<close> leaves the socket open.\<close>

definition run_graceful :: "async_connection \<Rightarrow> async_connection" where
  "run_graceful c = (if ac_open c then c\<lparr>ac_active := False\<rparr> else c)"

fun run_strand :: "async_connection \<Rightarrow> async_connection outcome" where
  "run_strand c =
     (case ac_strand c of
        [] \<Rightarrow> Fine c
      | T_Send body p # ts \<Rightarrow> Fine (con_send body p (c\<lparr>ac_strand := ts\<rparr>))
      | T_Stop # ts \<Rightarrow> (if held (c\<lparr>ac_strand := ts\<rparr>) then Fine (run_stop (c\<lparr>ac_strand := ts\<rparr>)) else Use_After_Free)
      | T_Graceful # ts \<Rightarrow>
          (if held (c\<lparr>ac_strand := ts\<rparr>) then Fine (run_graceful (c\<lparr>ac_strand := ts\<rparr>)) else Use_After_Free))"

subsection \<open>The manager of connections\<close>

text \<open>The starter function of a client's connection does nothing.\<close>

definition cm_start :: "async_connection \<Rightarrow> async_connection" where
  "cm_start c = c\<lparr>ac_managed := True\<rparr>"

definition cm_stop :: "async_connection \<Rightarrow> async_connection" where
  "cm_stop c = (con_stop c)\<lparr>ac_managed := False\<rparr>"

definition cm_gracefulStop :: "async_connection \<Rightarrow> async_connection" where
  "cm_gracefulStop c = (con_gracefulStop c)\<lparr>ac_managed := False\<rparr>"

definition cm_stopAll :: "async_connection list \<Rightarrow> async_connection list" where
  "cm_stopAll cs = map (\<lambda>c. if ac_managed c then cm_stop c else c) cs"

text \<open>\<^verbatim>\<open>NodeConnection\<close> makes a connection and gives it to the manager, drops it for a new one, and closes it
  when the idle timer ends.\<close>

definition opened :: "32 word \<Rightarrow> bool \<Rightarrow> bool \<Rightarrow> async_connection option" where
  "opened con_type tcp handshake =
     (case con_connect con_type tcp handshake new_async of
        (True, c) \<Rightarrow> Some (cm_start c)
      | (False, c) \<Rightarrow> None)"

definition reset_owner :: "async_connection \<Rightarrow> async_connection" where
  "reset_owner c = c\<lparr>ac_owner := False\<rparr>"

definition async_closeConnection :: "async_connection \<Rightarrow> async_connection" where
  "async_closeConnection c = (if ac_active c then reset_owner (cm_gracefulStop c) else c)"

subsection \<open>Steps\<close>

datatype event =
    Ev_Request ClientMessage | Ev_Stop | Ev_Graceful | Ev_Timer | Ev_Stop_All | Ev_Drop
  | Ev_Strand | Ev_Written nat | Ev_Write_Fails nat nat | Ev_Read nat "byte list" | Ev_Read_Fails nat

text \<open>An event can happen: the owner calls what it holds, and only running operations end.\<close>

fun enabled :: "event \<Rightarrow> async_connection \<Rightarrow> bool" where
  "enabled (Ev_Request _) c = ac_owner c"
| "enabled Ev_Stop c = ac_owner c"
| "enabled Ev_Graceful c = ac_owner c"
| "enabled Ev_Timer c = ac_owner c"
| "enabled Ev_Stop_All c = ac_managed c"
| "enabled Ev_Drop c = ac_owner c"
| "enabled Ev_Strand c = (ac_strand c \<noteq> [])"
| "enabled (Ev_Written p) c = (p \<in> set (ac_writing c))"
| "enabled (Ev_Write_Fails p _) c = (p \<in> set (ac_writing c))"
| "enabled (Ev_Read p _) c = (p \<in> set (ac_reading c))"
| "enabled (Ev_Read_Fails p) c = (p \<in> set (ac_reading c))"

fun async_step ::
  "(ClientMessage \<Rightarrow> byte list) \<Rightarrow> (byte list \<Rightarrow> NodeMessage option) \<Rightarrow> event \<Rightarrow> async_connection \<Rightarrow>
   async_connection outcome" where
  "async_step ser pb (Ev_Request m) c = Fine (snd (con_sendRequest ser m c))"
| "async_step ser pb Ev_Stop c = Fine (con_stop c)"
| "async_step ser pb Ev_Graceful c = Fine (con_gracefulStop c)"
| "async_step ser pb Ev_Timer c = Fine (async_closeConnection c)"
| "async_step ser pb Ev_Stop_All c = Fine (hd (cm_stopAll [c]))"
| "async_step ser pb Ev_Drop c = Fine (reset_owner c)"
| "async_step ser pb Ev_Strand c = run_strand c"
| "async_step ser pb (Ev_Written p) c = written p c"
| "async_step ser pb (Ev_Write_Fails p k) c = write_failed p k c"
| "async_step ser pb (Ev_Read p data) c = read_some pb p data c"
| "async_step ser pb (Ev_Read_Fails p) c = read_failed p c"

inductive async_run ::
  "(ClientMessage \<Rightarrow> byte list) \<Rightarrow> (byte list \<Rightarrow> NodeMessage option) \<Rightarrow> async_connection \<Rightarrow> event list \<Rightarrow>
   async_connection outcome \<Rightarrow> bool" for ser pb where
  run_none: "async_run ser pb c [] (Fine c)"
| run_step: "async_run ser pb c es (Fine c') \<Longrightarrow> enabled e c' \<Longrightarrow> async_run ser pb c (es @ [e]) (async_step ser pb e c')"

inductive_cases async_run_snocE: "async_run ser pb c (es @ [e]) x"

subsection \<open>Promises\<close>

text \<open>The requests that something still owes an answer: the strand, the writer or the reader.\<close>

fun task_promise :: "task \<Rightarrow> nat list" where
  "task_promise (T_Send _ p) = [p]"
| "task_promise _ = []"

definition waiting :: "async_connection \<Rightarrow> nat list" where
  "waiting c = concat (map task_promise (ac_strand c)) @ ac_writing c @ ac_reading c"

definition promises_ok :: "async_connection \<Rightarrow> bool" where
  "promises_ok c \<longleftrightarrow>
     distinct (waiting c) \<and> (\<forall>p \<in> set (waiting c). p < ac_next c) \<and>
     (\<forall>p < ac_next c. ac_future c p = Pending \<longleftrightarrow> p \<in> set (waiting c))"

lemma waiting_simps [simp]:
  "waiting (c\<lparr>ac_open := b\<rparr>) = waiting c" "waiting (c\<lparr>ac_active := b\<rparr>) = waiting c"
  "waiting (c\<lparr>ac_parser := pr\<rparr>) = waiting c" "waiting (c\<lparr>ac_send_buf := bs\<rparr>) = waiting c"
  "waiting (c\<lparr>ac_sent := bs\<rparr>) = waiting c" "waiting (c\<lparr>ac_future := f\<rparr>) = waiting c"
  "waiting (c\<lparr>ac_next := n\<rparr>) = waiting c" "waiting (c\<lparr>ac_owner := b\<rparr>) = waiting c"
  "waiting (c\<lparr>ac_managed := b\<rparr>) = waiting c"
  "waiting (post t c) = concat (map task_promise (ac_strand c)) @ task_promise t @ ac_writing c @ ac_reading c"
  by (simp_all add: waiting_def post_def)

lemma promises_ok_frame [simp]:
  "promises_ok (c\<lparr>ac_open := b\<rparr>) = promises_ok c" "promises_ok (c\<lparr>ac_active := b\<rparr>) = promises_ok c"
  "promises_ok (c\<lparr>ac_parser := pr\<rparr>) = promises_ok c" "promises_ok (c\<lparr>ac_send_buf := bs\<rparr>) = promises_ok c"
  "promises_ok (c\<lparr>ac_sent := bs\<rparr>) = promises_ok c" "promises_ok (c\<lparr>ac_owner := b\<rparr>) = promises_ok c"
  "promises_ok (c\<lparr>ac_managed := b\<rparr>) = promises_ok c"
  by (simp_all add: promises_ok_def)

lemma promises_ok_stop [simp]: "promises_ok (con_stop c) = promises_ok c" "promises_ok (con_gracefulStop c) = promises_ok c"
  by (simp_all add: promises_ok_def con_stop_def con_gracefulStop_def) (simp_all add: waiting_def post_def)

lemma promises_ok_new: "promises_ok new_async"
  by (simp add: promises_ok_def waiting_def new_async_def)

lemma promises_ok_request: "promises_ok c \<Longrightarrow> promises_ok (snd (con_sendRequest ser m c))"
  by (auto simp: promises_ok_def con_sendRequest_def sendMessage_def Let_def waiting_def post_def less_Suc_eq)

text \<open>A completion takes its promise out of the waiting ones and sets it, or moves it on.\<close>

lemma promises_ok_move:
  "promises_ok c \<Longrightarrow> p \<in> set (ac_writing c) \<Longrightarrow>
    promises_ok (start_read p (c\<lparr>ac_writing := remove1 p (ac_writing c)\<rparr>))"
  "promises_ok c \<Longrightarrow> p \<in> set (ac_reading c) \<Longrightarrow>
    promises_ok (start_read p (c\<lparr>ac_reading := remove1 p (ac_reading c)\<rparr>))"
  by (auto simp: promises_ok_def waiting_def start_read_def)

lemma promises_ok_set:
  assumes "promises_ok c" "distinct (waiting c')" "set (waiting c') = set (waiting c) - {p}" "p \<in> set (waiting c)"
    and "ac_future c' = ac_future c" "ac_next c' = ac_next c" "f \<noteq> Pending"
  shows "\<exists>c''. set_promise p f c' = Fine c'' \<and> promises_ok c''"
  using assms by (auto simp: promises_ok_def set_promise_def)

definition fine_step :: "async_connection outcome \<Rightarrow> bool" where
  "fine_step x = (case x of Fine c \<Rightarrow> promises_ok c | Promise_Set_Twice \<Rightarrow> False | Use_After_Free \<Rightarrow> True)"

lemma fine_step_simps [simp]:
  "fine_step (Fine c) = promises_ok c" "\<not> fine_step Promise_Set_Twice" "fine_step Use_After_Free"
  by (simp_all add: fine_step_def)

lemma waiting_remove:
  "distinct (waiting c) \<Longrightarrow> p \<in> set (ac_writing c) \<Longrightarrow>
    set (waiting (c\<lparr>ac_writing := remove1 p (ac_writing c)\<rparr>)) = set (waiting c) - {p} \<and>
    distinct (waiting (c\<lparr>ac_writing := remove1 p (ac_writing c)\<rparr>))"
  "distinct (waiting c) \<Longrightarrow> p \<in> set (ac_reading c) \<Longrightarrow>
    set (waiting (c\<lparr>ac_reading := remove1 p (ac_reading c)\<rparr>)) = set (waiting c) - {p} \<and>
    distinct (waiting (c\<lparr>ac_reading := remove1 p (ac_reading c)\<rparr>))"
  by (auto simp: waiting_def)

lemma waiting_stop [simp]: "waiting (con_stop c) = waiting c" "ac_future (con_stop c) = ac_future c" "ac_next (con_stop c) = ac_next c"
  by (simp_all add: con_stop_def waiting_def post_def)

lemma fine_written: "promises_ok c \<Longrightarrow> p \<in> set (ac_writing c) \<Longrightarrow> fine_step (written p c)"
  using promises_ok_move(1) [of c p]
  by (simp add: written_def con_sendHandler_def start_read_def promises_ok_def waiting_def)

lemma fine_write_failed:
  assumes "promises_ok c" "p \<in> set (ac_writing c)"
  shows "fine_step (write_failed p k c)"
proof -
  let ?c = "c\<lparr>ac_writing := remove1 p (ac_writing c), ac_sent := ac_sent c @ take k (ac_send_buf c),
      ac_send_buf := drop k (ac_send_buf c)\<rparr>"
  have "distinct (waiting c)" using assms(1) by (simp add: promises_ok_def)
  from waiting_remove(1) [OF this assms(2)] have
    "distinct (waiting ?c)" "set (waiting ?c) = set (waiting c) - {p}" by simp_all
  moreover have "p \<in> set (waiting c)" using assms(2) by (simp add: waiting_def)
  ultimately obtain c' where "set_promise p Exception ?c = Fine c'" "promises_ok c'"
    using promises_ok_set [OF assms(1), of ?c p Exception] by auto
  then show ?thesis by (simp add: write_failed_def con_sendHandler_def handleSendError_def)
qed

lemma fine_read:
  assumes "promises_ok c" "p \<in> set (ac_reading c)"
  shows "fine_step (read_some pb p data c)" "fine_step (read_failed p c)"
proof -
  let ?c = "c\<lparr>ac_reading := remove1 p (ac_reading c)\<rparr>"
  have "distinct (waiting c)" using assms(1) by (simp add: promises_ok_def)
  note rem = waiting_remove(2) [OF this assms(2)]
  have p: "p \<in> set (waiting c)" using assms(2) by (simp add: waiting_def)
  have set: "fine_step (set_promise p f c')"
    if "waiting c' = waiting ?c" "ac_future c' = ac_future c" "ac_next c' = ac_next c" "f \<noteq> Pending" for f c'
  proof -
    have "distinct (waiting c')" "set (waiting c') = set (waiting c) - {p}" unfolding that(1) using rem by simp_all
    from promises_ok_set [OF assms(1) this p that(2-4)] show ?thesis by auto
  qed
  have "fine_step (set_promise p Exception (con_stop ?c))" by (rule set) simp_all
  then show "fine_step (read_failed p c)"
    by (simp add: read_failed_def con_readHandler_def handleReadError_def)
  have move: "promises_ok (start_read p (?c\<lparr>ac_parser := pr\<rparr>))" for pr
    using promises_ok_move(2) [OF assms] by (simp add: start_read_def promises_ok_def waiting_def)
  obtain r m pr where parse: "response_parse pb data (ac_parser ?c) = (r, m, pr)" by (metis prod_cases3)
  have "fine_step (set_promise p (Value (the m)) (?c\<lparr>ac_parser := pr\<rparr>))"
    "fine_step (set_promise p Exception (con_stop (?c\<lparr>ac_parser := pr\<rparr>)))"
    by (rule set; simp)+
  then show "fine_step (read_some pb p data c)"
    using parse move
    by (cases r) (simp_all add: read_some_def con_readHandler_def handleParseError_def handleResponse_def Let_def)
qed

lemma fine_strand: "promises_ok c \<Longrightarrow> fine_step (run_strand c)"
  by (auto simp: promises_ok_def waiting_def con_send_def run_stop_def run_graceful_def split: list.split task.split)
     blast+

lemma fine_async_step: "promises_ok c \<Longrightarrow> enabled e c \<Longrightarrow> fine_step (async_step ser pb e c)"
  by (cases e)
     (simp_all add: promises_ok_request fine_written fine_write_failed fine_read fine_strand async_closeConnection_def
       reset_owner_def cm_gracefulStop_def cm_stopAll_def cm_stop_def del: run_strand.simps)

lemma fine_async_run: "async_run ser pb c es x \<Longrightarrow> promises_ok c \<Longrightarrow> fine_step x"
proof (induction rule: async_run.induct)
  case (run_step c es c' e)
  then show ?case using fine_async_step [of c' e ser pb] by simp
qed simp

subsection \<open>One request at a time\<close>

text \<open>What a caller who waits sees: the connection as \<open>Client_Connection\<close> has it, and what the environment did
  with the request.\<close>

definition seen :: "async_connection \<Rightarrow> client_connection" where
  "seen c = \<lparr>is_active = ac_active c, cc_parser = ac_parser c\<rparr>"

fun future_answer :: "future \<Rightarrow> NodeMessage answer" where
  "future_answer Pending = No_Answer"
| "future_answer (Value m) = Answer m"
| "future_answer Exception = SendException"

fun chunk_of :: "event \<Rightarrow> byte list list" where
  "chunk_of (Ev_Read p data) = [data]"
| "chunk_of _ = []"

definition observed :: "event list \<Rightarrow> transmission" where
  "observed es =
     (if \<exists>p k. Ev_Write_Fails p k \<in> set es then Not_Sent
      else Received (concat (map chunk_of es)) (if \<exists>p. Ev_Read_Fails p \<in> set es then Read_Fails else Silence))"

definition ready :: "async_connection \<Rightarrow> bool" where
  "ready c \<longleftrightarrow> ac_open c \<and> ac_active c \<and> ac_owner c \<and> ac_strand c = [] \<and> ac_writing c = [] \<and> ac_reading c = [] \<and>
     ac_send_buf c = []"

fun from_outside :: "event \<Rightarrow> bool" where
  "from_outside Ev_Strand = True"
| "from_outside (Ev_Written _) = True"
| "from_outside (Ev_Write_Fails _ _) = True"
| "from_outside (Ev_Read _ _) = True"
| "from_outside (Ev_Read_Fails _) = True"
| "from_outside _ = False"

text \<open>The life of a request: posted, in the write, in a read, over. \<open>after\<close> is what the caller's view of the
  environment's part so far comes to.\<close>

definition after ::
  "(byte list \<Rightarrow> NodeMessage option) \<Rightarrow> event list \<Rightarrow> client_connection \<Rightarrow> NodeMessage answer \<times> client_connection" where
  "after pb es cc =
     (case observed es of
        Not_Sent \<Rightarrow> (SendException, stop_connection cc)
      | Received chunks e \<Rightarrow> readMessage pb chunks e cc)"

inductive phase ::
  "(byte list \<Rightarrow> NodeMessage option) \<Rightarrow> byte list \<Rightarrow> nat \<Rightarrow> async_connection \<Rightarrow> event list \<Rightarrow> async_connection \<Rightarrow> bool"
  for pb body p c0 where
  phase_posted: "ac_strand c = [T_Send body p] \<Longrightarrow> ac_writing c = [] \<Longrightarrow> ac_reading c = [] \<Longrightarrow> ac_future c p = Pending \<Longrightarrow>
    ac_open c \<Longrightarrow> ac_owner c \<Longrightarrow> ac_send_buf c = [] \<Longrightarrow> ac_sent c = ac_sent c0 \<Longrightarrow> seen c = seen c0 \<Longrightarrow>
    phase pb body p c0 [] c"
| phase_writing: "ac_strand c = [] \<Longrightarrow> ac_writing c = [p] \<Longrightarrow> ac_reading c = [] \<Longrightarrow> ac_future c p = Pending \<Longrightarrow>
    ac_open c \<Longrightarrow> ac_owner c \<Longrightarrow> ac_send_buf c = framed body \<Longrightarrow> ac_sent c = ac_sent c0 \<Longrightarrow> seen c = seen c0 \<Longrightarrow>
    phase pb body p c0 [Ev_Strand] c"
| phase_reading: "ac_strand c = [] \<Longrightarrow> ac_writing c = [] \<Longrightarrow> ac_reading c = [p] \<Longrightarrow> ac_future c p = Pending \<Longrightarrow>
    ac_open c \<Longrightarrow> ac_owner c \<Longrightarrow> ac_send_buf c = [] \<Longrightarrow> ac_sent c = ac_sent c0 @ framed body \<Longrightarrow>
    ac_active c = ac_active c0 \<Longrightarrow> observed es = Received chunks Silence \<Longrightarrow>
    (\<And>rest e. readMessage pb (chunks @ rest) e (seen c0) = readMessage pb rest e (seen c)) \<Longrightarrow>
    phase pb body p c0 es c"
| phase_stopping: "ac_strand c = [T_Stop] \<Longrightarrow> ac_writing c = [] \<Longrightarrow> ac_reading c = [] \<Longrightarrow> ac_open c \<Longrightarrow> ac_owner c \<Longrightarrow>
    ac_future c p = Exception \<Longrightarrow>
    after pb es (seen c0) = (future_answer (ac_future c p), stop_connection (seen c)) \<Longrightarrow>
    phase pb body p c0 es c"
| phase_over: "ac_strand c = [] \<Longrightarrow> ac_writing c = [] \<Longrightarrow> ac_reading c = [] \<Longrightarrow>
    after pb es (seen c0) = (future_answer (ac_future c p), seen c) \<Longrightarrow>
    (case ac_future c p of Value m \<Rightarrow>
       ac_open c \<and> ac_active c = ac_active c0 \<and> ac_owner c \<and> ac_send_buf c = [] \<and> ac_sent c = ac_sent c0 @ framed body
     | _ \<Rightarrow> True) \<Longrightarrow>
    phase pb body p c0 es c"

lemma observed_snoc [simp]:
  "observed (es @ [Ev_Strand]) = observed es" "observed (es @ [Ev_Written q]) = observed es"
  by (simp_all add: observed_def)

lemma observed_snoc_received:
  assumes "observed es = Received chunks Silence"
  shows "observed (es @ [Ev_Read q data]) = Received (chunks @ [data]) Silence"
    "observed (es @ [Ev_Read_Fails q]) = Received chunks Read_Fails"
    "observed (es @ [Ev_Write_Fails q k]) = Not_Sent"
  using assms by (auto simp: observed_def split: if_splits)

lemma observed_Nil: "observed [] = Received [] Silence" "observed [Ev_Strand] = Received [] Silence"
  by (simp_all add: observed_def)

lemma after_snoc [simp]: "after pb (es @ [Ev_Strand]) cc = after pb es cc"
  by (simp add: after_def)

lemma phase_from_posted:
  assumes "ac_strand c = [T_Send body p]" "ac_writing c = []" "ac_reading c = []" "ac_future c p = Pending"
    "ac_open c" "ac_owner c" "ac_send_buf c = []" "ac_sent c = ac_sent c0" "seen c = seen c0"
    and "enabled e c" "from_outside e"
  shows "\<exists>c'. async_step ser pb e c = Fine c' \<and> phase pb body p c0 [e] c'"
proof (cases e)
  case Ev_Strand
  then show ?thesis
    using assms by (auto simp: con_send_def seen_def framed_def intro!: phase_writing)
qed (use assms in auto)

lemma phase_from_writing:
  assumes "ac_strand c = []" "ac_writing c = [p]" "ac_reading c = []" "ac_future c p = Pending"
    "ac_open c" "ac_owner c" "ac_send_buf c = framed body" "ac_sent c = ac_sent c0" "seen c = seen c0"
    and "enabled e c" "from_outside e"
  shows "\<exists>c'. async_step ser pb e c = Fine c' \<and> phase pb body p c0 ([Ev_Strand] @ [e]) c'"
proof (cases e)
  case (Ev_Written q)
  then have "q = p" using assms by simp
  have seen: "seen (start_read p (c\<lparr>ac_writing := [], ac_sent := ac_sent c @ ac_send_buf c, ac_send_buf := []\<rparr>)) = seen c"
    by (simp add: seen_def start_read_def)
  have "ac_active c = ac_active c0" using assms(9) by (simp add: seen_def)
  then show ?thesis
    unfolding Ev_Written \<open>q = p\<close> using assms seen
    by (auto simp: written_def con_sendHandler_def start_read_def observed_def intro!: phase_reading [where chunks = "[]"])
next
  case (Ev_Write_Fails q k)
  then have "q = p" using assms by simp
  show ?thesis
    unfolding Ev_Write_Fails \<open>q = p\<close> using assms
    by (auto simp: write_failed_def con_sendHandler_def set_promise_def handleSendError_def con_stop_def post_def
        after_def observed_def seen_def stop_connection_def intro!: phase_stopping)
qed (use assms in auto)

lemma phase_from_reading:
  assumes "ac_strand c = []" "ac_writing c = []" "ac_reading c = [p]" "ac_future c p = Pending"
    "ac_open c" "ac_owner c" "ac_send_buf c = []" "ac_sent c = ac_sent c0 @ framed body" "ac_active c = ac_active c0"
    "observed es = Received chunks Silence"
    and step: "\<And>rest e. readMessage pb (chunks @ rest) e (seen c0) = readMessage pb rest e (seen c)"
    and "enabled e c" "from_outside e"
  shows "\<exists>c'. async_step ser pb e c = Fine c' \<and> phase pb body p c0 (es @ [e]) c'"
proof (cases e)
  case (Ev_Read q data)
  then have "q = p" using assms by simp
  obtain r m pr where parse: "response_parse pb data (ac_parser c) = (r, m, pr)" by (metis prod_cases3)
  have obs: "observed (es @ [Ev_Read p data]) = Received (chunks @ [data]) Silence"
    by (rule observed_snoc_received(1) [OF assms(10)])
  have now: "readMessage pb (chunks @ data # rest) e (seen c0) =
      (case r of
         GOOD \<Rightarrow> (Answer (the m), \<lparr>is_active = ac_active c, cc_parser = pr\<rparr>)
       | BAD \<Rightarrow> (SendException, \<lparr>is_active = False, cc_parser = pr\<rparr>)
       | INDETERMINATE \<Rightarrow> readMessage pb rest e \<lparr>is_active = ac_active c, cc_parser = pr\<rparr>)" for rest e
    unfolding step using parse by (simp add: seen_def stop_connection_def split: parse_result.split)
  then have over: "after pb (es @ [Ev_Read p data]) (seen c0) =
      (case r of
         GOOD \<Rightarrow> (Answer (the m), \<lparr>is_active = ac_active c, cc_parser = pr\<rparr>)
       | BAD \<Rightarrow> (SendException, \<lparr>is_active = False, cc_parser = pr\<rparr>)
       | INDETERMINATE \<Rightarrow> (No_Answer, \<lparr>is_active = ac_active c, cc_parser = pr\<rparr>))"
    by (simp add: after_def obs split: parse_result.split)
  show ?thesis
  proof (cases r)
    case GOOD
    then show ?thesis
      unfolding Ev_Read \<open>q = p\<close> using assms(1-9) parse over
      by (auto simp: read_some_def con_readHandler_def set_promise_def handleResponse_def Let_def seen_def intro!: phase_over)
  next
    case BAD
    then show ?thesis
      unfolding Ev_Read \<open>q = p\<close> using assms(1-9) parse over
      by (auto simp: read_some_def con_readHandler_def set_promise_def handleParseError_def con_stop_def post_def Let_def
          seen_def stop_connection_def intro!: phase_stopping)
  next
    case INDETERMINATE
    define c2 where "c2 = c\<lparr>ac_parser := pr\<rparr>"
    have "phase pb body p c0 (es @ [Ev_Read p data]) c2"
      by (rule phase_reading [where chunks = "chunks @ [data]"])
        (use assms(1-9) obs now INDETERMINATE in \<open>simp_all add: c2_def seen_def\<close>)
    moreover have "read_some pb p data c = Fine c2"
      using parse INDETERMINATE assms(3) by (simp add: read_some_def start_read_def Let_def c2_def)
    ultimately show ?thesis unfolding Ev_Read \<open>q = p\<close> by simp
  qed
next
  case (Ev_Read_Fails q)
  then have "q = p" using assms by simp
  have "after pb (es @ [Ev_Read_Fails p]) (seen c0) = (SendException, \<lparr>is_active = False, cc_parser = ac_parser c\<rparr>)"
    using step [of "[]" Read_Fails] by (simp add: after_def observed_snoc_received(2) [OF assms(10)] seen_def stop_connection_def)
  then show ?thesis
    unfolding Ev_Read_Fails \<open>q = p\<close> using assms(1-9)
    by (auto simp: read_failed_def con_readHandler_def set_promise_def handleReadError_def con_stop_def post_def
        seen_def stop_connection_def intro!: phase_stopping)
qed (use assms in auto)

lemma phase_step:
  assumes "phase pb body p c0 es c" "enabled e c" "from_outside e"
  shows "\<exists>c'. async_step ser pb e c = Fine c' \<and> phase pb body p c0 (es @ [e]) c'"
  using assms(1)
proof cases
  case phase_posted
  then show ?thesis using phase_from_posted [OF _ _ _ _ _ _ _ _ _ assms(2,3)] by simp
next
  case phase_writing
  then show ?thesis using phase_from_writing [OF _ _ _ _ _ _ _ _ _ assms(2,3)] by simp
next
  case (phase_reading chunks)
  then show ?thesis using phase_from_reading [OF _ _ _ _ _ _ _ _ _ _ _ assms(2,3)] by blast
next
  case phase_stopping
  show ?thesis
  proof (cases e)
    case Ev_Strand
    show ?thesis
      unfolding Ev_Strand using phase_stopping
      by (auto simp: held_def run_stop_def stop_connection_def seen_def intro!: phase_over)
  qed (use phase_stopping assms(2,3) in auto)
next
  case phase_over
  then show ?thesis using assms(2,3) by (cases e) auto
qed

lemma phase_run:
  assumes "async_run ser pb c es x" "phase pb body p c0 [] c" "\<forall>e \<in> set es. from_outside e"
  shows "\<exists>c'. x = Fine c' \<and> phase pb body p c0 es c'"
  using assms
proof (induction rule: async_run.induct)
  case (run_step c es c' e)
  then have "phase pb body p c0 es c'" by auto
  from phase_step [OF this run_step.hyps(2)] show ?case using run_step.prems(2) by simp
qed auto

text \<open>At rest a request is over, or its write or read is still running.\<close>

lemma phase_at_rest:
  assumes "phase pb body p c0 es c" "ac_strand c = []"
  shows "after pb es (seen c0) = (future_answer (ac_future c p), seen c)"
  using assms(1)
proof cases
  case phase_posted
  then show ?thesis using assms(2) by simp
next
  case phase_writing
  then show ?thesis by (simp add: after_def observed_Nil)
next
  case (phase_reading chunks)
  then show ?thesis using phase_reading(11) [of "[]" Silence] by (simp add: after_def)
next
  case phase_stopping
  then show ?thesis using assms(2) by simp
next
  case phase_over
  then show ?thesis by simp
qed

lemma phase_request: "ready c0 \<Longrightarrow> phase pb (ser m) (ac_next c0) c0 [] (snd (con_sendRequest ser m c0))"
  by (rule phase_posted) (simp_all add: con_sendRequest_def sendMessage_def post_def ready_def seen_def Let_def)

end
