(* ===== verification/Client_Concurrency.thy ===== *)
theory Client_Concurrency
  imports Client_Async Client_Properties
begin

text \<open>
  The properties of a connection as it runs, each with an application at a concrete input.
\<close>

definition ex_ser :: "ClientMessage \<Rightarrow> byte list" where "ex_ser m = [1]"

definition ex_open :: async_connection where
  "ex_open = the (opened TLS_CLIENT True True)"

definition ex_asked :: async_connection where
  "ex_asked = snd (con_sendRequest ex_ser new_ClientMessage ex_open)"

lemmas async_defs = ex_open_def opened_def con_connect_def new_async_def cm_start_def TLS_CLIENT_def TLS_SERVER_def
  ex_asked_def con_sendRequest_def sendMessage_def post_def Let_def

lemma ex_opened: "opened TLS_CLIENT True True = Some ex_open"
  by (simp add: async_defs)

lemma ex_ready: "ready ex_open"
  by (simp add: async_defs ready_def)

lemma run_fine:
  "async_run ser pb c es (Fine c') \<Longrightarrow> enabled e c' \<Longrightarrow> async_step ser pb e c' = x \<Longrightarrow> async_run ser pb c (es @ [e]) x"
  using run_step by blast

lemma posted_promise: "p \<in> set (task_promise t) \<longleftrightarrow> (\<exists>body. t = T_Send body p)"
  by (cases t) auto

lemma waiting_set:
  "p \<in> set (waiting c) \<longleftrightarrow>
     (\<exists>body. T_Send body p \<in> set (ac_strand c)) \<or> p \<in> set (ac_writing c) \<or> p \<in> set (ac_reading c)"
  by (auto simp: waiting_def posted_promise)

subsection \<open>No request is lost\<close>

text \<open>C13. Whatever the callers, the idle timer, the strand and the operating system do, in whatever order: no
  promise is ever set twice, and a caller still waits for an answer exactly when the request is in the
  queue of the strand, in a running write or in a running read, and in one of them only. So a call blocks
  only as long as the operating system owes the end of an operation.\<close>

theorem no_request_is_lost:
  assumes "opened con_type tcp handshake = Some c0" "async_run ser pb c0 es x"
  shows "x \<noteq> Promise_Set_Twice \<and>
    (\<forall>c. x = Fine c \<longrightarrow> distinct (waiting c) \<and>
       (\<forall>p < ac_next c. ac_future c p = Pending \<longleftrightarrow>
          (\<exists>body. T_Send body p \<in> set (ac_strand c)) \<or> p \<in> set (ac_writing c) \<or> p \<in> set (ac_reading c)))"
proof -
  have "promises_ok c0"
    using assms(1) by (auto simp: opened_def con_connect_def cm_start_def promises_ok_new split: if_splits bool.splits)
  from fine_async_run [OF assms(2) this] have fine: "fine_step x" .
  show ?thesis
    using fine by (cases x) (simp_all add: promises_ok_def waiting_set)
qed

theorem no_request_is_lost_witness:
  "async_run ex_ser ex_dec ex_open ([] @ [Ev_Request new_ClientMessage]) (Fine ex_asked) \<and>
    ac_future ex_asked 0 = Pending \<and> T_Send [1] 0 \<in> set (ac_strand ex_asked) \<and> distinct (waiting ex_asked)"
proof -
  have run: "async_run ex_ser ex_dec ex_open ([] @ [Ev_Request new_ClientMessage]) (Fine ex_asked)"
    by (rule run_fine [OF run_none]) (simp_all add: async_defs)
  then show ?thesis
    using no_request_is_lost [OF ex_opened run] by (auto simp: async_defs ex_ser_def)
qed

subsection \<open>A caller who waits\<close>

text \<open>C15. A request on a connection at rest, in every order in which the strand and the operating system can
  carry it out, never goes wrong, and once the strand is empty again the promise and the connection are
  what the synchronous model of the call (\<open>sendRequest\<close>, on which the operations of a node rest) computes
  from what the operating system did. After an answer exactly the bytes of the request have been sent and
  the connection is at rest again.\<close>

theorem connection_refines_call:
  assumes "ready c0" "async_run ser pb (snd (con_sendRequest ser m c0)) es x" "\<forall>e \<in> set es. from_outside e"
    and "lk_send lk = (\<lambda>bs w. (observed es, w))"
  shows "\<exists>c. x = Fine c \<and>
    (ac_strand c = [] \<longrightarrow>
       sendRequest lk ser pb m (seen c0) w = (future_answer (ac_future c (ac_next c0)), seen c, w) \<and>
       (\<forall>r. ac_future c (ac_next c0) = Value r \<longrightarrow> ready c \<and> ac_sent c = ac_sent c0 @ send_bytes ser m))"
proof -
  let ?p = "ac_next c0"
  obtain c where c: "x = Fine c" "phase pb (ser m) ?p c0 es c"
    using phase_run [OF assms(2) phase_request [OF assms(1)] assms(3)] by blast
  have "sendRequest lk ser pb m (seen c0) w = (future_answer (ac_future c ?p), seen c, w)" if "ac_strand c = []"
    using phase_at_rest [OF c(2) that] assms(4)
    by (auto simp: sendRequest_def after_def split: transmission.splits prod.splits)
  moreover have "ready c \<and> ac_sent c = ac_sent c0 @ send_bytes ser m" if "ac_future c ?p = Value r" for r
    using c(2) that assms(1) by cases (simp_all add: ready_def send_bytes_framed)
  ultimately show ?thesis using c(1) by blast
qed

theorem connection_refines_call_witness:
  "let lk = \<lparr>lk_connect = (\<lambda>d w. (True, w)), lk_send = (\<lambda>bs w. (Received [framed ex_body] Silence, w))\<rparr>
   in fst (sendRequest lk ex_ser ex_dec new_ClientMessage (seen ex_open) (0 :: nat)) = Answer new_NodeMessage"
proof -
  let ?es = "(([] @ [Ev_Strand]) @ [Ev_Written 0]) @ [Ev_Read 0 (framed ex_body)]"
  let ?c2 = "ex_asked\<lparr>ac_strand := [], ac_send_buf := framed [1], ac_writing := [0]\<rparr>"
  let ?c3 = "?c2\<lparr>ac_send_buf := [], ac_sent := framed [1], ac_writing := [], ac_reading := [0]\<rparr>"
  let ?c4 = "?c3\<lparr>ac_reading := [], ac_future := (\<lambda>_. Pending)(0 := Value new_NodeMessage)\<rparr>"
  have "async_run ex_ser ex_dec ex_asked ([] @ [Ev_Strand]) (Fine ?c2)"
    by (rule run_fine [OF run_none]) (simp_all add: async_defs ex_ser_def con_send_def framed_def)
  from run_fine [OF this, of "Ev_Written 0" "Fine ?c3"]
  have "async_run ex_ser ex_dec ex_asked (([] @ [Ev_Strand]) @ [Ev_Written 0]) (Fine ?c3)"
    by (simp add: async_defs written_def con_sendHandler_def start_read_def)
  moreover have "response_parse ex_dec (framed ex_body) new_parser = (GOOD, Some new_NodeMessage, new_parser)"
    using response_parse_at [of ex_body "[]" "framed ex_body" "[]" ex_dec] by (simp add: ex_body_def ex_dec_def)
  ultimately have run: "async_run ex_ser ex_dec ex_asked ?es (Fine ?c4)"
    using run_fine [of ex_ser ex_dec ex_asked "([] @ [Ev_Strand]) @ [Ev_Written 0]" ?c3 "Ev_Read 0 (framed ex_body)" "Fine ?c4"]
    by (simp add: async_defs read_some_def con_readHandler_def set_promise_def handleResponse_def)
  have "observed ?es = Received [framed ex_body] Silence" by (simp add: observed_def)
  then show ?thesis
    using connection_refines_call [OF ex_ready run [unfolded ex_asked_def], of
        "\<lparr>lk_connect = (\<lambda>d w. (True, w)), lk_send = (\<lambda>bs w. (Received [framed ex_body] Silence, w))\<rparr>" "0 :: nat"]
    by (auto simp: async_defs)
qed

subsection \<open>The idle timer\<close>

text \<open>C27. When the idle timer closes a connection at rest, it posts a task that holds only \<^verbatim>\<open>this\<close>, takes the
  connection out of the manager and drops the last pointer to it: the task then runs on a connection that
  has been destroyed, unless another thread of the pool has run it in between. Only a request whose write or
  read is still running keeps the connection alive.\<close>

theorem idle_timer_frees_connection_in_use:
  assumes "ac_owner c" "ac_active c" "ac_open c" "ac_strand c = []"
  shows "\<exists>c'. async_step ser pb Ev_Timer c = Fine c' \<and> enabled Ev_Strand c' \<and>
    async_step ser pb Ev_Strand c' =
      (if ac_writing c = [] \<and> ac_reading c = [] then Use_After_Free
       else Fine (c\<lparr>ac_owner := False, ac_managed := False, ac_active := False\<rparr>))"
  using assms
  by (auto simp: async_closeConnection_def cm_gracefulStop_def con_gracefulStop_def reset_owner_def post_def
      held_def run_graceful_def)

theorem idle_timer_frees_connection_in_use_witness:
  "\<exists>c'. async_step ex_ser ex_dec Ev_Timer ex_open = Fine c' \<and> async_step ex_ser ex_dec Ev_Strand c' = Use_After_Free"
  using idle_timer_frees_connection_in_use [of ex_open ex_ser ex_dec] ex_ready
  by (auto simp: ready_def)

end
