(* ===== verification/Client_Timer.thy ===== *)
theory Client_Timer
  imports Client_Async
begin

text \<open>
  The idle timer of a node's connection as it runs (\<^verbatim>\<open>sercli/src/nodeconnection.cpp\<close>): waits for the timer that
  \<^verbatim>\<open>boost::asio\<close> ends when the time is over or when they are cancelled, the handlers that are then due,
  and the tasks of the strand. Setting a new time cancels the waits, as boost documents it.
\<close>

datatype timer_task = T_Reset nat | T_Cancel

record timed_connection =
  tc_connection :: "async_connection option"
  tc_waits :: nat
  tc_due :: nat
  tc_seconds :: "nat option"
  tc_strand :: "timer_task list"

definition new_timed :: timed_connection where
  "new_timed = \<lparr>tc_connection = None, tc_waits = 0, tc_due = 0, tc_seconds = None, tc_strand = []\<rparr>"

subsection \<open>The timer\<close>

definition timer_cancel :: "timed_connection \<Rightarrow> timed_connection" where
  "timer_cancel t = t\<lparr>tc_due := tc_due t + tc_waits t, tc_waits := 0\<rparr>"

definition expires_from_now :: "nat \<Rightarrow> timed_connection \<Rightarrow> timed_connection" where
  "expires_from_now seconds t = (timer_cancel t)\<lparr>tc_seconds := Some seconds\<rparr>"

definition async_wait :: "timed_connection \<Rightarrow> timed_connection" where
  "async_wait t = t\<lparr>tc_waits := Suc (tc_waits t)\<rparr>"

text \<open>The time is over.\<close>

definition expire :: "timed_connection \<Rightarrow> timed_connection" where
  "expire t = t\<lparr>tc_due := tc_due t + tc_waits t, tc_waits := 0, tc_seconds := None\<rparr>"

subsection \<open>The connection of a node\<close>

definition timed_isActive :: "timed_connection \<Rightarrow> bool" where
  "timed_isActive t = (case tc_connection t of None \<Rightarrow> False | Some c \<Rightarrow> ac_active c)"

definition node_timeout_seconds :: nat where "node_timeout_seconds = 20"

text \<open>\<open>connect\<close> with its timer; \<open>None\<close> where it throws. Nothing happens to an active connection.\<close>

definition timed_connect :: "32 word \<Rightarrow> bool \<Rightarrow> bool \<Rightarrow> timed_connection \<Rightarrow> timed_connection option" where
  "timed_connect con_type tcp handshake t =
     (if timed_isActive t then Some t
      else case opened con_type tcp handshake of
             None \<Rightarrow> None
           | Some c \<Rightarrow> Some (async_wait (expires_from_now node_timeout_seconds (t\<lparr>tc_connection := Some c\<rparr>))))"

text \<open>\<open>asyncConnect\<close>: the first component lists the results that the handler is told. When the address cannot be
  resolved the handler is called and the function goes on with the end of the list of addresses, which the
  new connection looks at: undefined behaviour (\<open>None\<close>). The connection is not given to the manager.\<close>

definition AUTH_CLIENT :: "32 word" where "AUTH_CLIENT = 2 OR 4"

definition timed_asyncConnect :: "bool \<Rightarrow> bool \<Rightarrow> bool \<Rightarrow> timed_connection \<Rightarrow> bool list \<times> timed_connection option" where
  "timed_asyncConnect resolves tcp handshake t =
     (if timed_isActive t then ([], Some t)
      else if \<not> resolves then ([False], None)
      else case con_asyncConnect AUTH_CLIENT tcp handshake new_async of
             (told, c) \<Rightarrow>
               (case told of None \<Rightarrow> [] | Some r \<Rightarrow> [r],
                Some (async_wait (expires_from_now node_timeout_seconds (t\<lparr>tc_connection := Some c\<rparr>)))))"

definition resetDeadlineTimer :: "nat \<Rightarrow> timed_connection \<Rightarrow> timed_connection" where
  "resetDeadlineTimer seconds t = t\<lparr>tc_strand := tc_strand t @ [T_Reset seconds]\<rparr>"

definition stopDeadlineTimer :: "timed_connection \<Rightarrow> timed_connection" where
  "stopDeadlineTimer t = t\<lparr>tc_strand := tc_strand t @ [T_Cancel]\<rparr>"

text \<open>The handler of the waits, which does not look at the error code. What becomes of the connection that is
  let go is the subject of \<open>Client_Async\<close>.\<close>

definition timed_closeConnection :: "timed_connection \<Rightarrow> timed_connection" where
  "timed_closeConnection t =
     (if timed_isActive t then (stopDeadlineTimer t)\<lparr>tc_connection := None\<rparr> else t)"

fun run_timer_task :: "timed_connection \<Rightarrow> timed_connection" where
  "run_timer_task t =
     (case tc_strand t of
        [] \<Rightarrow> t
      | T_Reset seconds # ts \<Rightarrow> async_wait (expires_from_now seconds (t\<lparr>tc_strand := ts\<rparr>))
      | T_Cancel # ts \<Rightarrow> timer_cancel (t\<lparr>tc_strand := ts\<rparr>))"

definition run_handler :: "timed_connection \<Rightarrow> timed_connection" where
  "run_handler t = (if tc_due t = 0 then t else timed_closeConnection (t\<lparr>tc_due := tc_due t - 1\<rparr>))"

subsection \<open>Events\<close>

datatype timer_event = Tv_Connect bool bool | Tv_Reset nat | Tv_Expire | Tv_Task | Tv_Handler | Tv_Stopped

text \<open>The connection may also stop by itself, after an error (\<open>Tv_Stopped\<close>).\<close>

fun timer_step :: "32 word \<Rightarrow> timer_event \<Rightarrow> timed_connection \<Rightarrow> timed_connection" where
  "timer_step ct (Tv_Connect tcp handshake) t =
     (case timed_connect ct tcp handshake t of None \<Rightarrow> t\<lparr>tc_connection := None\<rparr> | Some t' \<Rightarrow> t')"
| "timer_step ct (Tv_Reset seconds) t = resetDeadlineTimer seconds t"
| "timer_step ct Tv_Expire t = expire t"
| "timer_step ct Tv_Task t = run_timer_task t"
| "timer_step ct Tv_Handler t = run_handler t"
| "timer_step ct Tv_Stopped t = t\<lparr>tc_connection := map_option run_stop (tc_connection t)\<rparr>"

definition timer_run :: "32 word \<Rightarrow> timer_event list \<Rightarrow> timed_connection" where
  "timer_run ct es = fold (timer_step ct) es new_timed"

fun of_the_pool :: "timer_event \<Rightarrow> bool" where
  "of_the_pool Tv_Task = True"
| "of_the_pool Tv_Handler = True"
| "of_the_pool _ = False"

lemmas timer_defs = timer_cancel_def expires_from_now_def async_wait_def expire_def resetDeadlineTimer_def
  stopDeadlineTimer_def timed_closeConnection_def run_handler_def timed_isActive_def

subsection \<open>An active connection is waited for\<close>

definition watched :: "timed_connection \<Rightarrow> bool" where
  "watched t \<longleftrightarrow> (timed_isActive t \<longrightarrow> 0 < tc_waits t + tc_due t)"

lemma watched_task: "watched t \<Longrightarrow> watched (run_timer_task t)"
  by (auto simp: watched_def timer_defs split: list.split timer_task.split option.splits)

lemma watched_connect: "watched t \<Longrightarrow> timed_connect ct tcp handshake t = Some t' \<Longrightarrow> watched t'"
  by (auto simp: timed_connect_def watched_def async_wait_def split: if_splits option.splits)

text \<open>The same holds after \<open>asyncConnect\<close>; but the handler is told nothing when there is no connection, and the
  manager, which stops all connections at the end of the program, does not know the new one.\<close>

lemma watched_asyncConnect:
  assumes "watched t" "timed_asyncConnect resolves tcp handshake t = (told, Some t')"
  shows "watched t'"
    "\<not> timed_isActive t \<Longrightarrow> (told = [] \<longleftrightarrow> \<not> tcp) \<and> (\<exists>c. tc_connection t' = Some c \<and> \<not> ac_managed c)"
  using assms
  by (auto simp: timed_asyncConnect_def watched_def async_wait_def expires_from_now_def timer_cancel_def con_asyncConnect_def
      AUTH_CLIENT_def TLS_CLIENT_def TLS_SERVER_def new_async_def split: if_splits)

lemma run_stop_active: "ac_active (run_stop c) \<Longrightarrow> ac_active c"
  by (simp add: run_stop_def split: if_splits)

lemma watched_step: "watched t \<Longrightarrow> watched (timer_step ct e t)"
proof (cases e)
  case (Tv_Connect tcp handshake)
  assume "watched t"
  then show ?thesis
    using watched_connect [of t ct tcp handshake]
    by (auto simp: Tv_Connect watched_def timed_isActive_def split: option.split)
next
  case Tv_Task
  assume "watched t"
  then show ?thesis using watched_task by (simp add: Tv_Task del: run_timer_task.simps)
next
  case Tv_Stopped
  assume "watched t"
  then show ?thesis using run_stop_active by (auto simp: Tv_Stopped watched_def timed_isActive_def split: option.splits)
qed (auto simp: watched_def timer_defs split: option.splits)

lemma watched_run: "watched (timer_run ct es)"
proof -
  have "watched t \<Longrightarrow> watched (fold (timer_step ct) es t)" for t
    using watched_step by (induction es arbitrary: t) auto
  moreover have "watched new_timed" by (simp add: watched_def new_timed_def timed_isActive_def)
  ultimately show ?thesis by (simp add: timer_run_def)
qed

subsection \<open>After a reset\<close>

text \<open>Either the connection is closed, or a handler is due that closes it, or a wait is about to be cancelled.\<close>

definition doomed :: "timed_connection \<Rightarrow> bool" where
  "doomed t \<longleftrightarrow> \<not> timed_isActive t \<or> 0 < tc_due t \<or> 0 < tc_waits t \<and> tc_strand t \<noteq> []"

lemma doomed_task: "doomed t \<Longrightarrow> doomed (run_timer_task t)"
  by (cases "tc_strand t"; cases "hd (tc_strand t)")
     (auto simp: doomed_def timer_defs)

lemma doomed_handler: "doomed t \<Longrightarrow> doomed (run_handler t)"
  by (auto simp: doomed_def timer_defs split: option.splits)

lemma doomed_run:
  "doomed t \<Longrightarrow> \<forall>e \<in> set es. of_the_pool e \<Longrightarrow> doomed (fold (timer_step ct) es t)"
proof (induction es arbitrary: t)
  case (Cons e es)
  have "doomed (timer_step ct e t)"
    using Cons.prems doomed_task doomed_handler by (cases e) (simp_all del: run_timer_task.simps)
  then show ?case using Cons by simp
qed simp

text \<open>C24. \<^verbatim>\<open>resetDeadlineTimer\<close>, which every operation calls to keep an active connection from being closed
  while it is used, closes it: whatever happened to the node before, once the pool has run the tasks and
  handlers that are then due, in whatever order, and without the time of the timer being over, the
  connection is not active any more.\<close>

theorem reset_closes_connection:
  assumes "\<forall>e \<in> set es'. of_the_pool e"
    and "t = fold (timer_step ct) es' (resetDeadlineTimer seconds (timer_run ct es))"
    and "tc_strand t = []" "tc_due t = 0"
  shows "\<not> timed_isActive t"
proof -
  have "doomed (resetDeadlineTimer seconds (timer_run ct es))"
    using watched_run [of ct es] by (auto simp: watched_def doomed_def resetDeadlineTimer_def timed_isActive_def)
  from doomed_run [OF this assms(1), of ct] show ?thesis
    using assms(2-4) by (simp add: doomed_def)
qed

text \<open>A new connection that is used once: the reset is carried out, the handler of the cancelled wait runs, and
  then the task that it has posted, the handler that this makes due, and all is at rest.\<close>

theorem reset_closes_connection_witness:
  "timed_isActive (timer_run TLS_CLIENT [Tv_Connect True True]) \<and>
   \<not> timed_isActive (fold (timer_step TLS_CLIENT) [Tv_Task, Tv_Handler, Tv_Task, Tv_Handler]
       (resetDeadlineTimer 20 (timer_run TLS_CLIENT [Tv_Connect True True])))"
proof -
  have run: "timer_run TLS_CLIENT [Tv_Connect True True] =
      \<lparr>tc_connection = Some (cm_start (new_async\<lparr>ac_open := True\<rparr>)), tc_waits = 1, tc_due = 0, tc_seconds = Some 20, tc_strand = []\<rparr>"
    by (simp add: timer_run_def new_timed_def timed_connect_def timer_defs opened_def con_connect_def
        TLS_CLIENT_def TLS_SERVER_def node_timeout_seconds_def)
  have active: "ac_active (cm_start (new_async\<lparr>ac_open := True\<rparr>))" by (simp add: cm_start_def new_async_def)
  show ?thesis
    using reset_closes_connection [of "[Tv_Task, Tv_Handler, Tv_Task, Tv_Handler]" _ TLS_CLIENT 20 "[Tv_Connect True True]", OF _ refl]
      active by (simp add: run timer_defs)
qed

end
