(* ===== verification/Client_Server.thy ===== *)
theory Client_Server
  imports Client_Async Client_Manager
begin

text \<open>
  The server that a member of a network runs for the others (\<^verbatim>\<open>sercli/src/server.cpp\<close>): it accepts
  connections, and should keep itself registered with the nodes of its network by a schedule of the times at
  which each node has to be told again. The class is a template that no part of the library
  instantiates. Modelled are its accepts, its end, its queries and \<open>updateStateHandler\<close>, the change of the
  schedule that an answer should make. Nothing binds that handler: \<^verbatim>\<open>updateState\<close> and \<^verbatim>\<open>timerUpdate\<close> pass the
  value of the call \<^verbatim>\<open>updateState()\<close>, which has none, so no compiler would instantiate them; they, and
  \<^verbatim>\<open>start\<close> and \<^verbatim>\<open>changeIP\<close>, which call them, are not modelled.
\<close>

subsection \<open>State\<close>

text \<open>\<open>sv_expires\<close> is the time of the timer, \<open>None\<close> for boost's \<^verbatim>\<open>not_a_date_time\<close>, which a new timer has.
  The network is a pointer, null in a new server. \<open>sv_accepts\<close> counts the accepts that wait for a
  connection.\<close>

record 'ep peer_server =
  sv_open :: bool
  sv_endpoint :: 'ep
  sv_accepts :: nat
  sv_connections :: "async_connection list"
  sv_network :: "nat option"
  sv_active_nodes :: int
  sv_to_update :: "(64 word \<times> nat) list"
  sv_expires :: "int option"
  sv_waits :: nat

definition new_peer_server :: "'ep \<Rightarrow> int \<Rightarrow> 'ep peer_server" where
  "new_peer_server endpoint indet =
     \<lparr>sv_open = False, sv_endpoint = endpoint, sv_accepts = 0, sv_connections = [], sv_network = None,
      sv_active_nodes = indet, sv_to_update = [], sv_expires = None, sv_waits = 0\<rparr>"

subsection \<open>Accepting\<close>

definition start_acceptor :: "'ep peer_server \<Rightarrow> 'ep peer_server" where
  "start_acceptor s = s\<lparr>sv_open := True\<rparr>"

definition accept :: "'ep peer_server \<Rightarrow> 'ep peer_server" where
  "accept s = s\<lparr>sv_accepts := Suc (sv_accepts s)\<rparr>"

text \<open>The end of an accept. The starter function of the connection is to read a message.\<close>

definition accepted :: "bool \<Rightarrow> 'ep peer_server \<Rightarrow> 'ep peer_server" where
  "accepted ec s =
     (let s = s\<lparr>sv_accepts := sv_accepts s - 1\<rparr>
      in if \<not> sv_open s then s
         else accept (if ec then s else s\<lparr>sv_connections := sv_connections s @ [cm_start (new_async\<lparr>ac_open := True\<rparr>)]\<rparr>))"

definition stop_server :: "'ep peer_server \<Rightarrow> 'ep peer_server" where
  "stop_server s = s\<lparr>sv_open := False, sv_connections := cm_stopAll (sv_connections s)\<rparr>"

text \<open>The handler of the signals.\<close>

definition await_stop :: "'ep peer_server \<Rightarrow> 'ep peer_server" where
  "await_stop s = s\<lparr>sv_open := False, sv_connections := cm_stopAll (sv_connections s)\<rparr>"

subsection \<open>Keeping registered\<close>

definition getRelatedNetwork :: "'ep peer_server \<Rightarrow> nat option" where
  "getRelatedNetwork s = sv_network s"

text \<open>\<open>None\<close>: a null pointer is used.\<close>

definition allNodes :: "manager \<Rightarrow> 'ep peer_server \<Rightarrow> nat option" where
  "allNodes m s = map_option (\<lambda>k. length (nt_nodes (mg_network m k))) (sv_network s)"

definition connectedNodes :: "'ep peer_server \<Rightarrow> int" where
  "connectedNodes s = sv_active_nodes s"

text \<open>The answer of a node. The node leaves its place in the schedule and gets a new one; \<^verbatim>\<open>insert\<close> keeps an
  entry that is there for the same second. The timer is moved when the new time is the earliest.\<close>

fun erase_node :: "nat \<Rightarrow> (64 word \<times> nat) list \<Rightarrow> (64 word \<times> nat) list" where
  "erase_node i [] = []"
| "erase_node i ((t, j) # xs) = (if j = i then xs else (t, j) # erase_node i xs)"

definition this_update :: "int64 \<Rightarrow> int32 \<Rightarrow> 64 word" where
  "this_update now time_left = now + scast time_left"

definition updateStateHandler :: "NodeError \<Rightarrow> int32 \<Rightarrow> nat \<Rightarrow> int64 \<Rightarrow> 'ep peer_server \<Rightarrow> 'ep peer_server" where
  "updateStateHandler error time_left i now s =
     (if any error then s
      else let xs = erase_node i (sv_to_update s);
               earliest_update = (if xs = [] then - 1 else fst (hd xs));
               s' = s\<lparr>sv_to_update := smap_insert (<) (this_update now time_left) i xs\<rparr>
           in if earliest_update > this_update now time_left
              then s'\<lparr>sv_expires := map_option (\<lambda>t. t + sint time_left div 2) (sv_expires s'), sv_waits := Suc (sv_waits s')\<rparr>
              else s')"

subsection \<open>The schedule\<close>

interpretation updates: key_order "(<) :: 64 word \<Rightarrow> 64 word \<Rightarrow> bool"
  by unfold_locales (auto simp: key_equiv_def)

definition schedule_ok :: "(64 word \<times> nat) list \<Rightarrow> bool" where
  "schedule_ok xs \<longleftrightarrow> smap_ok (<) xs \<and> distinct (map snd xs)"

lemma set_erase_node: "set (erase_node i xs) \<subseteq> set xs"
  by (induction i xs rule: erase_node.induct) auto

lemma erase_node_ok:
  assumes "schedule_ok xs"
  shows "schedule_ok (erase_node i xs)" "set (erase_node i xs) = {x \<in> set xs. snd x \<noteq> i}"
  using assms set_erase_node [of i]
  by (induction i xs rule: erase_node.induct) (auto simp: schedule_ok_def subset_iff)

lemma set_smap_set_new:
  "smap_find (<) k xs = None \<Longrightarrow> set (smap_set (<) k v xs) = insert (k :: 64 word, v) (set xs)"
  by (induction "(<) :: 64 word \<Rightarrow> 64 word \<Rightarrow> bool" k v xs rule: smap_set.induct) (auto split: if_splits)

lemma smap_find_key:
  assumes "smap_ok (<) xs"
  shows "smap_find (<) k xs = None \<longleftrightarrow> (k :: 64 word) \<notin> fst ` set xs"
  using assms
proof (induction xs)
  case (Cons x xs)
  then show ?case by (cases x) (force simp: neq_iff)
qed simp

lemma distinct_snd_smap_set:
  "smap_find (<) k xs = None \<Longrightarrow> v \<notin> snd ` set xs \<Longrightarrow> distinct (map snd xs) \<Longrightarrow>
     distinct (map snd (smap_set (<) (k :: 64 word) v xs))"
  by (induction "(<) :: 64 word \<Rightarrow> 64 word \<Rightarrow> bool" k v xs rule: smap_set.induct)
     (auto simp: set_smap_set_new image_iff split: if_splits)

text \<open>What an answer makes of the schedule.\<close>

lemma schedule_after_answer:
  assumes "schedule_ok (sv_to_update s)" "\<not> any error"
  shows "schedule_ok (sv_to_update (updateStateHandler error left i now s))"
    "set (sv_to_update (updateStateHandler error left i now s)) =
       {x \<in> set (sv_to_update s). snd x \<noteq> i} \<union>
       (if \<exists>j. j \<noteq> i \<and> (this_update now left, j) \<in> set (sv_to_update s) then {} else {(this_update now left, i)})"
proof -
  let ?xs = "erase_node i (sv_to_update s)" and ?t = "this_update now left"
  note erased = erase_node_ok [OF assms(1), of i]
  have new: "sv_to_update (updateStateHandler error left i now s) = smap_insert (<) ?t i ?xs"
    using assms(2) by (simp add: updateStateHandler_def Let_def)
  have sorted: "smap_ok (<) ?xs" using erased(1) by (simp add: schedule_ok_def)
  have taken: "smap_find (<) ?t ?xs = None \<longleftrightarrow> \<not> (\<exists>j. j \<noteq> i \<and> (?t, j) \<in> set (sv_to_update s))"
    using smap_find_key [OF sorted, of ?t] erased(2) by (auto simp: image_iff)
  show "schedule_ok (sv_to_update (updateStateHandler error left i now s))"
    unfolding new using erased distinct_snd_smap_set [of ?t ?xs i] updates.ok_set [OF sorted]
    by (auto simp: schedule_ok_def smap_insert_def split: option.split)
  show "set (sv_to_update (updateStateHandler error left i now s)) =
       {x \<in> set (sv_to_update s). snd x \<noteq> i} \<union>
       (if \<exists>j. j \<noteq> i \<and> (?t, j) \<in> set (sv_to_update s) then {} else {(?t, i)})"
    unfolding new using taken erased(2)
    by (auto simp: smap_insert_def set_smap_set_new split: option.split)
qed

end
