(* ===== verification/Console_Options.thy ===== *)
theory Console_Options
  imports Client_Manager
begin

text \<open>
  The console client (\<^verbatim>\<open>node_client/src/context.hpp\<close>): the options of its commands, the reading of their
  values, and the state that the commands work on. The parser of \<^verbatim>\<open>boost::program_options\<close> is the
  parameter \<open>po_parse\<close> (\<^verbatim>\<open>None\<close>: it throws \<^verbatim>\<open>po::error\<close>), the text of its help \<open>po_help\<close>.
\<close>

subsection \<open>Options\<close>

text \<open>The last two have a default.\<close>

datatype option_kind = O_flag | O_string | O_uint16 | O_bool bool | O_int int

datatype option_value = V_flag | V_string string | V_uint16 "16 word" | V_bool bool | V_int int

record option_spec =
  op_long :: string
  op_short :: string
  op_kind :: option_kind

definition opt :: "string \<Rightarrow> string \<Rightarrow> option_kind \<Rightarrow> option_spec" where
  "opt l s k = \<lparr>op_long = l, op_short = s, op_kind = k\<rparr>"

type_synonym variables_map = "string \<Rightarrow> option_value option"

definition count :: "variables_map \<Rightarrow> string \<Rightarrow> bool" where
  "count vm name \<longleftrightarrow> vm name \<noteq> None"

text \<open>\<^verbatim>\<open>vm[name].as<T>()\<close>: a value of another type, or none, is a \<^verbatim>\<open>bad_any_cast\<close> (\<^verbatim>\<open>None\<close>).\<close>

definition as_string :: "variables_map \<Rightarrow> string \<Rightarrow> string option" where
  "as_string vm name = (case vm name of Some (V_string s) \<Rightarrow> Some s | _ \<Rightarrow> None)"

definition as_uint16 :: "variables_map \<Rightarrow> string \<Rightarrow> 16 word option" where
  "as_uint16 vm name = (case vm name of Some (V_uint16 n) \<Rightarrow> Some n | _ \<Rightarrow> None)"

definition as_bool :: "variables_map \<Rightarrow> string \<Rightarrow> bool option" where
  "as_bool vm name = (case vm name of Some (V_bool b) \<Rightarrow> Some b | _ \<Rightarrow> None)"

fun value_fits :: "option_kind \<Rightarrow> option_value \<Rightarrow> bool" where
  "value_fits O_flag V_flag = True"
| "value_fits O_string (V_string s) = True"
| "value_fits O_uint16 (V_uint16 n) = True"
| "value_fits (O_bool d) (V_bool b) = True"
| "value_fits (O_int d) (V_int i) = True"
| "value_fits _ _ = False"

text \<open>What \<^verbatim>\<open>boost::program_options\<close> documents: only described options are stored, with values of their
  type, and an option with a default is always there.\<close>

definition po_ok :: "(option_spec list \<Rightarrow> string list \<Rightarrow> variables_map option) \<Rightarrow> bool" where
  "po_ok po_parse \<longleftrightarrow>
     (\<forall>specs args vm. po_parse specs args = Some vm \<longrightarrow>
        (\<forall>x v. vm x = Some v \<longrightarrow> (\<exists>s \<in> set specs. op_long s = x \<and> value_fits (op_kind s) v)) \<and>
        (\<forall>s \<in> set specs. \<forall>d. op_kind s = O_bool d \<longrightarrow> vm (op_long s) \<noteq> None))"

definition su_opts :: "option_spec list" where
  "su_opts = [opt ''help'' ''h'' O_flag, opt ''username'' ''u'' O_string, opt ''email'' ''e'' O_string,
     opt ''password'' ''p'' O_string, opt ''registered'' ''r'' (O_bool False)]"

definition cp_opts :: "option_spec list" where
  "cp_opts = [opt ''help'' ''h'' O_flag, opt ''password'' ''p'' O_string]"

definition getU_opts :: "option_spec list" where
  "getU_opts = [opt ''help'' ''h'' O_flag, opt ''username'' ''u'' O_string]"

definition invite_opts :: "option_spec list" where
  "invite_opts = [opt ''help'' ''h'' O_flag, opt ''username'' ''u'' O_string]"

definition ups_opts :: "option_spec list" where
  "ups_opts = [opt ''help'' ''h'' O_flag, opt ''port'' ''p'' O_uint16]"

definition gk_opts :: "option_spec list" where
  "gk_opts = [opt ''help'' ''h'' O_flag, opt ''network'' ''n'' O_string, opt ''password'' ''p'' O_string]"

definition sk_opts :: "option_spec list" where
  "sk_opts = [opt ''help'' ''h'' O_flag, opt ''network'' ''n'' O_string]"

definition user_opts :: "option_spec list" where
  "user_opts = [opt ''username'' ''u'' O_string, opt ''email'' ''e'' O_string]"

text \<open>The constructor of \<^verbatim>\<open>Sp2pContext\<close> adds the groups to one another.\<close>

definition my_user_opts :: "option_spec list" where
  "my_user_opts = [opt ''password'' ''p'' O_string, opt ''registered'' ''r'' (O_bool False)] @ user_opts"

definition node_desc_opts :: "option_spec list" where
  "node_desc_opts = [opt ''help'' ''h'' O_flag, opt ''name'' ''n'' O_string, opt ''ip-address'' ''i'' O_string,
     opt ''port'' ''P'' O_uint16]"

definition create_node_opts :: "option_spec list" where
  "create_node_opts = node_desc_opts @ my_user_opts"

definition get_node_opts :: "option_spec list" where "get_node_opts = node_desc_opts"

definition remove_node_opts :: "option_spec list" where "remove_node_opts = node_desc_opts"

definition network_desc_opts :: "option_spec list" where
  "network_desc_opts = [opt ''help'' ''h'' O_flag, opt ''name'' ''n'' O_string, opt ''protocol'' ''p'' O_string,
     opt ''access_rights'' ''A'' O_string, opt ''visibility'' ''V'' O_string, opt ''participation'' ''P'' O_string]"

definition create_network_opts :: "option_spec list" where "create_network_opts = network_desc_opts"

definition get_network_opts :: "option_spec list" where "get_network_opts = network_desc_opts"

definition remove_network_opts :: "option_spec list" where "remove_network_opts = network_desc_opts"

definition save_state_opts :: "option_spec list" where
  "save_state_opts = [opt ''help'' ''h'' O_flag, opt ''filename'' ''f'' O_string, opt ''password'' ''p'' O_string]"

definition load_state_opts :: "option_spec list" where
  "load_state_opts = [opt ''help'' ''h'' O_flag, opt ''filename'' ''f'' O_string, opt ''password'' ''p'' O_string]"

definition load_conf_opts :: "option_spec list" where
  "load_conf_opts = [opt ''node_name'' '''' O_string, opt ''network_name'' '''' O_string,
     opt ''priv_keys_dir'' '''' O_string, opt ''pub_keys_dir'' '''' O_string, opt ''certs_dir'' '''' O_string]"

lemmas options_defs = su_opts_def cp_opts_def getU_opts_def invite_opts_def ups_opts_def gk_opts_def
  sk_opts_def user_opts_def my_user_opts_def node_desc_opts_def create_node_opts_def get_node_opts_def
  remove_node_opts_def network_desc_opts_def create_network_opts_def get_network_opts_def
  remove_network_opts_def save_state_opts_def load_state_opts_def load_conf_opts_def opt_def

lemma count_undescribed:
  "po_ok po_parse \<Longrightarrow> po_parse specs args = Some vm \<Longrightarrow> x \<notin> op_long ` set specs \<Longrightarrow> \<not> count vm x"
  unfolding po_ok_def count_def by (metis imageI not_None_eq)

lemma as_string_undescribed: "\<not> count vm x \<Longrightarrow> as_string vm x = None"
  by (simp add: count_def as_string_def)

subsection \<open>Contexts\<close>

text \<open>The tree of contexts that \<^verbatim>\<open>main\<close> builds: the dispatcher, in it the context of the library, and in
  this the contexts of the node and of the network.\<close>

datatype context_id = Main_App | Sp2p_Context | Node_Context | Network_Context

fun context_name :: "context_id \<Rightarrow> string" where
  "context_name Main_App = ''MainApp''"
| "context_name Sp2p_Context = ''Sp2p''"
| "context_name Node_Context = ''Node''"
| "context_name Network_Context = ''Network''"

fun parent_context :: "context_id \<Rightarrow> context_id option" where
  "parent_context Main_App = None"
| "parent_context Sp2p_Context = Some Main_App"
| "parent_context Node_Context = Some Sp2p_Context"
| "parent_context Network_Context = Some Sp2p_Context"

text \<open>\<^verbatim>\<open>nested_contexts\<close> in the order of the names.\<close>

fun nested_contexts :: "context_id \<Rightarrow> (string \<times> context_id) list" where
  "nested_contexts Main_App = [(''Sp2p'', Sp2p_Context)]"
| "nested_contexts Sp2p_Context = [(''Network'', Network_Context), (''Node'', Node_Context)]"
| "nested_contexts _ = []"

lemma nested_parent: "(x, c) \<in> set (nested_contexts p) \<longleftrightarrow> parent_context c = Some p \<and> x = context_name c"
  by (cases p; cases c) auto

subsection \<open>State\<close>

record 'w console =
  cn_context :: context_id
  cn_manager :: manager
  cn_world :: 'w
  cn_files :: files
  cn_out :: "string list"
  cn_input :: "string list"
  node_c_node :: "nat option"
  node_c_network :: "nat option"
  node_c_priv_key_dir :: string
  node_c_cert_dir :: string
  network_c_node :: "nat option"
  network_c_network :: "nat option"
  cn_current_node :: "nat option"
  cn_current_network :: "nat option"
  cn_priv_keys_dir :: string
  cn_pub_keys_dir :: string
  cn_cert_dir :: string
  cn_pub_keys :: "PublicKeyStore list"

record 'w console_env =
  ev_client :: "'w client_env"
  po_parse :: "option_spec list \<Rightarrow> string list \<Rightarrow> variables_map option"
  po_config :: "option_spec list \<Rightarrow> string \<Rightarrow> variables_map option"
  po_help :: "option_spec list \<Rightarrow> string"
  ev_archive :: archive_format
  ev_crypto :: crypto
  ev_salt :: string
  ev_writable :: "string \<Rightarrow> bool"
  ev_listing :: "files \<Rightarrow> string \<Rightarrow> string list option"
  ev_cert_text :: "string \<Rightarrow> string"
  ev_indet :: bool

subsection \<open>Commands\<close>

text \<open>What can leave a command: the exceptions that the program's loop tells apart, or any other.\<close>

datatype exn =
    X_Node | X_Network | X_Error NodeError | X_Options | X_Command string | X_Exit | X_Other

datatype 'a step = Done 'a | Raised exn | Hangs | Crashes

type_synonym ('a, 'w) cmd = "'w console \<Rightarrow> 'a step \<times> 'w console"

definition ret :: "'a \<Rightarrow> ('a, 'w) cmd" where
  "ret x s = (Done x, s)"

definition raise :: "exn \<Rightarrow> ('a, 'w) cmd" where
  "raise x s = (Raised x, s)"

definition crash :: "('a, 'w) cmd" where
  "crash s = (Crashes, s)"

definition bind :: "('a, 'w) cmd \<Rightarrow> ('a \<Rightarrow> ('b, 'w) cmd) \<Rightarrow> ('b, 'w) cmd" where
  "bind c f s =
     (case c s of
        (Done x, s') \<Rightarrow> f x s'
      | (Raised x, s') \<Rightarrow> (Raised x, s')
      | (Hangs, s') \<Rightarrow> (Hangs, s')
      | (Crashes, s') \<Rightarrow> (Crashes, s'))"

definition seq :: "('a, 'w) cmd \<Rightarrow> ('b, 'w) cmd \<Rightarrow> ('b, 'w) cmd" where
  "seq c d = bind c (\<lambda>_. d)"

definition get_state :: "('w console \<Rightarrow> 'a) \<Rightarrow> ('a, 'w) cmd" where
  "get_state f s = (Done (f s), s)"

definition modify :: "('w console \<Rightarrow> 'w console) \<Rightarrow> (unit, 'w) cmd" where
  "modify f s = (Done (), f s)"

definition print :: "string \<Rightarrow> (unit, 'w) cmd" where
  "print line = modify (\<lambda>s. s\<lparr>cn_out := cn_out s @ [line]\<rparr>)"

fun each :: "('a \<Rightarrow> (unit, 'w) cmd) \<Rightarrow> 'a list \<Rightarrow> (unit, 'w) cmd" where
  "each f [] = ret ()"
| "each f (x # xs) = seq (f x) (each f xs)"

text \<open>A value that may be missing, with the exception of its absence.\<close>

definition need :: "exn \<Rightarrow> 'a option \<Rightarrow> ('a, 'w) cmd" where
  "need x v = (case v of None \<Rightarrow> raise x | Some y \<Rightarrow> ret y)"

lemma bind_simps [simp]:
  "bind (ret x) f = f x" "bind (raise e) g = raise e" "bind crash h = crash"
  "seq (ret y) d = d" "seq (raise e') d' = raise e'"
  by (simp_all add: fun_eq_iff bind_def ret_def raise_def crash_def seq_def)

lemma bind_assoc: "bind (bind c f) g = bind c (\<lambda>x. bind (f x) g)"
  by (auto simp: fun_eq_iff bind_def split: prod.split step.split)

end
