(* ===== verification/Console_Commands.thy ===== *)
theory Console_Commands
  imports Console_Options
begin

text \<open>
  The handlers of the console client's commands (\<^verbatim>\<open>node_client/src/context.hpp\<close>), one definition each. A
  command gets the words of its line. Text for \<^verbatim>\<open>cout\<close> is appended to \<open>cn_out\<close>.
\<close>

subsection \<open>Access to the library\<close>

fun call_step :: "'a call \<Rightarrow> 'a step" where
  "call_step (Returned x) = Done x"
| "call_step Thrown = Raised X_Other"
| "call_step Blocked = Hangs"
| "call_step Undefined = Crashes"

fun manager_result :: "manager_error + 'a \<Rightarrow> 'a step" where
  "manager_result (Inr x) = Done x"
| "manager_result (Inl NodeException) = Raised X_Node"
| "manager_result (Inl NetworkException) = Raised X_Network"
| "manager_result (Inl Null_Pointer) = Crashes"
| "manager_result (Inl _) = Raised X_Other"

definition on_manager :: "(manager \<Rightarrow> (manager_error + 'a) \<times> manager) \<Rightarrow> ('a, 'w) cmd" where
  "on_manager f s = (case f (cn_manager s) of (r, m) \<Rightarrow> (manager_result r, s\<lparr>cn_manager := m\<rparr>))"

definition from_manager :: "(manager \<Rightarrow> manager_error + 'a) \<Rightarrow> ('a, 'w) cmd" where
  "from_manager f s = (manager_result (f (cn_manager s)), s)"

definition client :: "'w console_env \<Rightarrow> 'w console \<Rightarrow> 'w client_env" where
  "client ev s = (ev_client ev)\<lparr>ce_files := cn_files s\<rparr>"

definition on_node ::
  "'w console_env \<Rightarrow> nat \<Rightarrow> ('w client_env \<Rightarrow> node \<Rightarrow> 'w \<Rightarrow> 'a call \<times> node \<times> 'w) \<Rightarrow> ('a, 'w) cmd" where
  "on_node ev i f s =
     (case f (client ev s) (mg_node (cn_manager s) i) (cn_world s) of
        (c, n, w) \<Rightarrow> (call_step c, s\<lparr>cn_manager := set_node i n (cn_manager s), cn_world := w\<rparr>))"

definition on_files :: "(files \<Rightarrow> files call) \<Rightarrow> (unit, 'w) cmd" where
  "on_files f s =
     (case f (cn_files s) of
        Returned fs \<Rightarrow> (Done (), s\<lparr>cn_files := fs\<rparr>)
      | c \<Rightarrow> (call_step (map_call (\<lambda>_. ()) c), s))"

definition node_of :: "nat \<Rightarrow> (node, 'w) cmd" where
  "node_of i = get_state (\<lambda>s. mg_node (cn_manager s) i)"

definition network_of :: "nat \<Rightarrow> (NetworkDescription, 'w) cmd" where
  "network_of k = get_state (\<lambda>s. nt_desc (mg_network (cn_manager s) k))"

definition update_node :: "nat \<Rightarrow> (node \<Rightarrow> node) \<Rightarrow> (unit, 'w) cmd" where
  "update_node i f = modify (\<lambda>s. s\<lparr>cn_manager := set_node i (f (mg_node (cn_manager s) i)) (cn_manager s)\<rparr>)"

definition botan_of :: "'w console_env \<Rightarrow> botan" where
  "botan_of ev = ce_botan (ev_client ev)"

text \<open>The loop fills at most a hundred argument pointers, but passes the number of words.\<close>

definition ARGS_SIZE :: nat where "ARGS_SIZE = 100"

definition options :: "'w console_env \<Rightarrow> option_spec list \<Rightarrow> string list \<Rightarrow> (variables_map, 'w) cmd" where
  "options ev specs args =
     (if length args > ARGS_SIZE then crash else need X_Options (po_parse ev specs (drop 1 args)))"

text \<open>An option that a command insists on, and one that it uses when it is given.\<close>

definition required ::
  "variables_map \<Rightarrow> string \<Rightarrow> string \<Rightarrow> (variables_map \<Rightarrow> string \<Rightarrow> 'a option) \<Rightarrow> ('a, 'w) cmd" where
  "required vm name message reader =
     (if count vm name then need X_Other (reader vm name) else raise (X_Command message))"

definition optional ::
  "variables_map \<Rightarrow> string \<Rightarrow> 'a \<Rightarrow> (variables_map \<Rightarrow> string \<Rightarrow> 'a option) \<Rightarrow> ('a, 'w) cmd" where
  "optional vm name fallback reader =
     (if count vm name then need X_Other (reader vm name) else ret fallback)"

definition with_options ::
  "'w console_env \<Rightarrow> option_spec list \<Rightarrow> string list \<Rightarrow> (variables_map \<Rightarrow> (unit, 'w) cmd) \<Rightarrow> (unit, 'w) cmd" where
  "with_options ev specs args body =
     bind (options ev specs args) (\<lambda>vm.
       if count vm ''help'' then print (po_help ev specs) else body vm)"

subsection \<open>The context of the node\<close>

definition node_checkNode :: "(nat, 'w) cmd" where
  "node_checkNode = bind (get_state node_c_node) (need X_Node)"

definition node_checkNetwork :: "(nat, 'w) cmd" where
  "node_checkNetwork = bind (get_state node_c_network) (need X_Network)"

definition print_node :: "nat \<Rightarrow> (unit, 'w) cmd" where
  "print_node i = bind (node_of i) (\<lambda>n.
     seq (print (NodeDescription_text (nd_desc n))) (print (MyUser_text (nd_user n))))"

definition print_network :: "nat \<Rightarrow> (unit, 'w) cmd" where
  "print_network k = bind (network_of k) (\<lambda>d. print (NetworkDescription_text d))"

definition node_pnd :: "(unit, 'w) cmd" where
  "node_pnd = bind node_checkNode print_node"

definition node_pnt :: "(unit, 'w) cmd" where
  "node_pnt = bind node_checkNetwork print_network"

definition set_user :: "nat \<Rightarrow> MyUser \<Rightarrow> (unit, 'w) cmd" where
  "set_user i u = bind (node_of i) (\<lambda>n.
     bind (need X_Node (setUser u n)) (\<lambda>n'. update_node i (\<lambda>_. n')))"

definition node_setU :: "'w console_env \<Rightarrow> string list \<Rightarrow> (unit, 'w) cmd" where
  "node_setU ev args = bind node_checkNode (\<lambda>i.
     with_options ev su_opts args (\<lambda>vm.
       bind (required vm ''username'' ''username required'' as_string) (\<lambda>username.
       bind (required vm ''password'' ''password required'' as_string) (\<lambda>password.
       bind (optional vm ''registered'' (ev_indet ev) as_bool) (\<lambda>registered.
       bind (optional vm ''email'' '''' as_string) (\<lambda>email.
         set_user i (new_MyUser username password email registered)))))))"

definition respond :: "NodeError \<Rightarrow> (unit, 'w) cmd" where
  "respond res = print (''Resp: '' @ NodeError_text res)"

definition node_login :: "'w console_env \<Rightarrow> (unit, 'w) cmd" where
  "node_login ev = bind node_checkNode (\<lambda>i. bind (on_node ev i logIn) respond)"

definition node_logout :: "'w console_env \<Rightarrow> (unit, 'w) cmd" where
  "node_logout ev = bind node_checkNode (\<lambda>i. bind (on_node ev i logOut) respond)"

text \<open>The keys and certificates that are saved after a registration are the last ones of their lists.\<close>

definition node_register :: "'w console_env \<Rightarrow> (unit, 'w) cmd" where
  "node_register ev = bind node_checkNode (\<lambda>i.
     bind (on_node ev i registerUser) (\<lambda>res.
     seq (respond res)
       (if any res then ret ()
        else bind (node_of i) (\<lambda>n.
          bind (get_state node_c_priv_key_dir) (\<lambda>priv_key_dir.
          bind (get_state node_c_cert_dir) (\<lambda>cert_dir.
            seq (if nd_private_keys n = [] then ret ()
                 else on_files (private_save_to (botan_of ev) (ev_writable ev) priv_key_dir (last (nd_private_keys n))))
                (if nd_node_certs n = [] then ret ()
                 else on_files (cert_save_to (botan_of ev) (ev_writable ev) cert_dir (last (nd_node_certs n))))))))))"

definition node_cp :: "'w console_env \<Rightarrow> string list \<Rightarrow> (unit, 'w) cmd" where
  "node_cp ev args = bind node_checkNode (\<lambda>i.
     with_options ev cp_opts args (\<lambda>vm.
       bind (required vm ''password'' ''Password required'' as_string) (\<lambda>password.
       bind (on_node ev i (\<lambda>e. changePassword e password)) (\<lambda>res.
         if any res then raise (X_Error res) else ret ()))))"

definition node_user :: "(unit, 'w) cmd" where
  "node_user = bind node_checkNode (\<lambda>i. bind (node_of i) (\<lambda>n. print (MyUser_text (nd_user n))))"

definition failed :: "NodeError \<Rightarrow> (unit, 'w) cmd" where
  "failed res = print (''Error: '' @ NodeError_text res)"

text \<open>\<^verbatim>\<open>getU\<close> and \<^verbatim>\<open>invite\<close> print the help of another command and go on.\<close>

definition node_getU :: "'w console_env \<Rightarrow> string list \<Rightarrow> (unit, 'w) cmd" where
  "node_getU ev args = bind node_checkNode (\<lambda>i. bind node_checkNetwork (\<lambda>k.
     bind (options ev getU_opts args) (\<lambda>vm.
     seq (if count vm ''help'' then print (po_help ev cp_opts) else ret ())
       (bind (required vm ''username'' ''Username required'' as_string) (\<lambda>username.
        bind (network_of k) (\<lambda>d.
        bind (on_node ev i (\<lambda>e. getUserInfo_node e d username)) (\<lambda>res.
          if any (fst res) then failed (fst res) else print (User_text (snd res)))))))))"

definition node_invite :: "'w console_env \<Rightarrow> string list \<Rightarrow> (unit, 'w) cmd" where
  "node_invite ev args = bind node_checkNode (\<lambda>i. bind node_checkNetwork (\<lambda>k.
     bind (options ev invite_opts args) (\<lambda>vm.
     seq (if count vm ''help'' then print (po_help ev cp_opts) else ret ())
       (bind (required vm ''username'' ''Username required'' as_string) (\<lambda>username.
        bind (network_of k) (\<lambda>d.
        bind (on_node ev i (\<lambda>e. inviteUser e d \<lparr>us_username = username, us_email = ''''\<rparr>)) respond))))))"

definition list_networks :: "NodeError \<times> NetworkDescription list \<Rightarrow> (unit, 'w) cmd" where
  "list_networks res =
     (if any (fst res) then failed (fst res) else each (\<lambda>d. print (NetworkDescription_text d)) (snd res))"

definition node_getNL :: "'w console_env \<Rightarrow> (unit, 'w) cmd" where
  "node_getNL ev = bind node_checkNode (\<lambda>i. bind (on_node ev i getNetworksList) list_networks)"

definition node_getMN :: "'w console_env \<Rightarrow> (unit, 'w) cmd" where
  "node_getMN ev = bind node_checkNode (\<lambda>i. bind (on_node ev i getMyNetworks) list_networks)"

definition node_getSL :: "'w console_env \<Rightarrow> (unit, 'w) cmd" where
  "node_getSL ev = bind node_checkNode (\<lambda>i. bind node_checkNetwork (\<lambda>k.
     bind (network_of k) (\<lambda>d.
     bind (on_node ev i (\<lambda>e. getServersList e d)) (\<lambda>res.
       if any (fst res) then failed (fst res) else each (\<lambda>d. print (ServerDescription_text d)) (snd res)))))"

definition yes_no :: "bool \<Rightarrow> (unit, 'w) cmd" where
  "yes_no b = print (if b then ''Yes'' else ''No'')"

definition node_ia :: "(unit, 'w) cmd" where
  "node_ia = bind node_checkNode (\<lambda>i. bind (node_of i) (\<lambda>n. yes_no (isActive n)))"

definition node_il :: "(unit, 'w) cmd" where
  "node_il = bind node_checkNode (\<lambda>i. bind (node_of i) (\<lambda>n. yes_no (node_isLogged n)))"

definition node_ir :: "(unit, 'w) cmd" where
  "node_ir = bind node_checkNode (\<lambda>i. bind (node_of i) (\<lambda>n. yes_no (isRegistered n)))"

definition network_request ::
  "'w console_env \<Rightarrow> ('w client_env \<Rightarrow> NetworkDescription \<Rightarrow> node \<Rightarrow> 'w \<Rightarrow> NodeError call \<times> node \<times> 'w) \<Rightarrow>
   (unit, 'w) cmd" where
  "network_request ev f = bind node_checkNode (\<lambda>i. bind node_checkNetwork (\<lambda>k.
     bind (network_of k) (\<lambda>d. bind (on_node ev i (\<lambda>e. f e d)) (\<lambda>res. print (NodeError_text res)))))"

definition node_regNet :: "'w console_env \<Rightarrow> (unit, 'w) cmd" where
  "node_regNet ev = network_request ev registerNetwork"

definition node_delNet :: "'w console_env \<Rightarrow> (unit, 'w) cmd" where
  "node_delNet ev = network_request ev deleteNetwork_node"

definition node_ss :: "'w console_env \<Rightarrow> (unit, 'w) cmd" where
  "node_ss ev = network_request ev stopServer"

text \<open>The seconds until the next update go through a \<^verbatim>\<open>uint16_t\<close>.\<close>

definition node_ups :: "'w console_env \<Rightarrow> string list \<Rightarrow> (unit, 'w) cmd" where
  "node_ups ev args = bind node_checkNode (\<lambda>i. bind node_checkNetwork (\<lambda>k.
     with_options ev ups_opts args (\<lambda>vm.
       bind (required vm ''port'' ''Port required'' as_uint16) (\<lambda>port.
       bind (network_of k) (\<lambda>d.
       bind (on_node ev i (\<lambda>e. updateServer_node e d (ucast port))) (\<lambda>res.
         if any (fst res) then failed (fst res)
         else print (''Time to next update: '' @ digits (unat (ucast (snd res) :: 16 word)))))))))"

definition node_stop :: "(unit, 'w) cmd" where
  "node_stop = bind node_checkNode (\<lambda>i. bind (node_of i) (\<lambda>n.
     bind (need X_Other (stopConnections n)) (\<lambda>n'. update_node i (\<lambda>_. n'))))"

definition named_key :: "string \<Rightarrow> string \<Rightarrow> PrivateKeyStore \<Rightarrow> PrivateKeyStore" where
  "named_key name dir st = setPath dir (setFilename (name @ ''.pem'') (setName name st))"

definition node_gk :: "'w console_env \<Rightarrow> string list \<Rightarrow> (unit, 'w) cmd" where
  "node_gk ev args = bind node_checkNode (\<lambda>i.
     with_options ev gk_opts args (\<lambda>vm.
       bind (required vm ''password'' ''No password given'' as_string) (\<lambda>password.
       bind (\<lambda>s. (call_step (generatePrivateKey (botan_of ev) 2048), s)) (\<lambda>key.
       bind (get_state node_c_priv_key_dir) (\<lambda>dir.
       let priv_key = key_setPassword password (new_PrivateKeyStore (Some key))
       in if count vm ''network''
          then bind (need X_Other (as_string vm ''network'')) (\<lambda>network.
               bind (from_manager (getNetwork_named network)) (\<lambda>k.
               bind (node_of i) (\<lambda>n. bind (network_of k) (\<lambda>d.
               let st = named_key (no_node_name (nd_desc n) @ ''.'' @ nw_network_name d) dir priv_key
               in seq (update_node i (\<lambda>n. n\<lparr>nd_net_keys := AList.update (nw_network_name d) st (nd_net_keys n)\<rparr>))
                      (on_files (private_save (botan_of ev) (ev_writable ev) st))))))
          else bind (node_of i) (\<lambda>n.
               let st = named_key (no_node_name (nd_desc n)) dir priv_key
               in seq (update_node i (\<lambda>n. n\<lparr>nd_private_keys := nd_private_keys n @ [st]\<rparr>))
                      (on_files (private_save (botan_of ev) (ev_writable ev) st))))))))"

text \<open>\<^verbatim>\<open>getKey\<close> of a store of the node, which may load it; a null key is dereferenced.\<close>

definition key_of_network :: "'w console_env \<Rightarrow> nat \<Rightarrow> string \<Rightarrow> PrivateKeyStore \<Rightarrow> (string, 'w) cmd" where
  "key_of_network ev i name st s =
     (case private_getKey (botan_of ev) (cn_files s) st of
        (c, st') \<Rightarrow>
          bind (update_node i (\<lambda>n. n\<lparr>nd_net_keys := AList.update name st' (nd_net_keys n)\<rparr>))
            (\<lambda>_ s. case c of
               Returned None \<Rightarrow> (Crashes, s)
             | Returned (Some k) \<Rightarrow> (Done k, s)
             | _ \<Rightarrow> (Raised X_Other, s)) s)"

definition store_signed :: "'w console_env \<Rightarrow> nat \<Rightarrow> string \<Rightarrow> (unit, 'w) cmd" where
  "store_signed ev i name = bind (node_of i) (\<lambda>n.
     case map_of (nd_net_certs n) name of
       None \<Rightarrow> crash
     | Some st \<Rightarrow>
         bind (get_state node_c_cert_dir) (\<lambda>dir.
         let st' = setPath dir st
         in seq (update_node i (\<lambda>n. n\<lparr>nd_net_certs := AList.update name st' (nd_net_certs n)\<rparr>))
                (on_files (cert_save (botan_of ev) (ev_writable ev) st'))))"

definition node_sk :: "'w console_env \<Rightarrow> string list \<Rightarrow> (unit, 'w) cmd" where
  "node_sk ev args = bind node_checkNode (\<lambda>i.
     with_options ev sk_opts args (\<lambda>vm.
       bind (required vm ''network'' ''Network name required'' as_string) (\<lambda>network.
       bind (from_manager (getNetwork_named network)) (\<lambda>k.
       bind (node_of i) (\<lambda>n. bind (network_of k) (\<lambda>d.
       case map_of (nd_net_keys n) (nw_network_name d) of
         None \<Rightarrow> raise (X_Command ''No private key for given network'')
       | Some st \<Rightarrow>
           bind (key_of_network ev i (nw_network_name d) st) (\<lambda>key.
           bind (on_node ev i (\<lambda>e. signKey e key (Some d))) (\<lambda>res.
           seq (print (NodeError_text (fst res)))
             (if any (fst res) then raise (X_Error (fst res))
              else case snd res of
                     None \<Rightarrow> crash
                   | Some cert \<Rightarrow>
                       seq (print (''Cert: '')) (seq (print (ev_cert_text ev cert))
                         (store_signed ev i (nw_network_name d))))))))))))"

subsection \<open>The context of the network\<close>

definition network_checkNode :: "(nat, 'w) cmd" where
  "network_checkNode = bind (get_state network_c_node) (need X_Node)"

definition network_checkNetwork :: "(nat, 'w) cmd" where
  "network_checkNetwork = bind (get_state network_c_network) (need X_Network)"

definition network_pnt :: "(unit, 'w) cmd" where
  "network_pnt = bind network_checkNetwork print_network"

definition network_pnd :: "(unit, 'w) cmd" where
  "network_pnd = bind network_checkNode print_node"

definition network_addNd :: "(unit, 'w) cmd" where
  "network_addNd = bind network_checkNode (\<lambda>i. bind network_checkNetwork (\<lambda>k. on_manager (associateNode k i)))"

definition network_delNd :: "(unit, 'w) cmd" where
  "network_delNd = bind network_checkNode (\<lambda>i. bind network_checkNetwork (\<lambda>k.
     bind (node_of i) (\<lambda>n. modify (\<lambda>s. s\<lparr>cn_manager := detachNode k (nd_desc n) (cn_manager s)\<rparr>))))"

definition network_getNds :: "(unit, 'w) cmd" where
  "network_getNds = bind network_checkNetwork (\<lambda>k.
     bind (get_state (\<lambda>s. nt_nodes (mg_network (cn_manager s) k))) (\<lambda>ps.
       each (\<lambda>p. print (NodeDescription_text (fst p))) ps))"

definition network_getSl :: "'w console_env \<Rightarrow> (unit, 'w) cmd" where
  "network_getSl ev = bind network_checkNetwork (\<lambda>k.
     bind (\<lambda>s. case getAvailableServers (client ev s) k (cn_manager s) (cn_world s) of
                 (c, m, w) \<Rightarrow> (call_step c, s\<lparr>cn_manager := m, cn_world := w\<rparr>)) (\<lambda>servers.
       each (\<lambda>d. print (ServerDescription_text d)) servers))"

definition network_ia :: "(unit, 'w) cmd" where
  "network_ia = bind network_checkNetwork (\<lambda>k.
     bind (\<lambda>s. case network_isActive k (cn_manager s) of
                 (b, m) \<Rightarrow> (Done b, s\<lparr>cn_manager := m\<rparr>)) yes_no)"

end
