(* ===== verification/Console_Manager.thy ===== *)
theory Console_Manager
  imports Console_Commands
begin

text \<open>
  The commands of \<^verbatim>\<open>Sp2pContext\<close> (\<^verbatim>\<open>node_client/src/context.hpp\<close>): they work on the manager, choose the
  node and the network of the two other contexts, and save and load. Then the constructor of the
  context, which loads the saved state and reads the directories of keys and certificates.
\<close>

subsection \<open>Nodes\<close>

text \<open>The application holds the node that the three contexts work with, and nothing else.\<close>

definition use_node :: "nat \<Rightarrow> (unit, 'w) cmd" where
  "use_node i = modify (\<lambda>s. s\<lparr>node_c_node := Some i, network_c_node := Some i, cn_current_node := Some i,
     cn_manager := (cn_manager s)\<lparr>mg_held := [i]\<rparr>\<rparr>)"

definition use_network :: "nat \<Rightarrow> (unit, 'w) cmd" where
  "use_network k = modify (\<lambda>s. s\<lparr>network_c_network := Some k, node_c_network := Some k, cn_current_network := Some k\<rparr>)"

text \<open>The pointer that \<^verbatim>\<open>createNode\<close> returns is dropped at once.\<close>

definition drop_result :: "(manager \<Rightarrow> (manager_error + nat) \<times> manager) \<Rightarrow> (unit, 'w) cmd" where
  "drop_result f = bind (on_manager (\<lambda>m. case f m of (r, m') \<Rightarrow> (r, m'\<lparr>mg_held := mg_held m\<rparr>))) (\<lambda>_. ret ())"

definition address :: "'w console_env \<Rightarrow> string \<Rightarrow> (string, 'w) cmd" where
  "address ev text = need X_Other (ce_from_string (ev_client ev) text)"

definition sp2p_cnd :: "'w console_env \<Rightarrow> string list \<Rightarrow> (unit, 'w) cmd" where
  "sp2p_cnd ev args = with_options ev create_node_opts args (\<lambda>vm.
     bind (required vm ''name'' ''Node name required'' as_string) (\<lambda>name.
     bind (required vm ''port'' ''Port required'' as_uint16) (\<lambda>port.
     bind (required vm ''ip-address'' ''IP address requiered'' as_string) (\<lambda>ip_text.
     bind (address ev ip_text) (\<lambda>ip.
     let description = \<lparr>no_ip_address = ip, no_node_name = name, no_port = port\<rparr>
     in if count vm ''username''
        then bind (need X_Other (as_string vm ''username'')) (\<lambda>username.
             bind (required vm ''password'' ''User requires password'' as_string) (\<lambda>password.
             bind (optional vm ''registered'' (ev_indet ev) as_bool) (\<lambda>registered.
             bind (optional vm ''email'' '''' as_string) (\<lambda>email.
               drop_result (createNode_for description (new_MyUser username password email registered))))))
        else drop_result (createNode description))))))"

text \<open>The description that \<^verbatim>\<open>gnd\<close> and \<^verbatim>\<open>rnd\<close> build: only with a port and an address it is used, else the
  name alone. The address is read in any case, and may throw.\<close>

definition node_choice :: "'w console_env \<Rightarrow> variables_map \<Rightarrow> (string \<times> NodeDescription option, 'w) cmd" where
  "node_choice ev vm =
     bind (required vm ''name'' ''Node name required'' as_string) (\<lambda>name.
     bind (optional vm ''port'' None (\<lambda>vm x. map_option Some (as_uint16 vm x))) (\<lambda>port.
     bind (optional vm ''ip-address'' None (\<lambda>vm x. map_option Some (as_string vm x))) (\<lambda>ip_text.
       case ip_text of
         None \<Rightarrow> ret (name, None)
       | Some t \<Rightarrow> bind (address ev t) (\<lambda>ip.
           ret (name, map_option (\<lambda>p. \<lparr>no_ip_address = ip, no_node_name = name, no_port = p\<rparr>) port)))))"

definition sp2p_gnd :: "'w console_env \<Rightarrow> string list \<Rightarrow> (unit, 'w) cmd" where
  "sp2p_gnd ev args = with_options ev get_node_opts args (\<lambda>vm.
     bind (node_choice ev vm) (\<lambda>(name, description).
     bind (from_manager (case description of Some d \<Rightarrow> getNode d | None \<Rightarrow> getNode_named name)) use_node))"

definition sp2p_rnd :: "'w console_env \<Rightarrow> string list \<Rightarrow> (unit, 'w) cmd" where
  "sp2p_rnd ev args = with_options ev remove_node_opts args (\<lambda>vm.
     bind (node_choice ev vm) (\<lambda>(name, description).
       on_manager (case description of Some d \<Rightarrow> removeNode d | None \<Rightarrow> removeNode_named name)))"

definition tab :: string where "tab = [CHR 0x09]"

definition sp2p_pnd :: "(unit, 'w) cmd" where
  "sp2p_pnd = bind (get_state (\<lambda>s. getAllNodes (cn_manager s))) (\<lambda>is.
     seq (each (\<lambda>i. bind (node_of i) (\<lambda>n.
            seq (print (tab @ NodeDescription_text (nd_desc n))) (print (tab @ MyUser_text (nd_user n))))) is)
         (print ''''))"

subsection \<open>Networks\<close>

text \<open>A word of an option that is one of two names.\<close>

definition choice :: "string \<Rightarrow> (string \<times> 'a) list \<Rightarrow> string \<Rightarrow> ('a, 'w) cmd" where
  "choice message names text = need (X_Command message) (map_of names text)"

definition access_rights_names :: "(string \<times> AccessRights) list" where
  "access_rights_names = [(''PUBLIC'', PUBLIC), (''PRIVATE'', PRIVATE)]"

definition visibility_names :: "(string \<times> Visibility) list" where
  "visibility_names = [(''LISTED'', LISTED), (''UNLISTED'', UNLISTED)]"

definition participation_names :: "(string \<times> ParticipationRights) list" where
  "participation_names = [(''CLIENT_ONLY'', CLIENT_ONLY), (''CLIENT_SERVER'', CLIENT_SERVER)]"

definition no_user :: User where
  "no_user = \<lparr>us_username = '''', us_email = ''''\<rparr>"

definition sp2p_cnt :: "'w console_env \<Rightarrow> string list \<Rightarrow> (unit, 'w) cmd" where
  "sp2p_cnt ev args = with_options ev create_network_opts args (\<lambda>vm.
     bind (required vm ''name'' ''Network name required'' as_string) (\<lambda>name.
     bind (required vm ''protocol'' ''Protocol name required'' as_string) (\<lambda>protocol.
     bind (required vm ''access_rights'' ''Access Rights required'' as_string) (\<lambda>ar.
     bind (choice ''No such access rights'' access_rights_names ar) (\<lambda>access.
     bind (required vm ''visibility'' ''Visibility required'' as_string) (\<lambda>vi.
     bind (choice ''No such visibility options'' visibility_names vi) (\<lambda>visible.
     bind (required vm ''participation'' ''Participation Rights required'' as_string) (\<lambda>pa.
     bind (choice ''No such participation rights'' participation_names pa) (\<lambda>participation.
       drop_result (createNetwork_of
         \<lparr>nw_access_rights = access, nw_visability = visible, nw_participation_rights = participation,
          nw_protocol_name = protocol, nw_network_name = name, nw_creator = no_user\<rparr>))))))))))"

text \<open>\<^verbatim>\<open>gnt\<close> and \<^verbatim>\<open>rnt\<close> ask for an option \<^verbatim>\<open>port\<close> that is not described before they read the protocol, and
  read \<^verbatim>\<open>Visibility\<close> when \<^verbatim>\<open>visibility\<close> is given. Whether all five parts are given decides what is
  looked up, and of a description only the name.\<close>

definition given :: "variables_map \<Rightarrow> string \<Rightarrow> string \<Rightarrow> (string \<Rightarrow> ('a, 'w) cmd) \<Rightarrow> ('a option, 'w) cmd" where
  "given vm name option_read f =
     (if count vm name then bind (need X_Other (as_string vm option_read)) (\<lambda>x. bind (f x) (\<lambda>y. ret (Some y)))
      else ret None)"

definition network_choice :: "variables_map \<Rightarrow> (string \<times> NetworkDescription option, 'w) cmd" where
  "network_choice vm =
     bind (required vm ''name'' ''Node name required'' as_string) (\<lambda>name.
     bind (given vm ''port'' ''protocol'' ret) (\<lambda>protocol.
     bind (given vm ''access_rights'' ''access_rights'' (choice ''No such access rights'' access_rights_names)) (\<lambda>access.
     bind (given vm ''visibility'' ''Visibility'' (choice ''No such visibility options'' visibility_names)) (\<lambda>visible.
     bind (given vm ''participation'' ''participation''
             (choice ''No such participation rights'' participation_names)) (\<lambda>participation.
       ret (name,
            case (protocol, access, visible, participation) of
              (Some p, Some a, Some v, Some r) \<Rightarrow>
                Some \<lparr>nw_access_rights = a, nw_visability = v, nw_participation_rights = r,
                      nw_protocol_name = p, nw_network_name = name, nw_creator = no_user\<rparr>
            | _ \<Rightarrow> None))))))"

definition sp2p_gnt :: "'w console_env \<Rightarrow> string list \<Rightarrow> (unit, 'w) cmd" where
  "sp2p_gnt ev args = with_options ev get_network_opts args (\<lambda>vm.
     bind (network_choice vm) (\<lambda>(name, description).
     bind (from_manager (case description of Some d \<Rightarrow> getNetwork d | None \<Rightarrow> getNetwork_named name)) use_network))"

text \<open>The help of \<^verbatim>\<open>rnt\<close> is the one of \<^verbatim>\<open>rnd\<close>.\<close>

definition sp2p_rnt :: "'w console_env \<Rightarrow> string list \<Rightarrow> (unit, 'w) cmd" where
  "sp2p_rnt ev args = bind (options ev remove_network_opts args) (\<lambda>vm.
     if count vm ''help'' then print (po_help ev remove_node_opts)
     else bind (network_choice vm) (\<lambda>(name, description).
       on_manager (case description of Some d \<Rightarrow> removeNetwork d | None \<Rightarrow> removeNetwork_named name)))"

definition sp2p_pnt :: "(unit, 'w) cmd" where
  "sp2p_pnt = bind (get_state (\<lambda>s. getAllNetworks_of (cn_manager s))) (\<lambda>ks.
     seq (each (\<lambda>k. bind (network_of k) (\<lambda>d. print (tab @ NetworkDescription_text d))) ks) (print ''''))"

subsection \<open>Saving and loading\<close>

definition on_saved :: "(manager \<Rightarrow> files \<Rightarrow> (manager_error + unit) \<times> manager \<times> files) \<Rightarrow> (unit, 'w) cmd" where
  "on_saved f s =
     (case f (cn_manager s) (cn_files s) of
        (r, m, fs) \<Rightarrow> (manager_result r, s\<lparr>cn_manager := m, cn_files := fs\<rparr>))"

text \<open>A store whose file is not in the directory is written to it.\<close>

definition keep_cert :: "'w console_env \<Rightarrow> string \<Rightarrow> CertificateStore \<Rightarrow> (unit, 'w) cmd" where
  "keep_cert ev dir st = bind (get_state cn_files) (\<lambda>fs.
     if inFile dir fs st then ret () else on_files (cert_save_to (botan_of ev) (ev_writable ev) dir st))"

definition keep_key :: "'w console_env \<Rightarrow> string \<Rightarrow> PrivateKeyStore \<Rightarrow> (unit, 'w) cmd" where
  "keep_key ev dir st = bind (get_state cn_files) (\<lambda>fs.
     if inFile dir fs st then ret () else on_files (private_save_to (botan_of ev) (ev_writable ev) dir st))"

definition keep_node :: "'w console_env \<Rightarrow> string \<Rightarrow> string \<Rightarrow> nat \<Rightarrow> (unit, 'w) cmd" where
  "keep_node ev cert_dir key_dir i = bind (node_of i) (\<lambda>n.
     seq (each (keep_cert ev cert_dir) (nd_node_certs n))
    (seq (each (keep_cert ev cert_dir) (nd_free_certs n))
    (seq (each (\<lambda>p. keep_cert ev cert_dir (snd p)) (nd_net_certs n))
    (seq (each (keep_key ev key_dir) (nd_private_keys n))
         (each (\<lambda>p. keep_key ev key_dir (snd p)) (nd_net_keys n))))))"

text \<open>A password must come with a file name, and is not used.\<close>

definition named_file :: "variables_map \<Rightarrow> string \<Rightarrow> (string option, 'w) cmd" where
  "named_file vm message =
     (if count vm ''filename''
      then bind (need X_Other (as_string vm ''filename'')) (\<lambda>filename.
           bind (required vm ''password'' message as_string) (\<lambda>password. ret (Some filename)))
      else ret None)"

definition sp2p_save :: "'w console_env \<Rightarrow> string list \<Rightarrow> (unit, 'w) cmd" where
  "sp2p_save ev args = with_options ev save_state_opts args (\<lambda>vm.
     bind (named_file vm ''Filename requires password to encode'') (\<lambda>filename.
     seq (on_saved (\<lambda>m fs. case filename of
            Some file \<Rightarrow> saveState_to (ev_archive ev) (ev_crypto ev) (ev_salt ev) file m fs
          | None \<Rightarrow> (case saveState (ev_archive ev) (ev_crypto ev) (ev_salt ev) m fs of (r, fs') \<Rightarrow> (r, m, fs'))))
       (bind (get_state (\<lambda>s. getAllNodes (cn_manager s))) (\<lambda>is.
        bind (get_state cn_cert_dir) (\<lambda>cert_dir.
        bind (get_state cn_priv_keys_dir) (\<lambda>key_dir.
          each (keep_node ev cert_dir key_dir) is))))))"

definition load_state_from :: "'w console_env \<Rightarrow> string option \<Rightarrow> (unit, 'w) cmd" where
  "load_state_from ev filename = bind (get_state cn_files) (\<lambda>fs.
     on_manager (case filename of
       Some file \<Rightarrow> loadState_from (ev_archive ev) (ev_crypto ev) file fs
     | None \<Rightarrow> loadState (ev_archive ev) (ev_crypto ev) fs))"

definition sp2p_load :: "'w console_env \<Rightarrow> string list \<Rightarrow> (unit, 'w) cmd" where
  "sp2p_load ev args = with_options ev load_state_opts args (\<lambda>vm.
     bind (named_file vm ''Filename requires password to decode'') (load_state_from ev))"

definition sp2p_priv_dir :: "(unit, 'w) cmd" where
  "sp2p_priv_dir = bind (get_state cn_priv_keys_dir) (\<lambda>dir. print ('' '' @ dir))"

definition sp2p_pub_dir :: "(unit, 'w) cmd" where
  "sp2p_pub_dir = bind (get_state cn_pub_keys_dir) (\<lambda>dir. print ('' '' @ dir))"

definition sp2p_cert_dir :: "(unit, 'w) cmd" where
  "sp2p_cert_dir = bind (get_state cn_cert_dir) (\<lambda>dir. print ('' '' @ dir))"

definition sp2p_clear :: "(unit, 'w) cmd" where
  "sp2p_clear = on_manager clear"

subsection \<open>Directories of keys and certificates\<close>

text \<open>\<^verbatim>\<open>\w\<close> of the regular expressions, and a file name split at its dots: a name matches
  \<^verbatim>\<open>(\w+)\.(\w+)\.pem\<close> iff it has three parts, the last \<open>pem\<close> and the others words.\<close>

definition word_char :: "char \<Rightarrow> bool" where
  "word_char c \<longleftrightarrow>
     (let n = of_char c :: nat in (48 \<le> n \<and> n \<le> 57) \<or> (65 \<le> n \<and> n \<le> 90) \<or> (97 \<le> n \<and> n \<le> 122) \<or> n = 95)"

definition is_word :: "string \<Rightarrow> bool" where
  "is_word w \<longleftrightarrow> w \<noteq> [] \<and> list_all word_char w"

definition is_number :: "string \<Rightarrow> bool" where
  "is_number w \<longleftrightarrow> w \<noteq> [] \<and> list_all is_digit w"

fun split_dots :: "string \<Rightarrow> string list" where
  "split_dots [] = [[]]"
| "split_dots (c # cs) =
     (if c = CHR ''.'' then [] # split_dots cs
      else case split_dots cs of [] \<Rightarrow> [[c]] | p # ps \<Rightarrow> (c # p) # ps)"

definition match_one :: "string \<Rightarrow> string option" where
  "match_one filename =
     (case split_dots filename of [a, e] \<Rightarrow> if is_word a \<and> e = ''pem'' then Some a else None | _ \<Rightarrow> None)"

definition match_two :: "string \<Rightarrow> (string \<times> string) option" where
  "match_two filename =
     (case split_dots filename of
        [a, b, e] \<Rightarrow> if is_word a \<and> is_word b \<and> e = ''pem'' then Some (a, b) else None
      | _ \<Rightarrow> None)"

definition match_numbered :: "string \<Rightarrow> (string \<times> string) option" where
  "match_numbered filename =
     (case match_two filename of Some (a, b) \<Rightarrow> if is_number b then Some (a, b) else None | None \<Rightarrow> None)"

text \<open>\<^verbatim>\<open>cin >> pass\<close>: the next word of the input, which stays as it was at the end of the input. Every line
  of the input is ended by a line break.\<close>

fun read_word :: "string list \<Rightarrow> (string \<times> string list) option" where
  "read_word [] = None"
| "read_word (l # ls) =
     (case dropWhile is_space l of
        [] \<Rightarrow> read_word ls
      | c # r \<Rightarrow> Some (takeWhile (\<lambda>c. \<not> is_space c) (c # r), dropWhile (\<lambda>c. \<not> is_space c) (c # r) # ls))"

definition next_password :: "string \<Rightarrow> (string, 'w) cmd" where
  "next_password pass s =
     (case read_word (cn_input s) of
        None \<Rightarrow> (Done pass, s\<lparr>cn_input := []\<rparr>)
      | Some (w, ls) \<Rightarrow> (Done w, s\<lparr>cn_input := ls\<rparr>))"

definition getFilenames :: "'w console_env \<Rightarrow> string \<Rightarrow> (string list, 'w) cmd" where
  "getFilenames ev dir = bind (get_state cn_files) (\<lambda>fs. need X_Other (ev_listing ev fs dir))"

definition loaded_key ::
  "'w console_env \<Rightarrow> string \<Rightarrow> string \<Rightarrow> string \<Rightarrow> string \<Rightarrow> (PrivateKeyStore, 'w) cmd" where
  "loaded_key ev filename dir name pass s =
     (call_step (private_load (botan_of ev) (cn_files s)
        (key_setPassword pass (setName name (setPath dir (setFilename filename (new_PrivateKeyStore None)))))), s)"

text \<open>The scan gives away a private key of a network.\<close>

definition give_network_key :: "string \<Rightarrow> string \<Rightarrow> PrivateKeyStore \<Rightarrow> (unit, 'w) cmd" where
  "give_network_key node_name network_name key =
     bind (from_manager (getNode_named node_name)) (\<lambda>i.
     bind (from_manager (getNetwork_named network_name)) (\<lambda>k.
     bind (network_of k) (\<lambda>d.
       update_node i (\<lambda>n. n\<lparr>nd_net_keys := AList.update (nw_network_name d) key (nd_net_keys n)\<rparr>))))"

definition scan_private :: "'w console_env \<Rightarrow> string \<Rightarrow> string \<Rightarrow> string \<Rightarrow> (unit, 'w) cmd" where
  "scan_private ev dir filename pass =
     (case (match_one filename, match_two filename) of
        (Some node_name, _) \<Rightarrow>
          bind (loaded_key ev filename dir node_name pass) (\<lambda>key.
          bind (from_manager (getNode_named node_name)) (\<lambda>i.
            update_node i (\<lambda>n. n\<lparr>nd_private_keys := nd_private_keys n @ [key]\<rparr>)))
      | (None, Some (node_name, network_name)) \<Rightarrow>
          bind (loaded_key ev filename dir (node_name @ ''.'' @ network_name) pass) (give_network_key node_name network_name)
      | (None, None) \<Rightarrow> ret ())"

text \<open>A password is asked for every file, of any name.\<close>

fun scan_private_files :: "'w console_env \<Rightarrow> string \<Rightarrow> string list \<Rightarrow> string \<Rightarrow> (unit, 'w) cmd" where
  "scan_private_files ev dir [] pass = ret ()"
| "scan_private_files ev dir (f # fs) pass =
     seq (print (''Type password for: '' @ f)) (bind (next_password pass) (\<lambda>pass'.
       seq (scan_private ev dir f pass') (scan_private_files ev dir fs pass')))"

definition scanForPrivKeys :: "'w console_env \<Rightarrow> string \<Rightarrow> (unit, 'w) cmd" where
  "scanForPrivKeys ev dir = bind (getFilenames ev dir) (\<lambda>fs. scan_private_files ev dir fs '''')"

definition scan_public :: "'w console_env \<Rightarrow> string \<Rightarrow> string \<Rightarrow> (unit, 'w) cmd" where
  "scan_public ev dir filename =
     (case match_one filename of
        None \<Rightarrow> ret ()
      | Some name \<Rightarrow>
          bind (\<lambda>s. (call_step (public_load (botan_of ev) (cn_files s)
                  (setName name (setPath dir (setFilename filename (new_PublicKeyStore None))))), s)) (\<lambda>key.
            modify (\<lambda>s. s\<lparr>cn_pub_keys := cn_pub_keys s @ [key]\<rparr>)))"

definition scanForPubKeys :: "'w console_env \<Rightarrow> string \<Rightarrow> (unit, 'w) cmd" where
  "scanForPubKeys ev dir = bind (getFilenames ev dir) (each (scan_public ev dir))"

definition loaded_cert :: "'w console_env \<Rightarrow> string \<Rightarrow> string \<Rightarrow> string \<Rightarrow> (CertificateStore, 'w) cmd" where
  "loaded_cert ev filename dir name s =
     (call_step (cert_load (botan_of ev) (cn_files s)
        (setName name (setPath dir (setFilename filename (new_CertificateStore None))))), s)"

definition scan_cert :: "'w console_env \<Rightarrow> string \<Rightarrow> string \<Rightarrow> (unit, 'w) cmd" where
  "scan_cert ev dir filename =
     (case (match_numbered filename, match_two filename) of
        (Some (node_name, number), _) \<Rightarrow>
          bind (loaded_cert ev filename dir (node_name @ ''.'' @ number)) (\<lambda>cert.
          bind (from_manager (getNode_named node_name)) (\<lambda>i.
            update_node i (\<lambda>n. n\<lparr>nd_node_certs := nd_node_certs n @ [cert]\<rparr>)))
      | (None, Some (node_name, network_name)) \<Rightarrow>
          bind (loaded_cert ev filename dir (node_name @ ''.'' @ network_name)) (\<lambda>cert.
          bind (from_manager (getNode_named node_name)) (\<lambda>i.
          bind (from_manager (getNetwork_named network_name)) (\<lambda>k.
          bind (network_of k) (\<lambda>d.
            update_node i (\<lambda>n. n\<lparr>nd_net_certs := AList.update (nw_network_name d) cert (nd_net_certs n)\<rparr>)))))
      | (None, None) \<Rightarrow> ret ())"

definition scanForCerts :: "'w console_env \<Rightarrow> string \<Rightarrow> (unit, 'w) cmd" where
  "scanForCerts ev dir = bind (getFilenames ev dir) (each (scan_cert ev dir))"

subsection \<open>The constructor\<close>

definition first_console :: "'w \<Rightarrow> files \<Rightarrow> string list \<Rightarrow> string \<Rightarrow> string \<Rightarrow> 'w console" where
  "first_console w fs input dataFile password =
     \<lparr>cn_context = Sp2p_Context,
      cn_manager = new_manager \<lparr>dm_dataFile = dataFile, dm_protection = Encrypted password\<rparr>,
      cn_world = w, cn_files = fs, cn_out = [], cn_input = input,
      node_c_node = None, node_c_network = None, node_c_priv_key_dir = '''', node_c_cert_dir = '''',
      network_c_node = None, network_c_network = None, cn_current_node = None, cn_current_network = None,
      cn_priv_keys_dir = '''', cn_pub_keys_dir = '''', cn_cert_dir = '''', cn_pub_keys = []\<rparr>"

definition configured ::
  "variables_map \<Rightarrow> string \<Rightarrow> (string \<Rightarrow> manager \<Rightarrow> manager_error + nat) \<Rightarrow> (nat \<Rightarrow> (unit, 'w) cmd) \<Rightarrow> (unit, 'w) cmd" where
  "configured vm name get use =
     bind (optional vm name '''' as_string) (\<lambda>x. if x = '''' then ret () else bind (from_manager (get x)) use)"

definition directory :: "variables_map \<Rightarrow> string \<Rightarrow> (string \<Rightarrow> (unit, 'w) cmd) \<Rightarrow> (unit, 'w) cmd" where
  "directory vm name use =
     (if count vm name then bind (need X_Other (as_string vm name)) use else raise X_Other)"

definition start :: "'w console_env \<Rightarrow> string \<Rightarrow> string \<Rightarrow> (unit, 'w) cmd" where
  "start ev dataFile config_file =
     bind (get_state cn_files) (\<lambda>fs.
     seq (if fs dataFile = None then ret () else load_state_from ev None)
    (bind (need X_Other (fs config_file)) (\<lambda>conf.
     bind (need X_Options (po_config ev load_conf_opts conf)) (\<lambda>vm.
     seq (configured vm ''node_name'' getNode_named use_node)
    (seq (configured vm ''network_name'' getNetwork_named use_network)
    (seq (directory vm ''priv_keys_dir'' (\<lambda>dir. seq (scanForPrivKeys ev dir)
           (modify (\<lambda>s. s\<lparr>node_c_priv_key_dir := dir, cn_priv_keys_dir := dir\<rparr>))))
    (seq (directory vm ''pub_keys_dir'' (\<lambda>dir. seq (scanForPubKeys ev dir)
           (modify (\<lambda>s. s\<lparr>cn_pub_keys_dir := dir\<rparr>))))
         (directory vm ''certs_dir'' (\<lambda>dir. seq (scanForCerts ev dir)
           (modify (\<lambda>s. s\<lparr>node_c_cert_dir := dir, cn_cert_dir := dir\<rparr>)))))))))))"

end
