(* ===== verification/Console_Program.thy ===== *)
theory Console_Program
  imports Console_Manager
begin

text \<open>
  The basic commands and the help of the contexts (\<^verbatim>\<open>node_client/src/context.hpp\<close>), the choice of a handler,
  and the program around them (\<^verbatim>\<open>node_client/src/main.cpp\<close>). What is written to \<^verbatim>\<open>cerr\<close> is not kept.
\<close>

subsection \<open>Help\<close>

definition entry :: "string \<Rightarrow> nat \<Rightarrow> string \<Rightarrow> string" where
  "entry name tabs help = name @ replicate tabs (CHR 0x09) @ '' - '' @ help"

definition basic_help :: "string list" where
  "basic_help =
     [''Basic commands: '',
      entry ''current'' 2 ''Prints current context'',
      entry ''pr'' 2 ''Switches to parent context'',
      entry ''cd (name)'' 1 ''Sets current context to child context'',
      entry ''list'' 2 ''Prints all children and parent contexts'',
      entry ''exit'' 2 ''Exits application'',
      entry ''print'' 2 ''Prints all avaialable commands within current context'',
      entry ''flush'' 2 ''Flushes logs to file'']"

definition node_help :: "string list" where
  "node_help =
     [''Node commands: '',
      entry ''setU'' 2 ''Sets new user for node'',
      entry ''login'' 2 ''Logs to node'',
      entry ''logout'' 2 ''Logs out'',
      entry ''register'' 1 ''Registers new user'',
      entry ''cp'' 2 ''Changes password'',
      entry ''user'' 2 ''Prints current user'',
      entry ''getU'' 2 ''Gets user and prints info'',
      entry ''getNL'' 2 ''Gets networks list'',
      entry ''getMN'' 2 ''Gets my networks list'',
      entry ''getSL'' 2 ''Gets visible servers'',
      entry ''ia'' 2 ''Is active?'',
      entry ''ir'' 2 ''Is user registered?'',
      entry ''il'' 2 ''Is user logged?'',
      entry ''regNet'' 2 ''Registers network'',
      entry ''delNet'' 2 ''Deletes network'',
      entry ''ups'' 2 ''Updates server'',
      entry ''ss'' 2 ''Stops server'',
      entry ''stop'' 2 ''Stops connection with node'',
      entry ''invite'' 2 ''Invite user to network'',
      entry ''gk'' 2 ''Generate private key'',
      entry ''sk'' 2 ''Sign key'']"

definition network_help :: "string list" where
  "network_help =
     [''Network commands: '',
      entry ''pnt'' 2 ''Print current network'',
      entry ''pnd'' 2 ''Print current node'',
      entry ''addNd'' 2 ''Associates node with network'',
      entry ''delNd'' 2 ''Detaches node from network'',
      entry ''getNds'' 2 ''Gets all related nodes'',
      entry ''getSl'' 2 ''Gets all servers from network'',
      entry ''ia'' 2 ''Is active?'']"

definition sp2p_help :: "string list" where
  "sp2p_help =
     [''Sp2p commands: '',
      entry ''cnd'' 2 ''Add new node'',
      entry ''gnd'' 2 ''Gets a node to work with'',
      entry ''rnd'' 2 ''Remove node'',
      entry ''pnd'' 2 ''Print all nodes'',
      entry ''cnt'' 2 ''Add new network'',
      entry ''gnt'' 2 ''Gets a network to work with'',
      entry ''rnt'' 2 ''Remove networks'',
      entry ''pnt'' 2 ''Print all networks'',
      entry ''priv_dir'' 1 ''Directory with user private keys'',
      entry ''pub_dir'' 1 ''Directory with user public keys'',
      entry ''cert_dir'' 1 ''Directory with user certificates'',
      entry ''save'' 2 ''Save state'',
      entry ''load'' 2 ''Load state'',
      entry ''clear'' 2 ''Clear data'']"

fun help_message :: "context_id \<Rightarrow> string list" where
  "help_message Main_App = basic_help"
| "help_message Sp2p_Context = basic_help @ sp2p_help"
| "help_message Node_Context = basic_help @ node_help"
| "help_message Network_Context = basic_help @ network_help"

subsection \<open>Basic commands\<close>

definition base_current :: "(unit, 'w) cmd" where
  "base_current = bind (get_state cn_context) (\<lambda>c. print (''Current context: '' @ context_name c))"

definition set_context :: "context_id \<Rightarrow> (unit, 'w) cmd" where
  "set_context c = modify (\<lambda>s. s\<lparr>cn_context := c\<rparr>)"

definition base_pr :: "context_id \<Rightarrow> (unit, 'w) cmd" where
  "base_pr this =
     bind (need (X_Command ''No parent exists for current context'') (parent_context this)) set_context"

definition base_cd :: "context_id \<Rightarrow> string list \<Rightarrow> (unit, 'w) cmd" where
  "base_cd this args =
     (if length args \<le> 1 then raise (X_Command ''No child name given'')
      else let child = args ! 1
           in bind (need (X_Command (''No child with given name: '' @ child)) (map_of (nested_contexts this) child))
                set_context)"

definition base_list :: "context_id \<Rightarrow> (unit, 'w) cmd" where
  "base_list this =
     seq (print ''Child contexts:'')
    (seq (each (\<lambda>p. print (''- '' @ context_name (snd p))) (nested_contexts this))
    (seq (print ''Parent context: '')
         (print (''- '' @ (case parent_context this of None \<Rightarrow> ''none'' | Some p \<Rightarrow> context_name p)))))"

text \<open>\<^verbatim>\<open>print\<close> goes through the map of the handlers, in the order of their names.\<close>

definition base_print :: "string list \<Rightarrow> (unit, 'w) cmd" where
  "base_print names =
     seq (print ''Available commands:'') (each (\<lambda>name. print (''- '' @ name)) (sort names))"

definition base_help :: "context_id \<Rightarrow> (unit, 'w) cmd" where
  "base_help this = each print (help_message this)"

text \<open>Flushing the log has no effect on the program.\<close>

definition base_flush :: "(unit, 'w) cmd" where
  "base_flush = ret ()"

subsection \<open>Handlers\<close>

type_synonym 'w handlers = "(string \<times> (string list \<Rightarrow> (unit, 'w) cmd)) list"

definition base_names :: "string list" where
  "base_names = [''current'', ''pr'', ''cd'', ''list'', ''exit'', ''print'', ''help'', ''flush'']"

definition base_handlers :: "context_id \<Rightarrow> string list \<Rightarrow> 'w handlers" where
  "base_handlers this names =
     [(''current'', \<lambda>_. base_current), (''pr'', \<lambda>_. base_pr this), (''cd'', base_cd this),
      (''list'', \<lambda>_. base_list this), (''exit'', \<lambda>_. raise X_Exit), (''print'', \<lambda>_. base_print (base_names @ names)),
      (''help'', \<lambda>_. base_help this), (''flush'', \<lambda>_. base_flush)]"

definition sp2p_handlers :: "'w console_env \<Rightarrow> 'w handlers" where
  "sp2p_handlers ev =
     [(''cnd'', sp2p_cnd ev), (''gnd'', sp2p_gnd ev), (''rnd'', sp2p_rnd ev), (''pnd'', \<lambda>_. sp2p_pnd),
      (''cnt'', sp2p_cnt ev), (''gnt'', sp2p_gnt ev), (''rnt'', sp2p_rnt ev), (''pnt'', \<lambda>_. sp2p_pnt),
      (''save'', sp2p_save ev), (''load'', sp2p_load ev), (''priv_dir'', \<lambda>_. sp2p_priv_dir),
      (''pub_dir'', \<lambda>_. sp2p_pub_dir), (''cert_dir'', \<lambda>_. sp2p_cert_dir), (''clear'', \<lambda>_. sp2p_clear)]"

definition node_handlers :: "'w console_env \<Rightarrow> 'w handlers" where
  "node_handlers ev =
     [(''pnd'', \<lambda>_. node_pnd), (''pnt'', \<lambda>_. node_pnt), (''setU'', node_setU ev), (''login'', \<lambda>_. node_login ev),
      (''logout'', \<lambda>_. node_logout ev), (''register'', \<lambda>_. node_register ev), (''cp'', node_cp ev),
      (''user'', \<lambda>_. node_user), (''getU'', node_getU ev), (''invite'', node_invite ev),
      (''getNL'', \<lambda>_. node_getNL ev), (''getMN'', \<lambda>_. node_getMN ev), (''getSL'', \<lambda>_. node_getSL ev),
      (''ia'', \<lambda>_. node_ia), (''il'', \<lambda>_. node_il), (''ir'', \<lambda>_. node_ir), (''regNet'', \<lambda>_. node_regNet ev),
      (''delNet'', \<lambda>_. node_delNet ev), (''ups'', node_ups ev), (''ss'', \<lambda>_. node_ss ev), (''stop'', \<lambda>_. node_stop),
      (''gk'', node_gk ev), (''sk'', node_sk ev)]"

definition network_handlers :: "'w console_env \<Rightarrow> 'w handlers" where
  "network_handlers ev =
     [(''pnt'', \<lambda>_. network_pnt), (''pnd'', \<lambda>_. network_pnd), (''addNd'', \<lambda>_. network_addNd),
      (''delNd'', \<lambda>_. network_delNd), (''getNds'', \<lambda>_. network_getNds), (''getSl'', \<lambda>_. network_getSl ev),
      (''ia'', \<lambda>_. network_ia)]"

fun own_handlers :: "'w console_env \<Rightarrow> context_id \<Rightarrow> 'w handlers" where
  "own_handlers ev Main_App = []"
| "own_handlers ev Sp2p_Context = sp2p_handlers ev"
| "own_handlers ev Node_Context = node_handlers ev"
| "own_handlers ev Network_Context = network_handlers ev"

definition handlers :: "'w console_env \<Rightarrow> context_id \<Rightarrow> 'w handlers" where
  "handlers ev this = base_handlers this (map fst (own_handlers ev this)) @ own_handlers ev this"

text \<open>The dispatcher asks the current context for the handler.\<close>

definition dispatch :: "'w console_env \<Rightarrow> string \<Rightarrow> string list \<Rightarrow> (unit, 'w) cmd" where
  "dispatch ev name args = bind (get_state cn_context) (\<lambda>c.
     bind (need (X_Command ''No such command avaialable in current context'') (map_of (handlers ev c) name))
       (\<lambda>handler. handler args))"

subsection \<open>The loop\<close>

lemma length_dropWhile_Cons: "dropWhile P xs = c # r \<Longrightarrow> length r < length xs"
  using length_dropWhile_le [of P xs] by simp

function split_input :: "string \<Rightarrow> string list" where
  "split_input input =
     (case dropWhile is_space input of
        [] \<Rightarrow> []
      | c # r \<Rightarrow> (c # takeWhile (\<lambda>c. \<not> is_space c) r) # split_input (dropWhile (\<lambda>c. \<not> is_space c) r))"
  by pat_completeness auto

termination
  by (relation "measure length")
     (auto dest!: length_dropWhile_Cons intro: le_less_trans [OF length_dropWhile_le])

declare split_input.simps [simp del]

definition place_arguments :: "string list \<Rightarrow> (unit, 'w) cmd" where
  "place_arguments input = (if length input > ARGS_SIZE then print ''Too many arguments'' else ret ())"

datatype ending = Exited int | Aborted | Stuck | Undefined_Behaviour

fun survives :: "exn \<Rightarrow> bool" where
  "survives X_Exit = False"
| "survives X_Other = False"
| "survives _ = True"

text \<open>One round: \<^verbatim>\<open>None\<close> when the loop goes on. An exception that no clause names leaves the loop and is
  reported by \<^verbatim>\<open>main\<close>, which returns 0 then.\<close>

definition loop_round :: "'w console_env \<Rightarrow> string \<Rightarrow> 'w console \<Rightarrow> ending option \<times> 'w console" where
  "loop_round ev command_line s =
     (let splitted = split_input command_line
      in case seq (print ''> '')
              (if splitted = [] then ret ()
               else seq (place_arguments splitted) (dispatch ev (hd splitted) splitted)) s of
           (Done _, s') \<Rightarrow> (None, s')
         | (Raised X_Exit, s') \<Rightarrow> (Some (Exited 0), s'\<lparr>cn_out := cn_out s' @ [''Exiting'']\<rparr>)
         | (Raised x, s') \<Rightarrow> (if survives x then None else Some Aborted, s')
         | (Hangs, s') \<Rightarrow> (Some Stuck, s')
         | (Crashes, s') \<Rightarrow> (Some Undefined_Behaviour, s'))"

fun run_lines :: "'w console_env \<Rightarrow> string list \<Rightarrow> 'w console \<Rightarrow> ending \<times> 'w console" where
  "run_lines ev [] s = (Exited 0, s\<lparr>cn_out := cn_out s @ [''> '', ''Exiting'']\<rparr>)"
| "run_lines ev (l # ls) s =
     (case loop_round ev l s of
        (None, s') \<Rightarrow> run_lines ev ls s'
      | (Some e, s') \<Rightarrow> (e, s'))"

text \<open>No command reads the input, so the lines can be taken from the state at the start.\<close>

definition run_program_loop :: "'w console_env \<Rightarrow> 'w console \<Rightarrow> ending \<times> 'w console" where
  "run_program_loop ev s = run_lines ev (cn_input s) (s\<lparr>cn_input := []\<rparr>)"

subsection \<open>The program\<close>

definition ABOUT :: string where
  "ABOUT = ''NodeClient is a simple program presenting usage of sp2p library.'' @ [nl] @
     ''It allows registering users, networks and managing related to sp2p data.'' @ [nl] @
     ''To get familiar with program usage type help during runtime'' @ [nl]"

definition odesc :: "option_spec list" where
  "odesc = [opt ''help'' ''h'' O_flag, opt ''about'' ''a'' O_flag, opt ''include-file'' ''I'' O_string,
     opt ''password'' ''P'' O_string, opt ''threads'' ''T'' (O_int 5), opt ''config-file'' ''C'' O_string]"

definition string_or_empty :: "variables_map \<Rightarrow> string \<Rightarrow> string" where
  "string_or_empty vm name = (case as_string vm name of None \<Rightarrow> '''' | Some s \<Rightarrow> s)"

text \<open>Without a configuration file the program says so and goes on, to fail when it opens it. The thread
  pool belongs to the world.\<close>

definition main_client ::
  "'w console_env \<Rightarrow> string list \<Rightarrow> 'w \<Rightarrow> files \<Rightarrow> string list \<Rightarrow> ending \<times> 'w console" where
  "main_client ev args w fs input =
     (let idle = first_console w fs input '''' ''''
      in case po_parse ev odesc (drop 1 args) of
           None \<Rightarrow> (Aborted, idle)
         | Some vm \<Rightarrow>
             if count vm ''help'' then (Exited 0, snd (print (po_help ev odesc) idle))
             else if count vm ''about'' then (Exited 0, snd (print ABOUT idle))
             else if \<not> count vm ''include-file'' \<or> \<not> count vm ''password'' then (Exited 1, idle)
             else let dataFile = string_or_empty vm ''include-file''
                  in case start ev dataFile (string_or_empty vm ''config-file'')
                            (first_console w fs input dataFile (string_or_empty vm ''password'')) of
                       (Done _, s) \<Rightarrow> run_program_loop ev s
                     | (Raised _, s) \<Rightarrow> (Aborted, s)
                     | (Hangs, s) \<Rightarrow> (Stuck, s)
                     | (Crashes, s) \<Rightarrow> (Undefined_Behaviour, s))"

end
