(* ===== verification/Console_Safety.thy ===== *)
theory Console_Safety
  imports Console_Program Client_Store
begin

text \<open>
  What every command of the console keeps: the three contexts work with the same node and network, the
  application holds just that node, the directories agree, and the manager is well-formed.
\<close>

subsection \<open>Invariants of commands\<close>

definition keeps :: "('w console \<Rightarrow> bool) \<Rightarrow> ('a, 'w) cmd \<Rightarrow> bool" where
  "keeps P c \<longleftrightarrow> (\<forall>s. P s \<longrightarrow> P (snd (c s)))"

named_theorems keeps_rules \<open>commands that keep a predicate\<close>

lemma keepsD: "keeps P c \<Longrightarrow> P s \<Longrightarrow> c s = (r, s') \<Longrightarrow> P s'"
  unfolding keeps_def by (metis snd_conv)

lemma keeps_basic [keeps_rules]:
  "keeps P (ret y)" "keeps P (raise e)" "keeps P crash" "keeps P (get_state f)" "keeps P (need e v)" "keeps P (from_manager g)"
  "keeps P (options ev specs args)" "keeps P (required vm x msg rd)" "keeps P (optional vm x d rd)"
  by (auto simp: keeps_def ret_def raise_def crash_def get_state_def need_def from_manager_def options_def
      required_def optional_def split: option.splits)

lemma keeps_bind [keeps_rules]: "keeps P c \<Longrightarrow> (\<And>x. keeps P (f x)) \<Longrightarrow> keeps P (bind c f)"
  unfolding keeps_def by (auto simp: bind_def split: prod.splits step.splits)

lemma keeps_seq [keeps_rules]: "keeps P c \<Longrightarrow> keeps P d \<Longrightarrow> keeps P (seq c d)"
  unfolding seq_def by (rule keeps_bind)

lemma keeps_each [keeps_rules]: "(\<And>x. keeps P (f x)) \<Longrightarrow> keeps P (each f xs)"
  by (induction xs) (auto intro: keeps_rules)

lemma keeps_if [keeps_rules]: "keeps P c \<Longrightarrow> keeps P d \<Longrightarrow> keeps P (if b then c else d)"
  by simp

lemma keeps_option [keeps_rules]:
  "keeps P c \<Longrightarrow> (\<And>x. keeps P (f x)) \<Longrightarrow> keeps P (case v of None \<Rightarrow> c | Some x \<Rightarrow> f x)"
  by (cases v) auto

lemma keeps_prod [keeps_rules]: "(\<And>x y. keeps P (f x y)) \<Longrightarrow> keeps P (case p of (x, y) \<Rightarrow> f x y)"
  by (cases p) auto

lemma keeps_let [keeps_rules]: "(\<And>x. keeps P (f x)) \<Longrightarrow> keeps P (let x = v in f x)"
  by (simp add: Let_def)

lemma keeps_pure: "(\<And>s. snd (c s) = s) \<Longrightarrow> keeps P c"
  by (simp add: keeps_def)

subsection \<open>The manager behind the commands\<close>

text \<open>An operation of the manager that the console uses: it keeps the manager well-formed and does not
  touch what the application holds.\<close>

definition sound :: "manager \<Rightarrow> manager \<Rightarrow> bool" where
  "sound m m' \<longleftrightarrow> (mg_ok m \<longrightarrow> mg_ok m') \<and> mg_held m' = mg_held m"

lemma sound_refl [simp]: "sound m m"
  by (simp add: sound_def)

lemma sound_trans: "sound m m' \<Longrightarrow> sound m' m'' \<Longrightarrow> sound m m''"
  by (simp add: sound_def)

lemma sound_set_node [simp]: "sound m (set_node i n m)"
  by (simp add: sound_def set_node_def mg_ok_def)

lemma held_add [simp]:
  "mg_held (add_node d n m) = mg_held m" "mg_held (add_network nd m) = mg_held m"
  "mg_held (set_node i n m) = mg_held m" "mg_held (set_network k w m) = mg_held m"
  by (simp_all add: add_node_def add_network_def set_node_def set_network_def)

lemma held_associate: "associateNode k i m = (r, m') \<Longrightarrow> mg_held m' = mg_held m"
  by (auto simp: associateNode_def Let_def split: if_splits)

lemma held_associate_all: "associate_all k ds m = (r, m') \<Longrightarrow> mg_held m' = mg_held m"
proof (induction ds arbitrary: m)
  case (Cons d ds)
  then show ?case by (force dest: held_associate split: option.splits prod.splits sum.splits)
qed simp

lemma held_load_nodes: "load_nodes i src m = (r, m') \<Longrightarrow> mg_held m' = mg_held m"
  by (induction i src m rule: load_nodes.induct) (auto split: option.splits)

lemma held_load_networks: "load_networks i src m = (r, m') \<Longrightarrow> mg_held m' = mg_held m"
proof (induction i arbitrary: src m)
  case (Suc i)
  then show ?case
    by (force simp: Let_def dest!: held_associate_all split: option.splits prod.splits sum.splits)
qed simp

lemma held_stop_nodes: "stop_nodes is m = (r, m') \<Longrightarrow> mg_held m' = mg_held m"
  by (induction "is" arbitrary: m) (auto split: option.splits)

lemma held_clear: "clear m = (r, m') \<Longrightarrow> mg_held m' = mg_held m"
  by (auto simp: clear_def stopAll_def dest: held_stop_nodes split: prod.splits sum.splits)

lemma held_load_items: "load_items src m = (r, m') \<Longrightarrow> mg_held m' = mg_held m"
  by (auto simp: load_items_def dest!: held_load_nodes held_load_networks split: option.splits prod.splits sum.splits)

lemma held_loadState: "loadState af cy fs m = (r, m') \<Longrightarrow> mg_held m' = mg_held m"
  by (auto simp: loadState_def Let_def dest!: held_clear held_load_items split: option.splits prod.splits sum.splits if_splits source_error.splits)

lemma mg_ok_held [simp]: "mg_ok (m\<lparr>mg_held := h\<rparr>) = mg_ok m"
  by (simp add: mg_ok_def)

lemma sound_step: "manager_step af cy m m' \<Longrightarrow> mg_held m' = mg_held m \<Longrightarrow> sound m m'"
  by (simp add: sound_def mg_ok_step)

lemma sound_create:
  "createNode d m = (r, m') \<Longrightarrow> sound m (m'\<lparr>mg_held := mg_held m\<rparr>)"
  "createNode_for d u m = (r, m') \<Longrightarrow> sound m (m'\<lparr>mg_held := mg_held m\<rparr>)"
  "createNetwork_of nd m = (r, m') \<Longrightarrow> sound m (m'\<lparr>mg_held := mg_held m\<rparr>)"
  by (auto simp: sound_def dest: ms_createNode ms_createNode_for ms_createNetwork mg_ok_step)

lemma sound_remove:
  "removeNode d m = (r', m') \<Longrightarrow> sound m m'" "removeNode_named x m = (r', m') \<Longrightarrow> sound m m'"
  "removeNetwork nd m = (r', m') \<Longrightarrow> sound m m'" "removeNetwork_named x m = (r', m') \<Longrightarrow> sound m m'"
  by (auto simp: removeNode_def removeNode_named_def removeNetwork_def removeNetwork_named_def sound_def mg_ok_erase
      split: option.splits)

lemma sound_network:
  "associateNode k i m = (r', m') \<Longrightarrow> sound m m'" "network_isActive k m = (b, m') \<Longrightarrow> sound m m'"
  "getAvailableServers e k m w = (c, m', w') \<Longrightarrow> sound m m'" "sound m (detachNode k d m)"
proof -
  show "getAvailableServers e k m w = (c, m', w') \<Longrightarrow> sound m m'"
    by (auto dest!: getAvailableServers_frame simp: only_nodes_def sound_def)
  have "mg_held (clearExpiredNodes k m) = mg_held m" by (simp add: clearExpiredNodes_def Let_def)
  then show "network_isActive k m = (b, m') \<Longrightarrow> sound m m'"
    by (auto simp: network_isActive_def Let_def sound_def mg_ok_detach)
qed (auto simp: sound_def mg_ok_detach detachNode_def Let_def dest: mg_ok_associate held_associate
      intro: mg_ok_detach(1) [unfolded detachNode_def Let_def])

lemma sound_state:
  "clear m = (r', m') \<Longrightarrow> sound m m'" "loadState af cy fs m = (r', m') \<Longrightarrow> sound m m'"
  "loadState_from af cy x fs m = (r', m') \<Longrightarrow> sound m m'"
  "saveState_to af cy salt x m fs = (r', m', fs') \<Longrightarrow> sound m m'"
proof -
  show "loadState_from af cy x fs m = (r', m') \<Longrightarrow> sound m m'"
    unfolding loadState_from_def sound_def
    using mg_ok_loadState [of "m\<lparr>mg_data := setDataFile x (mg_data m)\<rparr>" af cy fs r' m']
      held_loadState [of af cy fs "m\<lparr>mg_data := setDataFile x (mg_data m)\<rparr>" r' m'] by simp
qed (auto simp: sound_def saveState_to_def Let_def dest: mg_ok_clear held_clear mg_ok_loadState held_loadState
      split: prod.splits)

subsection \<open>The invariant of the console\<close>

definition console_ok :: "'w console \<Rightarrow> bool" where
  "console_ok s \<longleftrightarrow>
     node_c_node s = cn_current_node s \<and> network_c_node s = cn_current_node s \<and>
     node_c_network s = cn_current_network s \<and> network_c_network s = cn_current_network s \<and>
     mg_held (cn_manager s) = (case cn_current_node s of None \<Rightarrow> [] | Some i \<Rightarrow> [i]) \<and>
     node_c_priv_key_dir s = cn_priv_keys_dir s \<and> node_c_cert_dir s = cn_cert_dir s \<and>
     mg_ok (cn_manager s)"

lemma console_ok_sound:
  "console_ok s \<Longrightarrow> sound (cn_manager s) m \<Longrightarrow> console_ok (s\<lparr>cn_manager := m\<rparr>)"
  by (simp add: console_ok_def sound_def)

text \<open>The parts of the state that the invariant does not speak of.\<close>

lemma console_ok_frame [simp]:
  "console_ok (s\<lparr>cn_out := out\<rparr>) = console_ok s" "console_ok (s\<lparr>cn_world := w\<rparr>) = console_ok s"
  "console_ok (s\<lparr>cn_files := fs\<rparr>) = console_ok s" "console_ok (s\<lparr>cn_context := c\<rparr>) = console_ok s"
  "console_ok (s\<lparr>cn_input := ls\<rparr>) = console_ok s" "console_ok (s\<lparr>cn_pub_keys := ks\<rparr>) = console_ok s"
  "console_ok (s\<lparr>cn_pub_keys_dir := dir\<rparr>) = console_ok s"
  by (simp_all add: console_ok_def)

lemma keeps_modify [keeps_rules]: "(\<And>s. P s \<Longrightarrow> P (f s)) \<Longrightarrow> keeps P (modify f)"
  by (simp add: keeps_def modify_def)

lemma ok_print [keeps_rules]: "keeps console_ok (print line)"
  unfolding print_def by (rule keeps_modify) simp

lemma ok_on_manager [keeps_rules]:
  "(\<And>m r m'. f m = (r, m') \<Longrightarrow> sound m m') \<Longrightarrow> keeps console_ok (on_manager f)"
  unfolding keeps_def on_manager_def by (auto split: prod.split intro: console_ok_sound)

lemma ok_on_node [keeps_rules]: "keeps console_ok (on_node ev i f)"
  unfolding keeps_def on_node_def
  by (auto split: prod.split) (use console_ok_sound [OF _ sound_set_node] in fastforce)

lemma ok_on_files [keeps_rules]: "keeps console_ok (on_files f)"
  unfolding keeps_def on_files_def by (auto split: call.split)

lemma ok_update_node [keeps_rules]: "keeps console_ok (update_node i f)"
  unfolding update_node_def by (rule keeps_modify) (simp add: console_ok_sound)

lemma ok_on_saved [keeps_rules]:
  assumes "\<And>m fs r m' fs'. f m fs = (r, m', fs') \<Longrightarrow> sound m m'"
  shows "keeps console_ok (on_saved f)"
  unfolding keeps_def on_saved_def
  by (auto split: prod.split) (use console_ok_sound [OF _ assms] in fastforce)

lemma ok_use [keeps_rules]: "keeps console_ok (use_node i)" "keeps console_ok (use_network k)"
  unfolding use_node_def use_network_def by (auto intro!: keeps_modify simp: console_ok_def)

lemma ok_drop_result [keeps_rules]:
  assumes "\<And>m r m'. f m = (r, m') \<Longrightarrow> sound m (m'\<lparr>mg_held := mg_held m\<rparr>)"
  shows "keeps console_ok (drop_result f)"
  unfolding drop_result_def
  by (rule keeps_rules)+ (use assms in \<open>auto split: prod.splits intro: keeps_rules\<close>)

lemma ok_with_options [keeps_rules]: "(\<And>vm. keeps console_ok (body vm)) \<Longrightarrow> keeps console_ok (with_options ev specs args body)"
  unfolding with_options_def by (intro keeps_rules)

lemmas check_defs = node_checkNode_def node_checkNetwork_def network_checkNode_def network_checkNetwork_def
  node_of_def network_of_def

lemma ok_checks [keeps_rules]:
  "keeps P node_checkNode" "keeps P node_checkNetwork" "keeps P network_checkNode" "keeps P network_checkNetwork"
  "keeps P (node_of i)" "keeps P (network_of i)"
  unfolding check_defs by (intro keeps_rules)+

lemma ok_prints [keeps_rules]:
  "keeps console_ok (print_node i)" "keeps console_ok (print_network k)" "keeps console_ok (respond res)"
  "keeps console_ok (failed res)" "keeps console_ok (yes_no b)" "keeps console_ok (list_networks p)"
  unfolding print_node_def print_network_def respond_def failed_def yes_no_def list_networks_def
  by (intro keeps_rules)+

subsection \<open>Every command keeps it\<close>

lemma ok_node_simple:
  "keeps console_ok node_pnd" "keeps console_ok node_pnt" "keeps console_ok (node_login ev)"
  "keeps console_ok (node_logout ev)" "keeps console_ok node_user" "keeps console_ok (node_getNL ev)"
  "keeps console_ok (node_getMN ev)" "keeps console_ok (node_getSL ev)" "keeps console_ok node_ia"
  "keeps console_ok node_il" "keeps console_ok node_ir" "keeps console_ok node_stop"
  "keeps console_ok (node_register ev)"
  unfolding node_pnd_def node_pnt_def node_login_def node_logout_def node_user_def node_getNL_def node_getMN_def
    node_getSL_def node_ia_def node_il_def node_ir_def node_stop_def node_register_def
  by (intro keeps_rules)+

lemma ok_network_requests:
  "keeps console_ok (node_regNet ev)" "keeps console_ok (node_delNet ev)" "keeps console_ok (node_ss ev)"
  unfolding node_regNet_def node_delNet_def node_ss_def network_request_def by (intro keeps_rules)+

lemma ok_node_options:
  "keeps console_ok (node_setU ev args)" "keeps console_ok (node_cp ev args)" "keeps console_ok (node_getU ev args)"
  "keeps console_ok (node_invite ev args)" "keeps console_ok (node_ups ev args)"
  unfolding node_setU_def node_cp_def node_getU_def node_invite_def node_ups_def set_user_def
  by (intro keeps_rules)+

lemma ok_generated [keeps_rules]: "keeps P (\<lambda>s. (call_step c, s))"
  by (rule keeps_pure) simp

lemma ok_node_gk: "keeps console_ok (node_gk ev args)"
  unfolding node_gk_def by (intro keeps_rules)

lemma ok_key_of_network [keeps_rules]: "keeps console_ok (key_of_network ev i x st)"
proof -
  have "keeps console_ok (bind (update_node i f) (\<lambda>_ s. case c of
      Returned None \<Rightarrow> (Crashes, s) | Returned (Some k) \<Rightarrow> (Done k, s) | _ \<Rightarrow> (Raised X_Other, s)))" for f and c :: "string option call"
    by (intro keeps_rules keeps_pure) (auto split: call.split option.split)
  then show ?thesis unfolding keeps_def key_of_network_def by (auto split: prod.split)
qed

lemma ok_node_sk: "keeps console_ok (node_sk ev args)"
  unfolding node_sk_def store_signed_def by (intro keeps_rules)

lemma ok_network_commands:
  "keeps console_ok network_pnt" "keeps console_ok network_pnd" "keeps console_ok network_addNd"
  "keeps console_ok network_getNds"
  unfolding network_pnt_def network_pnd_def network_addNd_def network_getNds_def
  by (intro keeps_rules | erule sound_network)+

lemma ok_network_delNd: "keeps console_ok network_delNd"
  unfolding network_delNd_def by (intro keeps_rules) (simp add: console_ok_sound sound_network)

lemma ok_network_servers: "keeps console_ok (network_getSl ev)" "keeps console_ok network_ia"
proof -
  have "keeps console_ok (\<lambda>s. case getAvailableServers (client ev s) k (cn_manager s) (cn_world s) of
      (c, m, w) \<Rightarrow> (call_step c, s\<lparr>cn_manager := m, cn_world := w\<rparr>))" for k
    unfolding keeps_def by (auto split: prod.split) (use console_ok_sound [OF _ sound_network(3)] in fastforce)
  then show "keeps console_ok (network_getSl ev)"
    unfolding network_getSl_def by (intro keeps_rules)
  have "keeps console_ok (\<lambda>s. case network_isActive k (cn_manager s) of (b, m) \<Rightarrow> (Done b, s\<lparr>cn_manager := m\<rparr>))" for k
    unfolding keeps_def by (auto split: prod.split intro: console_ok_sound sound_network)
  then show "keeps console_ok network_ia"
    unfolding network_ia_def by (intro keeps_rules)
qed

lemma ok_sp2p_choices [keeps_rules]:
  "keeps P (address ev x)" "keeps P (choice msg names x)" "keeps P (node_choice ev vm)" "keeps P (network_choice vm)"
  "keeps P (named_file vm msg)"
  unfolding address_def choice_def node_choice_def network_choice_def given_def named_file_def
  by (intro keeps_rules)+

lemma ok_sp2p_nodes: "keeps console_ok (sp2p_cnd ev args)" "keeps console_ok (sp2p_gnd ev args)"
  "keeps console_ok (sp2p_rnd ev args)" "keeps console_ok sp2p_pnd"
  unfolding sp2p_cnd_def sp2p_gnd_def sp2p_rnd_def sp2p_pnd_def
  by (intro keeps_rules | erule sound_create | auto split: option.splits intro: sound_remove; fail)+

lemma ok_sp2p_networks: "keeps console_ok (sp2p_cnt ev args)" "keeps console_ok (sp2p_gnt ev args)"
  "keeps console_ok (sp2p_rnt ev args)" "keeps console_ok sp2p_pnt"
  unfolding sp2p_cnt_def sp2p_gnt_def sp2p_rnt_def sp2p_pnt_def
  by (intro keeps_rules | erule sound_create | auto split: option.splits intro: sound_remove; fail)+

lemma ok_keep [keeps_rules]: "keeps console_ok (keep_cert ev dir c)" "keeps console_ok (keep_key ev dir k)"
  "keeps console_ok (keep_node ev cert_dir key_dir i)"
proof -
  have keep: "keeps console_ok (keep_cert ev dir c)" "keeps console_ok (keep_key ev dir k)" for dir c k
    unfolding keep_cert_def keep_key_def by (intro keeps_rules)+
  then show "keeps console_ok (keep_cert ev dir c)" "keeps console_ok (keep_key ev dir k)" .
  show "keeps console_ok (keep_node ev cert_dir key_dir i)"
    unfolding keep_node_def by (intro keeps_rules keep)
qed

lemma ok_sp2p_save: "keeps console_ok (sp2p_save ev args)"
  unfolding sp2p_save_def
  by (intro keeps_rules) (auto split: option.splits prod.splits intro: sound_state)

lemma ok_load_state [keeps_rules]: "keeps console_ok (load_state_from ev filename)"
  unfolding load_state_from_def by (intro keeps_rules) (auto split: option.splits intro: sound_state)

lemma ok_sp2p_state: "keeps console_ok (sp2p_load ev args)" "keeps console_ok sp2p_clear"
  "keeps console_ok sp2p_priv_dir" "keeps console_ok sp2p_pub_dir" "keeps console_ok sp2p_cert_dir"
  unfolding sp2p_load_def sp2p_clear_def sp2p_priv_dir_def sp2p_pub_dir_def sp2p_cert_dir_def
  by (intro keeps_rules | erule sound_state)+

lemmas ok_commands = ok_node_simple ok_network_requests ok_node_options ok_node_gk ok_node_sk ok_network_commands
  ok_network_delNd ok_network_servers ok_sp2p_nodes ok_sp2p_networks ok_sp2p_save ok_sp2p_state

lemma ok_set_context [keeps_rules]: "keeps console_ok (set_context c)"
  unfolding set_context_def by (intro keeps_rules) simp

lemma ok_base: "keeps console_ok base_current" "keeps console_ok (base_pr c)" "keeps console_ok (base_cd c args)"
  "keeps console_ok (base_list c)" "keeps console_ok (base_print names)" "keeps console_ok (base_help c)"
  "keeps console_ok base_flush"
  unfolding base_current_def base_pr_def base_cd_def base_list_def base_print_def base_help_def base_flush_def
  by (intro keeps_rules)+

lemma ok_handlers: "(name, h) \<in> set (handlers ev c) \<Longrightarrow> keeps console_ok (h args)"
  by (cases c)
     (auto simp: handlers_def base_handlers_def sp2p_handlers_def node_handlers_def network_handlers_def
       intro: ok_commands ok_base keeps_basic)

lemma ok_dispatch [keeps_rules]: "keeps console_ok (dispatch ev name args)"
proof -
  have "keeps console_ok (bind (need e (map_of (handlers ev c) name)) (\<lambda>h. h args))" for e c
    by (cases "map_of (handlers ev c) name") (auto simp: need_def dest!: map_of_SomeD intro: ok_handlers keeps_basic)
  then show ?thesis unfolding dispatch_def by - (rule keeps_bind, rule keeps_basic, blast)
qed

lemma ok_loop_round: "console_ok s \<Longrightarrow> loop_round ev l s = (r, s') \<Longrightarrow> console_ok s'"
proof -
  assume ok: "console_ok s" and r: "loop_round ev l s = (r, s')"
  let ?c = "seq (print ''> '') (if split_input l = [] then ret () else
      seq (place_arguments (split_input l)) (dispatch ev (hd (split_input l)) (split_input l)))"
  have "keeps console_ok ?c" unfolding place_arguments_def by (intro keeps_rules)
  from keepsD [OF this ok] show ?thesis
    using r by (auto simp: loop_round_def Let_def split: prod.splits step.splits exn.splits)
qed

lemma ok_run_lines: "console_ok s \<Longrightarrow> run_lines ev ls s = (r, s') \<Longrightarrow> console_ok s'"
  by (induction ev ls s rule: run_lines.induct) (auto dest: ok_loop_round split: prod.splits option.splits)

subsection \<open>The start keeps it\<close>

text \<open>A predicate that does not see the keys of the nodes, the input and the output survives the reading of
  the directories.\<close>

locale key_blind =
  fixes P :: "'w console \<Rightarrow> bool"
  assumes blind_out: "P (s\<lparr>cn_out := out\<rparr>) = P s" and blind_input: "P (s\<lparr>cn_input := ls\<rparr>) = P s"
    and blind_pub_keys: "P (s\<lparr>cn_pub_keys := ks\<rparr>) = P s"
    and blind_keys: "nd_desc n = nd_desc (mg_node (cn_manager s) i) \<Longrightarrow> nd_user n = nd_user (mg_node (cn_manager s) i) \<Longrightarrow>
      P s \<Longrightarrow> P (s\<lparr>cn_manager := set_node i n (cn_manager s)\<rparr>)"
begin

lemma blind_print: "keeps P (print line)"
  unfolding print_def by (rule keeps_modify) (simp add: blind_out)

lemma blind_update_node:
  "(\<And>n. nd_desc (f n) = nd_desc n) \<Longrightarrow> (\<And>n. nd_user (f n) = nd_user n) \<Longrightarrow> keeps P (update_node i f)"
  unfolding update_node_def by (rule keeps_modify) (simp add: blind_keys)

lemma blind_loaded: "keeps P (loaded_key ev f d x p)" "keeps P (loaded_cert ev f d x)" "keeps P (getFilenames ev d)"
  unfolding loaded_key_def loaded_cert_def getFilenames_def by (rule keeps_pure, simp)+ (intro keeps_rules)

lemma blind_password: "keeps P (next_password p)"
  unfolding keeps_def next_password_def by (auto simp: blind_input split: option.splits prod.splits)

lemma blind_scan_private: "keeps P (scan_private ev d f p)"
  unfolding scan_private_def give_network_key_def
  by (cases "match_one f"; cases "match_two f") (auto intro!: keeps_rules blind_loaded blind_update_node)

lemma blind_scan_private_files: "keeps P (scan_private_files ev d fs p)"
  by (induction fs arbitrary: p) (auto intro!: keeps_rules blind_password blind_scan_private blind_print)

lemma blind_scan_public: "keeps P (scan_public ev d f)"
  unfolding scan_public_def by (intro keeps_rules keeps_pure) (simp_all add: blind_pub_keys)

lemma blind_scan_cert: "keeps P (scan_cert ev d f)"
  unfolding scan_cert_def
  by (cases "match_numbered f"; cases "match_two f") (auto intro!: keeps_rules blind_loaded blind_update_node)

lemma blind_scans: "keeps P (scanForPrivKeys ev d)" "keeps P (scanForPubKeys ev d)" "keeps P (scanForCerts ev d)"
  unfolding scanForPrivKeys_def scanForPubKeys_def scanForCerts_def
  by (intro keeps_rules blind_loaded blind_scan_private_files blind_scan_public blind_scan_cert)+

end

interpretation contexts: key_blind console_ok
  by unfold_locales (auto simp: console_ok_sound)

lemmas ok_scan [keeps_rules] = contexts.blind_scans

lemma ok_start: "keeps console_ok (start ev dataFile config_file)"
proof -
  have conf: "keeps console_ok (configured vm x get f)" if "\<And>i. keeps console_ok (f i)" for vm x get and f :: "nat \<Rightarrow> (unit, 'a) cmd"
    unfolding configured_def using that by (intro keeps_rules)
  have dir: "keeps console_ok (directory vm x f)" if "\<And>d. keeps console_ok (f d)" for vm x and f :: "string \<Rightarrow> (unit, 'a) cmd"
    unfolding directory_def using that by (intro keeps_rules)
  show ?thesis
    unfolding start_def by (intro keeps_rules conf dir) (auto simp: console_ok_def)
qed

lemma ok_first: "console_ok (first_console w fs input dataFile password)"
  by (simp add: console_ok_def first_console_def new_manager_def mg_ok_def smap_ok_def)

subsection \<open>Consoles of the program\<close>

text \<open>The states of the console between two lines.\<close>

inductive console_session :: "'w console_env \<Rightarrow> 'w console \<Rightarrow> bool" for ev where
  console_start:
    "start ev dataFile config_file (first_console w fs input dataFile password) = (Done (), s) \<Longrightarrow> console_session ev s"
| console_round: "console_session ev s \<Longrightarrow> loop_round ev line s = (None, s') \<Longrightarrow> console_session ev s'"

lemma console_session_ok: "console_session ev s \<Longrightarrow> console_ok s"
  by (induction rule: console_session.induct) (auto dest: keepsD [OF ok_start ok_first] ok_loop_round)

end
