(* ===== verification/Console_Restart.thy ===== *)
theory Console_Restart
  imports Console_Safety Client_Restore
begin

text \<open>
  What \<^verbatim>\<open>save\<close> leaves in the files, what the next start of the program makes of it, and how the files of
  private keys come back to their nodes.
\<close>

subsection \<open>Saving\<close>

text \<open>After the state the stores are written, each only when there is no file of its name: a file that is
  there stays as it is.\<close>

definition has_file :: "manager \<Rightarrow> string \<Rightarrow> string \<Rightarrow> 'w console \<Rightarrow> bool" where
  "has_file m f content s \<longleftrightarrow> cn_manager s = m \<and> cn_files s f = Some content"

lemma save_to_frame:
  "cert_save_to bt wr dir c fs = Returned fs' \<Longrightarrow> \<not> inFile dir fs c \<Longrightarrow> fs f = Some x \<Longrightarrow> fs' f = Some x"
  "private_save_to bt wr dir k fs = Returned fs' \<Longrightarrow> \<not> inFile dir fs k \<Longrightarrow> fs f = Some x \<Longrightarrow> fs' f = Some x"
  using certificates.save_frame [of bt wr dir c fs fs' f] by (cases "f = file_in dir c", simp_all add: inFile_def)
     (use private_keys.save_frame [of bt wr dir k fs fs' f] in \<open>cases "f = file_in dir k", simp_all add: inFile_def\<close>)

lemma keep_keeps_files: "keeps (has_file m f x) (keep_cert ev dir c)" "keeps (has_file m f x) (keep_key ev dir k)"
  unfolding keeps_def keep_cert_def keep_key_def
  by (auto simp: bind_def get_state_def ret_def on_files_def has_file_def split: call.split dest: save_to_frame)

lemma keep_node_keeps_files: "keeps (has_file m f x) (keep_node ev cert_dir key_dir i)"
  unfolding keep_node_def by (intro keeps_rules keep_keeps_files)

lemma save_nodes_keep:
  "keeps (has_file m f x) (bind (get_state (\<lambda>s. getAllNodes (cn_manager s))) (\<lambda>is.
     bind (get_state cn_cert_dir) (\<lambda>cert_dir. bind (get_state cn_priv_keys_dir) (\<lambda>key_dir.
       each (keep_node ev cert_dir key_dir) is))))"
  by (intro keeps_rules keep_node_keeps_files)

text \<open>The file that \<^verbatim>\<open>save\<close> writes, with the password that the program was started with.\<close>

definition save_file :: "variables_map \<Rightarrow> 'w console \<Rightarrow> string" where
  "save_file vm s =
     (case as_string vm ''filename'' of Some f \<Rightarrow> f | None \<Rightarrow> dm_dataFile (mg_data (cn_manager s)))"

lemma saved_items_data [simp]: "saved_items (m\<lparr>mg_data := dm\<rparr>) = saved_items m"
  by (simp add: saved_items_def)

lemma sp2p_save_files:
  assumes "length args \<le> ARGS_SIZE" "po_parse ev save_state_opts (drop 1 args) = Some vm" "\<not> count vm ''help''"
    and named: "count vm ''filename'' \<Longrightarrow> as_string vm ''filename'' \<noteq> None \<and> as_string vm ''password'' \<noteq> None"
    and path: "save_file vm s \<noteq> ''''" and save: "sp2p_save ev args s = (r, s')"
    and kept: "((cn_files s)(save_file vm s \<mapsto> written_file (ev_archive ev) (ev_crypto ev) (ev_salt ev)
      (dm_protection (mg_data (cn_manager s))) (saved_items (cn_manager s)))) f = Some x"
  shows "cn_files s' f = Some x"
proof -
  let ?text = "written_file (ev_archive ev) (ev_crypto ev) (ev_salt ev)
      (dm_protection (mg_data (cn_manager s))) (saved_items (cn_manager s))"
  let ?fs = "(cn_files s)(save_file vm s \<mapsto> ?text)"
  let ?rest = "bind (get_state (\<lambda>s. getAllNodes (cn_manager s))) (\<lambda>is.
     bind (get_state cn_cert_dir) (\<lambda>cert_dir. bind (get_state cn_priv_keys_dir) (\<lambda>key_dir.
       each (keep_node ev cert_dir key_dir) is)))"
  obtain m where run: "sp2p_save ev args s = ?rest (s\<lparr>cn_manager := m, cn_files := ?fs\<rparr>)"
  proof (cases "count vm ''filename''")
    case True
    then obtain f p where "as_string vm ''filename'' = Some f" "as_string vm ''password'' = Some p"
      using named by auto
    moreover then have "count vm ''password''" using as_string_undescribed by (metis option.simps(3))
    ultimately show ?thesis
      using True assms(1-3) path that
      by (simp add: sp2p_save_def with_options_def options_def need_def named_file_def required_def seq_def bind_def
          on_saved_def save_file_def saveState_to_def saveState_written setDataFile_def Let_def ret_def)
  next
    case False
    then have "as_string vm ''filename'' = None" by (rule as_string_undescribed)
    then show ?thesis
      using False assms(1-3) path that [of "cn_manager s"]
      by (simp add: sp2p_save_def with_options_def options_def need_def named_file_def seq_def bind_def
          on_saved_def save_file_def saveState_written Let_def ret_def)
  qed
  have "has_file m f x (s\<lparr>cn_manager := m, cn_files := ?fs\<rparr>)" using kept by (simp add: has_file_def)
  from keepsD [OF save_nodes_keep this run [unfolded save, symmetric]]
  show ?thesis by (simp add: has_file_def)
qed

subsection \<open>Starting again\<close>

text \<open>What the user sees of the manager.\<close>

definition same_views ::
  "(NodeDescription \<times> NodeDescription \<times> MyUser) list \<Rightarrow> (NetworkDescription \<times> NodeDescription list) list \<Rightarrow>
   'w console \<Rightarrow> bool" where
  "same_views V W s \<longleftrightarrow> node_view (cn_manager s) = V \<and> network_view (cn_manager s) = W"

lemma node_view_set_node:
  "nd_desc n = nd_desc (mg_node m i) \<Longrightarrow> nd_user n = nd_user (mg_node m i) \<Longrightarrow> node_view (set_node i n m) = node_view m"
  by (simp add: node_view_def set_node_def)

lemma views_unchanged [simp]:
  "network_view (set_node i n m) = network_view m"
  "node_view (m\<lparr>mg_held := h\<rparr>) = node_view m" "network_view (m\<lparr>mg_held := h\<rparr>) = network_view m"
  by (simp_all add: node_view_def network_view_def set_node_def)

interpretation views: key_blind "same_views V W" for V W
  by unfold_locales (auto simp: same_views_def node_view_set_node)

text \<open>The constructor after the saved state has been loaded.\<close>

definition configure :: "'w console_env \<Rightarrow> string \<Rightarrow> (unit, 'w) cmd" where
  "configure ev config_file =
     bind (get_state cn_files) (\<lambda>fs. bind (need X_Other (fs config_file)) (\<lambda>conf.
     bind (need X_Options (po_config ev load_conf_opts conf)) (\<lambda>vm.
     seq (configured vm ''node_name'' getNode_named use_node)
    (seq (configured vm ''network_name'' getNetwork_named use_network)
    (seq (directory vm ''priv_keys_dir'' (\<lambda>dir. seq (scanForPrivKeys ev dir)
           (modify (\<lambda>s. s\<lparr>node_c_priv_key_dir := dir, cn_priv_keys_dir := dir\<rparr>))))
    (seq (directory vm ''pub_keys_dir'' (\<lambda>dir. seq (scanForPubKeys ev dir)
           (modify (\<lambda>s. s\<lparr>cn_pub_keys_dir := dir\<rparr>))))
         (directory vm ''certs_dir'' (\<lambda>dir. seq (scanForCerts ev dir)
           (modify (\<lambda>s. s\<lparr>node_c_cert_dir := dir, cn_cert_dir := dir\<rparr>))))))))))"

lemma keeps_configured: "(\<And>i. keeps P (f i)) \<Longrightarrow> keeps P (configured vm x get f)"
  unfolding configured_def by (intro keeps_rules)

lemma keeps_directory: "(\<And>d. keeps P (f d)) \<Longrightarrow> keeps P (directory vm x f)"
  unfolding directory_def by (intro keeps_rules)

lemma views_configure: "keeps (same_views V W) (configure ev config_file)"
  unfolding configure_def use_node_def use_network_def
  by (intro keeps_rules keeps_configured keeps_directory views.blind_scans)
     (simp_all add: same_views_def)

lemma start_loaded:
  assumes "cn_files s dataFile \<noteq> None" "load_state_from ev None s = (Done (), s1)"
  shows "start ev dataFile config_file s = configure ev config_file s1"
proof -
  have "cn_files s1 = cn_files s"
    using assms(2) by (auto simp: load_state_from_def on_manager_def bind_def get_state_def split: prod.splits)
  moreover obtain content where "cn_files s dataFile = Some content" using assms(1) by auto
  ultimately show ?thesis
    using assms by (auto simp: start_def configure_def bind_def seq_def get_state_def)
qed

text \<open>Empty directories are read without a question.\<close>

lemma empty_scans:
  assumes "ev_listing ev (cn_files s) dir = Some []"
  shows "scanForPrivKeys ev dir s = (Done (), s)" "scanForPubKeys ev dir s = (Done (), s)"
    "scanForCerts ev dir s = (Done (), s)"
  using assms by (simp_all add: scanForPrivKeys_def scanForPubKeys_def scanForCerts_def getFilenames_def bind_def
      get_state_def need_def ret_def)

lemma getNode_named_known:
  "(\<exists>i. getNode_named x m = Inr i) \<longleftrightarrow> x \<in> no_node_name ` fst ` set (mg_nodes m)"
  by (force simp: getNode_named_def find_None_iff find_Some_iff split: option.splits dest: nth_mem)

text \<open>What loading makes of a saved file, in a program that has just been started.\<close>

lemma load_first_console:
  assumes m: "mg_ok m" "in_step m" "length (mg_nodes m) < 2 ^ 31" "length (mg_networks m) < 2 ^ 31"
    and known: "\<And>d ds x. (d, ds) \<in> set (network_view m) \<Longrightarrow> x \<in> set ds \<Longrightarrow> x \<in> fst ` set (mg_nodes m)"
    and lib: "crypto_ok (ev_crypto ev)" "af_items (ev_archive ev) (af_text (ev_archive ev) (saved_items m)) = Some (saved_items m)"
    and path: "dataFile \<noteq> ''''" "fs dataFile = Some (written_file (ev_archive ev) (ev_crypto ev) salt (Encrypted password) (saved_items m))"
  shows "\<exists>s1. load_state_from ev None (first_console w fs input dataFile password) = (Done (), s1) \<and>
    same_views (node_view m) (network_view m) s1 \<and> cn_files s1 = fs"
proof -
  let ?s = "first_console w fs input dataFile password"
  let ?m0 = "new_manager \<lparr>dm_dataFile = dataFile, dm_protection = Encrypted password\<rparr>"
  have m0: "mg_ok ?m0" "mg_nodes ?m0 = []" "mg_networks ?m0 = []" "mg_data ?m0 = \<lparr>dm_dataFile = dataFile, dm_protection = Encrypted password\<rparr>"
    "idle ?m0" "?m0\<lparr>mg_nodes := [], mg_networks := []\<rparr> = ?m0"
    by (simp_all add: mg_ok_new [unfolded new_manager_def] new_manager_def idle_def)
  obtain m' where m': "load_items (source_of (Encrypted password) (saved_items m)) ?m0 = (Inr (), m')" "node_view m' = node_view m" "network_view m' = network_view m"
    using load_items_restores [where m = m, OF m _ m0(1-3)] known by blast
  have "loadState (ev_archive ev) (ev_crypto ev) fs ?m0 = (Inr (), m')"
    using path m'(1) getSource_written [OF lib, of _ fs salt] by (simp add: loadState_def clear_idle m0 Let_def)
  then show ?thesis
    using m' by (simp add: load_state_from_def bind_def get_state_def on_manager_def first_console_def same_views_def)
qed

text \<open>Empty directories of keys, and a configured node that is known.\<close>

lemma configured_used:
  "as_string vm name = Some x \<Longrightarrow>
    configured vm name get use = (if x = '''' then ret () else bind (from_manager (get x)) use)"
  using as_string_undescribed [of vm name] by (auto simp: configured_def optional_def need_def)

lemma configured_absent: "\<not> count vm name \<Longrightarrow> configured vm name get use = ret ()"
  by (simp add: configured_def optional_def)

lemma directory_used: "as_string vm name = Some x \<Longrightarrow> directory vm name use = use x"
  using as_string_undescribed [of vm name] by (auto simp: directory_def need_def)

lemma getNode_named_held [simp]: "getNode_named x (m\<lparr>mg_held := h\<rparr>) = getNode_named x m"
  by (simp add: getNode_named_def)

lemma configure_empty:
  assumes conf: "cn_files s config_file = Some conf" "po_config ev load_conf_opts conf = Some vm"
    and node: "as_string vm ''node_name'' = Some x" "x = '''' \<or> getNode_named x (cn_manager s) = Inr i"
    and rest: "\<not> count vm ''network_name''" "as_string vm ''priv_keys_dir'' = Some d1" "as_string vm ''pub_keys_dir'' = Some d2"
      "as_string vm ''certs_dir'' = Some d3" "\<And>d. d \<in> {d1, d2, d3} \<Longrightarrow> ev_listing ev (cn_files s) d = Some []"
  shows "\<exists>s0. configure ev config_file s = (Done (), s0) \<and>
    (x \<noteq> '''' \<longrightarrow> getNode_named x (cn_manager s0) = Inr i \<and> cn_current_node s0 = Some i)"
  using assms
  by (cases "x = ''''")
     (simp_all add: configure_def configured_used configured_absent directory_used seq_def bind_def get_state_def need_def
       ret_def empty_scans modify_def from_manager_def use_node_def)

end
