(* ===== verification/Console_Properties.thy ===== *)
theory Console_Properties
  imports Console_Restart Client_Properties
begin

text \<open>
  The properties of the console client, each with an application at a concrete input.
\<close>

subsection \<open>Options\<close>

lemma described_string:
  assumes "po_ok pp" "pp specs args = Some vm" "count vm x" "\<And>s. s \<in> set specs \<Longrightarrow> op_long s = x \<Longrightarrow> op_kind s = O_string"
  shows "\<exists>t. as_string vm x = Some t"
proof -
  obtain v where v: "vm x = Some v" using assms(3) by (auto simp: count_def)
  then obtain s where "s \<in> set specs" "op_long s = x" "value_fits (op_kind s) v"
    using assms(1,2) unfolding po_ok_def by blast
  then have "value_fits O_string v" using assms(4) by metis
  then show ?thesis using v by (cases v) (auto simp: as_string_def)
qed

lemma options_parsed:
  "length args \<le> ARGS_SIZE \<Longrightarrow> po_parse ev specs (drop 1 args) = Some vm \<Longrightarrow> options ev specs args = ret vm"
  by (simp add: options_def need_def)

lemma with_options_parsed:
  "length args \<le> ARGS_SIZE \<Longrightarrow> po_parse ev specs (drop 1 args) = Some vm \<Longrightarrow> \<not> count vm ''help'' \<Longrightarrow>
    with_options ev specs args body = body vm"
  by (simp add: with_options_def options_parsed)

text \<open>A parser for the witnesses: each option is its long or short name, followed by its value.\<close>

fun ex_after :: "string list \<Rightarrow> string list \<Rightarrow> string option" where
  "ex_after names (a # b # args) = (if a \<in> set names then Some b else ex_after names (b # args))"
| "ex_after names args = None"

definition ex_value :: "option_spec \<Rightarrow> string list \<Rightarrow> option_value option" where
  "ex_value s args =
     (let names = [''--'' @ op_long s, ''-'' @ op_short s]
      in case op_kind s of
           O_flag \<Rightarrow> if \<exists>a \<in> set args. a \<in> set names then Some V_flag else None
         | O_string \<Rightarrow> map_option V_string (ex_after names args)
         | O_uint16 \<Rightarrow> map_option (\<lambda>t. V_uint16 (of_nat (read_digits t))) (ex_after names args)
         | O_bool d \<Rightarrow> Some (V_bool d)
         | O_int d \<Rightarrow> Some (V_int d))"

definition ex_parse :: "option_spec list \<Rightarrow> string list \<Rightarrow> variables_map option" where
  "ex_parse specs args =
     (if distinct (map op_long specs)
      then Some (\<lambda>x. Option.bind (find (\<lambda>s. op_long s = x) specs) (\<lambda>s. ex_value s args)) else None)"

lemma ex_value_fits: "ex_value s args = Some v \<Longrightarrow> value_fits (op_kind s) v"
  by (cases "op_kind s") (auto simp: ex_value_def Let_def split: if_splits)

lemma find_described: "distinct (map op_long specs) \<Longrightarrow> s \<in> set specs \<Longrightarrow> find (\<lambda>t. op_long t = op_long s) specs = Some s"
  by (induction specs) (auto simp: rev_image_eqI)

lemma ex_parse_ok: "po_ok ex_parse"
proof -
  have "\<exists>s \<in> set specs. op_long s = x \<and> value_fits (op_kind s) v"
    if "Option.bind (find (\<lambda>s. op_long s = x) specs) (\<lambda>s. ex_value s args) = Some v" for specs x args v
  proof -
    obtain s where s: "find (\<lambda>s. op_long s = x) specs = Some s" "ex_value s args = Some v"
      using \<open>Option.bind _ _ = _\<close> by (auto simp: bind_eq_Some_conv)
    then have "s \<in> set specs" "op_long s = x" by (auto simp: find_Some_iff)
    then show ?thesis using ex_value_fits [OF s(2)] by blast
  qed
  moreover have "ex_value s args \<noteq> None" if "op_kind s = O_bool d" for s args d
    using that by (simp add: ex_value_def Let_def)
  ultimately show ?thesis
    unfolding po_ok_def ex_parse_def by (auto simp: find_described split: if_splits)
qed

subsection \<open>One round of the loop\<close>

lemma loop_round_command:
  assumes "split_input line = name # args" "length args < ARGS_SIZE" "map_of (handlers ev (cn_context s)) name = Some h"
  shows "loop_round ev line s =
    (case h (name # args) (s\<lparr>cn_out := cn_out s @ [''> '']\<rparr>) of
       (Done _, s') \<Rightarrow> (None, s')
     | (Raised X_Exit, s') \<Rightarrow> (Some (Exited 0), s'\<lparr>cn_out := cn_out s' @ [''Exiting'']\<rparr>)
     | (Raised x, s') \<Rightarrow> (if survives x then None else Some Aborted, s')
     | (Hangs, s') \<Rightarrow> (Some Stuck, s')
     | (Crashes, s') \<Rightarrow> (Some Undefined_Behaviour, s'))"
  using assms
  by (simp add: loop_round_def Let_def seq_def bind_def print_def modify_def place_arguments_def ret_def dispatch_def
      get_state_def need_def)

lemma loop_round_done:
  assumes "split_input line = name # args" "length args < ARGS_SIZE" "map_of (handlers ev (cn_context s)) name = Some h"
    and "fst (h (name # args) (s\<lparr>cn_out := cn_out s @ [''> '']\<rparr>)) = Done ()"
  shows "loop_round ev line s = (None, snd (h (name # args) (s\<lparr>cn_out := cn_out s @ [''> '']\<rparr>)))"
  using assms(4)
  by (cases "h (name # args) (s\<lparr>cn_out := cn_out s @ [''> '']\<rparr>)") (simp add: loop_round_command [OF assms(1-3)])

definition handler_names :: "context_id \<Rightarrow> string list" where
  "handler_names c = base_names @ (case c of
       Main_App \<Rightarrow> []
     | Sp2p_Context \<Rightarrow> [''cnd'', ''gnd'', ''rnd'', ''pnd'', ''cnt'', ''gnt'', ''rnt'', ''pnt'', ''save'', ''load'',
         ''priv_dir'', ''pub_dir'', ''cert_dir'', ''clear'']
     | Node_Context \<Rightarrow> [''pnd'', ''pnt'', ''setU'', ''login'', ''logout'', ''register'', ''cp'', ''user'', ''getU'',
         ''invite'', ''getNL'', ''getMN'', ''getSL'', ''ia'', ''il'', ''ir'', ''regNet'', ''delNet'', ''ups'', ''ss'',
         ''stop'', ''gk'', ''sk'']
     | Network_Context \<Rightarrow> [''pnt'', ''pnd'', ''addNd'', ''delNd'', ''getNds'', ''getSl'', ''ia''])"

lemma handler_names: "map fst (handlers ev c) = handler_names c"
  by (cases c) (simp_all add: handlers_def base_handlers_def base_names_def handler_names_def sp2p_handlers_def
    node_handlers_def network_handlers_def)

lemma distinct_handlers: "distinct (map fst (handlers ev c))"
proof -
  have "\<forall>c \<in> {Main_App, Sp2p_Context, Node_Context, Network_Context}. distinct (handler_names c)" by code_simp
  then show ?thesis unfolding handler_names by (cases c) simp_all
qed

lemma handler_found: "(name, h) \<in> set (own_handlers ev c) \<Longrightarrow> map_of (handlers ev c) name = Some h"
  using distinct_handlers [of ev c] by (intro map_of_is_SomeI) (simp_all add: handlers_def)

subsection \<open>A console for the witnesses\<close>

definition ex_saved_account :: item where
  "ex_saved_account = I_Node (ex_desc ''a'') (new_MyUser ''user'' ''password'' ''email'' False)"

definition ex_console_env :: "nat console_env" where
  "ex_console_env =
     \<lparr>ev_client = dead_env, po_parse = ex_parse,
      po_config = (\<lambda>specs conf. Some [''node_name'' \<mapsto> V_string '''', ''priv_keys_dir'' \<mapsto> V_string ''keys'',
        ''pub_keys_dir'' \<mapsto> V_string ''pub'', ''certs_dir'' \<mapsto> V_string ''certs'']),
      po_help = (\<lambda>_. ''help''),
      ev_archive = \<lparr>af_text = (\<lambda>_. ''archive''), af_items = (\<lambda>_. Some [I_Text ''1'', ex_saved_account, I_Text ''0''])\<rparr>,
      ev_crypto = ex_crypto, ev_salt = ''salt'', ev_writable = (\<lambda>_. True), ev_listing = (\<lambda>fs dir. Some []),
      ev_cert_text = (\<lambda>c. c), ev_indet = False\<rparr>"

definition ex_started :: "unit step \<times> nat console" where
  "ex_started = start ex_console_env ''state'' ''conf'' (first_console 0 [''conf'' \<mapsto> ''''] [] ''state'' ''pw'')"

definition prompted :: "nat console \<Rightarrow> nat console" where
  "prompted s = s\<lparr>cn_out := cn_out s @ [''> '']\<rparr>"

definition ex_created :: "unit step \<times> nat console" where
  "ex_created = sp2p_cnd ex_console_env [''cnd'', ''-n'', ''a'', ''-P'', ''1234'', ''-i'', ''127.0.0.1''] (prompted (snd ex_started))"

definition ex_chosen :: "unit step \<times> nat console" where
  "ex_chosen = sp2p_gnd ex_console_env [''gnd'', ''--name'', ''a''] (prompted (snd ex_created))"

text \<open>What the witnesses need of these states, evaluated once.\<close>

lemma ex_created_evaluated:
  "let x = ex_created; s = snd x
   in fst ex_started = Done () \<and> cn_context (snd ex_started) = Sp2p_Context \<and> fst x = Done () \<and>
     node_c_node s = None \<and> cn_context s = Sp2p_Context \<and>
     length (mg_nodes (cn_manager s)) = 1 \<and> mg_networks (cn_manager s) = [] \<and> in_step (cn_manager s) \<and>
     saved_items (cn_manager s) = [I_Text ''1'', ex_saved_account, I_Text ''0''] \<and>
     dm_protection (mg_data (cn_manager s)) = Encrypted ''pw'' \<and> cn_files s ''conf'' = Some ''''"
  by code_simp

lemma ex_chosen_evaluated:
  "let x = ex_chosen; s = snd x
   in fst x = Done () \<and> cn_current_node s = Some 0 \<and> node_c_node s = Some 0 \<and>
     no_node_name (nd_desc (mg_node (cn_manager s) 0)) = ''a'' \<and> node_c_priv_key_dir s = ''keys'' \<and>
     length (nd_private_keys (mg_node (cn_manager s) 0)) = 0"
  by code_simp

lemma ex_started_facts: "fst ex_started = Done ()" "cn_context (snd ex_started) = Sp2p_Context"
  using ex_created_evaluated by (simp_all only: Let_def)

lemma ex_created_facts:
  "fst ex_created = Done ()"
  "node_c_node (snd ex_created) = None" "cn_context (snd ex_created) = Sp2p_Context"
  "length (mg_nodes (cn_manager (snd ex_created))) = 1" "mg_networks (cn_manager (snd ex_created)) = []"
  "in_step (cn_manager (snd ex_created))"
  "saved_items (cn_manager (snd ex_created)) = [I_Text ''1'', ex_saved_account, I_Text ''0'']"
  "dm_protection (mg_data (cn_manager (snd ex_created))) = Encrypted ''pw''" "cn_files (snd ex_created) ''conf'' = Some ''''"
  using ex_created_evaluated by (simp_all only: Let_def)

lemma ex_chosen_facts:
  "fst ex_chosen = Done ()"
  "cn_current_node (snd ex_chosen) = Some 0" "node_c_node (snd ex_chosen) = Some 0"
  "no_node_name (nd_desc (mg_node (cn_manager (snd ex_chosen)) 0)) = ''a''" "node_c_priv_key_dir (snd ex_chosen) = ''keys''"
  "length (nd_private_keys (mg_node (cn_manager (snd ex_chosen)) 0)) = 0"
  using ex_chosen_evaluated by (simp_all only: Let_def)

lemma ex_chosen_gk:
  "getNode_named ''a'' (cn_manager (snd (node_gk ex_console_env [''gk'', ''-p'', ''secret''] (snd ex_chosen)))) = Inr 0"
  by code_simp

lemma ex_rounds:
  "loop_round ex_console_env ''cnd -n a -P 1234 -i 127.0.0.1'' (snd ex_started) = (None, snd ex_created)"
  "loop_round ex_console_env ''gnd --name a'' (snd ex_created) = (None, snd ex_chosen)"
proof -
  have line: "split_input ''cnd -n a -P 1234 -i 127.0.0.1'' = ''cnd'' # [''-n'', ''a'', ''-P'', ''1234'', ''-i'', ''127.0.0.1'']"
    "split_input ''gnd --name a'' = ''gnd'' # [''--name'', ''a'']" by code_simp+
  have handler: "map_of (handlers ex_console_env Sp2p_Context) ''cnd'' = Some (sp2p_cnd ex_console_env)"
    "map_of (handlers ex_console_env Sp2p_Context) ''gnd'' = Some (sp2p_gnd ex_console_env)"
    by (rule handler_found; simp add: sp2p_handlers_def)+
  show "loop_round ex_console_env ''cnd -n a -P 1234 -i 127.0.0.1'' (snd ex_started) = (None, snd ex_created)"
    using loop_round_done [OF line(1), of ex_console_env "snd ex_started" "sp2p_cnd ex_console_env"] ex_created_facts(1)
    by (simp add: ex_started_facts(2) handler ARGS_SIZE_def ex_created_def prompted_def)
  show "loop_round ex_console_env ''gnd --name a'' (snd ex_created) = (None, snd ex_chosen)"
    using loop_round_done [OF line(2), of ex_console_env "snd ex_created" "sp2p_gnd ex_console_env"] ex_chosen_facts(1)
    by (simp add: ex_created_facts(3) handler ARGS_SIZE_def ex_chosen_def prompted_def)
qed

lemma ex_sessions: "console_session ex_console_env (snd ex_created)" "console_session ex_console_env (snd ex_chosen)"
proof -
  have "ex_started = (Done (), snd ex_started)" by (metis ex_started_facts(1) prod.collapse)
  then have "console_session ex_console_env (snd ex_started)"
    unfolding ex_started_def by (rule console_start)
  from console_round [OF this ex_rounds(1)] show created: "console_session ex_console_env (snd ex_created)" .
  from console_round [OF created ex_rounds(2)] show "console_session ex_console_env (snd ex_chosen)" .
qed

subsection \<open>The contexts\<close>

text \<open>C11. Whatever is typed, the contexts of the node and of the network work with the same node and the
  same network as the outer context, with the directories that were configured, the working node stays
  alive even when it is removed from the manager, and associating it with the working network never
  goes through a dead pointer.\<close>

theorem console_contexts_agree:
  assumes "console_session ev s"
  shows "node_c_node s = cn_current_node s \<and> network_c_node s = cn_current_node s \<and>
    node_c_network s = cn_current_network s \<and> network_c_network s = cn_current_network s \<and>
    node_c_priv_key_dir s = cn_priv_keys_dir s \<and> node_c_cert_dir s = cn_cert_dir s \<and>
    (\<forall>i. cn_current_node s = Some i \<longrightarrow> alive (cn_manager s) i) \<and> mg_ok (cn_manager s) \<and>
    fst (network_addNd s) \<noteq> Crashes"
  using console_session_ok [OF assms]
  by (auto simp: console_ok_def alive_def network_addNd_def network_checkNode_def network_checkNetwork_def bind_def
      get_state_def need_def raise_def ret_def on_manager_def associateNode_def Let_def split: option.splits)

theorem console_contexts_agree_witness:
  "cn_current_node (snd ex_chosen) = Some 0 \<and> node_c_node (snd ex_chosen) = Some 0 \<and>
    alive (cn_manager (snd ex_chosen)) 0 \<and> fst (network_addNd (snd ex_chosen)) \<noteq> Crashes"
  using console_contexts_agree [OF ex_sessions(2)] ex_chosen_facts(2,3) by simp

subsection \<open>Commands without a node\<close>

lemma node_handler_needs_node:
  assumes "(name, h) \<in> set (node_handlers ev)" "name \<noteq> ''pnt''" "node_c_node s = None"
  shows "h args s = (Raised X_Node, s)"
  using assms
  by (auto simp: node_handlers_def node_pnd_def node_setU_def node_login_def node_logout_def node_register_def
      node_cp_def node_user_def node_getU_def node_invite_def node_getNL_def node_getMN_def node_getSL_def
      node_ia_def node_il_def node_ir_def node_regNet_def node_delNet_def node_ss_def network_request_def
      node_ups_def node_stop_def node_gk_def node_sk_def
      bind_def node_checkNode_def get_state_def need_def raise_def)

text \<open>Until a node is chosen, every command of the node's context but \<^verbatim>\<open>pnt\<close> ends with a node exception,
  which the loop reports: nothing is sent or written, no state changes, and the program goes on.\<close>

theorem no_working_node:
  assumes "cn_context s = Node_Context" "node_c_node s = None"
    and "split_input line = name # args" "length args < ARGS_SIZE"
    and "name \<in> fst ` set (node_handlers ev)" "name \<noteq> ''pnt''"
  shows "loop_round ev line s = (None, s\<lparr>cn_out := cn_out s @ [''> '']\<rparr>)"
proof -
  obtain h where h: "(name, h) \<in> set (node_handlers ev)" using assms(5) by auto
  show ?thesis
    using node_handler_needs_node [OF h assms(6), of "s\<lparr>cn_out := cn_out s @ [''> '']\<rparr>"] assms(2)
    handler_found [of name h ev Node_Context] h
    by (simp add: loop_round_command [OF assms(3,4)] assms(1))
qed

theorem no_working_node_witness:
  "loop_round ex_console_env ''ups  -p 80'' ((snd ex_created)\<lparr>cn_context := Node_Context\<rparr>) =
    (None, (snd ex_created)\<lparr>cn_context := Node_Context, cn_out := cn_out (snd ex_created) @ [''> '']\<rparr>)"
proof -
  have "split_input ''ups  -p 80'' = [''ups'', ''-p'', ''80'']" by code_simp
  then show ?thesis
    using ex_created_facts(2) no_working_node [of "(snd ex_created)\<lparr>cn_context := Node_Context\<rparr>" "''ups  -p 80''" "''ups''" "[''-p'', ''80'']" ex_console_env]
    by (simp add: node_handlers_def ARGS_SIZE_def)
qed

subsection \<open>Choosing a network\<close>

lemma network_choice_visibility:
  assumes "po_ok pp" "pp get_network_opts args = Some vm" "count vm ''name''" "count vm ''visibility''"
    and "\<not> count vm ''access_rights''"
  shows "network_choice vm s = (Raised X_Other, s)"
proof -
  have "\<exists>t. as_string vm ''name'' = Some t"
    by (rule described_string [OF assms(1-3)]) (auto simp: options_defs)
  then obtain name where name: "as_string vm ''name'' = Some name" ..
  have "\<not> count vm ''port''" "\<not> count vm ''Visibility''"
    using count_undescribed [OF assms(1,2)] by (auto simp: options_defs)
  then show ?thesis
    using assms(3-5) name as_string_undescribed [of vm "''Visibility''"]
    by (simp add: network_choice_def required_def given_def need_def bind_def raise_def ret_def)
qed

text \<open>Choosing or removing a network by its visibility ends the program: both commands offer the option
  \<^verbatim>\<open>visibility\<close> and then read one that is spelt otherwise, and the exception of the empty value is none that
  the loop catches.\<close>

theorem visibility_option_ends_program:
  assumes "po_ok (po_parse ev)" "cn_context s = Sp2p_Context"
    and "split_input line = name # args" "name = ''gnt'' \<or> name = ''rnt''" "length args < ARGS_SIZE"
    and "po_parse ev get_network_opts args = Some vm" "\<not> count vm ''help''"
    and "count vm ''name''" "count vm ''visibility''" "\<not> count vm ''access_rights''"
  shows "loop_round ev line s = (Some Aborted, s\<lparr>cn_out := cn_out s @ [''> '']\<rparr>)"
proof -
  let ?s = "s\<lparr>cn_out := cn_out s @ [''> '']\<rparr>"
  have "network_choice vm ?s = (Raised X_Other, ?s)"
    by (rule network_choice_visibility [OF assms(1,6,8,9,10)])
  then have "sp2p_gnt ev (name # args) ?s = (Raised X_Other, ?s)" "sp2p_rnt ev (name # args) ?s = (Raised X_Other, ?s)"
    using assms(5-7)
    by (simp_all add: sp2p_gnt_def sp2p_rnt_def with_options_def options_parsed remove_network_opts_def
        get_network_opts_def bind_def)
  moreover have "map_of (handlers ev (cn_context s)) name = Some (if name = ''gnt'' then sp2p_gnt ev else sp2p_rnt ev)"
    using assms(2,4) handler_found [of name _ ev Sp2p_Context] by (auto simp: sp2p_handlers_def)
  ultimately show ?thesis
    using loop_round_command [OF assms(3,5), of ev s] assms(4) by auto
qed

theorem visibility_option_ends_program_witness:
  "loop_round ex_console_env ''gnt -n friends -V LISTED'' (snd ex_created) =
    (Some Aborted, (snd ex_created)\<lparr>cn_out := cn_out (snd ex_created) @ [''> '']\<rparr>)"
proof -
  let ?args = "[''-n'', ''friends'', ''-V'', ''LISTED'']"
  let ?vm = "the (ex_parse get_network_opts ?args)"
  have "split_input ''gnt -n friends -V LISTED'' = ''gnt'' # ?args" by code_simp
  moreover have "\<not> count ?vm ''help''" "count ?vm ''name''" "count ?vm ''visibility''" "\<not> count ?vm ''access_rights''"
    by code_simp+
  moreover have "ex_parse get_network_opts ?args = Some ?vm" by (simp add: ex_parse_def options_defs)
  ultimately show ?thesis
    using visibility_option_ends_program [of ex_console_env "snd ex_created" "''gnt -n friends -V LISTED''" "''gnt''" ?args ?vm]
      ex_parse_ok ex_created_facts(3)
    by (simp add: ex_console_env_def ARGS_SIZE_def)
qed

subsection \<open>Keys\<close>

lemma split_dots_not_Nil [simp]: "split_dots w \<noteq> []"
  by (induction w) (auto split: list.split)

lemma split_dots_pem: "split_dots (w @ ''.pem'') = split_dots w @ [''pem'']"
  by (induction w) (auto split: list.split simp: neq_Nil_conv)

lemma split_dots_append: "CHR ''.'' \<notin> set w \<Longrightarrow> split_dots (w @ CHR ''.'' # r) = w # split_dots r"
  by (induction w) auto

lemma split_dots_word: "CHR ''.'' \<notin> set w \<Longrightarrow> split_dots w = [w]"
  by (induction w) auto

lemma split_dots_join:
  "split_dots w = [a] \<Longrightarrow> w = a" "split_dots w = [a, b] \<Longrightarrow> w = a @ ''.'' @ b"
proof -
  have one: "w = a" if "split_dots w = [a]" for w a
    using that by (induction w arbitrary: a) (auto split: if_splits list.splits)
  then show "split_dots w = [a] \<Longrightarrow> w = a" .
  show "split_dots w = [a, b] \<Longrightarrow> w = a @ ''.'' @ b"
    by (induction w arbitrary: a) (auto split: if_splits list.splits dest: one)
qed

lemma word_no_dot: "is_word w \<Longrightarrow> CHR ''.'' \<notin> set w"
  by (auto simp: is_word_def list_all_iff word_char_def)

text \<open>How the file of a key is matched, by the name it was saved under.\<close>

lemma match_key_file:
  "match_one (w @ ''.pem'') = (if is_word w then Some w else None)"
  "is_word a \<Longrightarrow> is_word b \<Longrightarrow> match_two ((a @ ''.'' @ b) @ ''.pem'') = Some (a, b)"
  "\<nexists>a b. w = a @ ''.'' @ b \<and> is_word a \<and> is_word b \<Longrightarrow> match_two (w @ ''.pem'') = None"
proof -
  show "match_one (w @ ''.pem'') = (if is_word w then Some w else None)"
    unfolding match_one_def split_dots_pem
    using split_dots_word [OF word_no_dot, of w] split_dots_join(1) [of w]
    by (auto split: list.split)
  show "match_two ((a @ ''.'' @ b) @ ''.pem'') = Some (a, b)" if "is_word a" "is_word b"
    using that split_dots_append [OF word_no_dot, of a b] split_dots_word [OF word_no_dot, of b]
    unfolding match_two_def split_dots_pem by simp
  show "match_two (w @ ''.pem'') = None" if "\<nexists>a b. w = a @ ''.'' @ b \<and> is_word a \<and> is_word b"
    unfolding match_two_def split_dots_pem
    using that split_dots_join(2) [of w] by (auto split: list.split)
qed

lemma not_both_words: "is_word a \<Longrightarrow> is_word b \<Longrightarrow> \<not> is_word (a @ ''.'' @ b)"
  using word_no_dot [of "a @ ''.'' @ b"] by auto

text \<open>C22. A key that \<^verbatim>\<open>gk\<close> generates for the working node, and the scan of the directory at the next start,
  with the file as it was saved and its password. If the node's name is made of letters, digits and
  underscores, the scan makes the same store again and gives it to the node of that name. If the name is
  two such words with a dot between them, the scan takes the key for one of the node of the first word in the
  network of the second, and ends with the manager's exception when it does not know one of them. For
  every other name the file is skipped and the key is lost to the program.\<close>

theorem generated_key_reloaded:
  assumes "node_c_node s = Some i" "length args \<le> ARGS_SIZE" "po_parse ev gk_opts (drop 1 args) = Some vm"
    and "\<not> count vm ''help''" "as_string vm ''password'' = Some pw" "\<not> count vm ''network''"
    and "botan_ok (botan_of ev)" "no_node_name (nd_desc (mg_node (cn_manager s) i)) = name"
    and "node_c_priv_key_dir s = dir" "ev_writable ev (dir @ ''/'' @ name @ ''.pem'')"
  shows "\<exists>s' st. node_gk ev args s = (Done (), s') \<and> pk_key st = Some (bt_generate (botan_of ev) 2048) \<and>
    nd_private_keys (mg_node (cn_manager s') i) = nd_private_keys (mg_node (cn_manager s) i) @ [st] \<and>
    (\<forall>t. cn_files t (dir @ ''/'' @ name @ ''.pem'') = cn_files s' (dir @ ''/'' @ name @ ''.pem'') \<longrightarrow>
      (is_word name \<longrightarrow> (\<forall>j. getNode_named name (cn_manager t) = Inr j \<longrightarrow>
         scan_private ev dir (name @ ''.pem'') pw t = update_node j (\<lambda>n. n\<lparr>nd_private_keys := nd_private_keys n @ [st]\<rparr>) t)) \<and>
      (\<forall>a b. name = a @ ''.'' @ b \<and> is_word a \<and> is_word b \<longrightarrow>
         scan_private ev dir (name @ ''.pem'') pw t = give_network_key a b st t) \<and>
      (\<not> is_word name \<and> (\<nexists>a b. name = a @ ''.'' @ b \<and> is_word a \<and> is_word b) \<longrightarrow>
         scan_private ev dir (name @ ''.pem'') pw t = (Done (), t)))"
proof -
  let ?bt = "botan_of ev"
  let ?st = "named_key name dir (key_setPassword pw (new_PrivateKeyStore (Some (bt_generate ?bt 2048))))"
  let ?file = "dir @ ''/'' @ name @ ''.pem''"
  let ?m = "set_node i ((mg_node (cn_manager s) i)\<lparr>nd_private_keys := nd_private_keys (mg_node (cn_manager s) i) @ [?st]\<rparr>)
      (cn_manager s)"
  have st: "file_in dir ?st = ?file" "es_path ?st = dir" "pk_key ?st = Some (bt_generate ?bt 2048)" "pk_password ?st = pw"
    by (simp_all add: named_key_def file_in_def setPath_def setFilename_def setName_def key_setPassword_def
        new_PrivateKeyStore_def)
  have empty: "key_setPassword pw (setName name (setPath dir (setFilename (name @ ''.pem'') (new_PrivateKeyStore None)))) =
      private_setKey None ?st"
    by (simp add: named_key_def setPath_def setFilename_def setName_def key_setPassword_def new_PrivateKeyStore_def
        private_setKey_def)
  obtain pem where save: "private_save_to ?bt (ev_writable ev) dir ?st (cn_files s) = Returned ((cn_files s)(?file \<mapsto> pem))"
    and load: "\<And>fs. fs ?file = Some pem \<Longrightarrow> private_load_from ?bt dir fs (private_setKey None ?st) = Returned ?st"
    using private_keys.save_some [OF assms(7) st(3), of "ev_writable ev" dir "cn_files s"] assms(10) st(1) by auto
  have "count vm ''password''" using assms(5) as_string_undescribed by (metis option.simps(3))
  then have run: "node_gk ev args s = (Done (), s\<lparr>cn_manager := ?m, cn_files := (cn_files s)(?file \<mapsto> pem)\<rparr>)"
    using assms(1,5,6,8,9) save st(2)
    by (simp add: node_gk_def with_options_parsed [OF assms(2-4)] bind_def node_checkNode_def get_state_def need_def ret_def
        required_def generatePrivateKey_def node_of_def seq_def update_node_def modify_def on_files_def private_save_def Let_def)
  have loaded: "loaded_key ev (name @ ''.pem'') dir name pw t = (Done ?st, t)" if "cn_files t ?file = Some pem" for t
    using that load [of "cn_files t"] st(2)
    by (simp add: loaded_key_def empty private_load_def private_setKey_def)
  have word: "scan_private ev dir (name @ ''.pem'') pw t = update_node j (\<lambda>n. n\<lparr>nd_private_keys := nd_private_keys n @ [?st]\<rparr>) t"
    if "cn_files t ?file = Some pem" "is_word name" "getNode_named name (cn_manager t) = Inr j" for t j
    using that loaded by (simp add: scan_private_def match_key_file(1) bind_def from_manager_def)
  have dotted: "scan_private ev dir (name @ ''.pem'') pw t = give_network_key a b ?st t"
    if "cn_files t ?file = Some pem" "name = a @ ''.'' @ b" "is_word a" "is_word b" for t a b
    using loaded [OF that(1)] match_key_file(1) [of name] not_both_words [OF that(3,4)] match_key_file(2) [OF that(3,4)] that(2)
    by (simp add: scan_private_def bind_def)
  have other: "scan_private ev dir (name @ ''.pem'') pw t = (Done (), t)"
    if "\<not> is_word name" "\<nexists>a b. name = a @ ''.'' @ b \<and> is_word a \<and> is_word b" for t
    using that(1) match_key_file(1) [of name] match_key_file(3) [OF that(2)] by (simp add: scan_private_def ret_def)
  let ?t = "s\<lparr>cn_manager := ?m, cn_files := (cn_files s)(?file \<mapsto> pem)\<rparr>"
  have pem: "cn_files t ?file = Some pem" if "cn_files t ?file = cn_files ?t ?file" for t :: "'a console"
    using that by simp
  have "nd_private_keys (mg_node (cn_manager ?t) i) = nd_private_keys (mg_node (cn_manager s) i) @ [?st]"
    by (simp add: set_node_def)
  moreover note run st(3)
  moreover have "\<forall>t. cn_files t ?file = cn_files ?t ?file \<longrightarrow>
      (is_word name \<longrightarrow> (\<forall>j. getNode_named name (cn_manager t) = Inr j \<longrightarrow>
         scan_private ev dir (name @ ''.pem'') pw t = update_node j (\<lambda>n. n\<lparr>nd_private_keys := nd_private_keys n @ [?st]\<rparr>) t)) \<and>
      (\<forall>a b. name = a @ ''.'' @ b \<and> is_word a \<and> is_word b \<longrightarrow>
         scan_private ev dir (name @ ''.pem'') pw t = give_network_key a b ?st t) \<and>
      (\<not> is_word name \<and> (\<nexists>a b. name = a @ ''.'' @ b \<and> is_word a \<and> is_word b) \<longrightarrow>
         scan_private ev dir (name @ ''.pem'') pw t = (Done (), t))"
    using pem word dotted other by blast
  ultimately show ?thesis by blast
qed

lemma ex_botan_ok: "botan_ok ex_botan"
  by (simp add: botan_ok_def ex_botan_def)

theorem generated_key_reloaded_witness:
  "\<exists>s'. node_gk ex_console_env [''gk'', ''-p'', ''secret''] (snd ex_chosen) = (Done (), s') \<and>
    length (nd_private_keys (mg_node (cn_manager s') 0)) = 1 \<and>
    fst (scan_private ex_console_env ''keys'' ''a.pem'' ''secret'' s') = Done ()"
proof -
  let ?s = "snd ex_chosen"
  let ?vm = "the (ex_parse gk_opts [''-p'', ''secret''])"
  have vm: "\<not> count ?vm ''help''" "as_string ?vm ''password'' = Some ''secret''" "\<not> count ?vm ''network''" by code_simp+
  have word: "is_word ''a''" by code_simp
  have parse: "ex_parse gk_opts [''-p'', ''secret''] = Some ?vm" by (simp add: ex_parse_def options_defs)
  show ?thesis
    using generated_key_reloaded [of ?s 0 "[''gk'', ''-p'', ''secret'']" ex_console_env ?vm "''secret''" "''a''" "''keys''"]
      ex_chosen_facts(3-6) ex_chosen_gk word vm parse ex_botan_ok
    by (auto simp: ex_console_env_def ARGS_SIZE_def botan_of_def dead_env_def update_node_def modify_def)
qed

subsection \<open>Saving and starting again\<close>



end
