(* ===== verification/Console_System.thy ===== *)
theory Console_System
  imports System Console_Properties
begin

text \<open>
  The whole program: a line typed at the console, the operation of the library that it calls, the
  connection, and the tracker that answers. Here are the lemmas about a login; the property that they
  give is in the root theory.
\<close>

lemma client_on_tracker:
  "ev_client ev = on_tracker cd e \<Longrightarrow> client ev s = on_tracker cd (e\<lparr>ce_files := cn_files s\<rparr>)"
  by (simp add: client_def on_tracker_def)

lemma login_line:
  assumes "split_input line = [''login'']" "cn_context s = Node_Context" "node_c_node s = Some i"
    and "logIn (client ev s) (mg_node (cn_manager s) i) (cn_world s) = (Returned res, n', w')"
  shows "loop_round ev line s =
    (None, s\<lparr>cn_out := cn_out s @ [''> '', ''Resp: '' @ NodeError_text res],
       cn_manager := set_node i n' (cn_manager s), cn_world := w'\<rparr>)"
proof -
  have "map_of (handlers ev (cn_context s)) ''login'' = Some (\<lambda>_. node_login ev)"
    unfolding assms(2) by (rule handler_found) (simp add: node_handlers_def)
  from loop_round_command [OF assms(1) _ this] show ?thesis
    using assms(3,4)
    by (simp add: ARGS_SIZE_def node_login_def node_checkNode_def bind_def get_state_def need_def on_node_def client_def
        respond_def print_def modify_def ret_def)
qed

text \<open>A login over a new connection, with either answer.\<close>

lemma login_answered:
  assumes n: "\<not> node_isLogged n" "\<not> isActive n" "ce_resolves e (nd_desc n)" and work: "working (tw_tracker w)"
    and m: "m = getLoginMessage (us_username (nd_user n)) (mu_password (nd_user n))" and fit: "carried cd m (dialled w)"
  shows "\<exists>n' w'. logIn (on_tracker cd e) n w =
    (Returned (if env_check (hears w 1) (mu_password (nd_user n))
       (case stored_password (t_db (tw_tracker w)) (us_username (nd_user n)) of None \<Rightarrow> '''' | Some h \<Rightarrow> toString h)
       then NE_OK else NE_BAD_CREDENTIALS), n', w') \<and>
    (if env_check (hears w 1) (mu_password (nd_user n))
       (case stored_password (t_db (tw_tracker w)) (us_username (nd_user n)) of None \<Rightarrow> '''' | Some h \<Rightarrow> toString h)
     then node_isLogged n' \<and> caller (tw_tracker w') (cookie n') = us_username (nd_user n) \<and>
       t_db (tw_tracker w') = t_db (tw_tracker w)
     else \<not> node_isLogged n' \<and> tw_tracker w' = tw_tracker w)"
proof -
  let ?good = "env_check (hears w 1) (mu_password (nd_user n))
      (case stored_password (t_db (tw_tracker w)) (us_username (nd_user n)) of None \<Rightarrow> '''' | Some h \<Rightarrow> toString h)"
  let ?ck = "getRandomString (env_rand (hears w 1)) COOKIE_LEN"
  have n': "ce_resolves (on_tracker cd e) (nd_desc n)" using n(3) by (simp add: on_tracker_def)
  have ok: "world_ok w" "tracker_ok (tw_tracker w)" using work by (simp_all add: working_def world_ok_def)
  have req: "request m = LOGIN" "login_message m =
      Some \<lparr>lg_username = Some (us_username (nd_user n)), lg_password = Some (mu_password (nd_user n))\<rparr>"
    by (simp_all add: m getLoginMessage_def request_def new_request_def)
  obtain reply w' where served: "served cd m (dialled w) = (reply, w')" by fastforce
  note decided = login_decided_by_hash [OF work req, of "hears w 1"]
  show ?thesis
  proof (cases ?good)
    case True
    with decided obtain s' where run: "handleRequest (hears w 1) m (tw_tracker w) = Inr (loginResponse ?ck ''notimplementedyet'', s')"
      "t_db s' = t_db (tw_tracker w)" by auto
    then have answer: "reply = loginResponse ?ck ''notimplementedyet''" "tw_tracker w' = s'"
      using served_simps(1,2) [of m "dialled w" _ s' cd] served by (simp_all add: handled_dialled)
    have "caller s' ?ck = us_username (nd_user n)"
      using login_answer [OF ok(2) req(1) run(1), of ?ck] req(2) by (force simp: loginResponse_def caller_def)
    then show ?thesis
      using tracker_service.logIn_served [where n = n and w = w and cd = cd and e = e, OF n(1,2) n' ok(1) fit [unfolded m] served [unfolded m]]
        answer run(2) True
      by (simp add: loginResponse_def response_type_def node_isLogged_def cookie_def set_logged_def set_cookie_def setCookie_def)
  next
    case False
    then have run: "handleRequest (hears w 1) m (tw_tracker w) = Inr (errorMesage RT_BAD_CREDENTIALS, tw_tracker w)"
      using decided by simp
    then have answer: "reply = errorMesage RT_BAD_CREDENTIALS" "tw_tracker w' = tw_tracker w"
      using served_simps(1,2) [of m "dialled w" _ "tw_tracker w" cd] served by (simp_all add: handled_dialled)
    have "logIn (on_tracker cd e) n w = (Returned NE_BAD_CREDENTIALS, connected n, w')"
      using n n' ok(1) served fit answer tracker_service.connect_served [where n = n and w = w and cd = cd and e = e]
      by (simp add: logIn_def tracker_service.exchange_served m errorMesage_def response_type_def getDefaultError_def)
    then show ?thesis using False answer n(1) by (simp add: connected_def node_isLogged_def)
  qed
qed

end
