(* ===== verification/Spec2Isabelle.thy ===== *)
theory Spec2Isabelle
  imports System Tracker_Program Client_Properties Client_Concurrency Client_Timer Client_Server Console_System
begin

text \<open>
  sp2p: networks of programs that find each other through trackers ("nodes"). A tracker keeps
  accounts, networks, the servers of networks and invitations in a database; a client library talks to
  any number of trackers over TLS with length-prefixed protobuf messages. This development models the
  tracker (\<^verbatim>\<open>src/tracker/qmake_project\<close>, with the database script \<^verbatim>\<open>src/database/db_init.sql\<close>), the client
  library (\<^verbatim>\<open>src/sercli/src\<close>), the two put together, and the console client on top of the library
  (\<^verbatim>\<open>src/node_client/src\<close>), and proves what they do for their users.

  Layers and theories.
  \<^item> Library: \<open>Sp2p_Prelude\<close> (bytes, little-endian words, strings, framing, lists), \<open>Std_Text\<close>
    (numbers as text), \<open>Std_Map\<close> (\<^verbatim>\<open>std::map\<close> as a
    sorted association list, locale \<open>key_order\<close>, interpreted for the tracker's and the client's maps).
  \<^item> Messages: \<open>Protocol\<close> (\<^verbatim>\<open>proto_files/sp2p_protocol.proto\<close>; the wire encoding is generated code and a
    parameter everywhere).
  \<^item> Tracker: \<open>Tracker_Utils\<close> (\<^verbatim>\<open>constants.h\<close>, \<^verbatim>\<open>util_functions\<close>), \<open>Tracker_Session\<close>
    (\<^verbatim>\<open>sessioncontroler.cpp\<close>: cookies, logins, times of use), \<open>Tracker_Db\<close> (tables, constraints and
    statements of the script), \<open>Tracker_Connector\<close> (\<^verbatim>\<open>psqlconnector.cpp\<close>: one definition per method, each
    transaction either commits or leaves the tables as they were), \<open>Tracker_Messages\<close>
    (\<^verbatim>\<open>nodemessagefactory.cpp\<close>), \<open>Tracker_Handler\<close> (\<^verbatim>\<open>requesthandler.cpp\<close>: sixteen handlers), \<open>Tracker_Wire\<close>
    (\<^verbatim>\<open>requestparser.cpp\<close>, \<^verbatim>\<open>response.cpp\<close>, \<^verbatim>\<open>connection.cpp\<close>, \<^verbatim>\<open>server.cpp\<close>: a connection as a state
    machine driven by the events of \<^verbatim>\<open>boost::asio\<close>, and a server of many connections).
  \<^item> What the tracker promises: \<open>Tracker_Integrity\<close> (constraints of the tables kept by every statement),
    \<open>Tracker_Registry\<close> (the abstract registry of accounts, networks, servers, invitations, keys, and what
    each statement does to it), \<open>Tracker_Contract\<close> (interfaces of the database as locales, interpreted on
    the model), \<open>Tracker_Safety\<close> (every handler returns and makes a step of the specification
    \<open>registry_step\<close>), \<open>Tracker_Properties\<close>, \<open>Tracker_Services\<close> and \<open>Tracker_Channel\<close> (properties C1 to C21
    but C11, C13, C15 and C19, and C29).
  \<^item> The tracker as a program: \<open>Tracker_Startup\<close> (\<^verbatim>\<open>main.cpp\<close>, the start of the server, the configuration, the threads of
    the session daemon) and \<open>Tracker_Program\<close> (C19, C25).
  \<^item> Client: \<open>Client_Types\<close> (\<^verbatim>\<open>sp2p_types\<close>, \<^verbatim>\<open>user\<close>), \<open>Client_Messages\<close> (\<^verbatim>\<open>message_factory.cpp\<close>),
    \<open>Client_Connection\<close> (\<^verbatim>\<open>parser.cpp\<close>, \<^verbatim>\<open>connection.cpp\<close>, \<^verbatim>\<open>nodeconnection.cpp\<close>), \<open>Client_Node\<close> (\<^verbatim>\<open>node.cpp\<close>:
    an account at a tracker and the requests made for it), \<open>Client_Stores\<close> (\<^verbatim>\<open>encryption.cpp\<close>: stores of
    keys and certificates over a file system, locale \<open>disk_store\<close>, interpreted for the three kinds),
    \<open>Client_Data\<close> (\<^verbatim>\<open>data.cpp\<close>: sinks and sources, plain and encrypted, locale \<open>abstract_sink\<close>), \<open>Client_Manager\<close> (\<^verbatim>\<open>network.cpp\<close>,
    \<^verbatim>\<open>manager.cpp\<close>: a store of nodes and networks).
  \<^item> The connection as it runs: \<open>Client_Async\<close> (\<^verbatim>\<open>connection.cpp\<close>, \<^verbatim>\<open>handler.cpp\<close>, \<^verbatim>\<open>connection_manager.cpp\<close>: calls,
    tasks of the strand, ends of writes and reads as the events of \<open>async_step\<close>, promises, and what keeps the
    object alive; a handler of the pool of threads runs to its end before the next) and
    \<open>Client_Concurrency\<close> (C13, C15, C27): \<open>Client_Connection\<close>, which lets each call wait for its answer and on
    which everything above rests, is what this machine computes. \<open>Client_Timer\<close> (C24) is the idle timer of a node's connection
    with its waits, due handlers and tasks. \<open>Client_Server\<close> (\<^verbatim>\<open>server.cpp\<close>) is the
    server that a member of a network runs, as far as its text could be compiled: its accepts, its end and the
    handler that nothing calls, which should keep the schedule of its registrations.
  \<^item> What the client promises: \<open>Client_Account\<close> (all operations of a node as one transition relation and
    its invariant), \<open>Client_Store\<close> (the same for a manager), \<open>Client_Restore\<close> (saving and loading),
    \<open>Client_Properties\<close> (C28 to C37 but C29), \<open>Client_Service\<close> (locale \<open>node_service\<close>: operations over a server
    that answers every request).
  \<^item> Both: \<open>System\<close> makes a tracker the world of the client's link and interprets \<open>node_service\<close> on it; this
    theory holds the properties that span both (C38 to C40), and C26.
  \<^item> Console: \<open>Console_Options\<close> (the options of \<^verbatim>\<open>context.hpp\<close>, the state \<open>console\<close>, and commands as functions on
    it that are done, raise, hang or crash), \<open>Console_Commands\<close> (the contexts of the node and of the network,
    one definition per command), \<open>Console_Manager\<close> (the commands of \<^verbatim>\<open>Sp2pContext\<close>, its constructor \<open>start\<close> and
    the scans of the directories of keys), \<open>Console_Program\<close> (basic commands, help, the choice of a handler,
    \<^verbatim>\<open>main.cpp\<close>: the loop and \<open>main_client\<close>).
  \<^item> What the console promises: \<open>Console_Safety\<close> (the invariant \<open>console_ok\<close>, kept by every command; locale
    \<open>key_blind\<close>: what the scans cannot change), \<open>Console_Restart\<close> (what \<^verbatim>\<open>save\<close> leaves for the next start),
    \<open>Console_Properties\<close> (C11, C22, C23). \<open>Console_System\<close> puts the console on top of the library and of the
    tracker (C26, below).

  Conventions. Errors are values: a tracker handler returns \<open>Inl\<close> an exception or undefined behaviour, or
  \<open>Inr\<close> the answer and the new state; an operation of the client is \<open>Returned\<close>, \<open>Thrown\<close>, \<open>Blocked\<close> (a future
  that is never set) or \<open>Undefined\<close> (a null pointer). Machine integers are words of their width.
  Protobuf fields are options, read with the default of their type. The database may fail at any
  statement: \<open>faults\<close> is the list of failures still to come, empty where a property assumes a database
  that works. Time, random numbers, bcrypt, the certificate authority and uninitialised members are
  components of \<open>env\<close>; a connection's address is filled in when a request arrives. To read an uninitialised
  member is undefined behaviour in C++; where the code does, the model goes on with an arbitrary value, and C1
  says which requests of the tracker do so and that nothing but their answers depends on it. An exception
  that leaves a callback of the tracker ends it (C2). Handlers run one
  at a time, and, outside \<open>Client_Async\<close>, so do the operations of a node and the handler of its timer. Every function is total
  and no fuel is used: loops run over lists or buffers.

  Parameters and what is assumed of them: protobuf (parsing inverts serialising), Botan's cipher, base 64
  and key derivation (\<open>crypto_ok\<close>), boost's text archive (loading inverts saving), Botan's files of keys (\<open>botan_ok\<close>: reading inverts writing),
  boost's option parser (\<open>po_ok\<close>: only described options, with values of their type), directory listings, bcrypt (accepts the
  password of the hash), the certificate authority and the network (arbitrary). Each property that
  assumes something of a parameter has a witness with a concrete one.

  Not modelled: TLS and sockets; threads and locks (the tracker's pool of threads shares one database
  connection without a lock); logging; generated protobuf code; the echo of the console's terminal and what it writes to \<^verbatim>\<open>cerr\<close>;
  \<^verbatim>\<open>Node::asyncUpdateServer\<close>, a template that nothing instantiates and whose lambda uses a variable it does not capture;
  the operations of \<^verbatim>\<open>Server\<close> in \<^verbatim>\<open>sercli\<close> that bind the value of a call that has none.
\<close>

subsection \<open>Concrete data\<close>

text \<open>A codec for two messages and two answers.\<close>

definition ex_codec :: "ClientMessage \<Rightarrow> ClientMessage \<Rightarrow> NodeMessage \<Rightarrow> NodeMessage \<Rightarrow> codec" where
  "ex_codec m m' r r' =
     \<lparr>enc_request = (\<lambda>x. if x = m then [1] else [2]),
      dec_request = (\<lambda>bs. if bs = [1] then Some m else if bs = [2] then Some m' else None),
      enc_answer = (\<lambda>x. if x = r then [1] else [2]),
      dec_answer = (\<lambda>bs. if bs = [1] then Some r else if bs = [2] then Some r' else None)\<rparr>"

lemma carried_ex_codec:
  "x = m \<or> x = m' \<Longrightarrow> fst (served (ex_codec m m' r r') x w) = r \<or> fst (served (ex_codec m m' r r') x w) = r' \<Longrightarrow>
   carried (ex_codec m m' r r') x w"
  by (auto simp: carried_def ex_codec_def BUFFER_SIZE_def Let_def)

text \<open>A tracker with two users, and a new account with one key.\<close>

definition ex_world :: tracker_world where
  "ex_world =
     \<lparr>tw_tracker = ex_tracker, tw_conn = new_connection ''10.0.0.9'', tw_address = ''10.0.0.9'',
      tw_envs = (\<lambda>_. ex_env), tw_now = 0\<rparr>"

definition ex_account :: node where
  "ex_account =
     (new_node_with (ex_desc ''node'') (new_MyUser ''eve'' ''pw'' ''eve@x'' False))\<lparr>nd_private_keys := [new_PrivateKeyStore (Some ''key'')]\<rparr>"

lemma world_ok_ex: "world_ok ex_world"
  by (simp add: world_ok_def ex_world_def tracker_ok_ex)

text \<open>For any two requests there is a codec that carries them one after the other.\<close>

lemma codec_for_two:
  assumes ok: "world_ok w"
  shows "\<exists>cd. carried cd m (dialled w) \<and>
    carried cd m' (dialled ((snd (served cd m (dialled w)))\<lparr>tw_now := tw_now w + k\<rparr>))"
proof -
  obtain r s where first: "handled m (dialled w) = Inr (r, s)" "tracker_ok s"
    using handled_returns [of "dialled w" m] ok by auto
  then obtain r' s' where second: "handleRequest (hears w (k + 1)) m' s = Inr (r', s')"
    using handled by blast
  define cd where "cd = ex_codec m m' r r'"
  define w2 where "w2 = (snd (served cd m (dialled w)))\<lparr>tw_now := tw_now w + k\<rparr>"
  have "tw_tracker w2 = s" "hears w2 1 = hears w (k + 1)"
    using first(1) by (simp_all add: w2_def served_def hears_def)
  then have "handled m' (dialled w2) = Inr (r', s')"
    using second by (simp add: handled_dialled)
  from served_simps(1) [OF this] served_simps(1) [OF first(1)] have
    "carried cd m (dialled w)" "carried cd m' (dialled w2)"
    unfolding cd_def by (auto intro!: carried_ex_codec)
  then show ?thesis unfolding w2_def by blast
qed

lemma served_now: "world_ok w \<Longrightarrow> tw_now (snd (served cd m (dialled w))) = tw_now w + 2"
  using handled_returns [of "dialled w" m] by (auto simp: served_def)

lemma served_at:
  "world_ok w \<Longrightarrow> (snd (served cd m (dialled w)))\<lparr>tw_now := tw_now w + 2\<rparr> = snd (served cd m (dialled w))"
  by (subst served_now [symmetric, of _ cd m]) simp_all

text \<open>The account of \<^verbatim>\<open>ann\<close> with her session.\<close>

definition ex_ann :: node where
  "ex_ann = set_logged True (set_cookie ''c1''
     (new_node_with (ex_desc ''node'') (new_MyUser ''ann'' ''1'' ''ann@x'' True)))"

subsection \<open>Client and tracker together\<close>

definition ex_bob :: User where
  "ex_bob = \<lparr>us_username = ''bob'', us_email = ''''\<rparr>"

text \<open>C38. A new user registers with the tracker and then, over a new connection, logs in: both calls
  return success, the client has a session and knows itself registered, and the tracker takes the
  cookie that the client keeps for this user's. bcrypt accepts the password for the hash it made, the
  name is free, and the certificates can be read.\<close>

theorem client_registers_and_logs_in:
  assumes work: "working (tw_tracker w)"
    and n: "\<not> isActive n" "ce_resolves e (nd_desc n)"
    and messages: "op_message e Op_registerUser n = Some m" "op_message e Op_logIn n = Some m'"
    and fresh: "stored_password (t_db (tw_tracker w)) (us_username (nd_user n)) = None"
      "us_username (nd_user n) \<noteq> ''''" "length (us_username (nd_user n)) \<le> 30" "word_like (us_username (nd_user n))"
    and hash: "word_like (env_hash (hears w 1) (mu_password (nd_user n)))"
      "length (env_hash (hears w 1) (mu_password (nd_user n))) \<le> 70"
      "env_check (hears w 3) (mu_password (nd_user n)) (env_hash (hears w 1) (mu_password (nd_user n)))"
    and cert: "register_message m = Some r"
      "x = signCertyficate (env_ca (hears w 1)) (env_now (hears w 1)) (str_of (reg_public_key r))"
      "x \<noteq> ''''" "bt_certificate (ce_botan e) x \<noteq> None" "bt_certificate (ce_botan e) (env_cert (hears w 1)) \<noteq> None"
    and fit: "carried cd m (dialled w)" "carried cd m' (dialled (snd (served cd m (dialled w))))"
  shows "\<exists>n1 w1 n2 w2. registerUser (on_tracker cd e) n w = (Returned NE_OK, n1, w1) \<and>
    logIn (on_tracker cd e) (timer_handler n1) w1 = (Returned NE_OK, n2, w2) \<and>
    node_isLogged n2 \<and> isRegistered n2 \<and> caller (tw_tracker w2) (cookie n2) = us_username (nd_user n)"
proof -
  obtain k where key: "fst (first_key e n) = Returned (Some k)" and new: "\<not> isRegistered n" "\<not> node_isLogged n"
    and m: "m = getRegisterUserMessage (nd_user n)
        (ce_pkcs10 e (us_username (nd_user n)) (us_email (nd_user n)) (no_node_name (nd_desc n)) [] k)"
    and m': "m' = getLoginMessage (us_username (nd_user n)) (mu_password (nd_user n))"
    using messages by (auto split: if_splits call.splits option.splits)
  obtain n0 where keys: "first_key e n = (Returned (Some k), n0)" using key by (cases "first_key e n") simp
  note same = first_key_same [OF keys]
  have ok: "world_ok w" using work by (simp add: working_def world_ok_def)
  have x: "x = signCertyficate (env_ca (hears w 1)) (env_now (hears w 1))
      (ce_pkcs10 e (us_username (nd_user n)) (us_email (nd_user n)) (no_node_name (nd_desc n)) [] k)"
    using cert(1,2) m by (auto simp: getRegisterUserMessage_def)
  obtain s1 s2 where runs: "handleRequest (hears w 1) m (tw_tracker w) =
      Inr (registerResponse x (env_cert (hears w 1)), s1)"
    "handleRequest (hears w 3) m' s1 =
      Inr (loginResponse (getRandomString (env_rand (hears w 3)) COOKIE_LEN) ''notimplementedyet'', s2)"
    "caller s2 (getRandomString (env_rand (hears w 3)) COOKIE_LEN) = us_username (nd_user n)"
    using account_messages_run [OF work m m' fresh hash x cert(3)] .
  obtain a w1 where first: "served cd m (dialled w) = (a, w1)" by fastforce
  obtain a' w2 where second: "served cd m' (dialled w1) = (a', w2)" by fastforce
  note answers = second_exchange [OF runs(1,2) first second]
  have w1: "world_ok w1" using served_world_ok [of "dialled w" cd m] ok first by simp
  define n1 where "n1 = snd (store_registration (on_tracker cd e) a (connected n0))"
  have "registerUser (on_tracker cd e) n w = (Returned NE_OK, n1, w1)"
    using tracker_service.registerUser_served [where cd = cd and e = e and n = n and w = w and m = m]
      new n ok keys m fit(1) first cert(4,5)
    by (auto simp: answers n1_def store_registration_def registerResponse_def Let_def split: option.split)
  moreover have n1: "\<not> node_isLogged (timer_handler n1)" "\<not> isActive (timer_handler n1)"
    "nd_desc (timer_handler n1) = nd_desc n" "us_username (nd_user (timer_handler n1)) = us_username (nd_user n)"
    "mu_password (nd_user (timer_handler n1)) = mu_password (nd_user n)"
    using new(2) same by (simp_all add: n1_def timer_handler_def store_registration_def Let_def isActive_def
        node_isLogged_def connected_def closeConnection_def split: prod.split option.split)
  moreover note tracker_service.logIn_served [where n = "timer_handler n1" and w = w1 and w' = w2 and cd = cd and e = e]
  ultimately show ?thesis
    using fit(2) first second w1 n(2) runs(3)
    by (auto simp: answers m' isRegistered_def loginResponse_def)
qed

definition ex_client :: "tracker_world client_env" where
  "ex_client =
     \<lparr>ce_link = \<lparr>lk_connect = (\<lambda>d w. (False, w)), lk_send = (\<lambda>bs w. (Not_Sent, w))\<rparr>,
      ce_resolves = (\<lambda>_. True), ce_ser = (\<lambda>_. []), ce_parse = (\<lambda>_. None), ce_pkcs10 = (\<lambda>a b c d k. k),
      ce_botan = ex_botan, ce_files = (\<lambda>_. None), ce_from_string = (\<lambda>s. Some s), ce_indet = (\<lambda>_. LISTED)\<rparr>"

definition ex_m :: ClientMessage where
  "ex_m = getRegisterUserMessage (nd_user ex_account) ''key''"

definition ex_m' :: ClientMessage where
  "ex_m' = getLoginMessage ''eve'' ''pw''"

theorem client_registers_and_logs_in_witness:
  "\<exists>cd n1 w1 n2 w2. registerUser (on_tracker cd ex_client) ex_account ex_world = (Returned NE_OK, n1, w1) \<and>
    logIn (on_tracker cd ex_client) (timer_handler n1) w1 = (Returned NE_OK, n2, w2) \<and>
    node_isLogged n2 \<and> isRegistered n2 \<and> caller (tw_tracker w2) (cookie n2) = ''eve''"
proof -
  obtain cd where fit: "carried cd ex_m (dialled ex_world)"
      "carried cd ex_m' (dialled (snd (served cd ex_m (dialled ex_world))))"
    using codec_for_two [OF world_ok_ex, of ex_m ex_m' 2] unfolding served_at [OF world_ok_ex] by blast
  have "working (tw_tracker ex_world)" using working_ex by (simp add: ex_world_def)
  moreover have "\<not> isActive ex_account" "ce_resolves ex_client (nd_desc ex_account)"
    "op_message ex_client Op_registerUser ex_account = Some ex_m"
    "op_message ex_client Op_logIn ex_account = Some ex_m'"
    "stored_password (t_db (tw_tracker ex_world)) (us_username (nd_user ex_account)) = None"
    "us_username (nd_user ex_account) \<noteq> ''''" "length (us_username (nd_user ex_account)) \<le> 30"
    "word_like (us_username (nd_user ex_account))"
    "word_like (env_hash (hears ex_world 1) (mu_password (nd_user ex_account)))"
    "length (env_hash (hears ex_world 1) (mu_password (nd_user ex_account))) \<le> 70"
    "env_check (hears ex_world 3) (mu_password (nd_user ex_account))
       (env_hash (hears ex_world 1) (mu_password (nd_user ex_account)))"
    "register_message ex_m =
       Some \<lparr>reg_username = Some ''eve'', reg_password = Some ''pw'', reg_public_key = Some ''key''\<rparr>"
    "''key!'' = signCertyficate (env_ca (hears ex_world 1)) (env_now (hears ex_world 1))
       (str_of (reg_public_key \<lparr>reg_username = Some ''eve'', reg_password = Some ''pw'', reg_public_key = Some ''key''\<rparr>))"
    "''key!'' \<noteq> ''''" "bt_certificate (ce_botan ex_client) ''key!'' \<noteq> None"
    "bt_certificate (ce_botan ex_client) (env_cert (hears ex_world 1)) \<noteq> None"
    by code_simp+
  ultimately have "\<exists>n1 w1 n2 w2. registerUser (on_tracker cd ex_client) ex_account ex_world = (Returned NE_OK, n1, w1) \<and>
    logIn (on_tracker cd ex_client) (timer_handler n1) w1 = (Returned NE_OK, n2, w2) \<and>
    node_isLogged n2 \<and> isRegistered n2 \<and> caller (tw_tracker w2) (cookie n2) = us_username (nd_user ex_account)"
    using fit by (rule client_registers_and_logs_in)
  moreover have "us_username (nd_user ex_account) = ''eve''" by code_simp
  ultimately show ?thesis by metis
qed

text \<open>C39. An operation that has a request to send over a new connection always returns, unless a list of
  servers holds an address that cannot be read, and it does to the tracker what the tracker's
  specification allows to the login behind the cookie that the client keeps, and nothing else. The
  request fits into the tracker's buffer.\<close>

theorem client_operation_returns_and_refines:
  assumes "\<not> isActive n" "ce_resolves e (nd_desc n)" "world_ok w"
    and "op_message e op n = Some m" "carried cd m (dialled w)"
  shows "\<exists>c n' w'. run_op (on_tracker cd e) op n w = (c, n', w') \<and>
    (c = Returned () \<or> c = Thrown \<and> (\<exists>d. op = Op_getServersList d)) \<and> world_ok w' \<and>
    registry_step (caller (tw_tracker w) (session_cookie op n)) m (reg (t_db (tw_tracker w))) (reg (t_db (tw_tracker w')))"
proof -
  obtain r s where s: "handled m (dialled w) = Inr (r, s)"
    using handled_returns [of "dialled w" m] assms(3) by auto
  have "registry_step (caller (tw_tracker w) (cookie_of m)) m (reg (t_db (tw_tracker w))) (reg (t_db s))"
    using handleRequest_step [of "tw_tracker w" "hears w 1" m r s] s assms(3)
    by (simp add: handled_dialled world_ok_def)
  moreover have "runs (on_tracker cd e) op n w (snd (served cd m (dialled w)))"
    using assms by (intro tracker_service.op_runs) simp_all
  ultimately show ?thesis
    using served_simps(2) [OF s, of cd] served_world_ok [of "dialled w" cd m] assms(3)
      cookie_of_op [OF assms(4)]
    by (auto simp: runs_def)
qed

definition ex_public :: NetworkDescription where
  "ex_public = ex_net\<lparr>nw_network_name := ''net''\<rparr>"

theorem client_operation_returns_and_refines_witness:
  "\<exists>cd n' w'. run_op (on_tracker cd ex_client) (Op_deleteNetwork ex_public) ex_ann ex_world = (Returned (), n', w') \<and>
    registry_step ''ann'' (getDeleteNetworkMessage ex_public ''c1'') (reg (t_db ex_tracker)) (reg (t_db (tw_tracker w')))"
proof -
  obtain cd where fit: "carried cd (getDeleteNetworkMessage ex_public ''c1'') (dialled ex_world)"
    using codec_for_two [OF world_ok_ex] by blast
  have "\<not> isActive ex_ann" "ce_resolves ex_client (nd_desc ex_ann)"
    "op_message ex_client (Op_deleteNetwork ex_public) ex_ann = Some (getDeleteNetworkMessage ex_public ''c1'')"
    "caller (tw_tracker ex_world) (session_cookie (Op_deleteNetwork ex_public) ex_ann) = ''ann''"
    "tw_tracker ex_world = ex_tracker"
    by code_simp+
  with client_operation_returns_and_refines [OF _ _ world_ok_ex _ fit, of ex_ann ex_client "Op_deleteNetwork ex_public"]
  show ?thesis by fastforce
qed

text \<open>C40. The tracker closes a connection after its answer and the client does not notice: until the
  handler of its timer has run, the request that follows another one fails with \<^verbatim>\<open>SEND_ERROR\<close> and
  reaches no handler, and repeated once more it is served. Here a network is created and then
  somebody is invited to it.\<close>

theorem every_second_request_fails:
  assumes "node_isLogged n" "\<not> isActive n" "ce_resolves e (nd_desc n)" "world_ok w"
    and "m = getCreateNetworkMessage d (cookie n)" "carried cd m (dialled w)"
    and "served cd m (dialled w) = (reply, w1)" "response_type reply \<noteq> RT_NOT_LOGGED"
    and "m' = getInviteUserMessage d u (cookie n)" "w2 = w1\<lparr>tw_now := tw_now w + 3\<rparr>"
    and "carried cd m' (dialled w2)"
  shows "\<exists>n1 n2 n3 w3 reply'.
    registerNetwork (on_tracker cd e) d n w = (Returned (getDefaultError (response_type reply)), n1, w1) \<and>
    inviteUser (on_tracker cd e) d u n1 w1 = (Returned NE_SEND_ERROR, n2, w2) \<and> tw_tracker w2 = tw_tracker w1 \<and>
    inviteUser (on_tracker cd e) d u n2 w2 = (Returned (getDefaultError (response_type reply')), n3, w3) \<and>
    handled m' (dialled w2) = Inr (reply', tw_tracker w3)"
proof -
  define n2 where "n2 = (connected n)\<lparr>nd_connection := (nd_connection (connected n))
      \<lparr>nc_connection := Some (stop_connection \<lparr>is_active = True, cc_parser = new_parser\<rparr>)\<rparr>\<rparr>"
  have w1: "tw_now w1 = tw_now w + 2" "c_phase (tw_conn w1) = Closed" "world_ok w1"
    using assms(4) served_now [of w cd m] served_closed [of "dialled w" cd m] served_world_ok [of "dialled w" cd m]
    by (simp_all add: assms(7))
  have one: "registerNetwork (on_tracker cd e) d n w =
      (Returned (getDefaultError (response_type reply)), connected n, w1)"
    using tracker_service.command_served [where m = "getCreateNetworkMessage d" and n = n and w = w and cd = cd and e = e]
      assms by (simp add: registerNetwork_def Let_def)
  have two: "inviteUser (on_tracker cd e) d u (connected n) w1 = (Returned NE_SEND_ERROR, n2, w2)"
    using command_on_closed [of "connected n" _ w1 cd e "getInviteUserMessage d u"] assms(1,10) w1(1,2)
    by (simp add: inviteUser_def n2_def)
  have same: "same_account n n2"
    by (auto simp: n2_def same_account_def connected_def)
  have n2: "node_isLogged n2" "\<not> isActive n2" "ce_resolves (on_tracker cd e) (nd_desc n2)" "cookie n2 = cookie n"
    using same_accountD [OF same] assms(1,3) by (simp_all add: n2_def isActive_def stop_connection_def)
  have ok: "world_ok w2" using w1(3) assms(10) by (simp add: world_ok_def)
  obtain reply' s where s: "handled m' (dialled w2) = Inr (reply', s)"
    using handled_returns [of "dialled w2" m'] ok by auto
  have "\<exists>n3. inviteUser (on_tracker cd e) d u n2 w2 =
      (Returned (getDefaultError (response_type reply')), n3, snd (served cd m' (dialled w2)))"
    using tracker_service.command_served [where m = "getInviteUserMessage d u" and n = n2 and w = w2 and cd = cd and e = e]
      n2 ok assms(11) served_simps(1) [OF s] assms(9) by (simp add: inviteUser_def Let_def)
  with one two served_simps(2) [OF s, of cd] s assms(10) show ?thesis by fastforce
qed

lemma ex_create_invite:
  "response_type (answer_of (handleRequest (hears ex_world 1) (getCreateNetworkMessage ex_net ''c1'') ex_tracker)) = RT_OK"
  "response_type (answer_of (handleRequest (hears ex_world 4) (getInviteUserMessage ex_net ex_bob ''c1'')
     (state_of ex_tracker (handleRequest (hears ex_world 1) (getCreateNetworkMessage ex_net ''c1'') ex_tracker)))) = RT_OK"
  by code_simp+

theorem every_second_request_fails_witness:
  "\<exists>cd n1 w1 n2 w2 n3 w3.
    registerNetwork (on_tracker cd ex_client) ex_net ex_ann ex_world = (Returned NE_OK, n1, w1) \<and>
    inviteUser (on_tracker cd ex_client) ex_net ex_bob n1 w1 = (Returned NE_SEND_ERROR, n2, w2) \<and>
    inviteUser (on_tracker cd ex_client) ex_net ex_bob n2 w2 = (Returned NE_OK, n3, w3)"
proof -
  let ?m = "getCreateNetworkMessage ex_net ''c1''" and ?m' = "getInviteUserMessage ex_net ex_bob ''c1''"
  obtain cd where fit: "carried cd ?m (dialled ex_world)"
      "carried cd ?m' (dialled ((snd (served cd ?m (dialled ex_world)))\<lparr>tw_now := tw_now ex_world + 3\<rparr>))"
    using codec_for_two [OF world_ok_ex] by blast
  let ?w1 = "snd (served cd ?m (dialled ex_world))"
  let ?w2 = "?w1\<lparr>tw_now := tw_now ex_world + 3\<rparr>"
  let ?first = "handleRequest (hears ex_world 1) ?m ex_tracker"
  let ?second = "handleRequest (hears ex_world 4) ?m' (state_of ex_tracker ?first)"
  have first: "handled ?m (dialled ex_world) = Inr (answer_of ?first, state_of ex_tracker ?first)"
    using handled [OF tracker_ok_ex] by (simp add: handled_dialled ex_world_def)
  have "hears ?w2 1 = hears ex_world 4"
    using first by (simp add: served_def hears_def add.commute)
  then have eq: "handled ?m' (dialled ?w2) = ?second"
    using served_simps(2) [OF first, of cd] by (simp add: handled_dialled)
  have second: "response_type reply' = RT_OK" if "handled ?m' (dialled ?w2) = Inr (reply', s)" for reply' s
    using ex_create_invite(2) that unfolding eq by (simp only: answer_of_def sum.case prod.case)
  have reply: "served cd ?m (dialled ex_world) = (answer_of ?first, ?w1)"
    using served_simps(1) [OF first] by (simp add: prod_eq_iff)
  have ann: "node_isLogged ex_ann" "\<not> isActive ex_ann" "ce_resolves ex_client (nd_desc ex_ann)"
    "cookie ex_ann = ''c1''"
    by code_simp+
  have r: "response_type (answer_of ?first) \<noteq> RT_NOT_LOGGED" using ex_create_invite(1) by simp
  obtain n1 n2 n3 w3 reply' where
    "registerNetwork (on_tracker cd ex_client) ex_net ex_ann ex_world = (Returned (getDefaultError RT_OK), n1, ?w1)"
    "inviteUser (on_tracker cd ex_client) ex_net ex_bob n1 ?w1 = (Returned NE_SEND_ERROR, n2, ?w2)"
    "inviteUser (on_tracker cd ex_client) ex_net ex_bob n2 ?w2 = (Returned (getDefaultError (response_type reply')), n3, w3)"
    "handled ?m' (dialled ?w2) = Inr (reply', tw_tracker w3)"
    using every_second_request_fails [OF ann(1-3) world_ok_ex _ fit(1) reply r _ refl fit(2), of ex_net ex_bob]
    unfolding ann(4) ex_create_invite(1) by blast
  then show ?thesis using second [of reply'] by (fastforce simp: getDefaultError_def)
qed

subsection \<open>Console, client and tracker together\<close>

text \<open>C26. The whole program: a user of the console, with a node that is not logged in and has no active
  connection (with one, left by an earlier request, the tracker has closed it and the command fails as in
  C40), types \<^verbatim>\<open>login\<close>, and the request fits the tracker's buffer. If
  bcrypt accepts the stored password for the hash that the tracker keeps for the user's name, the console
  prints \<^verbatim>\<open>OK\<close>, the node is logged in, and the tracker takes the cookie that the node keeps for this
  user's, with its tables as before; otherwise it prints \<^verbatim>\<open>BAD_CREDENTIALS\<close>, the node is not logged in, and
  the tracker is as before. Nothing else of the console changes, and the loop goes on.\<close>

theorem console_login_reaches_tracker:
  assumes console: "split_input line = [''login'']" "cn_context s = Node_Context" "node_c_node s = Some i"
      "ev_client ev = on_tracker cd e"
    and n: "n = mg_node (cn_manager s) i" "\<not> node_isLogged n" "\<not> isActive n" "ce_resolves e (nd_desc n)"
    and w: "w = cn_world s" "working (tw_tracker w)"
    and fit: "carried cd (getLoginMessage (us_username (nd_user n)) (mu_password (nd_user n))) (dialled w)"
    and good: "good \<longleftrightarrow> env_check (hears w 1) (mu_password (nd_user n))
      (case stored_password (t_db (tw_tracker w)) (us_username (nd_user n)) of None \<Rightarrow> '''' | Some h \<Rightarrow> toString h)"
  shows "\<exists>n' w'. loop_round ev line s =
      (None, s\<lparr>cn_out := cn_out s @ [''> '', ''Resp: '' @ (if good then ''OK'' else ''BAD_CREDENTIALS'')],
         cn_manager := set_node i n' (cn_manager s), cn_world := w'\<rparr>) \<and>
    (if good
     then node_isLogged n' \<and> caller (tw_tracker w') (cookie n') = us_username (nd_user n) \<and>
       t_db (tw_tracker w') = t_db (tw_tracker w)
     else \<not> node_isLogged n' \<and> tw_tracker w' = tw_tracker w)"
proof -
  have resolves: "ce_resolves (e\<lparr>ce_files := cn_files s\<rparr>) (nd_desc n)" using n(4) by simp
  obtain n' w' where login: "logIn (client ev s) n w = (Returned (if good then NE_OK else NE_BAD_CREDENTIALS), n', w')"
    and outcome: "if good
     then node_isLogged n' \<and> caller (tw_tracker w') (cookie n') = us_username (nd_user n) \<and>
       t_db (tw_tracker w') = t_db (tw_tracker w)
     else \<not> node_isLogged n' \<and> tw_tracker w' = tw_tracker w"
    using login_answered [OF n(2,3) resolves w(2) refl fit, folded good]
    unfolding client_on_tracker [OF console(4)] by blast
  show ?thesis
    using login_line [OF console(1-3) login [unfolded n(1) w(1)]] outcome
    by (intro exI [of _ n'] exI [of _ w']) (cases good; simp add: NodeError_text_def)
qed

definition ex_console :: "tracker_world console" where
  "ex_console = (first_console ex_world (\<lambda>_. None) [] ''state'' ''pw'')
     \<lparr>cn_context := Node_Context, node_c_node := Some 0,
      cn_manager := set_node 0
        (new_node_with (ex_desc ''node'') (new_MyUser ''ann'' ''1'' ''ann@x'' True))
        (new_manager ex_data)\<rparr>"

definition ex_whole :: "codec \<Rightarrow> tracker_world console_env" where
  "ex_whole cd =
     \<lparr>ev_client = on_tracker cd ex_client, po_parse = ex_parse, po_config = (\<lambda>specs conf. None), po_help = (\<lambda>_. ''help''),
      ev_archive = \<lparr>af_text = (\<lambda>_. ''''), af_items = (\<lambda>_. None)\<rparr>,
      ev_crypto = ex_crypto, ev_salt = ''salt'', ev_writable = (\<lambda>_. True), ev_listing = (\<lambda>fs dir. None),
      ev_cert_text = (\<lambda>c. c), ev_indet = False\<rparr>"

theorem console_login_reaches_tracker_witness:
  "\<exists>cd n' w'. loop_round (ex_whole cd) ''login'' ex_console =
      (None, ex_console\<lparr>cn_out := [''> '', ''Resp: OK''],
         cn_manager := set_node 0 n' (cn_manager ex_console), cn_world := w'\<rparr>) \<and>
    node_isLogged n' \<and> caller (tw_tracker w') (cookie n') = ''ann'' \<and> t_db (tw_tracker w') = t_db ex_tracker"
proof -
  let ?n = "new_node_with (ex_desc ''node'') (new_MyUser ''ann'' ''1'' ''ann@x'' True)"
  obtain cd where fit: "carried cd (getLoginMessage (us_username (nd_user ?n)) (mu_password (nd_user ?n))) (dialled ex_world)"
    using codec_for_two [OF world_ok_ex] by blast
  have line: "split_input ''login'' = [''login'']" by code_simp
  have facts: "cn_context ex_console = Node_Context" "node_c_node ex_console = Some 0" "ex_world = cn_world ex_console"
    "?n = mg_node (cn_manager ex_console) 0" "cn_out ex_console = []"
    by (simp_all add: ex_console_def first_console_def set_node_def)
  have whole: "ev_client (ex_whole cd) = on_tracker cd ex_client" by (simp add: ex_whole_def)
  have "\<not> node_isLogged ?n" "\<not> isActive ?n" "ce_resolves ex_client (nd_desc ?n)" "us_username (nd_user ?n) = ''ann''"
    "env_check (hears ex_world 1) (mu_password (nd_user ?n))
      (case stored_password (t_db (tw_tracker ex_world)) (us_username (nd_user ?n)) of None \<Rightarrow> '''' | Some h \<Rightarrow> toString h)"
    "tw_tracker ex_world = ex_tracker"
    by code_simp+
  moreover have "working (tw_tracker ex_world)" using working_ex by (simp add: ex_world_def)
  ultimately show ?thesis
    using console_login_reaches_tracker [OF line facts(1,2) whole facts(4) _ _ _ facts(3) _ fit refl] facts(5)
    by (intro exI [of _ cd]) simp
qed

end
